(* ===== verification/Prelude.thy ===== *)
theory Prelude
  imports Main "HOL-Library.Word"
begin

text \<open>
  Shared types, automation and arithmetic of the development: names for the
  machine integers of the code, the fact collections the component theories
  fill, and lemmas on words and lists that several components use.
\<close>

unbundle bit_operations_syntax

type_synonym u8 = "8 word"
type_synonym u16 = "16 word"
type_synonym u32 = "32 word"
type_synonym u64 = "64 word"

named_theorems blk_simps \<open>membership of addresses in blocks\<close>
named_theorems ld_st_simps \<open>loads after stores\<close>
named_theorems layout_simps \<open>evaluation of structure layouts\<close>

section \<open>Word arithmetic\<close>

lemma unat64_less [simp]: "unat (x :: u64) < 18446744073709551616"
  using unsigned_less [of x] by simp

lemma unat64_le: "unat (x :: u64) \<le> 18446744073709551615"
  using unat64_less [of x] by linarith

lemma unat32_less [simp]: "unat (x :: u32) < 4294967296"
  using unsigned_less [of x] by simp

lemma unat_m1_64 [simp]: "unat (- 1 :: u64) = 18446744073709551615"
  by (simp add: unsigned_minus_1_eq_mask mask_eq_exp_minus_1)

lemma unat_minus1_less: "(n :: u64) \<noteq> 0 \<Longrightarrow> unat (n - 1) < unat n"
  by (simp add: unat_minus_one unat_gt_0)

lemma unat_minus1_Suc: "(n :: u64) \<noteq> 0 \<Longrightarrow> unat n = Suc (unat (n - 1))"
  using unat_minus_one [of n] unat_gt_0 [of n] by linarith

lemma unat_of_nat64: "n < 18446744073709551616 \<Longrightarrow> unat (of_nat n :: u64) = n"
  by (simp add: unat_of_nat take_bit_nat_eq_self_iff)

lemma unat_of_nat64_le: "i < k \<Longrightarrow> k \<le> 18446744073709551615 \<Longrightarrow> unat (of_nat i :: u64) = i"
  by (rule unat_of_nat64) simp

lemma unat_of_nat64_unat: "i < unat (n :: u64) \<Longrightarrow> unat (of_nat i :: u64) = i"
  using unat64_le [of n] by (intro unat_of_nat64) simp

lemma unat_sub_cases:
  "unat (a - b :: u64) = (if unat b \<le> unat a then unat a - unat b
     else 18446744073709551616 + unat a - unat b)"
  using unat_sub_if_size [of a b] by (auto simp: word_size)

lemma unat_add_cases:
  "unat (a + b :: u64) = (if unat a + unat b < 18446744073709551616 then unat a + unat b
     else unat a + unat b - 18446744073709551616)"
  using unat_plus_if_size [of a b] by (auto simp: word_size)

section \<open>Bit masks\<close>

lemma mask_8: "(255 :: 'a::len word) = mask 8"
  by (simp add: mask_eq_exp_minus_1)

lemma and_255: "x AND 255 = take_bit 8 (x :: 'a::len word)"
  by (simp add: take_bit_eq_mask mask_8)

lemma and_3: "x AND 3 = take_bit 2 (x :: 'a::len word)"
  by (simp add: take_bit_eq_mask mask_eq_exp_minus_1)

lemma and_minus_4: "x AND - 4 = push_bit 2 (drop_bit 2 (x :: 'a::len word))"
proof (rule bit_word_eqI)
  fix i assume i: "i < LENGTH('a)"
  have e: "(- 4 :: 'a word) = NOT (mask 2)" by (simp add: not_eq_complement mask_eq_exp_minus_1)
  show "bit (x AND - 4) i = bit (push_bit 2 (drop_bit 2 x)) i"
  proof (cases "2 \<le> i")
    case True
    then obtain j where "i = 2 + j" using le_Suc_ex by blast
    then show ?thesis unfolding e using i by (simp add: bit_simps)
  next
    case False
    then show ?thesis unfolding e by (simp add: bit_simps)
  qed
qed

lemma unat_ucast_16 [simp]:
  "unat (ucast (x :: u16) :: u32) = unat x" "unat (ucast (x :: u16) :: u64) = unat x"
proof -
  have "unat x < 65536" using unsigned_less [of x] by simp
  then show "unat (ucast x :: u32) = unat x" "unat (ucast x :: u64) = unat x"
    by (simp_all add: unsigned_ucast_eq take_bit_nat_eq_self_iff)
qed

end
