(* ===== verification/CMem.thy ===== *)
theory CMem
  imports Prelude
begin

text \<open>
  The byte-addressed memory the program's pointers refer to: a function from
  64-bit addresses to bytes, with pointer arithmetic modulo \<open>2 ^ 64\<close> as on the
  target (x86_64). Blocks of consecutive bytes, little-endian loads and stores
  of 1 to 8 bytes, block fill and block copy, and the laws that relate them.
  The locale \<open>cell_store\<close> states the laws of an indexed store (a value written is
  read back, other cells keep theirs); it is interpreted on the 64-bit cells.
\<close>

type_synonym mem = "u64 \<Rightarrow> u8"

text \<open>
  The machine a component runs on: the memory and whatever state its environment
  (firmware, allocator) keeps, which the model leaves abstract.
\<close>

record 'e machine =
  memory :: mem
  env :: 'e

section \<open>Blocks\<close>

text \<open>\<open>in_blk p n a\<close>: the address \<open>a\<close> is one of the \<open>n\<close> bytes from \<open>p\<close> on.\<close>

definition in_blk :: "u64 \<Rightarrow> nat \<Rightarrow> u64 \<Rightarrow> bool" where
  "in_blk p n a \<longleftrightarrow> unat (a - p) < n"

definition disj_blk :: "u64 \<Rightarrow> nat \<Rightarrow> u64 \<Rightarrow> nat \<Rightarrow> bool" where
  "disj_blk p n q k \<longleftrightarrow> n \<le> unat (q - p) \<and> k \<le> unat (p - q)"

definition fill :: "mem \<Rightarrow> u64 \<Rightarrow> nat \<Rightarrow> u8 \<Rightarrow> mem" where
  "fill m p n c = (\<lambda>a. if in_blk p n a then c else m a)"

definition copy_blk :: "mem \<Rightarrow> u64 \<Rightarrow> u64 \<Rightarrow> nat \<Rightarrow> mem" where
  "copy_blk m d s n = (\<lambda>a. if in_blk d n a then m (s + (a - d)) else m a)"

definition ld_bytes :: "mem \<Rightarrow> u64 \<Rightarrow> nat \<Rightarrow> u8 list" where
  "ld_bytes m p n = map (\<lambda>i. m (p + of_nat i)) [0..<n]"

lemma in_blk_0 [simp]: "\<not> in_blk p 0 a"
  by (simp add: in_blk_def)

lemma in_blk_self [simp]: "in_blk p n p \<longleftrightarrow> 0 < n"
  by (simp add: in_blk_def)

lemma in_blk_plus: "in_blk p n (p + x) \<longleftrightarrow> unat x < n"
  by (simp add: in_blk_def)

lemma in_blk_Suc: "in_blk p (Suc n) a \<longleftrightarrow> a = p \<or> in_blk (p + 1) n a"
proof (cases "a = p")
  case False
  then have "a - p \<noteq> 0" by simp
  from unat_minus1_Suc [OF this] have "unat (a - p) = Suc (unat (a - (p + 1)))"
    by (simp add: algebra_simps)
  with False show ?thesis by (simp add: in_blk_def)
qed simp

lemma in_blk_add:
  assumes "n + k \<le> 18446744073709551616"
  shows "in_blk p (n + k) a \<longleftrightarrow> in_blk p n a \<or> in_blk (p + of_nat n) k a"
proof (cases "k = 0")
  case False
  with assms have n: "unat (of_nat n :: u64) = n" by (intro unat_of_nat64) simp
  have e: "a - (p + of_nat n) = (a - p) - of_nat n" by simp
  show ?thesis
    unfolding in_blk_def e using unat_sub_cases [of "a - p" "of_nat n"] n assms
      unat64_less [of "a - p"] by auto
qed simp

lemma in_blk_shift:
  "in_blk (p + q) k a \<Longrightarrow> unat q + k \<le> n \<Longrightarrow> n \<le> 18446744073709551615 \<Longrightarrow> in_blk p n a"
proof -
  assume a: "in_blk (p + q) k a" "unat q + k \<le> n" "n \<le> 18446744073709551615"
  have w: "a - (p + q) = (a - p) - q" by simp
  show "in_blk p n a"
    using a(1) unfolding in_blk_def w
    using a(2,3) unat_sub_cases [of "a - p" q] by (auto split: if_splits)
qed

lemma eq_plus_iff: "a = p + x \<longleftrightarrow> unat (a - p) = unat (x :: u64)"
  by (metis add_diff_cancel_left' diff_add_cancel add.commute word_unat_eq_iff)

lemma disj_blk_sym: "disj_blk p n q k \<longleftrightarrow> disj_blk q k p n"
  by (auto simp: disj_blk_def)

lemma disj_blkD:
  assumes "disj_blk p n q k" and "in_blk p n a"
  shows "\<not> in_blk q k a"
proof
  assume "in_blk q k a"
  have sw: "q = p \<or> unat (p - q) = 18446744073709551616 - unat (q - p)"
    using unat_sub_cases [of 0 "q - p"] by (auto simp: unat_eq_0)
  have le: "n \<le> unat (q - p)" "k \<le> unat (p - q)" and lt: "unat (a - p) < n" "unat (a - q) < k"
    using assms \<open>in_blk q k a\<close> by (auto simp: disj_blk_def in_blk_def)
  then have "q \<noteq> p" by auto
  have "a - p = (a - q) + (q - p)" by simp
  then have "unat (a - p) = unat (a - q) + unat (q - p)
      \<or> unat (a - p) + 18446744073709551616 = unat (a - q) + unat (q - p)"
    using unat_add_cases [of "a - q" "q - p"] by presburger
  with le lt sw \<open>q \<noteq> p\<close> show False by linarith
qed

lemma disj_blk_mono:
  "disj_blk p n q k \<Longrightarrow> n' \<le> n \<Longrightarrow> k' \<le> k \<Longrightarrow> disj_blk p n' q k'"
  by (auto simp: disj_blk_def)

lemma ld_bytes_length [simp]: "length (ld_bytes m p n) = n"
  by (simp add: ld_bytes_def)

lemma ld_bytes_nth [simp]: "i < n \<Longrightarrow> ld_bytes m p n ! i = m (p + of_nat i)"
  by (simp add: ld_bytes_def)

lemma ld_bytes_Suc: "ld_bytes m p (Suc n) = m p # ld_bytes m (p + 1) n"
  by (rule nth_equalityI) (auto simp: ld_bytes_def nth_Cons algebra_simps
      simp del: upt_Suc split: nat.split)

lemma ld_bytes_cong:
  "(\<And>i. i < n \<Longrightarrow> m (p + of_nat i) = m' (q + of_nat i)) \<Longrightarrow> ld_bytes m p n = ld_bytes m' q n"
  by (simp add: ld_bytes_def)

lemma fill_apply [blk_simps]: "fill m p n c a = (if in_blk p n a then c else m a)"
  by (simp add: fill_def)

lemma copy_blk_apply [blk_simps]:
  "copy_blk m d s n a = (if in_blk d n a then m (s + (a - d)) else m a)"
  by (simp add: copy_blk_def)

lemma fill_0 [simp]: "fill m p 0 c = m"
  by (simp add: fill_def)

lemma copy_blk_0 [simp]: "copy_blk m d s 0 = m"
  by (simp add: copy_blk_def)

lemma fill_fill_append:
  "n + k \<le> 18446744073709551616 \<Longrightarrow>
   fill (fill m p n c) (p + of_nat n) k c = fill m p (n + k) c"
  by (auto simp: fill_def in_blk_add)

section \<open>Little-endian loads and stores\<close>

fun ld_nat :: "mem \<Rightarrow> u64 \<Rightarrow> nat \<Rightarrow> nat" where
  "ld_nat m p 0 = 0"
| "ld_nat m p (Suc n) = unat (m p) + 256 * ld_nat m (p + 1) n"

fun st_nat :: "mem \<Rightarrow> u64 \<Rightarrow> nat \<Rightarrow> nat \<Rightarrow> mem" where
  "st_nat m p 0 v = m"
| "st_nat m p (Suc n) v = st_nat (m(p := of_nat v)) (p + 1) n (v div 256)"

definition ld16 :: "mem \<Rightarrow> u64 \<Rightarrow> u16" where "ld16 m p = of_nat (ld_nat m p 2)"
definition ld32 :: "mem \<Rightarrow> u64 \<Rightarrow> u32" where "ld32 m p = of_nat (ld_nat m p 4)"
definition ld64 :: "mem \<Rightarrow> u64 \<Rightarrow> u64" where "ld64 m p = of_nat (ld_nat m p 8)"
definition st32 :: "mem \<Rightarrow> u64 \<Rightarrow> u32 \<Rightarrow> mem" where "st32 m p v = st_nat m p 4 (unat v)"
definition st64 :: "mem \<Rightarrow> u64 \<Rightarrow> u64 \<Rightarrow> mem" where "st64 m p v = st_nat m p 8 (unat v)"

lemma ld_nat_cong:
  "(\<And>a. in_blk p n a \<Longrightarrow> m a = m' a) \<Longrightarrow> ld_nat m p n = ld_nat m' p n"
  by (induction n arbitrary: p) (auto simp: in_blk_Suc)

lemma ld_nat_less: "ld_nat m p n < 256 ^ n"
proof (induction n arbitrary: p)
  case (Suc n)
  have "unat (m p) < 256" using unsigned_less [of "m p"] by simp
  moreover have "ld_nat m (p + 1) n \<le> 256 ^ n - 1" using Suc [of "p + 1"] by simp
  ultimately have "unat (m p) + 256 * ld_nat m (p + 1) n < 256 + 256 * (256 ^ n - 1)" by linarith
  then show ?case by (simp add: algebra_simps)
qed simp

lemma st_nat_other: "\<not> in_blk p n a \<Longrightarrow> st_nat m p n v a = m a"
  by (induction n arbitrary: m p v) (auto simp: in_blk_Suc)

lemma st_nat_first:
  "n < 18446744073709551616 \<Longrightarrow> st_nat m (p + 1) n v p = m p"
  by (rule st_nat_other) (simp add: in_blk_def)

lemma ld_st_nat_same:
  "n < 18446744073709551616 \<Longrightarrow> ld_nat (st_nat m p n v) p n = v mod 256 ^ n"
proof (induction n arbitrary: m p v)
  case (Suc n)
  have IH: "ld_nat (st_nat (m(p := of_nat v)) (p + 1) n (v div 256)) (p + 1) n = (v div 256) mod 256 ^ n"
    by (rule Suc.IH) (use Suc.prems in simp)
  have "ld_nat (st_nat m p (Suc n) v) p (Suc n)
      = unat (of_nat v :: u8) + 256 * ((v div 256) mod 256 ^ n)"
    using Suc.prems by (simp only: ld_nat.simps st_nat.simps IH) (simp add: st_nat_first)
  also have "\<dots> = v mod 256 ^ Suc n"
    by (simp add: unat_of_nat take_bit_eq_mod mod_mult2_eq)
  finally show ?case .
qed simp

lemma ld_st_nat_other:
  "disj_blk p n q k \<Longrightarrow> ld_nat (st_nat m p n v) q k = ld_nat m q k"
  by (rule ld_nat_cong) (auto intro!: st_nat_other dest: disj_blkD)

lemma ld64_st64_same [ld_st_simps]: "ld64 (st64 m p v) p = v"
  by (simp add: ld64_def st64_def ld_st_nat_same)

lemma ld32_st32_same [ld_st_simps]: "ld32 (st32 m p v) p = v"
  by (simp add: ld32_def st32_def ld_st_nat_same)

lemma ld64_st64_other: "disj_blk p 8 q 8 \<Longrightarrow> ld64 (st64 m p v) q = ld64 m q"
  by (simp add: ld64_def st64_def ld_st_nat_other)

lemma st64_other: "\<not> in_blk p 8 a \<Longrightarrow> st64 m p v a = m a"
  by (simp add: st64_def st_nat_other)

lemma st32_other: "\<not> in_blk p 4 a \<Longrightarrow> st32 m p v a = m a"
  by (simp add: st32_def st_nat_other)

lemma ld64_cong: "(\<And>a. in_blk p 8 a \<Longrightarrow> m a = m' a) \<Longrightarrow> ld64 m p = ld64 m' p"
  unfolding ld64_def by (metis ld_nat_cong)

lemma ld32_cong: "(\<And>a. in_blk p 4 a \<Longrightarrow> m a = m' a) \<Longrightarrow> ld32 m p = ld32 m' p"
  unfolding ld32_def by (metis ld_nat_cong)

lemma ld16_cong: "(\<And>a. in_blk p 2 a \<Longrightarrow> m a = m' a) \<Longrightarrow> ld16 m p = ld16 m' p"
  unfolding ld16_def by (metis ld_nat_cong)

lemma ld_nat_fill0: "n \<le> k \<Longrightarrow> (\<And>a. in_blk p n a \<Longrightarrow> m a = 0) \<Longrightarrow> ld_nat m p n = 0"
  by (induction n arbitrary: p) (auto simp: in_blk_Suc)

lemma ld64_zero: "(\<And>a. in_blk p 8 a \<Longrightarrow> m a = 0) \<Longrightarrow> ld64 m p = 0"
  using ld_nat_fill0 [of 8 8 p m] by (simp add: ld64_def)

section \<open>Concrete memories\<close>

text \<open>The memory that holds the bytes \<open>xs\<close> at \<open>p\<close> and zeros elsewhere.\<close>

definition mem_of_bytes :: "u64 \<Rightarrow> u8 list \<Rightarrow> mem" where
  "mem_of_bytes p xs = (\<lambda>a. if unat (a - p) < length xs then xs ! unat (a - p) else 0)"

fun le_val :: "u8 list \<Rightarrow> nat" where
  "le_val [] = 0"
| "le_val (x # xs) = unat x + 256 * le_val xs"

lemma ld_nat_le_val: "ld_nat m p n = le_val (ld_bytes m p n)"
  by (induction n arbitrary: p) (simp_all add: ld_bytes_Suc, simp add: ld_bytes_def)

lemma ld_bytes_mem_of_bytes:
  assumes "unat (a - p) + n \<le> length xs" "length xs < 18446744073709551616"
  shows "ld_bytes (mem_of_bytes p xs) a n = take n (drop (unat (a - p)) xs)"
proof (rule nth_equalityI)
  fix i assume "i < length (ld_bytes (mem_of_bytes p xs) a n)"
  then have i: "i < n" by simp
  have "unat (of_nat i :: u64) = i" using i assms by (intro unat_of_nat64) simp
  then have "unat ((a - p) + of_nat i) = unat (a - p) + i"
    using unat_add_cases [of "a - p" "of_nat i"] i assms by auto
  moreover have "a + of_nat i - p = (a - p) + of_nat i" by simp
  ultimately have "unat (a + of_nat i - p) = unat (a - p) + i" by metis
  then show "ld_bytes (mem_of_bytes p xs) a n ! i = take n (drop (unat (a - p)) xs) ! i"
    using i assms by (simp add: mem_of_bytes_def add.commute)
qed (use assms in simp)

lemma ld_mem_of_bytes:
  assumes "length xs < 18446744073709551616"
  shows "unat (a - p) + 2 \<le> length xs \<Longrightarrow>
      ld16 (mem_of_bytes p xs) a = of_nat (le_val (take 2 (drop (unat (a - p)) xs)))"
    and "unat (a - p) + 4 \<le> length xs \<Longrightarrow>
      ld32 (mem_of_bytes p xs) a = of_nat (le_val (take 4 (drop (unat (a - p)) xs)))"
    and "unat (a - p) + 8 \<le> length xs \<Longrightarrow>
      ld64 (mem_of_bytes p xs) a = of_nat (le_val (take 8 (drop (unat (a - p)) xs)))"
  using assms by (simp_all add: ld16_def ld32_def ld64_def ld_nat_le_val ld_bytes_mem_of_bytes)

section \<open>The 64-bit cells of an aligned area as an indexed store\<close>

locale cell_store =
  fixes get :: "'m \<Rightarrow> 'i \<Rightarrow> 'v"
    and put :: "'m \<Rightarrow> 'i \<Rightarrow> 'v \<Rightarrow> 'm"
    and ok :: "'i \<Rightarrow> bool"
  assumes get_put_same: "ok i \<Longrightarrow> get (put m i v) i = v"
    and get_put_other: "ok i \<Longrightarrow> ok j \<Longrightarrow> i \<noteq> j \<Longrightarrow> get (put m i v) j = get m j"
begin

lemma get_put: "ok i \<Longrightarrow> ok j \<Longrightarrow> get (put m i v) j = (if i = j then v else get m j)"
  by (simp add: get_put_same get_put_other)

lemma put_put_same: "ok i \<Longrightarrow> ok j \<Longrightarrow> get (put (put m i v) i w) j = get (put m i w) j"
  by (simp add: get_put)

lemma put_commute:
  "ok i \<Longrightarrow> ok j \<Longrightarrow> ok k \<Longrightarrow> i \<noteq> j \<Longrightarrow>
   get (put (put m i v) j w) k = get (put (put m j w) i v) k"
  by (auto simp: get_put)

end

definition aligned8 :: "u64 \<Rightarrow> bool" where
  "aligned8 p \<longleftrightarrow> unat p mod 8 = 0"

lemma aligned8_disj:
  assumes "aligned8 p" "aligned8 q" "p \<noteq> q"
  shows "disj_blk p 8 q 8"
proof -
  have "8 \<le> unat (x - y)" if "unat x mod 8 = 0" "unat y mod 8 = 0" "x \<noteq> y" for x y :: u64
  proof -
    have "unat x \<noteq> unat y" using that(3) by (simp add: word_unat_eq_iff)
    have "unat (x - y) mod 8 = 0"
      using that unat_sub_cases [of x y] by (auto simp: mod_eq_0_iff_dvd intro: dvd_diff_nat)
    moreover have "unat (x - y) \<noteq> 0" using that by (simp add: unat_eq_0)
    ultimately show ?thesis by presburger
  qed
  then show ?thesis using assms by (auto simp: disj_blk_def aligned8_def)
qed

interpretation cells: cell_store ld64 st64 aligned8
proof unfold_locales
  fix i j :: u64 and m v
  show "ld64 (st64 m i v) i = v" by (rule ld64_st64_same)
  assume "aligned8 i" "aligned8 j" "i \<noteq> j"
  then show "ld64 (st64 m i v) j = ld64 m j" by (intro ld64_st64_other aligned8_disj)
qed

end
