(* ===== verification/Block_Library.thy ===== *)
theory Block_Library
  imports CMem
begin

text \<open>
  The contract of the block functions \<open>memset\<close>, \<open>memcpy\<close> and \<open>memcmp\<close>, which the
  repository implements twice (\<open>chihuahua_essentials\<close> and \<open>c_husky\<close>), as the locale
  \<open>block_library\<close>: its laws fix the memory each function leaves, and the lemmas
  its clients use (the ELF loader, the page tables, the string functions) are
  proved once from them.
\<close>

section \<open>Comparison of byte lists\<close>

text \<open>
  \<open>cmp_bytes\<close> is the documented meaning: the difference of the first pair of
  bytes that differ, 0 when there is none.
\<close>

fun cmp_bytes :: "u8 list \<Rightarrow> u8 list \<Rightarrow> int" where
  "cmp_bytes (x # xs) (y # ys) = (if x = y then cmp_bytes xs ys else uint x - uint y)"
| "cmp_bytes _ _ = 0"

lemma uint8_less [simp]: "uint (x :: u8) < 256"
  using uint_lt2p [of x] by simp

lemma cmp_bytes_bound: "- 255 \<le> cmp_bytes xs ys \<and> cmp_bytes xs ys \<le> 255"
proof (induction xs ys rule: cmp_bytes.induct)
  case (1 x xs y ys)
  have "uint x < 256" "uint y < 256" "0 \<le> uint x" "0 \<le> uint y" by auto
  then have "- 255 \<le> uint x - uint y \<and> uint x - uint y \<le> 255" by linarith
  with 1 show ?case by simp
qed auto

lemma cmp_bytes_sym: "cmp_bytes ys xs = - cmp_bytes xs ys"
  by (induction xs ys rule: cmp_bytes.induct) auto

lemma cmp_bytes_0: "length xs = length ys \<Longrightarrow> cmp_bytes xs ys = 0 \<longleftrightarrow> xs = ys"
  by (induction xs ys rule: list_induct2) (auto simp: word_uint_eq_iff)

lemma cmp_bytes_less:
  "length xs = length ys \<Longrightarrow> cmp_bytes xs ys < 0 \<longleftrightarrow> (xs, ys) \<in> lexord {(x, y). x < y}"
  by (induction xs ys rule: list_induct2) (auto simp: word_less_alt)

section \<open>The contract and what follows from it\<close>

locale block_library =
  fixes set_fn :: "mem \<Rightarrow> u64 \<Rightarrow> u32 \<Rightarrow> u64 \<Rightarrow> u64 \<times> mem"
    and cpy_fn :: "mem \<Rightarrow> u64 \<Rightarrow> u64 \<Rightarrow> u64 \<Rightarrow> u64 \<times> mem"
    and cmp_fn :: "mem \<Rightarrow> u64 \<Rightarrow> u64 \<Rightarrow> u64 \<Rightarrow> int"
  assumes set_fn: "set_fn m d c n = (d, fill m d (unat n) (ucast c))"
    and cpy_fn: "d = s \<or> unat n \<le> unat (d - s) \<Longrightarrow> cpy_fn m d s n = (d, copy_blk m d s (unat n))"
    and cmp_fn: "cmp_fn m l r n = cmp_bytes (ld_bytes m l (unat n)) (ld_bytes m r (unat n))"
begin

lemma set_bytes: "ld_bytes (snd (set_fn m d c n)) d (unat n) = replicate (unat n) (ucast c)"
  by (rule nth_equalityI) (auto simp: set_fn fill_apply in_blk_plus unat_of_nat64_unat)

lemma set_frame: "\<not> in_blk d (unat n) a \<Longrightarrow> snd (set_fn m d c n) a = m a"
  by (simp add: set_fn fill_apply)

lemma cpy_bytes:
  "d = s \<or> unat n \<le> unat (d - s) \<Longrightarrow>
   ld_bytes (snd (cpy_fn m d s n)) d (unat n) = ld_bytes m s (unat n)"
  by (rule nth_equalityI) (auto simp: cpy_fn copy_blk_apply in_blk_plus unat_of_nat64_unat)

lemma cpy_frame:
  "d = s \<or> unat n \<le> unat (d - s) \<Longrightarrow> \<not> in_blk d (unat n) a \<Longrightarrow> snd (cpy_fn m d s n) a = m a"
  by (simp add: cpy_fn copy_blk_apply)

lemma cmp_eq_0: "cmp_fn m l r n = 0 \<longleftrightarrow> ld_bytes m l (unat n) = ld_bytes m r (unat n)"
  by (simp add: cmp_fn cmp_bytes_0)

lemma cmp_less: "cmp_fn m l r n < 0
    \<longleftrightarrow> (ld_bytes m l (unat n), ld_bytes m r (unat n)) \<in> lexord {(x, y). x < y}"
  unfolding cmp_fn by (rule cmp_bytes_less) simp

lemma cmp_sym: "cmp_fn m r l n = - cmp_fn m l r n"
  unfolding cmp_fn by (rule cmp_bytes_sym)

lemma cmp_bound: "\<bar>cmp_fn m l r n\<bar> \<le> 255"
  using cmp_bytes_bound [of "ld_bytes m l (unat n)" "ld_bytes m r (unat n)"] by (auto simp: cmp_fn)

lemma cmp_after_cpy:
  assumes "disj_blk d (unat n) s (unat n)"
  shows "cmp_fn (snd (cpy_fn m d s n)) d s n = 0"
proof -
  have le: "d = s \<or> unat n \<le> unat (d - s)" using assms by (auto simp: disj_blk_def)
  have "ld_bytes (snd (cpy_fn m d s n)) s (unat n) = ld_bytes m s (unat n)"
  proof (rule ld_bytes_cong)
    fix i assume "i < unat n"
    then have "in_blk s (unat n) (s + of_nat i)"
      by (simp add: in_blk_plus unat_of_nat64_unat)
    then have "\<not> in_blk d (unat n) (s + of_nat i)"
      using assms disj_blkD disj_blk_sym by blast
    then show "snd (cpy_fn m d s n) (s + of_nat i) = m (s + of_nat i)" by (rule cpy_frame [OF le])
  qed
  then show ?thesis by (simp add: cmp_eq_0 cpy_bytes [OF le])
qed

text \<open>
  Copying \<open>f\<close> bytes and clearing the rest up to \<open>n\<close> bytes, the way a program
  segment is loaded: the file bytes, then zeros, and nothing else changes.
\<close>

lemma cpy_then_clear:
  assumes "unat f \<le> unat n" and "d = s \<or> unat f \<le> unat (d - s)"
  shows "snd (set_fn (snd (cpy_fn m d s f)) (d + f) 0 (n - f)) =
    (\<lambda>a. if in_blk d (unat f) a then m (s + (a - d)) else if in_blk d (unat n) a then 0 else m a)"
proof -
  have e: "unat n = unat f + unat (n - f)" "unat f + unat (n - f) \<le> 18446744073709551616"
    using assms(1) unat_sub_cases [of n f] unat64_le [of n] by auto
  have "in_blk d (unat n) a \<longleftrightarrow> in_blk d (unat f) a \<or> in_blk (d + f) (unat (n - f)) a" for a
    using in_blk_add [OF e(2), of d a] e(1) by simp
  moreover have "\<not> (in_blk d (unat f) a \<and> in_blk (d + f) (unat (n - f)) a)" for a
  proof -
    have w: "a - (d + f) = (a - d) - f" by simp
    show ?thesis
      unfolding in_blk_def w using unat_sub_cases [of "a - d" f] e(1) unat64_le [of n] by auto
  qed
  ultimately show ?thesis
    by (auto simp: set_fn cpy_fn [OF assms(2)] fill_apply copy_blk_apply fun_eq_iff)
qed

end

end
