(* ===== verification/Mem_Essentials.thy ===== *)
theory Mem_Essentials
  imports Block_Library
begin

text \<open>
  \<open>static_libs/chihuahua_essentials/src/mem_essentials.cpp\<close>: \<open>memcmp\<close>, \<open>memcpy\<close>,
  \<open>memmove\<close> and \<open>memset\<close> over the byte memory. Each loop is a recursive function
  on the \<open>size_t\<close> counter the code decrements; \<open>memset\<close> keeps the code's head and
  tail stores and its aligned 32-bit loop. A function that returns its
  destination pointer returns it paired with the new memory.

  The lemmas give the exact memory each function leaves. The locale
  \<open>block_library\<close> is the contract the other components rely on.
\<close>

section \<open>Definitions\<close>

function memcmp_loop :: "mem \<Rightarrow> u64 \<Rightarrow> u64 \<Rightarrow> u64 \<Rightarrow> u64 \<times> u64 \<times> u64" where
  "memcmp_loop m l r n =
     (if n \<noteq> 0 \<and> m l = m r then memcmp_loop m (l + 1) (r + 1) (n - 1) else (l, r, n))"
  by pat_completeness auto
termination
  by (relation "measure (\<lambda>(m, l, r, n). unat n)") (auto simp: unat_minus1_less)

definition memcmp :: "mem \<Rightarrow> u64 \<Rightarrow> u64 \<Rightarrow> u64 \<Rightarrow> int" where
  "memcmp m vl vr n = (case memcmp_loop m vl vr n of (l, r, n') \<Rightarrow>
     if n' \<noteq> 0 then uint (m l) - uint (m r) else 0)"

function memcpy_loop :: "mem \<Rightarrow> u64 \<Rightarrow> u64 \<Rightarrow> u64 \<Rightarrow> mem" where
  "memcpy_loop m d s n =
     (if n \<noteq> 0 then memcpy_loop (m(d := m s)) (d + 1) (s + 1) (n - 1) else m)"
  by pat_completeness auto
termination
  by (relation "measure (\<lambda>(m, d, s, n). unat n)") (auto simp: unat_minus1_less)

definition memcpy :: "mem \<Rightarrow> u64 \<Rightarrow> u64 \<Rightarrow> u64 \<Rightarrow> u64 \<times> mem" where
  "memcpy m dest src n = (dest, memcpy_loop m dest src n)"

function memmove_down :: "mem \<Rightarrow> u64 \<Rightarrow> u64 \<Rightarrow> u64 \<Rightarrow> mem" where
  "memmove_down m d s n =
     (if n \<noteq> 0 then memmove_down (m(d + n := m (s + n))) d s (n - 1) else m)"
  by pat_completeness auto
termination
  by (relation "measure (\<lambda>(m, d, s, n). unat n)") (auto simp: unat_minus1_less)

definition memmove :: "mem \<Rightarrow> u64 \<Rightarrow> u64 \<Rightarrow> u64 \<Rightarrow> u64 \<times> mem" where
  "memmove m dest src n =
     (if dest = src then (dest, m)
      else if src - dest - n \<le> - 2 * n then memcpy m dest src n
      else if dest < src then (dest, memcpy_loop m dest src n)
      else (dest, memmove_down m dest src n))"

function memset_words :: "mem \<Rightarrow> u64 \<Rightarrow> u32 \<Rightarrow> u64 \<Rightarrow> mem" where
  "memset_words m w w_c n =
     (if n \<noteq> 0 then memset_words (st32 m w w_c) (w + 4) w_c (n - 1) else m)"
  by pat_completeness auto
termination
  by (relation "measure (\<lambda>(m, w, w_c, n). unat n)") (auto simp: unat_minus1_less)

text \<open>
  \<open>traverser[i] = traverser[j] = c\<close> stores the converted byte at \<open>j\<close>, then at \<open>i\<close>.
\<close>

definition set_pair :: "mem \<Rightarrow> u64 \<Rightarrow> u64 \<Rightarrow> u64 \<Rightarrow> u8 \<Rightarrow> mem" where
  "set_pair m t i j b = (m(t + j := b))(t + i := b)"

definition memset_word :: "u32 \<Rightarrow> u32" where
  "memset_word c = (let w_c = c AND 0xFF in
     w_c OR (push_bit 8 w_c OR push_bit 16 w_c OR push_bit 24 w_c))"

definition memset :: "mem \<Rightarrow> u64 \<Rightarrow> u32 \<Rightarrow> u64 \<Rightarrow> u64 \<times> mem" where
  "memset m dest c n = (let b = ucast c :: u8 in
     if n = 0 then (dest, m) else
     let m = set_pair m dest 0 (n - 1) b in
     if n \<le> 2 then (dest, m) else
     let m = set_pair m dest 1 (n - 2) b;
         m = set_pair m dest 2 (n - 3) b in
     if n \<le> 6 then (dest, m) else
     let m = set_pair m dest 3 (n - 4) b in
     if n \<le> 8 then (dest, m) else
     let k = (- dest) AND 3;
         t = dest + k;
         n = n - k;
         n = n AND (- 4);
         n = n div 4
     in (dest, memset_words m t (memset_word c) n))"

declare memcmp_loop.simps [simp del] memcpy_loop.simps [simp del]
  memmove_down.simps [simp del] memset_words.simps [simp del]

section \<open>memcpy\<close>

text \<open>
  The forward loop copies the original bytes exactly when the destination does
  not start strictly inside the source block.
\<close>

lemma memcpy_loop_eq:
  "d = s \<or> unat n \<le> unat (d - s) \<Longrightarrow> memcpy_loop m d s n = copy_blk m d s (unat n)"
proof (induction m d s n rule: memcpy_loop.induct)
  case (1 m d s n)
  show ?case
  proof (cases "n = 0")
    case True
    then show ?thesis by (simp add: memcpy_loop.simps)
  next
    case False
    let ?m = "m(d := m s)"
    have n: "unat n = Suc (unat (n - 1))" using False by (rule unat_minus1_Suc)
    have "d + 1 = s + 1 \<or> unat (n - 1) \<le> unat (d + 1 - (s + 1))"
      using "1.prems" n by auto
    then have "memcpy_loop ?m (d + 1) (s + 1) (n - 1) = copy_blk ?m (d + 1) (s + 1) (unat (n - 1))"
      by (rule "1.IH" [OF False])
    then have step: "memcpy_loop m d s n = copy_blk ?m (d + 1) (s + 1) (unat (n - 1))"
      by (subst memcpy_loop.simps) (simp only: False if_True not_False_eq_True)
    have "copy_blk ?m (d + 1) (s + 1) (unat (n - 1)) a = copy_blk m d s (unat n) a" for a
    proof (cases "in_blk (d + 1) (unat (n - 1)) a")
      case True
      have "a \<noteq> d"
      proof
        assume "a = d"
        with True have "18446744073709551615 < unat (n - 1)" by (simp add: in_blk_def)
        with n unat64_less [of n] show False by linarith
      qed
      have src: "s + (a - d) = d \<longrightarrow> d = s"
      proof (intro impI, rule ccontr)
        assume e: "s + (a - d) = d" and ne: "d \<noteq> s"
        have "unat (a - d) = Suc (unat (a - (d + 1)))"
          using unat_minus1_Suc [of "a - d"] \<open>a \<noteq> d\<close> by (simp add: algebra_simps)
        with True n have "unat (a - d) < unat n" by (simp add: in_blk_def)
        moreover have "d - s = a - d" using e by (metis add_diff_cancel_left')
        ultimately show False using "1.prems" ne by auto
      qed
      have "in_blk d (unat n) a" using True n by (simp add: in_blk_Suc)
      with True src show ?thesis by (auto simp: copy_blk_def algebra_simps)
    next
      case False
      then show ?thesis using n by (auto simp: copy_blk_def in_blk_Suc)
    qed
    then show ?thesis using step by auto
  qed
qed

lemma memcpy_eq:
  "d = s \<or> unat n \<le> unat (d - s) \<Longrightarrow> memcpy m d s n = (d, copy_blk m d s (unat n))"
  by (simp add: memcpy_def memcpy_loop_eq)

lemma memcpy_fst [simp]: "fst (memcpy m d s n) = d"
  by (simp add: memcpy_def)

section \<open>memmove\<close>

text \<open>
  The loop for an overlap with the destination above the source runs the index
  from \<open>n\<close> down to 1: it copies the bytes 1 to \<open>n\<close>, not 0 to \<open>n - 1\<close>.
\<close>

lemma memmove_down_eq:
  "unat n \<le> unat (s - d) \<Longrightarrow> memmove_down m d s n = copy_blk m (d + 1) (s + 1) (unat n)"
proof (induction m d s n rule: memmove_down.induct)
  case (1 m d s n)
  show ?case
  proof (cases "n = 0")
    case True
    then show ?thesis by (simp add: memmove_down.simps)
  next
    case False
    let ?m = "m(d + n := m (s + n))"
    have n: "unat n = Suc (unat (n - 1))" using False by (rule unat_minus1_Suc)
    have "unat (n - 1) \<le> unat (s - d)" using "1.prems" n by simp
    then have "memmove_down ?m d s (n - 1) = copy_blk ?m (d + 1) (s + 1) (unat (n - 1))"
      by (rule "1.IH" [OF False])
    then have step: "memmove_down m d s n = copy_blk ?m (d + 1) (s + 1) (unat (n - 1))"
      by (subst memmove_down.simps) (simp only: False if_True not_False_eq_True)
    have "copy_blk ?m (d + 1) (s + 1) (unat (n - 1)) a = copy_blk m (d + 1) (s + 1) (unat n) a" for a
    proof -
      let ?j = "a - (d + 1)"
      have last: "a = d + n \<longleftrightarrow> unat ?j = unat (n - 1)"
        using eq_plus_iff [of a "d + 1" "n - 1"] by simp
      have "s + 1 + ?j \<noteq> d + n" if "unat ?j < unat (n - 1)"
      proof
        assume "s + 1 + ?j = d + n"
        then have e: "s - d = (n - 1) - ?j" by (simp add: algebra_simps)
        have "unat (s - d) = unat (n - 1) - unat ?j"
          unfolding e using that unat_sub_cases [of "n - 1" ?j] by simp
        with "1.prems" n show False by simp
      qed
      then show ?thesis using last n
        by (auto simp: copy_blk_def in_blk_def less_Suc_eq)
    qed
    then show ?thesis using step by auto
  qed
qed

lemma unat_minus2:
  "unat (n :: u64) < 9223372036854775808 \<Longrightarrow>
   unat (- 2 * n) = (if n = 0 then 0 else 18446744073709551616 - 2 * unat n)"
proof -
  assume a: "unat n < 9223372036854775808"
  have e: "- 2 * n = 0 - (n + n)" by simp
  show ?thesis
    unfolding e using a unat_add_cases [of n n] unat_sub_cases [of 0 "n + n"]
    by (auto simp: unat_eq_0)
qed

text \<open>The code's test for blocks that do not overlap.\<close>

lemma memmove_test:
  assumes "d \<noteq> s" "unat n < 9223372036854775808"
  shows "s - d - n \<le> - 2 * n \<longleftrightarrow> n \<noteq> 0 \<and> disj_blk d (unat n) s (unat n)"
proof -
  have x0: "unat (s - d) \<noteq> 0" using assms(1) by (simp add: unat_eq_0)
  have y: "unat (d - s) = 18446744073709551616 - unat (s - d)"
    using unat_sub_cases [of 0 "s - d"] x0 by simp
  have n0: "n = 0 \<longleftrightarrow> unat n = 0" by (simp add: unat_eq_0)
  have x: "unat (s - d) < 18446744073709551616" by simp
  show ?thesis
    unfolding word_le_nat_alt unat_minus2 [OF assms(2)] disj_blk_def y
    using unat_sub_cases [of "s - d" n] assms(2) x0 x n0 by auto
qed

text \<open>
  Where the destination does not start inside the source block, every path of
  \<open>memmove\<close> leaves the exact copy.
\<close>

lemma memmove_eq:
  assumes n: "unat n < 9223372036854775808"
    and nw: "unat s + unat n \<le> 18446744073709551616" "unat d + unat n \<le> 18446744073709551616"
    and ov: "d = s \<or> d < s \<or> unat n \<le> unat (d - s)"
  shows "memmove m d s n = (d, copy_blk m d s (unat n))"
proof (cases "d = s")
  case True
  then show ?thesis by (auto simp: memmove_def copy_blk_def)
next
  case False
  have fwd: "unat n \<le> unat (d - s)"
  proof (cases "d < s")
    case True
    then have "unat d < unat s" by (simp add: word_less_nat_alt)
    then show ?thesis using unat_sub_cases [of d s] nw by simp
  next
    case False
    with ov \<open>d \<noteq> s\<close> show ?thesis by auto
  qed
  show ?thesis
  proof (cases "s - d - n \<le> - 2 * n \<or> d < s")
    case True
    then show ?thesis using False fwd by (auto simp: memmove_def memcpy_eq memcpy_loop_eq)
  next
    case False
    with \<open>d \<noteq> s\<close> have "n = 0 \<or> \<not> unat n \<le> unat (s - d)" and ds: "s < d"
      using memmove_test [OF \<open>d \<noteq> s\<close> n] fwd by (auto simp: disj_blk_def not_less)
    moreover have "unat n \<le> unat (s - d)"
      using ds n fwd unat_sub_cases [of s d] unat_sub_cases [of d s] nw
      by (auto simp: word_less_nat_alt)
    ultimately have "n = 0" by simp
    then show ?thesis using False \<open>d \<noteq> s\<close>
      by (simp add: memmove_def memmove_down.simps)
  qed
qed

text \<open>
  For a destination inside the source block (above its start) the result is the
  copy shifted by one: byte 0 keeps its old value and the byte past the block
  is overwritten.
\<close>

lemma memmove_overlap_up:
  assumes n: "unat n < 9223372036854775808" and ds: "s < d" and ov: "unat (d - s) < unat n"
  shows "memmove m d s n = (d, copy_blk m (d + 1) (s + 1) (unat n))"
proof -
  have "d \<noteq> s" "\<not> d < s" using ds by auto
  moreover have "\<not> s - d - n \<le> - 2 * n"
    using memmove_test [OF \<open>d \<noteq> s\<close> n] ov by (auto simp: disj_blk_def)
  moreover have "unat n \<le> unat (s - d)"
    using unat_sub_cases [of 0 "d - s"] ov n \<open>d \<noteq> s\<close> by (auto simp: unat_eq_0)
  ultimately show ?thesis by (simp add: memmove_def memmove_down_eq)
qed

section \<open>memcmp\<close>

lemma memcmp_rec:
  "memcmp m l r n = (if n = 0 then 0 else if m l = m r then memcmp m (l + 1) (r + 1) (n - 1)
     else uint (m l) - uint (m r))"
  by (simp add: memcmp_def memcmp_loop.simps [of m l r n])

lemma memcmp_eq: "memcmp m l r n = cmp_bytes (ld_bytes m l (unat n)) (ld_bytes m r (unat n))"
proof (induction m l r n rule: memcmp_loop.induct)
  case (1 m l r n)
  show ?case
  proof (cases "n = 0")
    case True
    then show ?thesis by (simp add: memcmp_rec ld_bytes_def)
  next
    case False
    then have n: "unat n = Suc (unat (n - 1))" by (rule unat_minus1_Suc)
    show ?thesis
      using "1.IH" False by (subst memcmp_rec) (simp add: n ld_bytes_Suc)
  qed
qed

section \<open>memset\<close>

lemma st_nat_4:
  "st_nat m p 4 v = m(p := of_nat v, p + 1 := of_nat (v div 256), p + 2 := of_nat (v div 65536),
     p + 3 := of_nat (v div 16777216))"
proof -
  have e: "p + 1 + 1 = p + 2" "p + 1 + 1 + 1 = p + 3" "p + 2 + 1 = p + 3" by simp_all
  have "st_nat m p (Suc (Suc (Suc (Suc 0)))) v = m(p := of_nat v, p + 1 := of_nat (v div 256),
     p + 2 := of_nat (v div 256 div 256), p + 3 := of_nat (v div 256 div 256 div 256))"
    by (simp only: st_nat.simps e)
  moreover have "(4 :: nat) = Suc (Suc (Suc (Suc 0)))" by simp
  ultimately show ?thesis by (simp only: div_mult2_eq [symmetric]) simp
qed

lemma st32_bytes:
  "st32 m p v = m(p := ucast v, p + 1 := ucast (drop_bit 8 v), p + 2 := ucast (drop_bit 16 v),
     p + 3 := ucast (drop_bit 24 v))"
proof -
  have "of_nat (unat v div 2 ^ k) = (ucast (drop_bit k v) :: u8)" for k
    by (rule bit_word_eqI) (auto simp: bit_simps simp flip: drop_bit_eq_div)
  from this [of 0] this [of 8] this [of 16] this [of 24] show ?thesis
    by (simp add: st32_def st_nat_4)
qed

lemma memset_word_byte:
  assumes "i < 4"
  shows "ucast (drop_bit (8 * i) (memset_word c)) = (ucast c :: u8)"
proof -
  have "i \<in> {0, 1, 2, 3}" using assms by auto
  then show ?thesis
    by (auto intro!: bit_word_eqI simp: memset_word_def Let_def and_255 bit_simps)
qed

lemma st32_memset_word: "st32 m p (memset_word c) = fill m p 4 (ucast c)"
proof
  fix a
  have "unat (a - p) < 4 \<longleftrightarrow> unat (a - p) \<in> {0, 1, 2, 3}" by auto
  then show "st32 m p (memset_word c) a = fill m p 4 (ucast c) a"
    using memset_word_byte [of 0 c] memset_word_byte [of 1 c] memset_word_byte [of 2 c]
      memset_word_byte [of 3 c]
    by (simp add: st32_bytes fill_def in_blk_def eq_plus_iff [of a p]
        eq_plus_iff [of a p 0, simplified])
qed

lemma memset_words_eq:
  "4 * unat n \<le> 18446744073709551616 \<Longrightarrow>
   memset_words m w (memset_word c) n = fill m w (4 * unat n) (ucast c)"
proof (induction m w "memset_word c" n rule: memset_words.induct)
  case (1 m w n)
  show ?case
  proof (cases "n = 0")
    case True
    then show ?thesis by (simp add: memset_words.simps)
  next
    case False
    then have n: "unat n = Suc (unat (n - 1))" by (rule unat_minus1_Suc)
    let ?m = "st32 m w (memset_word c)"
    have "memset_words ?m (w + 4) (memset_word c) (n - 1)
        = fill ?m (w + of_nat 4) (4 * unat (n - 1)) (ucast c)"
      using "1.hyps" [OF False] "1.prems" n by simp
    also have "\<dots> = fill m w (4 * unat n) (ucast c)"
      unfolding st32_memset_word by (subst fill_fill_append) (use "1.prems" n in simp_all)
    finally show ?thesis
      by (subst memset_words.simps) (simp only: False if_True not_False_eq_True)
  qed
qed

lemma set_pair_apply [blk_simps]:
  "set_pair m t i j b a =
   (if unat (a - t) = unat i \<or> unat (a - t) = unat j then b else m a)"
  by (auto simp: set_pair_def eq_plus_iff [of a t])

lemma memset_cover_6_8:
  assumes "6 < N" "N \<le> 8"
  shows "(j::nat) < N \<longleftrightarrow> (j = 3 \<or> j = N - 4) \<or> (j = 2 \<or> j = N - 3)
     \<or> (j = 1 \<or> j = N - 2) \<or> (j = 0 \<or> j = N - 1)"
proof -
  have "N = 7 \<or> N = 8" using assms by arith
  then show ?thesis by (elim disjE; simp; arith)
qed

text \<open>The head and tail bytes and the \<open>Q\<close> bytes of the aligned words cover the block.\<close>

lemma memset_cover:
  assumes "8 < N" "K \<le> 3" "Q \<le> N - K" "N - K < Q + 4"
  shows "(j::nat) < N \<longleftrightarrow> (K \<le> j \<and> j < K + Q)
          \<or> (j = 3 \<or> j = N - 4) \<or> (j = 2 \<or> j = N - 3)
          \<or> (j = 1 \<or> j = N - 2) \<or> (j = 0 \<or> j = N - 1)" (is "?L \<longleftrightarrow> ?R")
proof
  assume ?L
  show ?R
  proof (cases "j < K")
    case True
    then have "j = 0 \<or> j = 1 \<or> j = 2" using assms by arith
    then show ?thesis by blast
  next
    case False
    show ?thesis
    proof (cases "j < K + Q")
      case False
      then have "j = N - 3 \<or> j = N - 2 \<or> j = N - 1" using assms \<open>?L\<close> by arith
      then show ?thesis by blast
    qed (use False in simp)
  qed
next
  assume ?R
  then show ?L using assms by (elim disjE conjE) arith+
qed
lemma if_chain:
  "(L \<longleftrightarrow> A \<or> B \<or> C) \<Longrightarrow>
   (if A then b else if B then b else if C then b else x) = (if L then b else x)"
  "(L \<longleftrightarrow> A \<or> B \<or> C \<or> D) \<Longrightarrow>
   (if A then b else if B then b else if C then b else if D then b else x) = (if L then b else x)"
  "(L \<longleftrightarrow> A \<or> B \<or> C \<or> D \<or> E) \<Longrightarrow>
   (if A then b else if B then b else if C then b else if D then b else if E then b else x)
   = (if L then b else x)"
  by auto

lemma unat_numeral_consts:
  "unat (0 :: u64) = 0" "unat (1 :: u64) = 1" "unat (2 :: u64) = 2" "unat (3 :: u64) = 3"
  by simp_all

lemma memset_count:
  assumes "8 < unat (n :: u64)" "unat k \<le> 3"
  shows "unat (((n - k) AND (- 4)) div 4) = (unat n - unat k) div 4"
proof -
  have "((n - k) AND (- 4)) div 4 = drop_bit 2 (push_bit 2 (drop_bit 2 (n - k)))"
    by (simp add: and_minus_4 drop_bit_eq_div [of 2])
  also have "\<dots> = drop_bit 2 (n - k)"
    by (rule bit_word_eqI) (auto simp: bit_simps dest: bit_imp_le_length)
  also have "unat \<dots> = unat (n - k) div 4"
    by (subst unat_drop_bit_eq) (simp add: drop_bit_eq_div)
  finally show ?thesis using assms unat_sub_cases [of n k] by simp
qed

text \<open>
  The stores at the head and the tail and the aligned words together cover the
  block and nothing else: \<open>memset\<close> fills exactly \<open>n\<close> bytes, for every
  destination, byte and length.
\<close>

lemma memset_eq: "memset m dest c n = (dest, fill m dest (unat n) (ucast c))"
proof -
  let ?b = "ucast c :: u8"
  let ?N = "unat n"
  have sub: "unat (n - x) = ?N - unat x" if "unat x \<le> ?N" for x
    using unat_sub_cases [of n x] that by simp
  have one: "set_pair m dest 0 (n - 1) ?b = fill m dest ?N ?b" if "?N \<noteq> 0" "?N \<le> 2"
  proof
    fix a
    show "set_pair m dest 0 (n - 1) ?b a = fill m dest ?N ?b a"
      using that unat_minus1_Suc [of n] unat_gt_0 [of "a - dest"] unat_eq_0 [of n]
      by (auto simp: set_pair_apply fill_def in_blk_def)
  qed
  let ?k = "(- dest) AND 3"
  have k: "unat ?k \<le> 3"
    unfolding and_3 using take_bit_nat_less_exp [of 2 "unat (- dest)"]
    by (simp add: unsigned_take_bit_eq)
  let ?m3 = "set_pair (set_pair (set_pair m dest 0 (n - 1) ?b) dest 1 (n - 2) ?b) dest 2 (n - 3) ?b"
  let ?j = "\<lambda>a. unat (a - dest)"
  have three: "?m3 = fill m dest ?N ?b" if N: "2 < ?N" "?N \<le> 6"
  proof
    fix a
    have subs: "unat (n - 1) = ?N - 1" "unat (n - 2) = ?N - 2" "unat (n - 3) = ?N - 3"
      using N by (simp_all add: sub)
    have "?j a < ?N \<longleftrightarrow> (?j a = 2 \<or> ?j a = ?N - 3) \<or> (?j a = 1 \<or> ?j a = ?N - 2)
        \<or> (?j a = 0 \<or> ?j a = ?N - 1)"
      using N by arith
    then show "?m3 a = fill m dest ?N ?b a"
      unfolding set_pair_apply fill_def in_blk_def subs unat_numeral_consts by (rule if_chain(1))
  qed
  let ?m4 = "set_pair ?m3 dest 3 (n - 4) ?b"
  have four: "?m4 = fill m dest ?N ?b" if N: "6 < ?N" "?N \<le> 8"
  proof
    fix a
    have subs: "unat (n - 1) = ?N - 1" "unat (n - 2) = ?N - 2" "unat (n - 3) = ?N - 3"
        "unat (n - 4) = ?N - 4"
      using N by (simp_all add: sub)
    have "?j a < ?N \<longleftrightarrow> (?j a = 3 \<or> ?j a = ?N - 4) \<or> (?j a = 2 \<or> ?j a = ?N - 3)
        \<or> (?j a = 1 \<or> ?j a = ?N - 2) \<or> (?j a = 0 \<or> ?j a = ?N - 1)"
      by (rule memset_cover_6_8 [OF N])
    then show "?m4 a = fill m dest ?N ?b a"
      unfolding set_pair_apply fill_def in_blk_def subs unat_numeral_consts by (rule if_chain(2))
  qed
  let ?q = "((n - ?k) AND (- 4)) div 4"
  have words: "memset_words ?m4 (dest + ?k) (memset_word c) ?q = fill m dest ?N ?b" if "8 < ?N"
  proof -
    have q: "unat ?q = (?N - unat ?k) div 4" using memset_count [OF that k] .
    have qb: "4 * unat ?q \<le> ?N - unat ?k" "?N - unat ?k < 4 * unat ?q + 4"
      unfolding q by simp_all
    have blk: "in_blk (dest + ?k) (4 * unat ?q) a
        \<longleftrightarrow> unat ?k \<le> unat (a - dest) \<and> unat (a - dest) < unat ?k + 4 * unat ?q" for a
    proof -
      have e: "a - (dest + ?k) = (a - dest) - ?k" by simp
      show ?thesis
        unfolding in_blk_def e
        using qb(1) unat_sub_cases [of "a - dest" ?k] k unat64_le [of n] by auto
    qed
    have "4 * unat ?q \<le> 18446744073709551616" using qb(1) unat64_le [of n] by linarith
    then have "memset_words ?m4 (dest + ?k) (memset_word c) ?q
        = fill ?m4 (dest + ?k) (4 * unat ?q) ?b" by (rule memset_words_eq)
    also have "\<dots> = fill m dest ?N ?b"
    proof
      fix a
      have subs: "unat (n - 1) = ?N - 1" "unat (n - 2) = ?N - 2" "unat (n - 3) = ?N - 3"
          "unat (n - 4) = ?N - 4"
        using that by (simp_all add: sub)
      have "?j a < ?N \<longleftrightarrow> (unat ?k \<le> ?j a \<and> ?j a < unat ?k + 4 * unat ?q)
          \<or> (?j a = 3 \<or> ?j a = ?N - 4) \<or> (?j a = 2 \<or> ?j a = ?N - 3)
          \<or> (?j a = 1 \<or> ?j a = ?N - 2) \<or> (?j a = 0 \<or> ?j a = ?N - 1)"
        by (rule memset_cover [OF that k qb])
      then show "fill ?m4 (dest + ?k) (4 * unat ?q) ?b a = fill m dest ?N ?b a"
        unfolding fill_apply blk set_pair_apply in_blk_def [of dest] subs
          unat_numeral_consts by (rule if_chain(3))
    qed
    finally show ?thesis .
  qed
  have le: "n \<le> 2 \<longleftrightarrow> ?N \<le> 2" "n \<le> 6 \<longleftrightarrow> ?N \<le> 6" "n \<le> 8 \<longleftrightarrow> ?N \<le> 8" "n = 0 \<longleftrightarrow> ?N = 0"
    by (simp_all add: word_le_nat_alt unat_eq_0)
  consider "?N = 0" | "?N \<noteq> 0" "?N \<le> 2" | "2 < ?N" "?N \<le> 6" | "6 < ?N" "?N \<le> 8" | "8 < ?N"
    by linarith
  then show ?thesis
  proof cases
    case 1
    then show ?thesis unfolding memset_def Let_def le by simp
  next
    case 2
    then show ?thesis unfolding memset_def Let_def le by (simp only: one if_True if_False not_False_eq_True)
  next
    case 3
    moreover from this have "\<not> ?N = 0" "\<not> ?N \<le> 2" by simp_all
    ultimately show ?thesis unfolding memset_def Let_def le by (simp only: three if_True if_False)
  next
    case 4
    moreover from this have "\<not> ?N = 0" "\<not> ?N \<le> 2" "\<not> ?N \<le> 6" by simp_all
    ultimately show ?thesis unfolding memset_def Let_def le by (simp only: four if_True if_False)
  next
    case 5
    moreover from this have "\<not> ?N = 0" "\<not> ?N \<le> 2" "\<not> ?N \<le> 6" "\<not> ?N \<le> 8" by simp_all
    ultimately show ?thesis unfolding memset_def Let_def le by (simp only: words if_True if_False)
  qed
qed

section \<open>The contract\<close>

interpretation essentials: block_library memset memcpy memcmp
  by unfold_locales (simp_all add: memset_eq memcpy_eq memcmp_eq)

section \<open>Properties\<close>

text \<open>
  C2: \<open>memset\<close> sets exactly the \<open>n\<close> bytes from \<open>dest\<close> on to the low byte of \<open>c\<close>,
  changes nothing else and returns \<open>dest\<close>, for every address (aligned or not, even
  wrapping around the address space), every \<open>c\<close> and every length: the head and tail
  stores and the 32-bit loop agree with the plain byte loop.
\<close>

theorem memset_fills_block:
  "memset m dest c n = (dest, fill m dest (unat n) (ucast c))"
  by (rule memset_eq)

text \<open>
  C16: \<open>memcpy\<close> returns \<open>dest\<close> and leaves the original \<open>n\<close> source bytes there, every other
  byte unchanged, whenever the destination does not start inside the source block.
\<close>

theorem memcpy_copies_block:
  assumes "dest = src \<or> unat n \<le> unat (dest - src)"
  shows "fst (memcpy m dest src n) = dest
    \<and> ld_bytes (snd (memcpy m dest src n)) dest (unat n) = ld_bytes m src (unat n)
    \<and> (\<forall>a. \<not> in_blk dest (unat n) a \<longrightarrow> snd (memcpy m dest src n) a = m a)"
  using essentials.cpy_bytes [OF assms] essentials.cpy_frame [OF assms] by simp

theorem memcpy_copies_block_witness:
  "ld_bytes (snd (memcpy (\<lambda>a. ucast a) 8 4096 3)) 8 3 = [0, 1, 2]"
  using memcpy_copies_block [of 8 4096 3 "\<lambda>a. ucast a"]
  by (simp add: ld_bytes_def upt_rec)

text \<open>
  C17: for blocks that do not wrap around the address space and a destination that does
  not start inside the source block, every path of \<open>memmove\<close> (equal pointers, the
  copy of disjoint blocks, the forward loop) leaves the exact copy.
\<close>

theorem memmove_copies_block:
  assumes "unat n < 2 ^ 63" and "unat src + unat n \<le> 2 ^ 64" and "unat dest + unat n \<le> 2 ^ 64"
    and "dest \<le> src \<or> unat n \<le> unat (dest - src)"
  shows "memmove m dest src n = (dest, copy_blk m dest src (unat n))"
  by (rule memmove_eq) (use assms in \<open>auto simp: order_le_less\<close>)

theorem memmove_copies_block_witness:
  "snd (memmove (\<lambda>a. ucast a) 16 18 4) 17 = 19"
  using memmove_copies_block [of 4 18 16 "\<lambda>a. ucast a"] by (simp add: copy_blk_def in_blk_def)

text \<open>
  C28: for a destination above the source and inside its block, the downward loop runs
  the index from \<open>n\<close> to 1. The first destination byte is never written and the byte
  behind the destination block is overwritten, so the result is not the copy.
\<close>

theorem memmove_overlap_off_by_one:
  assumes "unat n < 2 ^ 63" and "src < dest" and "unat (dest - src) < unat n"
  shows "memmove m dest src n = (dest, copy_blk m (dest + 1) (src + 1) (unat n))
    \<and> snd (memmove m dest src n) dest = m dest
    \<and> snd (memmove m dest src n) (dest + n) = m (src + n)"
proof (intro conjI)
  show 1: "memmove m dest src n = (dest, copy_blk m (dest + 1) (src + 1) (unat n))"
    by (rule memmove_overlap_up) (use assms in simp_all)
  show "snd (memmove m dest src n) dest = m dest"
    unfolding 1 using assms(1) by (simp add: copy_blk_def in_blk_def)
  have "n \<noteq> 0" using assms(3) by auto
  then have "unat (n - 1) < unat n" by (rule unat_minus1_less)
  then show "snd (memmove m dest src n) (dest + n) = m (src + n)"
    unfolding 1 by (simp add: copy_blk_def in_blk_def)
qed

theorem memmove_overlap_off_by_one_witness:
  "snd (memmove (\<lambda>a. ucast a) 18 16 4) 18 = 18 \<and> snd (memmove (\<lambda>a. ucast a) 18 16 4) 22 = 20"
  using memmove_overlap_off_by_one [of 4 16 18 "\<lambda>a. ucast a"] by (simp add: copy_blk_def in_blk_def)

text \<open>
  C18: \<open>memcmp\<close> returns 0 exactly for equal blocks, a negative value exactly when the first
  block is lexicographically smaller (bytes compared unsigned), changes sign when the
  blocks are exchanged, and stays within \<open>[-255, 255]\<close>.
\<close>

theorem memcmp_orders_blocks:
  "(memcmp m l r n = 0 \<longleftrightarrow> ld_bytes m l (unat n) = ld_bytes m r (unat n))
   \<and> (memcmp m l r n < 0
      \<longleftrightarrow> (ld_bytes m l (unat n), ld_bytes m r (unat n)) \<in> lexord {(x, y). x < y})
   \<and> memcmp m r l n = - memcmp m l r n \<and> \<bar>memcmp m l r n\<bar> \<le> 255"
  by (intro conjI essentials.cmp_eq_0 essentials.cmp_less essentials.cmp_sym essentials.cmp_bound)

text \<open>
  After \<open>memcpy\<close> between disjoint blocks, \<open>memcmp\<close> finds them equal.
\<close>

theorem memcmp_after_memcpy:
  assumes "disj_blk dest (unat n) src (unat n)"
  shows "memcmp (snd (memcpy m dest src n)) dest src n = 0"
  using assms by (rule essentials.cmp_after_cpy)

theorem memcmp_after_memcpy_witness:
  "memcmp (snd (memcpy (\<lambda>a. ucast a) 64 32 5)) 64 32 5 = 0"
  using memcmp_after_memcpy [of 64 5 32 "\<lambda>a. ucast a"] by (simp add: disj_blk_def)

end
