(* ===== verification/C_Husky.thy ===== *)
theory C_Husky
  imports Mem_Essentials
begin

text \<open>
  \<open>static_libs/c_husky/src/string\<close>: the freestanding C library of the kernel. The
  block functions repeat the code of \<open>chihuahua_essentials\<close>; the string functions
  scan for a NUL byte, so those loops are partial functions, \<open>None\<close> standing for
  a scan that never returns. \<open>cstr m p xs\<close> says that the NUL-terminated string at
  \<open>p\<close> has the bytes \<open>xs\<close>.
\<close>

section \<open>The block functions\<close>

function husky_memcmp_loop :: "mem \<Rightarrow> u64 \<Rightarrow> u64 \<Rightarrow> u64 \<Rightarrow> u64 \<times> u64 \<times> u64" where
  "husky_memcmp_loop m l r n =
     (if n \<noteq> 0 \<and> m l = m r then husky_memcmp_loop m (l + 1) (r + 1) (n - 1) else (l, r, n))"
  by pat_completeness auto
termination
  by (relation "measure (\<lambda>(m, l, r, n). unat n)") (auto simp: unat_minus1_less)

definition husky_memcmp :: "mem \<Rightarrow> u64 \<Rightarrow> u64 \<Rightarrow> u64 \<Rightarrow> int" where
  "husky_memcmp m left right n = (case husky_memcmp_loop m left right n of (l, r, n') \<Rightarrow>
     if n' \<noteq> 0 then uint (m l) - uint (m r) else 0)"

function husky_memcpy_loop :: "mem \<Rightarrow> u64 \<Rightarrow> u64 \<Rightarrow> u64 \<Rightarrow> mem" where
  "husky_memcpy_loop m d s n =
     (if n \<noteq> 0 then husky_memcpy_loop (m(d := m s)) (d + 1) (s + 1) (n - 1) else m)"
  by pat_completeness auto
termination
  by (relation "measure (\<lambda>(m, d, s, n). unat n)") (auto simp: unat_minus1_less)

definition husky_memcpy :: "mem \<Rightarrow> u64 \<Rightarrow> u64 \<Rightarrow> u64 \<Rightarrow> u64 \<times> mem" where
  "husky_memcpy m dest src n = (dest, husky_memcpy_loop m dest src n)"

function husky_memmove_down :: "mem \<Rightarrow> u64 \<Rightarrow> u64 \<Rightarrow> u64 \<Rightarrow> mem" where
  "husky_memmove_down m d s n =
     (if n \<noteq> 0 then husky_memmove_down (m(d + n := m (s + n))) d s (n - 1) else m)"
  by pat_completeness auto
termination
  by (relation "measure (\<lambda>(m, d, s, n). unat n)") (auto simp: unat_minus1_less)

definition husky_memmove :: "mem \<Rightarrow> u64 \<Rightarrow> u64 \<Rightarrow> u64 \<Rightarrow> u64 \<times> mem" where
  "husky_memmove m dest src n =
     (if dest = src then (dest, m)
      else if src - dest - n \<le> - 2 * n then husky_memcpy m dest src n
      else if dest < src then (dest, husky_memcpy_loop m dest src n)
      else (dest, husky_memmove_down m dest src n))"

function husky_memset_words :: "mem \<Rightarrow> u64 \<Rightarrow> u32 \<Rightarrow> u64 \<Rightarrow> mem" where
  "husky_memset_words m w w_c n =
     (if n \<noteq> 0 then husky_memset_words (st32 m w w_c) (w + 4) w_c (n - 1) else m)"
  by pat_completeness auto
termination
  by (relation "measure (\<lambda>(m, w, w_c, n). unat n)") (auto simp: unat_minus1_less)

definition husky_memset :: "mem \<Rightarrow> u64 \<Rightarrow> u32 \<Rightarrow> u64 \<Rightarrow> u64 \<times> mem" where
  "husky_memset m dest c n = (let b = ucast c :: u8 in
     if n = 0 then (dest, m) else
     let m = (m(dest + (n - 1) := b))(dest + 0 := b) in
     if n \<le> 2 then (dest, m) else
     let m = (m(dest + (n - 2) := b))(dest + 1 := b);
         m = (m(dest + (n - 3) := b))(dest + 2 := b) in
     if n \<le> 6 then (dest, m) else
     let m = (m(dest + (n - 4) := b))(dest + 3 := b) in
     if n \<le> 8 then (dest, m) else
     let k = (- dest) AND 3;
         traverser = dest + k;
         n = n - k;
         n = n AND (- 4);
         n = n div 4;
         w_c = c AND 0xFF;
         w_c = w_c OR (push_bit 8 w_c OR push_bit 16 w_c OR push_bit 24 w_c)
     in (dest, husky_memset_words m traverser w_c n))"

declare husky_memcmp_loop.simps [simp del] husky_memcpy_loop.simps [simp del]
  husky_memmove_down.simps [simp del] husky_memset_words.simps [simp del]

section \<open>The string functions\<close>

partial_function (option) strlen_loop :: "mem \<Rightarrow> u64 \<Rightarrow> u64 option" where
  "strlen_loop m s = (if m s \<noteq> 0 then strlen_loop m (s + 1) else Some s)"

definition strlen :: "mem \<Rightarrow> u64 \<Rightarrow> u64 option" where
  "strlen m str = map_option (\<lambda>s. s - str) (strlen_loop m str)"

partial_function (option) strcpy_loop :: "mem \<Rightarrow> u64 \<Rightarrow> u64 \<Rightarrow> mem option" where
  "strcpy_loop m d src =
     (if m src \<noteq> 0 then strcpy_loop (m(d := m src)) (d + 1) (src + 1) else Some m)"

definition strcpy :: "mem \<Rightarrow> u64 \<Rightarrow> u64 \<Rightarrow> (u64 \<times> mem) option" where
  "strcpy m dest src = map_option (\<lambda>m'. (dest, m')) (strcpy_loop m dest src)"

definition strcat :: "mem \<Rightarrow> u64 \<Rightarrow> u64 \<Rightarrow> (u64 \<times> mem) option" where
  "strcat m dest source = Option.bind (strlen m dest) (\<lambda>n.
     Option.bind (strcpy m (dest + n) source) (\<lambda>(_, m'). Some (dest, m')))"

function strncat_loop :: "mem \<Rightarrow> u64 \<Rightarrow> u64 \<Rightarrow> u64 \<Rightarrow> u64 \<times> mem" where
  "strncat_loop m dest source num =
     (if num \<noteq> 0 \<and> m source \<noteq> 0
      then strncat_loop (m(dest := m source)) (dest + 1) (source + 1) (num - 1)
      else (dest, m))"
  by pat_completeness auto
termination
  by (relation "measure (\<lambda>(m, d, s, n). unat n)") (auto simp: unat_minus1_less)

definition strncat :: "mem \<Rightarrow> u64 \<Rightarrow> u64 \<Rightarrow> u64 \<Rightarrow> (u64 \<times> mem) option" where
  "strncat m dest source num = Option.bind (strlen m dest) (\<lambda>n.
     case strncat_loop m (dest + n) source num of (d, m') \<Rightarrow> Some (dest, m'(d := 0)))"

partial_function (option) strncpy_loop :: "mem \<Rightarrow> u64 \<Rightarrow> u64 \<Rightarrow> u64 \<Rightarrow> (mem \<times> u64) option" where
  "strncpy_loop m d source num =
     (if m source \<noteq> 0 then strncpy_loop (m(d := m source)) (d + 1) (source + 1) (num - 1)
      else Some (m, num))"

definition strncpy :: "mem \<Rightarrow> u64 \<Rightarrow> u64 \<Rightarrow> u64 \<Rightarrow> (u64 \<times> mem) option" where
  "strncpy m dest source num = Option.bind (strncpy_loop m dest source num) (\<lambda>(m', num').
     Some (dest, snd (husky_memset m' dest 0 num')))"

declare strncat_loop.simps [simp del]

section \<open>The two implementations of the block functions agree\<close>

lemma husky_memcmp_loop_eq: "husky_memcmp_loop m l r n = memcmp_loop m l r n"
  by (induction m l r n rule: memcmp_loop.induct)
    (subst husky_memcmp_loop.simps, subst memcmp_loop.simps, auto)

lemma husky_memcpy_loop_eq: "husky_memcpy_loop m d s n = memcpy_loop m d s n"
  by (induction m d s n rule: memcpy_loop.induct)
    (subst husky_memcpy_loop.simps, subst memcpy_loop.simps, rule if_cong [OF refl _ refl])

lemma husky_memmove_down_eq: "husky_memmove_down m d s n = memmove_down m d s n"
  by (induction m d s n rule: memmove_down.induct)
    (subst husky_memmove_down.simps, subst memmove_down.simps, rule if_cong [OF refl _ refl])

lemma husky_memset_words_eq: "husky_memset_words m w c n = memset_words m w c n"
  by (induction m w c n rule: memset_words.induct)
    (subst husky_memset_words.simps, subst memset_words.simps, rule if_cong [OF refl _ refl])

lemma husky_memcmp_eq: "husky_memcmp = memcmp"
  by (intro ext) (simp only: husky_memcmp_def memcmp_def husky_memcmp_loop_eq)

lemma husky_memcpy_eq: "husky_memcpy = memcpy"
  by (intro ext) (simp only: husky_memcpy_def memcpy_def husky_memcpy_loop_eq)

lemma husky_memmove_eq: "husky_memmove = memmove"
  by (intro ext) (simp only: husky_memmove_def memmove_def husky_memcpy_eq husky_memcpy_loop_eq
      husky_memmove_down_eq)

lemma husky_memset_eq: "husky_memset = memset"
  by (intro ext) (simp only: husky_memset_def memset_def set_pair_def memset_word_def Let_def
      husky_memset_words_eq)

interpretation husky: block_library husky_memset husky_memcpy husky_memcmp
  unfolding husky_memset_eq husky_memcpy_eq husky_memcmp_eq
  by (rule essentials.block_library_axioms)

section \<open>NUL-terminated strings\<close>

definition cstr :: "mem \<Rightarrow> u64 \<Rightarrow> u8 list \<Rightarrow> bool" where
  "cstr m p xs \<longleftrightarrow> length xs < 18446744073709551616 \<and> 0 \<notin> set xs
     \<and> ld_bytes m p (length xs) = xs \<and> m (p + of_nat (length xs)) = 0"

lemma cstr_Nil [simp]: "cstr m p [] \<longleftrightarrow> m p = 0"
  by (simp add: cstr_def ld_bytes_def)

lemma cstr_Cons:
  "cstr m p (x # xs) \<longleftrightarrow> Suc (length xs) < 18446744073709551616 \<and> m p = x \<and> x \<noteq> 0 \<and> cstr m (p + 1) xs"
  by (auto simp: cstr_def ld_bytes_Suc add.assoc)

lemma cstr_cong:
  assumes "cstr m p xs" "\<And>a. in_blk p (Suc (length xs)) a \<Longrightarrow> m' a = m a"
  shows "cstr m' p xs"
  using assms
proof (induction xs arbitrary: p)
  case (Cons x xs)
  have "cstr m' (p + 1) xs"
    by (rule Cons.IH) (use Cons.prems in \<open>auto simp: cstr_Cons in_blk_Suc [of p]\<close>)
  then show ?case using Cons.prems by (simp add: cstr_Cons)
qed simp

lemma cstr_length: "cstr m p xs \<Longrightarrow> unat (of_nat (length xs) :: u64) = length xs"
  by (simp add: cstr_def unat_of_nat64)

text \<open>The scan stops at the first NUL byte, and runs forever only if there is none.\<close>

lemma strlen_loop_cstr: "cstr m p xs \<Longrightarrow> strlen_loop m p = Some (p + of_nat (length xs))"
proof (induction xs arbitrary: p)
  case Nil
  then show ?case by (simp add: strlen_loop.simps)
next
  case (Cons x xs)
  then have "strlen_loop m (p + 1) = Some (p + 1 + of_nat (length xs))" by (simp add: cstr_Cons)
  then show ?case using Cons.prems by (subst strlen_loop.simps) (simp add: cstr_Cons add.assoc)
qed

lemma strlen_cstr: "cstr m p xs \<Longrightarrow> strlen m p = Some (of_nat (length xs))"
  by (simp add: strlen_def strlen_loop_cstr)

lemma cstr_exists:
  assumes "m a = 0"
  shows "\<exists>xs. cstr m p xs"
proof -
  let ?P = "\<lambda>i. m (p + of_nat i) = 0"
  have P: "?P (unat (a - p))" using assms by (simp add: of_nat_unat)
  let ?k = "LEAST i. ?P i"
  have k: "?P ?k" "?k \<le> unat (a - p)" using LeastI [of ?P, OF P] Least_le [of ?P, OF P] by auto
  have "\<not> ?P i" if "i < ?k" for i using that not_less_Least by blast
  then have "0 \<notin> set (ld_bytes m p ?k)" by (auto simp: ld_bytes_def)
  moreover have "?k < 18446744073709551616" using k(2) unat64_le [of "a - p"] by linarith
  ultimately have "cstr m p (ld_bytes m p ?k)" using k(1) by (simp add: cstr_def)
  then show ?thesis ..
qed

lemma strlen_loop_Some: "strlen_loop m p = Some r \<Longrightarrow> m r = 0"
  by (rule strlen_loop.raw_induct [where P = "\<lambda>m p r. m r = 0"]) (auto split: if_splits)

lemma strlen_None_iff: "strlen m p = None \<longleftrightarrow> (\<forall>a. m a \<noteq> 0)"
proof
  show "\<forall>a. m a \<noteq> 0" if "strlen m p = None"
    using that cstr_exists [of m _ p] strlen_cstr [of m p] by fastforce
  show "strlen m p = None" if "\<forall>a. m a \<noteq> 0"
    using that strlen_loop_Some [of m p] by (cases "strlen_loop m p") (auto simp: strlen_def)
qed

section \<open>Copying strings\<close>

text \<open>
  \<open>apart d s n\<close>: the destination \<open>d\<close> is not one of the \<open>n\<close> bytes after \<open>s\<close>'s first, so
  a forward copy never overwrites a source byte that is still to be read.
\<close>

definition apart :: "u64 \<Rightarrow> u64 \<Rightarrow> nat \<Rightarrow> bool" where
  "apart d s n \<longleftrightarrow> n \<le> unat (d - s)"

lemma apart_not_in: "apart d s (Suc n) \<Longrightarrow> in_blk (s + 1) n a \<Longrightarrow> a \<noteq> d"
proof
  assume "apart d s (Suc n)" "in_blk (s + 1) n a" "a = d"
  then have "unat (d - (s + 1)) < n" "Suc n \<le> unat (d - s)"
    by (auto simp: apart_def in_blk_def)
  moreover have "unat (d - s) = Suc (unat (d - s - 1))"
    using calculation(2) by (intro unat_minus1_Suc) auto
  ultimately show False by (simp add: algebra_simps)
qed

text \<open>One step of a forward copy, as the loops of the string functions take it.\<close>

lemma copy_blk_step:
  assumes "apart d s (Suc n)" "Suc n < 18446744073709551616"
  shows "copy_blk (m(d := m s)) (d + 1) (s + 1) n = copy_blk m d s (Suc n)"
proof
  fix a
  have src: "s + (a - d) \<noteq> d" if "in_blk (d + 1) n a"
  proof
    assume e: "s + (a - d) = d"
    have "d - (s + 1) = (s + (a - d)) - (s + 1)" by (simp only: e)
    also have "\<dots> = a - (d + 1)" by simp
    finally have "in_blk (s + 1) n d" using that by (simp only: in_blk_def)
    then show False using apart_not_in [OF assms(1)] by blast
  qed
  have "\<not> in_blk (d + 1) n d" using assms(2) by (simp add: in_blk_def)
  then show "copy_blk (m(d := m s)) (d + 1) (s + 1) n a = copy_blk m d s (Suc n) a"
    using src by (auto simp: copy_blk_def in_blk_Suc algebra_simps)
qed

lemma cstr_copy_step:
  assumes "cstr m s (x # xs)" and "apart d s (Suc (length (x # xs)))"
  shows "cstr (m(d := m s)) (s + 1) xs" and "apart (d + 1) (s + 1) (Suc (length xs))"
    and "copy_blk (m(d := m s)) (d + 1) (s + 1) (length xs) = copy_blk m d s (length (x # xs))"
    and "k \<le> length xs \<Longrightarrow>
      copy_blk (m(d := m s)) (d + 1) (s + 1) k = copy_blk m d s (Suc k)"
proof -
  show "cstr (m(d := m s)) (s + 1) xs"
    by (rule cstr_cong [of m]) (use assms apart_not_in in \<open>auto simp: cstr_Cons\<close>)
  show "apart (d + 1) (s + 1) (Suc (length xs))" using assms(2) by (simp add: apart_def)
  show k: "copy_blk (m(d := m s)) (d + 1) (s + 1) k = copy_blk m d s (Suc k)" if "k \<le> length xs" for k
    by (rule copy_blk_step) (use assms that in \<open>auto simp: apart_def cstr_Cons\<close>)
  show "copy_blk (m(d := m s)) (d + 1) (s + 1) (length xs) = copy_blk m d s (length (x # xs))"
    using k [of "length xs"] by simp
qed

lemma strcpy_loop_cstr:
  "cstr m s xs \<Longrightarrow> apart d s (Suc (length xs)) \<Longrightarrow>
   strcpy_loop m d s = Some (copy_blk m d s (length xs))"
proof (induction xs arbitrary: m d s)
  case Nil
  then show ?case by (simp add: strcpy_loop.simps)
next
  case (Cons x xs)
  note step = cstr_copy_step [OF Cons.prems]
  have "m s \<noteq> 0" using Cons.prems(1) by (auto simp: cstr_Cons)
  then show ?case
    by (subst strcpy_loop.simps) (simp only: Cons.IH [OF step(1,2)] step(3) if_True simp_thms)
qed

lemma strcpy_cstr:
  "cstr m s xs \<Longrightarrow> apart d s (Suc (length xs)) \<Longrightarrow>
   strcpy m d s = Some (d, copy_blk m d s (length xs))"
  by (simp add: strcpy_def strcpy_loop_cstr)

lemma strncpy_loop_cstr:
  "cstr m s xs \<Longrightarrow> apart d s (Suc (length xs)) \<Longrightarrow>
   strncpy_loop m d s num = Some (copy_blk m d s (length xs), num - of_nat (length xs))"
proof (induction xs arbitrary: m d s num)
  case Nil
  then show ?case by (simp add: strncpy_loop.simps)
next
  case (Cons x xs)
  note step = cstr_copy_step [OF Cons.prems]
  have "m s \<noteq> 0" using Cons.prems(1) by (auto simp: cstr_Cons)
  moreover have "num - 1 - of_nat (length xs) = num - of_nat (length (x # xs))" by simp
  ultimately show ?case
    by (subst strncpy_loop.simps) (simp only: Cons.IH [OF step(1,2)] step(3) if_True simp_thms)
qed

lemma strncpy_cstr:
  "cstr m s xs \<Longrightarrow> apart d s (Suc (length xs)) \<Longrightarrow>
   strncpy m d s num = Some (d, fill (copy_blk m d s (length xs)) d
     (unat (num - of_nat (length xs))) 0)"
  by (simp add: strncpy_def strncpy_loop_cstr husky.set_fn)

lemma strncat_loop_cstr:
  "cstr m s xs \<Longrightarrow> apart d s (Suc (length xs)) \<Longrightarrow>
   strncat_loop m d s num = (let k = min (unat num) (length xs) in (d + of_nat k, copy_blk m d s k))"
proof (induction xs arbitrary: m d s num)
  case Nil
  then show ?case by (subst strncat_loop.simps) simp
next
  case (Cons x xs)
  note step = cstr_copy_step [OF Cons.prems]
  have "m s \<noteq> 0" using Cons.prems(1) by (auto simp: cstr_Cons)
  show ?case
  proof (cases "num = 0")
    case True
    then show ?thesis by (subst strncat_loop.simps) simp
  next
    case False
    let ?k = "min (unat (num - 1)) (length xs)"
    have k: "min (unat num) (length (x # xs)) = Suc ?k"
      using unat_minus1_Suc [OF False] by simp
    have "copy_blk (m(d := m s)) (d + 1) (s + 1) ?k = copy_blk m d s (Suc ?k)"
      by (rule step(4)) simp
    moreover have "d + 1 + of_nat ?k = d + of_nat (Suc ?k)" by simp
    ultimately show ?thesis using False \<open>m s \<noteq> 0\<close>
      by (subst strncat_loop.simps) (simp only: Cons.IH [OF step(1,2)] k Let_def if_True simp_thms)
  qed
qed

lemma strncat_cstr:
  assumes "cstr m d ys" "cstr m s xs" "apart (d + of_nat (length ys)) s (Suc (length xs))"
    and k: "k = min (unat num) (length xs)" and e: "e = d + of_nat (length ys)"
  shows "strncat m d s num = Some (d, (copy_blk m e s k)(e + of_nat k := 0))"
  using assms by (simp add: strncat_def strlen_cstr strncat_loop_cstr Let_def)

lemma strcat_cstr:
  assumes "cstr m d ys" "cstr m s xs" "apart (d + of_nat (length ys)) s (Suc (length xs))"
  shows "strcat m d s = Some (d, copy_blk m (d + of_nat (length ys)) s (length xs))"
  using assms by (simp add: strcat_def strlen_cstr strcpy_cstr)

text \<open>The string a copy leaves when the byte behind it is (or is made) NUL.\<close>

lemma cstr_copy_append:
  assumes ys: "cstr m d ys" and xs: "cstr m s xs" and k: "k \<le> length xs"
    and n: "length ys + length xs < 18446744073709551616"
    and m': "\<And>a. in_blk e k a \<Longrightarrow> m' a = m (s + (a - e))"
    and keep: "\<And>a. in_blk d (length ys) a \<Longrightarrow> m' a = m a"
    and e: "e = d + of_nat (length ys)" and z: "m' (e + of_nat k) = 0"
  shows "cstr m' d (ys @ take k xs)"
  unfolding cstr_def
proof (intro conjI)
  have lk: "length (ys @ take k xs) = length ys + k" using k by simp
  show "length (ys @ take k xs) < 18446744073709551616" unfolding lk using k n by simp
  show "0 \<notin> set (ys @ take k xs)" using ys xs by (auto simp: cstr_def dest: in_set_takeD)
  show "m' (d + of_nat (length (ys @ take k xs))) = 0" unfolding lk using z e by (simp add: add.assoc)
  show "ld_bytes m' d (length (ys @ take k xs)) = ys @ take k xs"
  proof (rule nth_equalityI)
    fix i assume "i < length (ld_bytes m' d (length (ys @ take k xs)))"
    then have i: "i < length ys + k" by (simp only: ld_bytes_length lk)
    have u: "unat (of_nat i :: u64) = i" using i k n by (intro unat_of_nat64) simp
    have nths: "\<And>j. j < length ys \<Longrightarrow> ys ! j = m (d + of_nat j)" "\<And>j. j < length xs \<Longrightarrow> xs ! j = m (s + of_nat j)"
      using ys xs ld_bytes_nth by (metis cstr_def)+
    show "ld_bytes m' d (length (ys @ take k xs)) ! i = (ys @ take k xs) ! i"
    proof (cases "i < length ys")
      case True
      then show ?thesis using keep [of "d + of_nat i"] nths(1) [of i] u lk i
        by (simp add: nth_append in_blk_plus)
    next
      case False
      define j where "j = i - length ys"
      have j: "i = length ys + j" "j < k" using False i by (auto simp: j_def)
      have uj: "unat (of_nat j :: u64) = j" using j k n by (intro unat_of_nat64) simp
      have "m' (e + of_nat j) = m (s + of_nat j)" using m' [of "e + of_nat j"] j uj by (simp add: in_blk_plus)
      then show ?thesis using nths(2) [of j] j k lk e
        by (simp add: nth_append ld_bytes_def add.assoc)
    qed
  qed simp
qed

section \<open>Properties\<close>

text \<open>
  The block functions of \<open>c_husky\<close> and of \<open>chihuahua_essentials\<close> are the same
  functions, so what is proved of one library holds of the other.
\<close>

theorem husky_same_block_functions:
  "husky_memset = memset \<and> husky_memcpy = memcpy \<and> husky_memcmp = memcmp
   \<and> husky_memmove = memmove"
  by (simp only: husky_memset_eq husky_memcpy_eq husky_memcmp_eq husky_memmove_eq simp_thms)

text \<open>
  C26: \<open>strlen\<close> returns \<open>n\<close> exactly when a NUL-terminated string of length \<open>n\<close> starts at
  the argument, and fails to return exactly when memory holds no NUL byte at all.
\<close>

theorem strlen_measures_string:
  "(strlen m p = Some n \<longleftrightarrow> (\<exists>xs. cstr m p xs \<and> n = of_nat (length xs)))
   \<and> (strlen m p = None \<longleftrightarrow> (\<forall>a. m a \<noteq> 0))"
proof (rule conjI)
  show "strlen m p = Some n \<longleftrightarrow> (\<exists>xs. cstr m p xs \<and> n = of_nat (length xs))"
  proof
    assume n: "strlen m p = Some n"
    then obtain a where "m a = 0" using strlen_None_iff [of m p] by auto
    from cstr_exists [of m a p, OF this] obtain xs where "cstr m p xs" ..
    with n show "\<exists>xs. cstr m p xs \<and> n = of_nat (length xs)" by (auto simp: strlen_cstr)
  qed (auto simp: strlen_cstr)
qed (rule strlen_None_iff)

text \<open>
  C27: \<open>strncat\<close> appends the first \<open>num\<close> bytes of the source string (or all of it) to the
  destination string and terminates the result, when the end of the destination string
  is not inside the source string, the first one is not overwritten by the copy and the
  result fits the address space. Bytes outside the appended part keep their value.
\<close>

theorem strncat_appends:
  assumes "cstr m d ys" and "cstr m s xs"
    and "disj_blk (d + of_nat (length ys)) (Suc (length xs)) s (Suc (length xs))"
    and "length ys + length xs < 2 ^ 64 - 1"
  shows "\<exists>m'. strncat m d s num = Some (d, m') \<and> cstr m' d (ys @ take (unat num) xs)
    \<and> (\<forall>a. \<not> in_blk (d + of_nat (length ys)) (Suc (min (unat num) (length xs))) a \<longrightarrow> m' a = m a)"
proof -
  define k where "k = min (unat num) (length xs)"
  define e where "e = d + of_nat (length ys)"
  have k: "k \<le> length xs" "take (unat num) xs = take k xs" by (auto simp: k_def min_def)
  have uk: "unat (of_nat k :: u64) = k" using k assms(4) by (intro unat_of_nat64) simp
  define m' where "m' = (copy_blk m e s k)(e + of_nat k := 0)"
  have at: "m' a = (if in_blk e k a then m (s + (a - e)) else if a = e + of_nat k then 0 else m a)" for a
    using uk by (auto simp: m'_def copy_blk_apply in_blk_plus)
  have "cstr m' d (ys @ take k xs)"
  proof (rule cstr_copy_append [OF assms(1,2) k(1), of e])
    show "m' (e + of_nat k) = 0" using uk by (simp add: at in_blk_plus)
    show "m' a = m a" if "in_blk d (length ys) a" for a
    proof -
      have ul: "unat (of_nat (length ys) :: u64) = length ys" using assms(4) by (intro unat_of_nat64) simp
      have w: "a - e = (a - d) - of_nat (length ys)" by (simp add: e_def)
      have "18446744073709551615 < unat (a - e) + length ys"
        unfolding w using that ul unat_sub_cases [of "a - d" "of_nat (length ys)"] by (simp add: in_blk_def)
      then have "k < unat (a - e)" using assms(4) k(1) by simp
      then show ?thesis using uk by (auto simp: at in_blk_def)
    qed
  qed (use assms(4) at e_def in auto)
  moreover have "strncat m d s num = Some (d, m')"
    unfolding m'_def by (rule strncat_cstr [OF assms(1,2) _ k_def e_def])
      (use assms(3) in \<open>simp add: apart_def disj_blk_def disj_blk_sym\<close>)
  moreover have "m' a = m a" if "\<not> in_blk e (Suc k) a" for a
    using that uk by (auto simp: at in_blk_def less_Suc_eq)
  ultimately show ?thesis unfolding k(2) e_def [symmetric] k_def [symmetric] by blast
qed

theorem strncat_appends_witness:
  "\<exists>m'. strncat ((\<lambda>_. 0)(0 := 65, 16 := 66, 17 := 67)) 0 16 1 = Some (0, m')
    \<and> cstr m' 0 [65, 66]"
  using strncat_appends [of "(\<lambda>_. 0)(0 := 65, 16 := 66, 17 := 67)" 0 "[65]" 16 "[66, 67]" 1]
  by (auto simp: cstr_Cons disj_blk_def)

text \<open>
  C29: \<open>strcpy\<close> copies the bytes of the string but not its terminator: the byte behind the
  copy keeps its old value, so the destination holds the string exactly when that byte
  happened to be NUL before.
\<close>

theorem strcpy_omits_terminator:
  assumes "cstr m s xs" and "disj_blk d (Suc (length xs)) s (Suc (length xs))"
  shows "\<exists>m'. strcpy m d s = Some (d, m') \<and> ld_bytes m' d (length xs) = xs
    \<and> m' (d + of_nat (length xs)) = m (d + of_nat (length xs))
    \<and> (cstr m' d xs \<longleftrightarrow> m (d + of_nat (length xs)) = 0)"
proof -
  have ap: "apart d s (Suc (length xs))"
    using assms(2) by (simp add: apart_def disj_blk_def)
  have u: "unat (of_nat (length xs) :: u64) = length xs" using assms(1) by (rule cstr_length)
  let ?m = "copy_blk m d s (length xs)"
  have b: "ld_bytes ?m d (length xs) = ld_bytes m s (length xs)"
    by (rule nth_equalityI) (use u in \<open>auto simp: copy_blk_apply in_blk_plus unat_of_nat64_unat
        [of _ "of_nat (length xs)"]\<close>)
  have e: "?m (d + of_nat (length xs)) = m (d + of_nat (length xs))"
    using u by (simp add: copy_blk_apply in_blk_plus)
  show ?thesis using strcpy_cstr [OF assms(1) ap] assms(1) b e by (auto simp: cstr_def)
qed

theorem strcpy_omits_terminator_witness:
  "\<exists>m'. strcpy ((\<lambda>_. 9)(16 := 66, 17 := 0)) 0 16 = Some (0, m') \<and> m' 1 = 9 \<and> \<not> cstr m' 0 [66]"
  using strcpy_omits_terminator [of "(\<lambda>_. 9)(16 := 66, 17 := 0)" 16 "[66]" 0]
  by (auto simp: cstr_Cons disj_blk_def)

text \<open>
  C30: \<open>strncpy\<close> never looks at \<open>num\<close> while it copies the \<open>len\<close> bytes of the string, and then clears
  \<open>num - len\<close> bytes from the start of the destination, not behind the copy. With \<open>len \<le> num\<close> the
  first \<open>num - len\<close> bytes from the destination on are 0, those of the copy beyond them are the
  bytes of the string, and no other byte has changed, in particular none behind the copy unless
  \<open>num - len\<close> reaches that far; for \<open>len < num\<close> the result is the empty string. With \<open>len > num\<close> the
  count wraps around: the copy and all other memory are cleared, but for the \<open>len - num\<close> bytes
  directly below the destination, which keep their value. (The string and its copy, with the
  byte behind it, may not overlap.)
\<close>

theorem strncpy_clears_the_copy:
  assumes "cstr m s xs" and "disj_blk d (Suc (length xs)) s (Suc (length xs))"
  shows "\<exists>m'. strncpy m d s num = Some (d, m')
    \<and> (if length xs \<le> unat num
       then (\<forall>a. m' a = (if unat (a - d) < unat num - length xs then 0
              else if unat (a - d) < length xs then xs ! unat (a - d) else m a))
          \<and> (length xs < unat num \<longrightarrow> strlen m' d = Some 0)
       else \<forall>a. m' a = (if unat (a - d) < 2 ^ 64 - (length xs - unat num) then 0 else m a))"
proof -
  have ap: "apart d s (Suc (length xs))"
    using assms(2) by (simp add: apart_def disj_blk_def)
  have u: "unat (of_nat (length xs) :: u64) = length xs" using assms(1) by (rule cstr_length)
  define k where "k = unat (num - of_nat (length xs))"
  define m' where "m' = fill (copy_blk m d s (length xs)) d k 0"
  have k: "k = (if length xs \<le> unat num then unat num - length xs
      else 18446744073709551616 - (length xs - unat num))"
    unfolding k_def using unat_sub_cases [of num "of_nat (length xs)"] u by auto
  have src: "m (s + w) = xs ! unat w" if "unat w < length xs" for w
    using assms(1) that ld_bytes_nth [of "unat w" "length xs" m s] by (auto simp: cstr_def)
  have at: "m' a = (if unat (a - d) < k then 0
      else if unat (a - d) < length xs then xs ! unat (a - d) else m a)" for a
    using src [of "a - d"] by (simp add: m'_def fill_apply copy_blk_apply in_blk_def)
  have "2 * length xs < 18446744073709551616"
    using assms(2) unat_sub_cases [of 0 "d - s"] by (auto simp: disj_blk_def split: if_splits)
  then have "unat (a - d) < length xs \<Longrightarrow>
      unat (a - d) < 18446744073709551616 - (length xs - unat num)" for a by linarith
  then have "m' a = (if unat (a - d) < 18446744073709551616 - (length xs - unat num) then 0 else m a)"
    if "unat num < length xs" for a
    using that unfolding at k by (auto simp: not_le)
  moreover have "strlen m' d = Some 0" if "length xs < unat num"
    using that at [of d] k strlen_cstr [of m' d "[]"] by simp
  ultimately show ?thesis
    using strncpy_cstr [OF assms(1) ap, of num] at k unfolding k_def [symmetric] m'_def [symmetric]
    by (intro exI [of _ m']) (simp add: not_le)
qed

text \<open>A string of two bytes: with \<open>num = 3\<close> its first byte is cleared, with \<open>num = 1\<close> all but one byte.\<close>

theorem strncpy_clears_the_copy_witness:
  "\<exists>m1 m3. strncpy ((\<lambda>_. 9)(16 := 66, 17 := 67, 18 := 0)) 0 16 1 = Some (0, m1)
    \<and> m1 0 = 0 \<and> m1 4096 = 0 \<and> m1 (- 1) = 9
    \<and> strncpy ((\<lambda>_. 9)(16 := 66, 17 := 67, 18 := 0)) 0 16 3 = Some (0, m3)
    \<and> m3 0 = 0 \<and> m3 1 = 67 \<and> m3 2 = 9 \<and> strlen m3 0 = Some 0"
proof -
  let ?m = "(\<lambda>_. 9)(16 := 66, 17 := 67, 18 := 0) :: mem"
  let ?xs = "[66, 67] :: u8 list"
  have "cstr ?m 16 ?xs" "disj_blk 0 (Suc (length ?xs)) 16 (Suc (length ?xs))"
    by (simp_all add: cstr_Cons disj_blk_def)
  note r = strncpy_clears_the_copy [OF this]
  obtain m1 where 1: "strncpy ?m 0 16 1 = Some (0, m1)"
      "\<And>a. m1 a = (if unat a < 18446744073709551615 then 0 else ?m a)"
    using r [of 1] by auto
  obtain m3 where 3: "strncpy ?m 0 16 3 = Some (0, m3)" "strlen m3 0 = Some 0"
      "\<And>a. m3 a = (if unat a < 1 then 0 else if unat a < 2 then ?xs ! unat a else ?m a)"
    using r [of 3] by auto
  have "m1 0 = 0" "m1 4096 = 0" "m1 (- 1) = 9" "m3 0 = 0" "m3 1 = 67" "m3 2 = 9"
    unfolding 1(2) 3(3) by simp_all
  with 1(1) 3(1,2) show ?thesis by blast
qed

end
