(* ===== verification/CLayout.thy ===== *)
theory CLayout
  imports CMem
begin

text \<open>
  The layout of C structures on the target (x86_64, natural alignment): sizes,
  alignments and field offsets computed from a declaration, for the structures
  the program reads from memory (ELF headers, firmware tables). \<open>CPacked\<close> is a
  structure under \<open>#pragma pack(1)\<close>. Enumerations without a fixed underlying type
  are 4-byte integers, pointers are 8 bytes.

  The lemmas show that in a well-formed declaration every field is aligned, that
  fields do not overlap and lie inside the structure, and that the size is a
  multiple of the alignment, so elements of an array keep theirs.
\<close>

section \<open>Declarations\<close>

datatype cty =
    CInt nat
  | CPtr string
  | CArr cty nat
  | CStruct "(string \<times> cty) list"
  | CUnion "(string \<times> cty) list"
  | CPacked "(string \<times> cty) list"

abbreviation "C8 \<equiv> CInt 1"
abbreviation "C16 \<equiv> CInt 2"
abbreviation "C32 \<equiv> CInt 4"
abbreviation "C64 \<equiv> CInt 8"

definition align_up :: "nat \<Rightarrow> nat \<Rightarrow> nat" where
  "align_up x a = (x + a - 1) div a * a"

fun calign :: "cty \<Rightarrow> nat" and falign :: "(string \<times> cty) list \<Rightarrow> nat" where
  "calign (CInt n) = n"
| "calign (CPtr s) = 8"
| "calign (CArr t n) = calign t"
| "calign (CStruct fs) = falign fs"
| "calign (CUnion fs) = falign fs"
| "calign (CPacked fs) = 1"
| "falign [] = 1"
| "falign ((f, t) # fs) = max (calign t) (falign fs)"

fun csize :: "cty \<Rightarrow> nat" and fields_end :: "nat \<Rightarrow> (string \<times> cty) list \<Rightarrow> nat"
  and fields_max :: "(string \<times> cty) list \<Rightarrow> nat" and fields_sum :: "(string \<times> cty) list \<Rightarrow> nat" where
  "csize (CInt n) = n"
| "csize (CPtr s) = 8"
| "csize (CArr t n) = n * csize t"
| "csize (CStruct fs) = align_up (fields_end 0 fs) (falign fs)"
| "csize (CUnion fs) = align_up (fields_max fs) (falign fs)"
| "csize (CPacked fs) = fields_sum fs"
| "fields_end p [] = p"
| "fields_end p ((f, t) # fs) = fields_end (align_up p (calign t) + csize t) fs"
| "fields_max [] = 0"
| "fields_max ((f, t) # fs) = max (csize t) (fields_max fs)"
| "fields_sum [] = 0"
| "fields_sum ((f, t) # fs) = csize t + fields_sum fs"

fun field_offsets :: "nat \<Rightarrow> (string \<times> cty) list \<Rightarrow> (string \<times> nat \<times> cty) list" where
  "field_offsets p [] = []"
| "field_offsets p ((f, t) # fs) =
     (let q = align_up p (calign t) in (f, q, t) # field_offsets (q + csize t) fs)"

fun packed_offsets :: "nat \<Rightarrow> (string \<times> cty) list \<Rightarrow> (string \<times> nat \<times> cty) list" where
  "packed_offsets p [] = []"
| "packed_offsets p ((f, t) # fs) = (f, p, t) # packed_offsets (p + csize t) fs"

fun layout :: "cty \<Rightarrow> (string \<times> nat \<times> cty) list" where
  "layout (CStruct fs) = field_offsets 0 fs"
| "layout (CUnion fs) = map (\<lambda>(f, t). (f, 0, t)) fs"
| "layout (CPacked fs) = packed_offsets 0 fs"
| "layout _ = []"

definition field :: "cty \<Rightarrow> string \<Rightarrow> (nat \<times> cty) option" where
  "field t f = map_of (layout t) f"

definition offset :: "cty \<Rightarrow> string \<Rightarrow> nat option" where
  "offset t f = map_option fst (field t f)"

text \<open>The address of a field of the structure at \<open>p\<close>.\<close>

definition fld :: "cty \<Rightarrow> string \<Rightarrow> u64 \<Rightarrow> u64" where
  "fld t f p = p + of_nat (the (offset t f))"

section \<open>Well-formed declarations\<close>

fun cwf :: "cty \<Rightarrow> bool" and fwf :: "(string \<times> cty) list \<Rightarrow> bool" where
  "cwf (CInt n) \<longleftrightarrow> n = 1 \<or> n = 2 \<or> n = 4 \<or> n = 8"
| "cwf (CPtr s) \<longleftrightarrow> True"
| "cwf (CArr t n) \<longleftrightarrow> cwf t"
| "cwf (CStruct fs) \<longleftrightarrow> fwf fs \<and> distinct (map fst fs)"
| "cwf (CUnion fs) \<longleftrightarrow> fwf fs \<and> distinct (map fst fs)"
| "cwf (CPacked fs) \<longleftrightarrow> fwf fs \<and> distinct (map fst fs)"
| "fwf [] \<longleftrightarrow> True"
| "fwf ((f, t) # fs) \<longleftrightarrow> cwf t \<and> fwf fs"

section \<open>Alignment\<close>

lemma align_up_ge: "0 < a \<Longrightarrow> x \<le> align_up x a"
proof -
  assume a: "0 < a"
  have "x + a - 1 = (x + a - 1) div a * a + (x + a - 1) mod a" by simp
  moreover have "(x + a - 1) mod a < a" using a by simp
  ultimately show ?thesis unfolding align_up_def using a by linarith
qed

lemma align_up_dvd: "a dvd align_up x a"
  by (simp add: align_up_def)

lemma align_up_less: "0 < a \<Longrightarrow> align_up x a < x + a"
proof -
  assume a: "0 < a"
  have "(x + a - 1) div a * a \<le> x + a - 1" by (rule div_times_less_eq_dividend)
  then show ?thesis unfolding align_up_def using a by linarith
qed

lemma calign_values: "cwf t \<Longrightarrow> calign t \<in> {1, 2, 4, 8}"
  and falign_values: "fwf fs \<Longrightarrow> falign fs \<in> {1, 2, 4, 8}"
  by (induction t and fs rule: calign_falign.induct) (auto simp: max_def)

lemma calign_pos: "cwf t \<Longrightarrow> 0 < calign t"
  using calign_values by fastforce

lemma falign_pos: "fwf fs \<Longrightarrow> 0 < falign fs"
  using falign_values by fastforce

lemma calign_dvd_falign: "fwf fs \<Longrightarrow> (f, t) \<in> set fs \<Longrightarrow> calign t dvd falign fs"
proof (induction fs)
  case (Cons g fs)
  obtain h u where g: "g = (h, u)" by force
  have dv: "x dvd max y z" if "x dvd y" "y \<in> {1, 2, 4, 8}" "z \<in> {1, 2, 4, 8}" for x y z :: nat
  proof -
    have "y dvd max y z" using that(2,3) by (auto simp: max_def)
    with that(1) show ?thesis by (rule dvd_trans)
  qed
  have vals: "calign u \<in> {1, 2, 4, 8}" "falign fs \<in> {1, 2, 4, 8}"
    by (rule calign_values falign_values, use Cons.prems(1) g in simp)+
  show ?case
  proof (cases "(f, t) = (h, u)")
    case True
    then show ?thesis using dv [OF dvd_refl vals] g by simp
  next
    case False
    then have "calign t dvd falign fs" using Cons g by auto
    from dv [OF this vals(2,1)] show ?thesis using g by (simp add: max.commute)
  qed
qed simp

lemma calign_dvd_csize: "cwf t \<Longrightarrow> calign t dvd csize t"
  by (induction t) (auto simp: align_up_dvd)

section \<open>Fields are aligned, ordered and inside the structure\<close>

lemma field_offsets_aligned: "(f, q, t) \<in> set (field_offsets p fs) \<Longrightarrow> calign t dvd q"
  by (induction p fs rule: field_offsets.induct) (auto simp: Let_def align_up_dvd)

lemma field_offsets_ge:
  "fwf fs \<Longrightarrow> (f, q, t) \<in> set (field_offsets p fs) \<Longrightarrow> p \<le> q"
proof (induction p fs rule: field_offsets.induct)
  case (2 p g u fs)
  then have "p \<le> align_up p (calign u)" by (simp add: align_up_ge calign_pos)
  with 2 show ?case by (fastforce simp: Let_def)
qed simp

lemma fields_end_ge: "fwf fs \<Longrightarrow> p \<le> fields_end p fs"
proof (induction fs arbitrary: p)
  case (Cons g fs)
  obtain h u where g: "g = (h, u)" by force
  have "p \<le> align_up p (calign u)" using Cons.prems g by (simp add: align_up_ge calign_pos)
  moreover have "align_up p (calign u) + csize u \<le> fields_end (align_up p (calign u) + csize u) fs"
    by (rule Cons.IH) (use Cons.prems g in simp)
  ultimately show ?case using g by simp
qed simp

lemma field_offsets_end:
  "fwf fs \<Longrightarrow> (f, q, t) \<in> set (field_offsets p fs) \<Longrightarrow> q + csize t \<le> fields_end p fs"
proof (induction p fs rule: field_offsets.induct)
  case (2 p g u fs)
  then show ?case
    using fields_end_ge [of fs "align_up p (calign u) + csize u"] by (auto simp: Let_def)
qed simp

text \<open>Two fields listed one after the other do not overlap.\<close>

lemma field_offsets_ordered:
  "fwf fs \<Longrightarrow> sorted_wrt (\<lambda>(f, q, t) (g, r, u). q + csize t \<le> r) (field_offsets p fs)"
proof (induction p fs rule: field_offsets.induct)
  case (2 p g u fs)
  then show ?case using field_offsets_ge [of fs] by (fastforce simp: Let_def)
qed simp

lemma struct_field_inside:
  "cwf (CStruct fs) \<Longrightarrow> (f, q, t) \<in> set (layout (CStruct fs)) \<Longrightarrow> q + csize t \<le> csize (CStruct fs)"
  using field_offsets_end [of fs f q t 0] align_up_ge [of "falign fs" "fields_end 0 fs"]
  by (simp add: falign_pos)

lemma packed_offsets_ge: "(f, q, t) \<in> set (packed_offsets p fs) \<Longrightarrow> p \<le> q"
  by (induction p fs rule: packed_offsets.induct) fastforce+

lemma packed_offsets_end:
  "(f, q, t) \<in> set (packed_offsets p fs) \<Longrightarrow> q + csize t \<le> p + fields_sum fs"
  by (induction p fs rule: packed_offsets.induct) fastforce+

lemma packed_offsets_ordered:
  "sorted_wrt (\<lambda>(f, q, t) (g, r, u). q + csize t \<le> r) (packed_offsets p fs)"
proof (induction p fs rule: packed_offsets.induct)
  case (2 p f t fs)
  then show ?case using packed_offsets_ge by fastforce
qed simp

lemma map_of_fst_layout:
  "map_option fst (map_of xs f) = map_of (map (\<lambda>(g, q, t). (g, q)) xs) f"
  by (induction xs) auto

lemma offset_layout: "offset t f = map_of (map (\<lambda>(g, q, u). (g, q)) (layout t)) f"
  by (simp add: offset_def field_def map_of_fst_layout)

lemmas layout_defs = layout.simps field_def offset_def field_offsets.simps packed_offsets.simps
  align_up_def calign.simps falign.simps csize.simps fields_end.simps fields_max.simps
  fields_sum.simps

end
