(* ===== verification/Elf_Definitions.thy ===== *)
theory Elf_Definitions
  imports CLayout
begin

text \<open>
  \<open>static_libs/elf/include/elf/elf_definitions.h\<close>: the ELF-64 constants,
  enumerations and structures. An enumeration with a fixed underlying type can
  hold any value of that type (the loader reads it from the file), so a field is
  the machine integer and each enumerator a constant of it. A structure is a
  record, its C declaration a \<open>cty\<close>, and reading it from memory loads each field
  at the offset the layout gives.
\<close>

section \<open>Constants and enumerations\<close>

definition ELF_IDENT_SIZE :: nat where "ELF_IDENT_SIZE = 16"
definition ELF_MAG0 :: u8 where "ELF_MAG0 = 0x7F"
definition ELF_MAG1 :: u8 where "ELF_MAG1 = 0x45"
definition ELF_MAG2 :: u8 where "ELF_MAG2 = 0x4C"
definition ELF_MAG3 :: u8 where "ELF_MAG3 = 0x46"

datatype Elf_IdentIndex = EI_MAG0 | EI_MAG1 | EI_MAG2 | EI_MAG3 | EI_CLASS | EI_DATA
  | EI_VERSION | EI_OSABI | EI_ABIVERSION | EI_PAD

fun ident_index :: "Elf_IdentIndex \<Rightarrow> nat" where
  "ident_index EI_MAG0 = 0"
| "ident_index EI_MAG1 = 1"
| "ident_index EI_MAG2 = 2"
| "ident_index EI_MAG3 = 3"
| "ident_index EI_CLASS = 4"
| "ident_index EI_DATA = 5"
| "ident_index EI_VERSION = 6"
| "ident_index EI_OSABI = 7"
| "ident_index EI_ABIVERSION = 8"
| "ident_index EI_PAD = 9"

type_synonym Elf64_Addr = u64
type_synonym Elf_Type = u16
type_synonym Elf_Machine = u16
type_synonym Elf_SegmentType = u32
type_synonym Elf_SegmentFlags = u32
type_synonym Elf_SectionType = u32
type_synonym Elf_SectionFlags = u64

definition ET_NONE :: Elf_Type where "ET_NONE = 0"
definition ET_REL :: Elf_Type where "ET_REL = 1"
definition ET_EXEC :: Elf_Type where "ET_EXEC = 2"
definition ET_DYN :: Elf_Type where "ET_DYN = 3"
definition ET_CORE :: Elf_Type where "ET_CORE = 4"
definition ET_LOOS :: Elf_Type where "ET_LOOS = 0xFE00"
definition ET_HIOS :: Elf_Type where "ET_HIOS = 0xFEFF"

definition EM_x86_64 :: Elf_Machine where "EM_x86_64 = 0x3E"
definition EM_AArch64 :: Elf_Machine where "EM_AArch64 = 0xB7"

definition PT_NULL :: Elf_SegmentType where "PT_NULL = 0"
definition PT_LOAD :: Elf_SegmentType where "PT_LOAD = 1"
definition PT_DYNAMIC :: Elf_SegmentType where "PT_DYNAMIC = 2"
definition PT_INTERP :: Elf_SegmentType where "PT_INTERP = 3"
definition PT_NOTE :: Elf_SegmentType where "PT_NOTE = 4"
definition PT_SHLIB :: Elf_SegmentType where "PT_SHLIB = 5"
definition PT_PHDR :: Elf_SegmentType where "PT_PHDR = 6"
definition PT_TLS :: Elf_SegmentType where "PT_TLS = 7"
definition PT_LOOS :: Elf_SegmentType where "PT_LOOS = 0x60000000"
definition PT_HIOS :: Elf_SegmentType where "PT_HIOS = 0x6FFFFFFF"

definition PF_X :: Elf_SegmentFlags where "PF_X = 1"
definition PF_W :: Elf_SegmentFlags where "PF_W = 2"
definition PF_R :: Elf_SegmentFlags where "PF_R = 4"

text \<open>\<open>operator|\<close> goes through \<open>int\<close>, which has the 32 bits of the underlying type.\<close>

definition segment_flags_or :: "Elf_SegmentFlags \<Rightarrow> Elf_SegmentFlags \<Rightarrow> Elf_SegmentFlags" where
  "segment_flags_or a b = a OR b"

definition SHT_NULL :: Elf_SectionType where "SHT_NULL = 0"
definition SHT_PROGBITS :: Elf_SectionType where "SHT_PROGBITS = 1"
definition SHT_SYMTAB :: Elf_SectionType where "SHT_SYMTAB = 2"
definition SHT_STRTAB :: Elf_SectionType where "SHT_STRTAB = 3"
definition SHT_RELA :: Elf_SectionType where "SHT_RELA = 4"
definition SHT_HASH :: Elf_SectionType where "SHT_HASH = 5"
definition SHT_DYNAMIC :: Elf_SectionType where "SHT_DYNAMIC = 6"
definition SHT_NOTE :: Elf_SectionType where "SHT_NOTE = 7"
definition SHT_NOBITS :: Elf_SectionType where "SHT_NOBITS = 8"
definition SHT_REL :: Elf_SectionType where "SHT_REL = 9"
definition SHT_SHLIB :: Elf_SectionType where "SHT_SHLIB = 0x0A"
definition SHT_DYNSYM :: Elf_SectionType where "SHT_DYNSYM = 0x0B"
definition SHT_INIT_ARRAY :: Elf_SectionType where "SHT_INIT_ARRAY = 0x0E"
definition SHT_FINI_ARRAY :: Elf_SectionType where "SHT_FINI_ARRAY = 0x0F"
definition SHT_PREINIT_ARRAY :: Elf_SectionType where "SHT_PREINIT_ARRAY = 0x10"
definition SHT_GROUP :: Elf_SectionType where "SHT_GROUP = 0x11"
definition SHT_SYMTAB_SHNDX :: Elf_SectionType where "SHT_SYMTAB_SHNDX = 0x12"
definition SHT_NUM :: Elf_SectionType where "SHT_NUM = 0x13"

definition SHF_WRITE :: Elf_SectionFlags where "SHF_WRITE = 0x01"
definition SHF_ALLOC :: Elf_SectionFlags where "SHF_ALLOC = 0x02"
definition SHF_EXECINSTR :: Elf_SectionFlags where "SHF_EXECINSTR = 0x04"
definition SHF_MERGE :: Elf_SectionFlags where "SHF_MERGE = 0x10"
definition SHF_STRINGS :: Elf_SectionFlags where "SHF_STRINGS = 0x20"
definition SHF_INFO_LINK :: Elf_SectionFlags where "SHF_INFO_LINK = 0x40"
definition SHF_LINK_ORDER :: Elf_SectionFlags where "SHF_LINK_ORDER = 0x80"
definition SHF_OS_NONCONFORMING :: Elf_SectionFlags where "SHF_OS_NONCONFORMING = 0x100"
definition SHF_GROUP :: Elf_SectionFlags where "SHF_GROUP = 0x200"
definition SHF_TLS :: Elf_SectionFlags where "SHF_TLS = 0x400"

text \<open>
  \<open>operator|\<close> on the 64-bit section flags casts both sides to \<open>int\<close>: the upper half is
  dropped and the result is sign-extended back.
\<close>

definition section_flags_or :: "Elf_SectionFlags \<Rightarrow> Elf_SectionFlags \<Rightarrow> Elf_SectionFlags" where
  "section_flags_or a b = scast ((ucast a :: u32) OR ucast b)"

section \<open>Structures\<close>

record Elf64_ElfHeader =
  Identifiers :: "u8 list"
  Type :: Elf_Type
  Machine :: Elf_Machine
  Version :: u32
  EntryPoint :: Elf64_Addr
  ProgHeaderOffset :: u64
  SectionHeaderOffset :: u64
  ElfFlags :: u32
  ThisSize :: u16
  ProgHeaderEntrySize :: u16
  ProgHeaderTableEntriesNum :: u16
  SectionHeaderEntrySize :: u16
  SectionHeaderTableEntriesNum :: u16
  SectionNamesEntryIndex :: u16

definition Elf64_ElfHeader_t :: cty where
  "Elf64_ElfHeader_t = CStruct [(''Identifiers'', CArr C8 16), (''Type'', C16), (''Machine'', C16),
     (''Version'', C32), (''EntryPoint'', C64), (''ProgHeaderOffset'', C64),
     (''SectionHeaderOffset'', C64), (''Flags'', C32), (''ThisSize'', C16),
     (''ProgHeaderEntrySize'', C16), (''ProgHeaderTableEntriesNum'', C16),
     (''SectionHeaderEntrySize'', C16), (''SectionHeaderTableEntriesNum'', C16),
     (''SectionNamesEntryIndex'', C16)]"

record Elf64_ProgHeader =
  SegmentType :: Elf_SegmentType
  SegFlags :: Elf_SegmentFlags
  Offset :: u64
  VirtAddress :: Elf64_Addr
  PhysAddress :: Elf64_Addr
  SizeInFile :: u64
  SizeInMemory :: u64
  Alignment :: u64

definition Elf64_ProgHeader_t :: cty where
  "Elf64_ProgHeader_t = CStruct [(''SegmentType'', C32), (''Flags'', C32), (''Offset'', C64),
     (''VirtAddress'', C64), (''PhysAddress'', C64), (''SizeInFile'', C64),
     (''SizeInMemory'', C64), (''Alignment'', C64)]"

record Elf64_SectionHeader =
  SectionNameIndex :: u32
  SectionHeaderType :: Elf_SectionType
  SecFlags :: Elf_SectionFlags
  VirtualAddress :: Elf64_Addr
  OffsetInFile :: u64
  SectionSize :: u64
  LinkInfo :: u32
  Info :: u32
  AddressAlignment :: u64
  EntryFixedSize :: u64

definition Elf64_SectionHeader_t :: cty where
  "Elf64_SectionHeader_t = CStruct [(''SectionNameIndex'', C32), (''SectionHeaderType'', C32),
     (''Flags'', C64), (''VirtualAddress'', C64), (''OffsetInFile'', C64), (''SectionSize'', C64),
     (''LinkInfo'', C32), (''Info'', C32), (''AddressAlignment'', C64), (''EntryFixedSize'', C64)]"

section \<open>Reading a structure from memory\<close>

definition read_ElfHeader :: "mem \<Rightarrow> u64 \<Rightarrow> Elf64_ElfHeader" where
  "read_ElfHeader m p = (let f = (\<lambda>s. fld Elf64_ElfHeader_t s p) in
   \<lparr> Identifiers = ld_bytes m (f ''Identifiers'') ELF_IDENT_SIZE, Type = ld16 m (f ''Type''),
     Machine = ld16 m (f ''Machine''), Version = ld32 m (f ''Version''),
     EntryPoint = ld64 m (f ''EntryPoint''), ProgHeaderOffset = ld64 m (f ''ProgHeaderOffset''),
     SectionHeaderOffset = ld64 m (f ''SectionHeaderOffset''), ElfFlags = ld32 m (f ''Flags''),
     ThisSize = ld16 m (f ''ThisSize''), ProgHeaderEntrySize = ld16 m (f ''ProgHeaderEntrySize''),
     ProgHeaderTableEntriesNum = ld16 m (f ''ProgHeaderTableEntriesNum''),
     SectionHeaderEntrySize = ld16 m (f ''SectionHeaderEntrySize''),
     SectionHeaderTableEntriesNum = ld16 m (f ''SectionHeaderTableEntriesNum''),
     SectionNamesEntryIndex = ld16 m (f ''SectionNamesEntryIndex'') \<rparr>)"

definition read_ProgHeader :: "mem \<Rightarrow> u64 \<Rightarrow> Elf64_ProgHeader" where
  "read_ProgHeader m p = (let f = (\<lambda>s. fld Elf64_ProgHeader_t s p) in
   \<lparr> SegmentType = ld32 m (f ''SegmentType''), SegFlags = ld32 m (f ''Flags''),
     Offset = ld64 m (f ''Offset''), VirtAddress = ld64 m (f ''VirtAddress''),
     PhysAddress = ld64 m (f ''PhysAddress''), SizeInFile = ld64 m (f ''SizeInFile''),
     SizeInMemory = ld64 m (f ''SizeInMemory''), Alignment = ld64 m (f ''Alignment'') \<rparr>)"

definition read_SectionHeader :: "mem \<Rightarrow> u64 \<Rightarrow> Elf64_SectionHeader" where
  "read_SectionHeader m p = (let f = (\<lambda>s. fld Elf64_SectionHeader_t s p) in
   \<lparr> SectionNameIndex = ld32 m (f ''SectionNameIndex''),
     SectionHeaderType = ld32 m (f ''SectionHeaderType''), SecFlags = ld64 m (f ''Flags''),
     VirtualAddress = ld64 m (f ''VirtualAddress''), OffsetInFile = ld64 m (f ''OffsetInFile''),
     SectionSize = ld64 m (f ''SectionSize''), LinkInfo = ld32 m (f ''LinkInfo''),
     Info = ld32 m (f ''Info''), AddressAlignment = ld64 m (f ''AddressAlignment''),
     EntryFixedSize = ld64 m (f ''EntryFixedSize'') \<rparr>)"

lemma elf_sizes [layout_simps]:
  "csize Elf64_ElfHeader_t = 64" "csize Elf64_ProgHeader_t = 56" "csize Elf64_SectionHeader_t = 64"
  by (simp_all add: Elf64_ElfHeader_t_def Elf64_ProgHeader_t_def Elf64_SectionHeader_t_def
      align_up_def)

lemma elf_header_offsets:
  "offset Elf64_ElfHeader_t ''Identifiers'' = Some 0
   \<and> offset Elf64_ElfHeader_t ''Type'' = Some 16
   \<and> offset Elf64_ElfHeader_t ''Machine'' = Some 18
   \<and> offset Elf64_ElfHeader_t ''Version'' = Some 20
   \<and> offset Elf64_ElfHeader_t ''EntryPoint'' = Some 24
   \<and> offset Elf64_ElfHeader_t ''ProgHeaderOffset'' = Some 32
   \<and> offset Elf64_ElfHeader_t ''SectionHeaderOffset'' = Some 40
   \<and> offset Elf64_ElfHeader_t ''Flags'' = Some 48
   \<and> offset Elf64_ElfHeader_t ''ThisSize'' = Some 52
   \<and> offset Elf64_ElfHeader_t ''ProgHeaderEntrySize'' = Some 54
   \<and> offset Elf64_ElfHeader_t ''ProgHeaderTableEntriesNum'' = Some 56
   \<and> offset Elf64_ElfHeader_t ''SectionHeaderEntrySize'' = Some 58
   \<and> offset Elf64_ElfHeader_t ''SectionHeaderTableEntriesNum'' = Some 60
   \<and> offset Elf64_ElfHeader_t ''SectionNamesEntryIndex'' = Some 62"
  by code_simp

lemma prog_header_offsets:
  "offset Elf64_ProgHeader_t ''SegmentType'' = Some 0
   \<and> offset Elf64_ProgHeader_t ''Flags'' = Some 4
   \<and> offset Elf64_ProgHeader_t ''Offset'' = Some 8
   \<and> offset Elf64_ProgHeader_t ''VirtAddress'' = Some 16
   \<and> offset Elf64_ProgHeader_t ''PhysAddress'' = Some 24
   \<and> offset Elf64_ProgHeader_t ''SizeInFile'' = Some 32
   \<and> offset Elf64_ProgHeader_t ''SizeInMemory'' = Some 40
   \<and> offset Elf64_ProgHeader_t ''Alignment'' = Some 48"
  by code_simp

lemma section_header_offsets:
  "offset Elf64_SectionHeader_t ''SectionNameIndex'' = Some 0
   \<and> offset Elf64_SectionHeader_t ''SectionHeaderType'' = Some 4
   \<and> offset Elf64_SectionHeader_t ''Flags'' = Some 8
   \<and> offset Elf64_SectionHeader_t ''VirtualAddress'' = Some 16
   \<and> offset Elf64_SectionHeader_t ''OffsetInFile'' = Some 24
   \<and> offset Elf64_SectionHeader_t ''SectionSize'' = Some 32
   \<and> offset Elf64_SectionHeader_t ''LinkInfo'' = Some 40
   \<and> offset Elf64_SectionHeader_t ''Info'' = Some 44
   \<and> offset Elf64_SectionHeader_t ''AddressAlignment'' = Some 48
   \<and> offset Elf64_SectionHeader_t ''EntryFixedSize'' = Some 56"
  by code_simp

text \<open>The loads with the offsets evaluated.\<close>

lemma read_ElfHeader_eq:
  "read_ElfHeader m p = \<lparr> Identifiers = ld_bytes m p 16, Type = ld16 m (p + 16),
     Machine = ld16 m (p + 18), Version = ld32 m (p + 20), EntryPoint = ld64 m (p + 24),
     ProgHeaderOffset = ld64 m (p + 32), SectionHeaderOffset = ld64 m (p + 40),
     ElfFlags = ld32 m (p + 48), ThisSize = ld16 m (p + 52), ProgHeaderEntrySize = ld16 m (p + 54),
     ProgHeaderTableEntriesNum = ld16 m (p + 56), SectionHeaderEntrySize = ld16 m (p + 58),
     SectionHeaderTableEntriesNum = ld16 m (p + 60), SectionNamesEntryIndex = ld16 m (p + 62) \<rparr>"
  by (simp add: read_ElfHeader_def fld_def elf_header_offsets ELF_IDENT_SIZE_def)

lemma read_ProgHeader_eq:
  "read_ProgHeader m p = \<lparr> SegmentType = ld32 m p, SegFlags = ld32 m (p + 4),
     Offset = ld64 m (p + 8), VirtAddress = ld64 m (p + 16), PhysAddress = ld64 m (p + 24),
     SizeInFile = ld64 m (p + 32), SizeInMemory = ld64 m (p + 40), Alignment = ld64 m (p + 48) \<rparr>"
  by (simp add: read_ProgHeader_def fld_def prog_header_offsets)

lemma read_SectionHeader_eq:
  "read_SectionHeader m p = \<lparr> SectionNameIndex = ld32 m p, SectionHeaderType = ld32 m (p + 4),
     SecFlags = ld64 m (p + 8), VirtualAddress = ld64 m (p + 16), OffsetInFile = ld64 m (p + 24),
     SectionSize = ld64 m (p + 32), LinkInfo = ld32 m (p + 40), Info = ld32 m (p + 44),
     AddressAlignment = ld64 m (p + 48), EntryFixedSize = ld64 m (p + 56) \<rparr>"
  by (simp add: read_SectionHeader_def fld_def section_header_offsets)

text \<open>A header depends on its own bytes only.\<close>

lemma read_ProgHeader_cong:
  assumes "\<And>a. in_blk p 56 a \<Longrightarrow> m a = m' a"
  shows "read_ProgHeader m p = read_ProgHeader m' p"
proof -
  have b: "in_blk (p + q) k a \<Longrightarrow> unat q + k \<le> 56 \<Longrightarrow> m a = m' a" for q k a
    using in_blk_shift [of p q k a 56] assms by simp
  have w: "ld32 m p = ld32 m' p" "ld32 m (p + 4) = ld32 m' (p + 4)"
    by (rule ld32_cong, use b [of 0 4] b [of 4 4] in simp)+
  have d: "ld64 m (p + q) = ld64 m' (p + q)" if "unat q + 8 \<le> 56" for q
    by (rule ld64_cong) (use b [of q 8] that in simp)
  show ?thesis unfolding read_ProgHeader_eq using w by (simp add: d)
qed

lemma read_SectionHeader_cong:
  assumes "\<And>a. in_blk p 64 a \<Longrightarrow> m a = m' a"
  shows "read_SectionHeader m p = read_SectionHeader m' p"
proof -
  have b: "in_blk (p + q) k a \<Longrightarrow> unat q + k \<le> 64 \<Longrightarrow> m a = m' a" for q k a
    using in_blk_shift [of p q k a 64] assms by simp
  have w: "ld32 m (p + q) = ld32 m' (p + q)" if "unat q + 4 \<le> 64" for q
    by (rule ld32_cong) (use b [of q 4] that in simp)
  have d: "ld64 m (p + q) = ld64 m' (p + q)" if "unat q + 8 \<le> 64" for q
    by (rule ld64_cong) (use b [of q 8] that in simp)
  show ?thesis unfolding read_SectionHeader_eq using w [of 0] by (simp add: w d)
qed

lemma read_ElfHeader_cong:
  assumes "\<And>a. in_blk p 64 a \<Longrightarrow> m a = m' a"
  shows "read_ElfHeader m p = read_ElfHeader m' p"
proof -
  have b: "in_blk (p + q) k a \<Longrightarrow> unat q + k \<le> 64 \<Longrightarrow> m a = m' a" for q k a
    using in_blk_shift [of p q k a 64] assms by simp
  have h: "ld16 m (p + q) = ld16 m' (p + q)" if "unat q + 2 \<le> 64" for q
    by (rule ld16_cong) (use b [of q 2] that in simp)
  have w: "ld32 m (p + q) = ld32 m' (p + q)" if "unat q + 4 \<le> 64" for q
    by (rule ld32_cong) (use b [of q 4] that in simp)
  have d: "ld64 m (p + q) = ld64 m' (p + q)" if "unat q + 8 \<le> 64" for q
    by (rule ld64_cong) (use b [of q 8] that in simp)
  have i: "ld_bytes m p 16 = ld_bytes m' p 16"
    by (rule ld_bytes_cong) (use assms in \<open>simp add: in_blk_plus unat_of_nat64\<close>)
  show ?thesis unfolding read_ElfHeader_eq by (simp add: h w d i)
qed

end
