(* ===== verification/Elf_Loader.thy ===== *)
theory Elf_Loader
  imports Elf_Definitions Mem_Essentials
begin

text \<open>
  \<open>static_libs/elf/src/elf_loader.cpp\<close> and \<open>elf_loader.h\<close>: the checks of an ELF file
  in memory, the tables it points to, and the loading of a segment or a NOBITS
  section. The loader callback is the program's environment: a function of the
  requested size, address and flags that may change the machine. Headers are read
  through their pointers, again after every change of the memory, as the code does.
\<close>

section \<open>Definitions\<close>

record ElfLoader =
  elfFile :: u64
  elfFileSize :: u64

datatype ElfError = NoError | ElfHeaderCorrupted | ElfTypeNotSupported
  | ElfSectionNotLoadable | ElfSizeExceeded | ElfGenericError

type_synonym 'e loader_fn =
  "u32 \<Rightarrow> Elf64_Addr \<Rightarrow> Elf_SegmentFlags \<Rightarrow> 'e machine \<Rightarrow> u64 \<times> 'e machine"

definition mk_ElfLoader :: "u64 \<Rightarrow> u64 \<Rightarrow> ElfLoader" where
  "mk_ElfLoader elfFilePtr sz = \<lparr> elfFile = elfFilePtr, elfFileSize = sz \<rparr>"

definition checkElf :: "mem \<Rightarrow> ElfLoader \<Rightarrow> ElfError" where
  "checkElf m l = (let header = read_ElfHeader m (elfFile l);
       ident = (\<lambda>i. Identifiers header ! ident_index i) in
     if ident EI_MAG0 \<noteq> ELF_MAG0 \<or> ident EI_MAG1 \<noteq> ELF_MAG1
        \<or> ident EI_MAG2 \<noteq> ELF_MAG2 \<or> ident EI_MAG3 \<noteq> ELF_MAG3
     then ElfHeaderCorrupted
     else if ident EI_CLASS \<noteq> 2 \<or> ident EI_VERSION \<noteq> 1 \<or> Version header \<noteq> 1
        \<or> Machine header \<noteq> EM_x86_64 \<or> Type header \<noteq> ET_EXEC
     then ElfTypeNotSupported
     else NoError)"

text \<open>
  The two table functions take the old value of the out parameter that counts the
  entries (they do not set it on every path) and return the table pointer, the new
  count and the error. The count is an \<open>int\<close>; multiplied by \<open>sizeof\<close> it is converted
  to \<open>size_t\<close>.
\<close>

definition getProgramHeaders :: "mem \<Rightarrow> ElfLoader \<Rightarrow> u32 \<Rightarrow> u64 \<times> u32 \<times> ElfError" where
  "getProgramHeaders m l numProgHeaders = (let error = checkElf m l in
     if error \<noteq> NoError then (0, numProgHeaders, error) else
     let elfHeader = read_ElfHeader m (elfFile l) in
     if (ucast (ProgHeaderEntrySize elfHeader) :: u64) \<noteq> of_nat (csize Elf64_ProgHeader_t)
     then (0, numProgHeaders, ElfGenericError) else
     let numProgHeaders = ucast (ProgHeaderTableEntriesNum elfHeader) in
     if ProgHeaderOffset elfHeader + scast numProgHeaders * of_nat (csize Elf64_ProgHeader_t)
        \<ge> elfFileSize l
     then (0, numProgHeaders, ElfSizeExceeded)
     else (elfFile l + ProgHeaderOffset elfHeader, numProgHeaders, NoError))"

definition getSectionHeaders :: "mem \<Rightarrow> ElfLoader \<Rightarrow> u32 \<Rightarrow> u64 \<times> u32 \<times> ElfError" where
  "getSectionHeaders m l numSectionHeaders = (let error = checkElf m l in
     if error \<noteq> NoError then (0, numSectionHeaders, error) else
     let elfHeader = read_ElfHeader m (elfFile l) in
     if (ucast (SectionHeaderEntrySize elfHeader) :: u64) \<noteq> of_nat (csize Elf64_SectionHeader_t)
     then (0, numSectionHeaders, ElfGenericError) else
     let numSectionHeaders = ucast (SectionHeaderTableEntriesNum elfHeader) in
     if SectionHeaderOffset elfHeader + scast numSectionHeaders * of_nat (csize Elf64_SectionHeader_t)
        \<ge> elfFileSize l
     then (0, numSectionHeaders, ElfSizeExceeded)
     else (elfFile l + SectionHeaderOffset elfHeader, numSectionHeaders, NoError))"

definition loadExecutableProgram ::
  "ElfLoader \<Rightarrow> u64 \<Rightarrow> 'e loader_fn \<Rightarrow> 'e machine \<Rightarrow> ElfError \<times> 'e machine" where
  "loadExecutableProgram l progHeader loaderCallback s =
     (let ph = read_ProgHeader (memory s) progHeader in
      if SegmentType ph \<noteq> PT_LOAD then (ElfSectionNotLoadable, s) else
      let (dest, s) = loaderCallback (ucast (SizeInMemory ph)) (VirtAddress ph) (SegFlags ph) s in
      if dest = 0 then (ElfGenericError, s) else
      let ph = read_ProgHeader (memory s) progHeader in
      if Offset ph \<ge> elfFileSize l \<or> Offset ph + SizeInFile ph \<ge> elfFileSize l
         \<or> Offset ph + SizeInMemory ph \<ge> elfFileSize l
      then (ElfSizeExceeded, s) else
      let s = s\<lparr>memory := snd (memcpy (memory s) dest (elfFile l + Offset ph) (SizeInFile ph))\<rparr>;
          ph = read_ProgHeader (memory s) progHeader in
      if SizeInMemory ph > SizeInFile ph
      then (NoError, s\<lparr>memory := snd (memset (memory s) (dest + SizeInFile ph) 0
              (SizeInMemory ph - SizeInFile ph))\<rparr>)
      else (NoError, s))"

definition loadNoBitsSection ::
  "ElfLoader \<Rightarrow> u64 \<Rightarrow> 'e loader_fn \<Rightarrow> 'e machine \<Rightarrow> ElfError \<times> 'e machine" where
  "loadNoBitsSection l sectionHeader loaderCallback s =
     (let sh = read_SectionHeader (memory s) sectionHeader in
      if SectionHeaderType sh \<noteq> SHT_NOBITS \<or> SectionSize sh = 0
         \<or> (ucast (SecFlags sh) :: u32) AND ucast SHF_ALLOC = 0
      then (ElfSectionNotLoadable, s) else
      if OffsetInFile sh \<ge> elfFileSize l \<or> OffsetInFile sh + SectionSize sh \<ge> elfFileSize l
      then (ElfSizeExceeded, s) else
      let (dest, s) = loaderCallback (ucast (SectionSize sh)) (VirtualAddress sh)
            (segment_flags_or PF_R PF_W) s in
      if dest = 0 then (ElfGenericError, s) else
      let sh = read_SectionHeader (memory s) sectionHeader in
      (NoError, s\<lparr>memory := snd (memset (memory s) dest 0 (SectionSize sh))\<rparr>))"

section \<open>The header check on the bytes of the file\<close>

lemma checkElf_bytes:
  "checkElf m l = (let p = elfFile l in
     if ld_bytes m p 4 \<noteq> [0x7F, 0x45, 0x4C, 0x46] then ElfHeaderCorrupted
     else if m (p + 4) \<noteq> 2 \<or> m (p + 6) \<noteq> 1 \<or> ld32 m (p + 20) \<noteq> 1 \<or> ld16 m (p + 18) \<noteq> 0x3E
       \<or> ld16 m (p + 16) \<noteq> 2 then ElfTypeNotSupported
     else NoError)"
proof -
  have i: "ld_bytes m p 16 ! k = m (p + of_nat k)" if "k < 16" for p k
    using that by simp
  have b: "ld_bytes m p 4 = [m p, m (p + 1), m (p + 2), m (p + 3)]" for p
    by (simp add: ld_bytes_def upt_rec)
  show ?thesis
    by (simp add: checkElf_def read_ElfHeader_eq i b ELF_MAG0_def ELF_MAG1_def ELF_MAG2_def
        ELF_MAG3_def EM_x86_64_def ET_EXEC_def Let_def)
qed

section \<open>The bounds of the header tables\<close>

text \<open>The count read from the header, as the \<open>int\<close> and then the \<open>size_t\<close> the code makes of it.\<close>

lemma count_value: "unat (scast (ucast (x :: u16) :: u32) :: u64) = unat x"
proof -
  have "(scast (ucast x :: u32) :: u64) = ucast x"
    by (rule bit_word_eqI) (auto simp: bit_simps min_def dest: bit_imp_le_length split: if_splits)
  then show ?thesis by simp
qed

lemma table_end:
  "unat (off + scast (ucast (x :: u16) :: u32) * (of_nat sz :: u64))
     = (unat off + sz * unat x) mod 18446744073709551616"
proof -
  have "unat (of_nat sz :: u64) = sz mod 18446744073709551616"
    by (simp add: unat_of_nat)
  then show ?thesis
    by (simp only: unat_word_ariths(1,2) count_value) (simp add: mod_simps mult.commute)
qed

lemma table_end_no_wrap:
  "unat off + sz * unat x < 18446744073709551616 \<Longrightarrow>
   lim \<le> off + scast (ucast (x :: u16) :: u32) * (of_nat sz :: u64)
     \<longleftrightarrow> unat lim \<le> unat off + sz * unat x"
  by (simp add: word_le_nat_alt table_end)

text \<open>The outcome of the table functions, by cases on the header.\<close>

lemma getProgramHeaders_cases:
  "getProgramHeaders m l n0 = (let h = read_ElfHeader m (elfFile l) in
     if checkElf m l \<noteq> NoError then (0, n0, checkElf m l)
     else if ProgHeaderEntrySize h \<noteq> 56 then (0, n0, ElfGenericError)
     else if elfFileSize l \<le> ProgHeaderOffset h
         + scast (ucast (ProgHeaderTableEntriesNum h) :: u32) * of_nat 56
     then (0, ucast (ProgHeaderTableEntriesNum h), ElfSizeExceeded)
     else (elfFile l + ProgHeaderOffset h, ucast (ProgHeaderTableEntriesNum h), NoError))"
proof -
  have "ucast x = (56 :: u64) \<longleftrightarrow> x = 56" for x :: u16
    by (simp add: word_unat_eq_iff)
  then show ?thesis by (simp add: getProgramHeaders_def elf_sizes Let_def)
qed

lemma getSectionHeaders_cases:
  "getSectionHeaders m l n0 = (let h = read_ElfHeader m (elfFile l) in
     if checkElf m l \<noteq> NoError then (0, n0, checkElf m l)
     else if SectionHeaderEntrySize h \<noteq> 64 then (0, n0, ElfGenericError)
     else if elfFileSize l \<le> SectionHeaderOffset h
         + scast (ucast (SectionHeaderTableEntriesNum h) :: u32) * of_nat 64
     then (0, ucast (SectionHeaderTableEntriesNum h), ElfSizeExceeded)
     else (elfFile l + SectionHeaderOffset h, ucast (SectionHeaderTableEntriesNum h), NoError))"
proof -
  have "ucast x = (64 :: u64) \<longleftrightarrow> x = 64" for x :: u16
    by (simp add: word_unat_eq_iff)
  then show ?thesis by (simp add: getSectionHeaders_def elf_sizes Let_def)
qed

section \<open>A concrete file header\<close>

text \<open>
  The 64 bytes of an executable header for x86_64 with the given table offset (one
  low byte, seven high bytes), one program header and no section, used by the witnesses.
\<close>

definition sample_header :: "u8 \<Rightarrow> u8 \<Rightarrow> mem" where
  "sample_header low high = mem_of_bytes 0x1000
     ([0x7F, 0x45, 0x4C, 0x46, 2, 1, 1] @ replicate 9 0 @ [2, 0, 0x3E, 0, 1, 0, 0, 0]
      @ replicate 8 0
      @ [low, high, high, high, high, high, high, high]
      @ [low, high, high, high, high, high, high, high]
      @ [0, 0, 0, 0, 64, 0, 56, 0, 1, 0, 64, 0, 1, 0, 0, 0])"

lemma mk_ElfLoader_simps [simp]:
  "elfFile (mk_ElfLoader p n) = p" "elfFileSize (mk_ElfLoader p n) = n"
  by (simp_all add: mk_ElfLoader_def)

lemma sample_check: "checkElf (sample_header low high) (mk_ElfLoader 0x1000 n) = NoError"
  by (simp add: checkElf_bytes sample_header_def ld_mem_of_bytes ld_bytes_mem_of_bytes)
    (simp add: mem_of_bytes_def)

lemma sample_fields:
  "ProgHeaderEntrySize (read_ElfHeader (sample_header low high) 0x1000) = 56"
  "ProgHeaderTableEntriesNum (read_ElfHeader (sample_header low high) 0x1000) = 1"
  "SectionHeaderEntrySize (read_ElfHeader (sample_header low high) 0x1000) = 64"
  "SectionHeaderTableEntriesNum (read_ElfHeader (sample_header low high) 0x1000) = 1"
  "ProgHeaderOffset (read_ElfHeader (sample_header 64 0) 0x1000) = 64"
  "ProgHeaderOffset (read_ElfHeader (sample_header 200 255) 0x1000) = 0xFFFFFFFFFFFFFFC8"
  "SectionHeaderOffset (read_ElfHeader (sample_header 64 0) 0x1000) = 64"
  by (simp_all add: read_ElfHeader_eq sample_header_def ld_mem_of_bytes)

lemmas sample_simps = sample_check sample_fields

section \<open>Properties: header and tables\<close>

text \<open>
  C5: \<open>checkElf\<close> accepts exactly the files whose first bytes are the ELF magic, class 2,
  identification version 1, type \<open>ET_EXEC\<close>, machine \<open>x86_64\<close> and version 1; it reports a
  corrupted header exactly when the magic is wrong, and nothing but these three verdicts.
\<close>

theorem checkElf_verdict:
  "(checkElf m l = ElfHeaderCorrupted
      \<longleftrightarrow> ld_bytes m (elfFile l) 4 \<noteq> [0x7F, 0x45, 0x4C, 0x46])
   \<and> (checkElf m l = NoError
      \<longleftrightarrow> ld_bytes m (elfFile l) 4 = [0x7F, 0x45, 0x4C, 0x46]
        \<and> m (elfFile l + 4) = 2 \<and> m (elfFile l + 6) = 1 \<and> ld16 m (elfFile l + 16) = ET_EXEC
        \<and> ld16 m (elfFile l + 18) = EM_x86_64 \<and> ld32 m (elfFile l + 20) = 1)
   \<and> checkElf m l \<in> {NoError, ElfHeaderCorrupted, ElfTypeNotSupported}"
  by (auto simp: checkElf_bytes Let_def ET_EXEC_def EM_x86_64_def)

text \<open>
  C4: when the end of the program header table does not wrap around, the table is
  returned exactly for an accepted header with the right entry size and a table that ends
  before the last byte of the file; then every entry lies inside the file. On every other
  path the pointer is null and the error is set.
\<close>

theorem program_headers_inside_file:
  assumes "h = read_ElfHeader m (elfFile l)"
    and "getProgramHeaders m l n0 = (table, n, err)"
    and "unat (ProgHeaderOffset h) + 56 * unat (ProgHeaderTableEntriesNum h) < 2 ^ 64"
  shows "(err = NoError \<longleftrightarrow> checkElf m l = NoError \<and> ProgHeaderEntrySize h = 56
      \<and> unat (ProgHeaderOffset h) + 56 * unat (ProgHeaderTableEntriesNum h) < unat (elfFileSize l))
    \<and> (err = NoError \<longrightarrow> table = elfFile l + ProgHeaderOffset h
      \<and> unat n = unat (ProgHeaderTableEntriesNum h)
      \<and> (\<forall>i < unat n. unat (ProgHeaderOffset h) + 56 * i + 56 < unat (elfFileSize l)))
    \<and> (err \<noteq> NoError \<longrightarrow> table = 0)"
proof -
  note le = table_end_no_wrap [of "ProgHeaderOffset h" 56 "ProgHeaderTableEntriesNum h"
      "elfFileSize l"]
  show ?thesis
    using assms le
    by (auto simp: getProgramHeaders_cases Let_def split: if_splits)
qed

theorem program_headers_inside_file_witness:
  "getProgramHeaders (sample_header 64 0) (mk_ElfLoader 0x1000 4096) 0 = (0x1040, 1, NoError)"
  using program_headers_inside_file [where m = "sample_header 64 0"
      and l = "mk_ElfLoader 0x1000 4096" and ?n0.0 = 0, OF refl]
  by (simp add: getProgramHeaders_cases sample_simps)

text \<open>
  C31: the end of the table is computed modulo \<open>2 ^ 64\<close>: a header whose table offset lies
  beyond the file but whose end wraps around to a small value passes the size check, and
  the pointer returned lies outside the file.
\<close>

theorem table_bound_wraps:
  assumes "h = read_ElfHeader m (elfFile l)"
    and "checkElf m l = NoError" and "ProgHeaderEntrySize h = 56"
    and "2 ^ 64 \<le> unat (ProgHeaderOffset h) + 56 * unat (ProgHeaderTableEntriesNum h)"
    and "unat (ProgHeaderOffset h) + 56 * unat (ProgHeaderTableEntriesNum h)
      < 2 ^ 64 + unat (elfFileSize l)"
    and "unat (elfFileSize l) \<le> unat (ProgHeaderOffset h)"
  shows "snd (snd (getProgramHeaders m l n0)) = NoError
    \<and> \<not> in_blk (elfFile l) (unat (elfFileSize l)) (fst (getProgramHeaders m l n0))"
proof -
  have "x mod 18446744073709551616 < k"
    if "18446744073709551616 \<le> x" "x < 18446744073709551616 + k" for x k :: nat
    using that by (metis le_add_diff_inverse less_diff_conv2 mod_add_self1 mod_less_eq_dividend
        add.commute order_le_less_trans)
  from this [OF assms(4,5) [simplified]]
  have "\<not> elfFileSize l \<le> ProgHeaderOffset h
      + scast (ucast (ProgHeaderTableEntriesNum h) :: u32) * of_nat 56"
    unfolding word_le_nat_alt table_end by (simp only: not_le)
  then show ?thesis
    using assms(1,2,3,6) by (simp add: getProgramHeaders_cases in_blk_plus Let_def)
qed

theorem table_bound_wraps_witness:
  "getProgramHeaders (sample_header 200 255) (mk_ElfLoader 0x1000 4096) 0 = (0xFC8, 1, NoError)"
  using table_bound_wraps [where m = "sample_header 200 255"
      and l = "mk_ElfLoader 0x1000 4096" and ?n0.0 = 0, OF refl]
  by (simp add: getProgramHeaders_cases sample_simps)

text \<open>
  The size checks reject a table that ends exactly where the file ends (the place
  where linkers put the section header table): the pointer is null and the error is
  \<open>ElfSizeExceeded\<close>, but the out parameter already holds the number of entries.
\<close>

theorem section_table_at_end_rejected:
  assumes "h = read_ElfHeader m (elfFile l)"
    and "checkElf m l = NoError" and "SectionHeaderEntrySize h = 64"
    and "unat (SectionHeaderOffset h) + 64 * unat (SectionHeaderTableEntriesNum h)
      = unat (elfFileSize l)"
  shows "getSectionHeaders m l n0 = (0, ucast (SectionHeaderTableEntriesNum h), ElfSizeExceeded)"
  using assms table_end_no_wrap [of "SectionHeaderOffset h" 64 "SectionHeaderTableEntriesNum h"
      "elfFileSize l"] unat64_less [of "elfFileSize l"]
  by (simp add: getSectionHeaders_cases)

theorem section_table_at_end_rejected_witness:
  "getSectionHeaders (sample_header 64 0) (mk_ElfLoader 0x1000 128) 0 = (0, 1, ElfSizeExceeded)"
  using section_table_at_end_rejected [where m = "sample_header 64 0"
      and l = "mk_ElfLoader 0x1000 128" and ?n0.0 = 0, OF refl]
  by (simp add: sample_simps)

section \<open>Properties: loading\<close>

text \<open>
  A program header at \<open>0x2000\<close> with the given file and memory sizes, the file bytes at
  offset 16, and a callback that hands out the address \<open>0x8000\<close>.
\<close>

definition sample_segment :: "u8 \<Rightarrow> u8 \<Rightarrow> mem" where
  "sample_segment filesz memsz = mem_of_bytes 0x2000
     [1, 0, 0, 0, 5, 0, 0, 0, 16, 0, 0, 0, 0, 0, 0, 0, 0, 0x80, 0, 0, 0, 0, 0, 0,
      0, 0x80, 0, 0, 0, 0, 0, 0, filesz, 0, 0, 0, 0, 0, 0, 0, memsz, 0, 0, 0, 0, 0, 0, 0,
      0, 0x10, 0, 0, 0, 0, 0, 0]"

definition sample_callback :: "unit loader_fn" where
  "sample_callback sz virt flags s = (0x8000, s)"

lemma sample_segment_read:
  "read_ProgHeader (sample_segment f n) 0x2000 = \<lparr> SegmentType = 1, SegFlags = 5, Offset = 16,
     VirtAddress = 0x8000, PhysAddress = 0x8000, SizeInFile = ucast f, SizeInMemory = ucast n,
     Alignment = 0x1000 \<rparr>"
  by (simp add: read_ProgHeader_eq sample_segment_def ld_mem_of_bytes)

text \<open>What the loader does once the callback has returned an address.\<close>

lemma load_after_callback:
  assumes "ph = read_ProgHeader (memory s) p" and "SegmentType ph = PT_LOAD"
    and "cb (ucast (SizeInMemory ph)) (VirtAddress ph) (SegFlags ph) s = (dest, s')" "dest \<noteq> 0"
    and "\<And>a. in_blk p 56 a \<Longrightarrow> memory s' a = memory s a"
    and "disj_blk dest (unat (SizeInFile ph)) p 56"
    and "dest = elfFile l + Offset ph \<or> unat (SizeInFile ph) \<le> unat (dest - (elfFile l + Offset ph))"
    and "Offset ph < elfFileSize l" "Offset ph + SizeInFile ph < elfFileSize l"
      "Offset ph + SizeInMemory ph < elfFileSize l"
    and m: "m = snd (memcpy (memory s') dest (elfFile l + Offset ph) (SizeInFile ph))"
  shows "loadExecutableProgram l p cb s = (NoError, s'\<lparr>memory :=
    if SizeInFile ph < SizeInMemory ph
    then snd (memset m (dest + SizeInFile ph) 0 (SizeInMemory ph - SizeInFile ph)) else m\<rparr>)"
proof -
  have 1: "read_ProgHeader (memory s') p = ph"
    unfolding assms(1) by (rule read_ProgHeader_cong) (rule assms(5))
  have 2: "read_ProgHeader m p = ph"
    unfolding 1 [symmetric]
  proof (rule read_ProgHeader_cong)
    fix a assume "in_blk p 56 a"
    then have "\<not> in_blk dest (unat (SizeInFile ph)) a"
      using assms(6) disj_blkD disj_blk_sym by blast
    then show "m a = memory s' a"
      unfolding m by (rule essentials.cpy_frame [OF assms(7)])
  qed
  show ?thesis
    unfolding loadExecutableProgram_def
    using assms(2-4,8-10) 2
    by (simp add: Let_def 1 assms(1) [symmetric] m [symmetric] not_le)
qed

lemma no_wrap_less:
  "unat x + unat y < unat (z :: u64) \<Longrightarrow> x < z \<and> x + y < z"
  using unat_add_cases [of x y] unat64_less [of z] by (auto simp: word_less_nat_alt)

lemma segment_loaded:
  assumes "ph = read_ProgHeader (memory s) p" and "SegmentType ph = PT_LOAD"
    and "cb (ucast (SizeInMemory ph)) (VirtAddress ph) (SegFlags ph) s = (dest, s')" "dest \<noteq> 0"
    and "\<And>a. in_blk p 56 a \<Longrightarrow> memory s' a = memory s a"
    and "disj_blk dest (unat (SizeInMemory ph)) p 56"
    and "unat (SizeInFile ph) \<le> unat (dest - (elfFile l + Offset ph))"
    and "SizeInFile ph \<le> SizeInMemory ph"
    and "unat (Offset ph) + unat (SizeInMemory ph) < unat (elfFileSize l)"
  shows "loadExecutableProgram l p cb s = (NoError, s'\<lparr>memory := \<lambda>a.
    if in_blk dest (unat (SizeInFile ph)) a then memory s' (elfFile l + Offset ph + (a - dest))
    else if in_blk dest (unat (SizeInMemory ph)) a then 0 else memory s' a\<rparr>)"
proof -
  have le: "unat (SizeInFile ph) \<le> unat (SizeInMemory ph)"
    using assms(8) by (simp add: word_le_nat_alt)
  then have b: "unat (Offset ph) + unat (SizeInFile ph) < unat (elfFileSize l)"
    using assms(9) by simp
  have d: "disj_blk dest (unat (SizeInFile ph)) p 56"
    using assms(6) le by (rule disj_blk_mono) simp
  have z: "snd (memset m (dest + SizeInFile ph) 0 (SizeInMemory ph - SizeInFile ph)) = m"
    if "\<not> SizeInFile ph < SizeInMemory ph" for m
    using that assms(8) by (simp add: memset_eq)
  have far: "dest = elfFile l + Offset ph
      \<or> unat (SizeInFile ph) \<le> unat (dest - (elfFile l + Offset ph))"
    using assms(7) by simp
  have l: "loadExecutableProgram l p cb s = (NoError, s'\<lparr>memory :=
    let m = snd (memcpy (memory s') dest (elfFile l + Offset ph) (SizeInFile ph))
    in if SizeInFile ph < SizeInMemory ph
      then snd (memset m (dest + SizeInFile ph) 0 (SizeInMemory ph - SizeInFile ph)) else m\<rparr>)"
    unfolding Let_def
    by (rule load_after_callback [of ph s p cb dest s', OF assms(1-5) d far _ _ _ refl])
      (use no_wrap_less [OF b] no_wrap_less [OF assms(9)] in simp_all)
  show ?thesis
    unfolding essentials.cpy_then_clear [OF le far, symmetric] l
    using z by (simp add: Let_def)
qed

text \<open>
  C3: a loadable segment with no more bytes in the file than in memory, whose offset plus size in
  memory stays below the size of the file (the bound of the code), is loaded as its exact
  image when the callback gives a block that overlaps neither the header nor, from below, the
  bytes to copy: the destination holds the file bytes followed by zeros up to the memory size,
  every other byte is as the callback left it, and the callback is given the size, address and
  flags of the header.
\<close>

theorem segment_image:
  assumes "ph = read_ProgHeader (memory s) p" and "SegmentType ph = PT_LOAD"
    and "cb (ucast (SizeInMemory ph)) (VirtAddress ph) (SegFlags ph) s = (dest, s')" "dest \<noteq> 0"
    and "\<And>a. in_blk p 56 a \<Longrightarrow> memory s' a = memory s a"
    and "disj_blk dest (unat (SizeInMemory ph)) p 56"
    and "unat (SizeInFile ph) \<le> unat (dest - (elfFile l + Offset ph))"
    and "SizeInFile ph \<le> SizeInMemory ph"
    and "unat (Offset ph) + unat (SizeInMemory ph) < unat (elfFileSize l)"
  shows "loadExecutableProgram l p cb s = (NoError, s'\<lparr>memory := \<lambda>a.
    if in_blk dest (unat (SizeInFile ph)) a then memory s' (elfFile l + Offset ph + (a - dest))
    else if in_blk dest (unat (SizeInMemory ph)) a then 0 else memory s' a\<rparr>)"
  using assms segment_loaded [of ph s p cb dest s' l] by blast

theorem segment_image_witness:
  "\<exists>s'. loadExecutableProgram (mk_ElfLoader 0x1FF0 4096) 0x2000 sample_callback
      \<lparr> memory = sample_segment 4 8, env = () \<rparr> = (NoError, s')
    \<and> ld_bytes (memory s') 0x8000 8 = [1, 0, 0, 0, 0, 0, 0, 0]"
proof -
  let ?s = "\<lparr> memory = sample_segment 4 8, env = () \<rparr>"
  have "loadExecutableProgram (mk_ElfLoader 0x1FF0 4096) 0x2000 sample_callback ?s =
    (NoError, ?s\<lparr>memory := \<lambda>a. if in_blk 0x8000 4 a then sample_segment 4 8 (0x2000 + (a - 0x8000))
      else if in_blk 0x8000 8 a then 0 else sample_segment 4 8 a\<rparr>)"
    using segment_image [where p = "0x2000" and l = "mk_ElfLoader 0x1FF0 4096" and s = ?s
        and cb = sample_callback and dest = "0x8000" and s' = ?s, OF refl]
    by (simp add: sample_segment_read PT_LOAD_def sample_callback_def disj_blk_def cong: if_cong)
  moreover have "ld_bytes (\<lambda>a. if in_blk 0x8000 4 a then sample_segment 4 8 (0x2000 + (a - 0x8000))
      else if in_blk 0x8000 8 a then 0 else sample_segment 4 8 a) 0x8000 8 = [1, 0, 0, 0, 0, 0, 0, 0]"
    by (simp add: sample_segment_def mem_of_bytes_def ld_bytes_def upt_rec in_blk_def)
  ultimately show ?thesis by simp
qed

text \<open>
  C24: the paths of \<open>loadExecutableProgram\<close> that fail: a segment that is not \<open>PT_LOAD\<close> changes
  nothing and never reaches the callback; a null address from the callback is
  \<open>ElfGenericError\<close>; and every failure leaves the state before the call or exactly the state
  the callback returned, so no byte of the destination is written.
\<close>

theorem load_failures_write_nothing:
  assumes "ph = read_ProgHeader (memory s) p"
    and "c = cb (ucast (SizeInMemory ph)) (VirtAddress ph) (SegFlags ph) s"
  shows "(SegmentType ph \<noteq> PT_LOAD \<longrightarrow> loadExecutableProgram l p cb s = (ElfSectionNotLoadable, s))
    \<and> (SegmentType ph = PT_LOAD \<and> fst c = 0
       \<longrightarrow> loadExecutableProgram l p cb s = (ElfGenericError, snd c))
    \<and> (fst (loadExecutableProgram l p cb s) \<noteq> NoError
       \<longrightarrow> snd (loadExecutableProgram l p cb s) \<in> {s, snd c})
    \<and> fst (loadExecutableProgram l p cb s)
        \<in> {NoError, ElfSectionNotLoadable, ElfGenericError, ElfSizeExceeded}"
  by (cases c) (use assms in \<open>simp add: loadExecutableProgram_def Let_def\<close>)

theorem load_failures_write_nothing_witness:
  "loadExecutableProgram (mk_ElfLoader 0x1FF0 4096) 0x2000 (\<lambda>n v f s. (0, s))
      \<lparr> memory = sample_segment 4 8, env = () \<rparr>
    = (ElfGenericError, \<lparr> memory = sample_segment 4 8, env = () \<rparr>)"
  using load_failures_write_nothing [where p = "0x2000" and l = "mk_ElfLoader 0x1FF0 4096"
      and s = "\<lparr> memory = sample_segment 4 8, env = () \<rparr>" and cb = "\<lambda>n v f s. (0, s)", OF refl refl]
  by (simp add: sample_segment_read PT_LOAD_def)

text \<open>
  The size check uses the size in memory, which the file does not hold: a loadable
  segment whose file bytes lie inside the file but whose zero-filled part is larger than what
  is left of the file is refused, after the memory for it has been taken from the callback.
\<close>

theorem large_bss_segment_refused:
  assumes "ph = read_ProgHeader (memory s) p" and "SegmentType ph = PT_LOAD"
    and "cb (ucast (SizeInMemory ph)) (VirtAddress ph) (SegFlags ph) s = (dest, s')" "dest \<noteq> 0"
    and "\<And>a. in_blk p 56 a \<Longrightarrow> memory s' a = memory s a"
    and "unat (Offset ph) + unat (SizeInFile ph) < unat (elfFileSize l)"
    and "unat (elfFileSize l) \<le> unat (Offset ph) + unat (SizeInMemory ph)"
    and "unat (Offset ph) + unat (SizeInMemory ph) < 2 ^ 64"
  shows "loadExecutableProgram l p cb s = (ElfSizeExceeded, s')"
proof -
  have 1: "read_ProgHeader (memory s') p = ph"
    unfolding assms(1) by (rule read_ProgHeader_cong) (rule assms(5))
  have "elfFileSize l \<le> Offset ph + SizeInMemory ph"
    using assms(7,8) unat_add_cases [of "Offset ph" "SizeInMemory ph"]
      unat64_less [of "Offset ph + SizeInMemory ph"]
    unfolding word_le_nat_alt by auto
  then show ?thesis
    unfolding loadExecutableProgram_def using assms(2-4)
    by (simp add: Let_def 1 assms(1) [symmetric])
qed

theorem large_bss_segment_refused_witness:
  "loadExecutableProgram (mk_ElfLoader 0x1FF0 128) 0x2000 sample_callback
      \<lparr> memory = sample_segment 4 200, env = () \<rparr>
    = (ElfSizeExceeded, \<lparr> memory = sample_segment 4 200, env = () \<rparr>)"
  using large_bss_segment_refused [where p = "0x2000" and l = "mk_ElfLoader 0x1FF0 128"
      and s = "\<lparr> memory = sample_segment 4 200, env = () \<rparr>" and cb = sample_callback
      and dest = "0x8000" and s' = "\<lparr> memory = sample_segment 4 200, env = () \<rparr>", OF refl]
  by (simp add: sample_segment_read PT_LOAD_def sample_callback_def)

text \<open>
  C32: nothing compares the two sizes of a segment: with more file bytes than memory bytes, all of
  them before the last byte of the file, and a callback that gives a block (not null, and
  overlapping neither the header nor, from below, the bytes to copy), the load succeeds and
  writes all file bytes, the last of them behind the block of the size that was requested
  from the callback.
\<close>

theorem file_bytes_overrun_allocation:
  assumes "ph = read_ProgHeader (memory s) p" and "SegmentType ph = PT_LOAD"
    and "cb (ucast (SizeInMemory ph)) (VirtAddress ph) (SegFlags ph) s = (dest, s')" "dest \<noteq> 0"
    and "\<And>a. in_blk p 56 a \<Longrightarrow> memory s' a = memory s a"
    and "disj_blk dest (unat (SizeInFile ph)) p 56"
    and "unat (SizeInFile ph) \<le> unat (dest - (elfFile l + Offset ph))"
    and "SizeInMemory ph < SizeInFile ph"
    and "unat (Offset ph) + unat (SizeInFile ph) < unat (elfFileSize l)"
  shows "loadExecutableProgram l p cb s = (NoError, s'\<lparr>memory :=
      copy_blk (memory s') dest (elfFile l + Offset ph) (unat (SizeInFile ph))\<rparr>)
    \<and> \<not> in_blk dest (unat (SizeInMemory ph)) (dest + SizeInFile ph - 1)
    \<and> memory (snd (loadExecutableProgram l p cb s)) (dest + SizeInFile ph - 1)
      = memory s' (elfFile l + Offset ph + SizeInFile ph - 1)"
proof -
  have far: "dest = elfFile l + Offset ph
      \<or> unat (SizeInFile ph) \<le> unat (dest - (elfFile l + Offset ph))"
    using assms(7) by simp
  have b: "unat (Offset ph) + unat (SizeInMemory ph) < unat (elfFileSize l)"
    using assms(8,9) by (simp add: word_less_nat_alt)
  have eq: "loadExecutableProgram l p cb s = (NoError, s'\<lparr>memory :=
      if SizeInFile ph < SizeInMemory ph
      then snd (memset (snd (memcpy (memory s') dest (elfFile l + Offset ph) (SizeInFile ph)))
        (dest + SizeInFile ph) 0 (SizeInMemory ph - SizeInFile ph))
      else snd (memcpy (memory s') dest (elfFile l + Offset ph) (SizeInFile ph))\<rparr>)"
    by (rule load_after_callback [of ph s p cb dest s', OF assms(1-6) far _ _ _ refl])
      (use no_wrap_less [OF b] no_wrap_less [OF assms(9)] in simp_all)
  have 1: "loadExecutableProgram l p cb s = (NoError, s'\<lparr>memory :=
      copy_blk (memory s') dest (elfFile l + Offset ph) (unat (SizeInFile ph))\<rparr>)"
    unfolding eq using assms(8) essentials.cpy_fn [OF far] by simp
  have "SizeInFile ph \<noteq> 0" using assms(8) by auto
  then have u: "unat (SizeInFile ph - 1) = unat (SizeInFile ph) - 1" "0 < unat (SizeInFile ph)"
    by (simp_all add: unat_minus_one unat_gt_0)
  have w: "dest + SizeInFile ph - 1 = dest + (SizeInFile ph - 1)"
      "elfFile l + Offset ph + SizeInFile ph - 1 = elfFile l + Offset ph + (SizeInFile ph - 1)"
    by simp_all
  have "unat (SizeInMemory ph) < unat (SizeInFile ph)"
    using assms(8) by (simp add: word_less_nat_alt)
  then show ?thesis
    unfolding 1 w using u by (simp add: in_blk_plus copy_blk_apply)
qed

theorem file_bytes_overrun_allocation_witness:
  "memory (snd (loadExecutableProgram (mk_ElfLoader 0x1FF0 4096) 0x2000 sample_callback
      \<lparr> memory = sample_segment 5 2, env = () \<rparr>)) 0x8004 = 5"
proof -
  have "memory (snd (loadExecutableProgram (mk_ElfLoader 0x1FF0 4096) 0x2000 sample_callback
      \<lparr> memory = sample_segment 5 2, env = () \<rparr>)) 0x8004 = sample_segment 5 2 0x2004"
    using file_bytes_overrun_allocation [where p = "0x2000" and l = "mk_ElfLoader 0x1FF0 4096"
        and s = "\<lparr> memory = sample_segment 5 2, env = () \<rparr>" and cb = sample_callback
        and dest = "0x8000" and s' = "\<lparr> memory = sample_segment 5 2, env = () \<rparr>", OF refl]
    by (simp add: sample_segment_read PT_LOAD_def sample_callback_def disj_blk_def
        copy_blk_apply in_blk_def)
  then show ?thesis by (simp add: sample_segment_def mem_of_bytes_def)
qed

lemma alloc_flag: "(ucast (x :: u64) :: u32) AND ucast SHF_ALLOC = 0 \<longleftrightarrow> \<not> bit x 1"
proof -
  have "(ucast x :: u32) AND 2 = 0 \<longleftrightarrow> \<not> bit (ucast x :: u32) 1"
    using and_exp_eq_0_iff_not_bit [of "ucast x :: u32" 1] by simp
  then show ?thesis by (simp add: SHF_ALLOC_def bit_ucast_iff)
qed

lemma nobits_loaded:
  assumes "sh = read_SectionHeader (memory s) p"
    and "cb (ucast (SectionSize sh)) (VirtualAddress sh) 6 s = (dest, s')" "dest \<noteq> 0"
    and "read_SectionHeader (memory s') p = sh"
    and "unat (OffsetInFile sh) + unat (SectionSize sh) < unat (elfFileSize l)"
  shows "loadNoBitsSection l p cb s =
    (if SectionHeaderType sh = SHT_NOBITS \<and> SectionSize sh \<noteq> 0 \<and> bit (SecFlags sh) 1
     then (NoError, s'\<lparr>memory := fill (memory s') dest (unat (SectionSize sh)) 0\<rparr>)
     else (ElfSectionNotLoadable, s))"
proof -
  have "segment_flags_or PF_R PF_W = 6"
    by (simp add: segment_flags_or_def PF_R_def PF_W_def)
  then show ?thesis
    unfolding loadNoBitsSection_def alloc_flag
    using assms(2-4) no_wrap_less [OF assms(5)]
    by (auto simp: Let_def assms(1) [symmetric] memset_eq not_le)
qed

text \<open>
  C21: the result of \<open>loadNoBitsSection\<close> in every case. A section of another type, of size 0 or
  without \<open>SHF_ALLOC\<close> is not loadable and changes nothing. Any other section is refused,
  without a call of the callback, when its offset, or offset plus size (taken modulo \<open>2 ^ 64\<close>),
  reaches or passes the end of the file, although none of its bytes are in the file. Otherwise the
  callback is asked for its size at its address with the flags read and write; a null address is the
  generic error, with the machine as the callback left it; and at any other address exactly
  the bytes of the section (by the header as it stands after the callback) become 0.
\<close>

theorem nobits_section_cleared:
  assumes "sh = read_SectionHeader (memory s) p"
    and "loadable \<longleftrightarrow> SectionHeaderType sh = SHT_NOBITS \<and> SectionSize sh \<noteq> 0 \<and> bit (SecFlags sh) 1"
    and "cb (ucast (SectionSize sh)) (VirtualAddress sh) 6 s = (dest, s')"
    and "n = unat (SectionSize (read_SectionHeader (memory s') p))"
  shows "(\<not> loadable \<longrightarrow> loadNoBitsSection l p cb s = (ElfSectionNotLoadable, s))
    \<and> (loadable \<longrightarrow> loadNoBitsSection l p cb s =
         (if unat (elfFileSize l) \<le> unat (OffsetInFile sh)
             \<or> unat (elfFileSize l) \<le> (unat (OffsetInFile sh) + unat (SectionSize sh)) mod 2 ^ 64
          then (ElfSizeExceeded, s)
          else if dest = 0 then (ElfGenericError, s')
          else (NoError, s'\<lparr>memory := \<lambda>a. if in_blk dest n a then 0 else memory s' a\<rparr>)))"
proof -
  have flags: "segment_flags_or PF_R PF_W = 6"
    by (simp add: segment_flags_or_def PF_R_def PF_W_def)
  have fill: "fill m d k 0 = (\<lambda>a. if in_blk d k a then 0 else m a)" for m d k
    by (simp add: fill_apply fun_eq_iff)
  have bound: "a \<le> b \<longleftrightarrow> unat a \<le> unat b" "unat (b + c) = (unat b + unat c) mod 2 ^ 64" for a b c :: u64
    by (simp_all add: word_le_nat_alt unat_word_ariths)
  show ?thesis
    unfolding loadNoBitsSection_def alloc_flag Let_def assms(1) [symmetric] flags assms(2,3,4) prod.case
      memset_eq snd_conv fill
    by (auto simp: fill bound simp del: not_le)
qed

definition sample_section :: mem where
  "sample_section = mem_of_bytes 0x2000
     [0, 0, 0, 0, 8, 0, 0, 0, 3, 0, 0, 0, 0, 0, 0, 0, 0, 0x90, 0, 0, 0, 0, 0, 0,
      16, 0, 0, 0, 0, 0, 0, 0, 4, 0, 0, 0, 0, 0, 0, 0, 0, 0, 0, 0, 0, 0, 0, 0,
      0, 0, 0, 0, 0, 0, 0, 0, 0, 0, 0, 0, 0, 0, 0, 0]"

lemma sample_section_read:
  "read_SectionHeader sample_section 0x2000 = \<lparr> SectionNameIndex = 0, SectionHeaderType = 8,
     SecFlags = 3, VirtualAddress = 0x9000, OffsetInFile = 16, SectionSize = 4, LinkInfo = 0,
     Info = 0, AddressAlignment = 0, EntryFixedSize = 0 \<rparr>"
  by (simp add: read_SectionHeader_eq sample_section_def ld_mem_of_bytes)

theorem nobits_section_cleared_witness:
  "loadNoBitsSection (mk_ElfLoader 0x1000 128) 0x2000 sample_callback
      \<lparr> memory = sample_section, env = () \<rparr>
    = (NoError, \<lparr> memory = \<lambda>a. if in_blk 0x8000 4 a then 0 else sample_section a, env = () \<rparr>)"
  using nobits_section_cleared [where p = "0x2000" and l = "mk_ElfLoader 0x1000 128"
      and s = "\<lparr> memory = sample_section, env = () \<rparr>" and cb = sample_callback
      and dest = "0x8000" and s' = "\<lparr> memory = sample_section, env = () \<rparr>", OF refl refl _ refl]
  by (simp add: sample_section_read SHT_NOBITS_def sample_callback_def bit_1_iff cong: if_cong)

end
