(* ===== verification/Essentials_Utils.thy ===== *)
theory Essentials_Utils
  imports Prelude
begin

text \<open>
  \<open>binary_utils.h\<close>, \<open>option.h\<close>, \<open>result.h\<close> and their \<open>.cpp\<close> files of
  \<open>static_libs/chihuahua_essentials\<close>. The bit macros are modelled on the 64-bit targets
  they are used with; \<open>1 << index\<close> is a shift of a 32-bit \<open>int\<close>, undefined from 32 on
  (\<open>None\<close>), and is sign-extended to the width of the target.
\<close>

section \<open>Bit macros\<close>

definition int_one_shl :: "nat \<Rightarrow> u64 option" where
  "int_one_shl index = (if index < 32 then Some (scast (push_bit index 1 :: u32)) else None)"

definition ESSENTIALS_SET_BIT_ON :: "u64 \<Rightarrow> nat \<Rightarrow> u64 option" where
  "ESSENTIALS_SET_BIT_ON target index = map_option (\<lambda>b. target OR b) (int_one_shl index)"

definition ESSENTIALS_SET_BIT_OFF :: "u64 \<Rightarrow> nat \<Rightarrow> u64 option" where
  "ESSENTIALS_SET_BIT_OFF target index = map_option (\<lambda>b. target AND NOT b) (int_one_shl index)"

text \<open>The bits are 64 bits wide where the macro is used; a shift by 64 or more is undefined.\<close>

definition ESSENTIALS_SET_BITS_ADDITIVE :: "u64 \<Rightarrow> u64 \<Rightarrow> nat \<Rightarrow> u64 option" where
  "ESSENTIALS_SET_BITS_ADDITIVE target bits index =
     (if index < 64 then Some (target OR push_bit index bits) else None)"

definition ESSENTIALS_CHECK_BIT :: "u64 \<Rightarrow> nat \<Rightarrow> bool option" where
  "ESSENTIALS_CHECK_BIT target index =
     map_option (\<lambda>b. target AND b = of_nat index) (int_one_shl index)"

section \<open>Option and Result\<close>

text \<open>
  An option without a value keeps whatever the storage held: the default constructor
  takes that content as an argument.
\<close>

record 'a Option =
  doesHaveValue :: bool
  opt_value :: 'a

definition Option_some :: "'a \<Rightarrow> 'a Option" where
  "Option_some v = \<lparr> doesHaveValue = True, opt_value = v \<rparr>"

definition Option_copy :: "'a \<Rightarrow> bool \<Rightarrow> 'a Option" where
  "Option_copy v disambiguation = \<lparr> doesHaveValue = True, opt_value = v \<rparr>"

definition Option_none :: "'a \<Rightarrow> 'a Option" where
  "Option_none storage = \<lparr> doesHaveValue = False, opt_value = storage \<rparr>"

definition hasValue :: "'a Option \<Rightarrow> bool" where "hasValue opt = doesHaveValue opt"
definition getValue :: "'a Option \<Rightarrow> 'a" where "getValue opt = opt_value opt"

record ('a, 'b) Result =
  res_success :: "'a Option"
  res_error :: "'b Option"

definition isSuccessful :: "('a, 'b) Result \<Rightarrow> bool" where
  "isSuccessful r = hasValue (res_success r)"

definition getSuccessUnchecked :: "('a, 'b) Result \<Rightarrow> 'a" where
  "getSuccessUnchecked r = getValue (res_success r)"

definition getErrorUnchecked :: "('a, 'b) Result \<Rightarrow> 'b" where
  "getErrorUnchecked r = getValue (res_error r)"

text \<open>\<open>match\<close> calls one of two functions for their effect on the state \<open>s\<close>.\<close>

definition match_result ::
  "('a, 'b) Result \<Rightarrow> ('a \<Rightarrow> 's \<Rightarrow> 's) \<Rightarrow> ('b \<Rightarrow> 's \<Rightarrow> 's) \<Rightarrow> 's \<Rightarrow> 's" where
  "match_result r onSuccess onError s =
     (if isSuccessful r then onSuccess (getSuccessUnchecked r) s
      else onError (getErrorUnchecked r) s)"

section \<open>Lemmas\<close>

lemma int_one_shl_bit:
  "int_one_shl index = Some b \<Longrightarrow>
   bit b n \<longleftrightarrow> n < 64 \<and> (n = index \<or> index = 31 \<and> 31 \<le> n)"
proof (cases "index = 31")
  case True
  have m: "(scast (push_bit 31 1 :: u32) :: u64) = NOT (mask 31)"
    by (simp add: mask_eq_exp_minus_1)
  assume "int_one_shl index = Some b"
  then have "b = NOT (mask 31)"
    unfolding int_one_shl_def True m by simp
  with True show ?thesis by (simp only: bit_not_iff bit_mask_iff) auto
next
  case False
  show "int_one_shl index = Some b \<Longrightarrow> ?thesis"
    using False by (auto simp: int_one_shl_def bit_simps min_def bit_1_iff split: if_splits)
qed

lemma int_one_shl_Some: "(\<exists>b. int_one_shl index = Some b) \<longleftrightarrow> index < 32"
  by (auto simp: int_one_shl_def)

lemma map_option_Some: "map_option f x = Some y \<longleftrightarrow> (\<exists>b. x = Some b \<and> y = f b)"
  by (cases x) auto

section \<open>Properties\<close>

text \<open>
  Below index 31 the macros set and clear exactly the bit of the index; at index 31
  the \<open>int\<close> shift is negative, so that on a 64-bit target the bits 31 to 63 are all set
  or all cleared.
\<close>

theorem set_bit_macros:
  assumes "index < 32"
  shows "\<exists>x y. ESSENTIALS_SET_BIT_ON target index = Some x
    \<and> ESSENTIALS_SET_BIT_OFF target index = Some y
    \<and> (\<forall>n < 64. bit x n = (bit target n \<or> n = index \<or> index = 31 \<and> 31 \<le> n)
        \<and> bit y n = (bit target n \<and> n \<noteq> index \<and> \<not> (index = 31 \<and> 31 \<le> n)))"
proof -
  obtain b where b: "int_one_shl index = Some b"
    using assms int_one_shl_Some by blast
  show ?thesis
    unfolding ESSENTIALS_SET_BIT_ON_def ESSENTIALS_SET_BIT_OFF_def b
    by (auto simp: bit_or_iff bit_and_iff bit_not_iff int_one_shl_bit [OF b])
qed

theorem set_bit_macros_witness:
  "ESSENTIALS_SET_BIT_ON 0 31 = Some 0xFFFFFFFF80000000 \<and> (\<exists>x. ESSENTIALS_SET_BIT_ON 0 4 = Some x
    \<and> bit x 4 \<and> \<not> bit x 31)"
  using set_bit_macros [of 4 0] by (auto simp: ESSENTIALS_SET_BIT_ON_def int_one_shl_def)

text \<open>
  \<open>ESSENTIALS_CHECK_BIT\<close> compares the masked value with the index instead of 0: it is
  true only for index 0 on a target whose bit 0 is clear, whatever the bit asked for.
\<close>

theorem check_bit_tests_wrong_value:
  assumes "index < 32"
  shows "ESSENTIALS_CHECK_BIT target index = Some (index = 0 \<and> \<not> bit target 0)"
proof -
  obtain b where b: "int_one_shl index = Some b"
    using assms int_one_shl_Some by blast
  have "target AND b = of_nat index \<longleftrightarrow> index = 0 \<and> \<not> bit target 0"
  proof (cases "index = 0")
    case True
    then have "b = 1" using b by (simp add: int_one_shl_def)
    with True show ?thesis by (simp add: and_one_eq bit_0 even_iff_mod_2_eq_zero)
  next
    case False
    have k: "n < k" if "bit k n" for k n :: nat
    proof -
      from that have "k div 2 ^ n \<noteq> 0" by (metis bit_iff_odd even_zero)
      then have "2 ^ n \<le> k" by (simp add: div_eq_0_iff)
      then show ?thesis using less_exp [of n] by linarith
    qed
    have "target AND b \<noteq> of_nat index"
    proof
      assume eq: "target AND b = of_nat index"
      have "\<not> bit (of_nat index :: u64) n" for n
      proof
        assume a: "bit (of_nat index :: u64) n"
        then have "n < index" using k by (simp add: bit_of_nat_iff)
        moreover have "bit b n" using a unfolding eq [symmetric] by (simp add: bit_and_iff)
        ultimately show False by (simp add: int_one_shl_bit [OF b])
      qed
      then have "(of_nat index :: u64) = 0" by (intro bit_word_eqI) simp
      with False assms show False by (auto simp: word_of_nat_eq_0_iff dest: dvd_imp_le)
    qed
    with False show ?thesis by simp
  qed
  then show ?thesis by (simp add: ESSENTIALS_CHECK_BIT_def b)
qed

theorem check_bit_tests_wrong_value_witness:
  "ESSENTIALS_CHECK_BIT 8 3 = Some False \<and> ESSENTIALS_CHECK_BIT 8 0 = Some True"
  using check_bit_tests_wrong_value [of 3 8] check_bit_tests_wrong_value [of 0 8]
  by simp

end
