(* ===== verification/Paging_Types.thy ===== *)
theory Paging_Types
  imports Mem_Essentials Essentials_Utils CLayout
begin

text \<open>
  The types of \<open>static_libs/paginator\<close>: page tables, page flags and errors of
  \<open>include/paginator/page_table.h\<close>, and the hardware flags of
  \<open>src/arch/x86_64/x86_64_paging_controller.h\<close>. \<open>PageFlags\<close> is an \<open>enum class\<close> over \<open>int\<close>,
  so its values are 32-bit words.
\<close>

section \<open>page_table.h\<close>

definition PageTable_t :: cty where
  "PageTable_t = CStruct [(''entries'', CArr C64 512)]"

definition tbl_slot :: "u64 \<Rightarrow> u64 \<Rightarrow> u64" where
  "tbl_slot table i = table + 8 * i"

type_synonym PageFlags = u32

definition PF_Present :: PageFlags where "PF_Present = 1"
definition PF_UserModeAccessible :: PageFlags where "PF_UserModeAccessible = push_bit 1 1"
definition PF_ExecuteBit :: PageFlags where "PF_ExecuteBit = push_bit 2 1"
definition PF_WriteBit :: PageFlags where "PF_WriteBit = push_bit 3 1"
definition PF_ReadBit :: PageFlags where "PF_ReadBit = push_bit 4 1"
definition PF_IsHugePage :: PageFlags where "PF_IsHugePage = push_bit 15 1"

definition PageFlags_or :: "PageFlags \<Rightarrow> PageFlags \<Rightarrow> PageFlags" where
  "PageFlags_or a b = a OR b"

definition PageFlags_and :: "PageFlags \<Rightarrow> PageFlags \<Rightarrow> PageFlags" where
  "PageFlags_and a b = a AND b"

datatype PageMapError = PM_NoError | PM_EntryExists | PM_InvalidVirtAddress | PM_AllocFailed | PM_UnknownError

definition PageMapError_value :: "PageMapError \<Rightarrow> int" where
  "PageMapError_value e = (case e of PM_NoError \<Rightarrow> 0 | PM_EntryExists \<Rightarrow> 1 | PM_InvalidVirtAddress \<Rightarrow> 2
     | PM_AllocFailed \<Rightarrow> 3 | PM_UnknownError \<Rightarrow> 2147483647)"

section \<open>x86_64_paging_controller.h\<close>

type_synonym X86_64PageFlags = u64

definition X86_Present :: X86_64PageFlags where "X86_Present = 1"
definition X86_WriteEnable :: X86_64PageFlags where "X86_WriteEnable = push_bit 1 1"
definition X86_UserModeAccessible :: X86_64PageFlags where "X86_UserModeAccessible = push_bit 2 1"
definition X86_WriteThrough :: X86_64PageFlags where "X86_WriteThrough = push_bit 3 1"
definition X86_CacheDisable :: X86_64PageFlags where "X86_CacheDisable = push_bit 4 1"
definition X86_Accessed :: X86_64PageFlags where "X86_Accessed = push_bit 5 1"
definition X86_Dirty :: X86_64PageFlags where "X86_Dirty = push_bit 6 1"
definition X86_HugePage :: X86_64PageFlags where "X86_HugePage = push_bit 7 1"
definition X86_Global :: X86_64PageFlags where "X86_Global = push_bit 8 1"
definition X86_ExecuteDisable :: X86_64PageFlags where "X86_ExecuteDisable = push_bit 63 1"

definition X86_64PageFlags_or :: "X86_64PageFlags \<Rightarrow> X86_64PageFlags \<Rightarrow> X86_64PageFlags" where
  "X86_64PageFlags_or a b = a OR b"

definition X86_64PageFlags_and :: "X86_64PageFlags \<Rightarrow> X86_64PageFlags \<Rightarrow> X86_64PageFlags" where
  "X86_64PageFlags_and a b = a AND b"

definition X86_64PageFlags_not :: "X86_64PageFlags \<Rightarrow> X86_64PageFlags" where
  "X86_64PageFlags_not a = NOT a"

end
