(* ===== verification/X86_64_Paging.thy ===== *)
theory X86_64_Paging
  imports Paging_Types
begin

text \<open>
  \<open>static_libs/paginator/src/arch/x86_64/x86_64_paging_controller.cpp\<close>: table entries,
  the four-level walk that maps a page, the translation and the activation of a root table.

  A page table is 512 little-endian 64-bit cells of the machine's memory. While paging is
  not yet the repository's own (\<open>pagingDisabledNow\<close>) a pointer is the address of the memory;
  otherwise the processor translates it with \<open>mmu\<close>, a parameter, and an access can fault
  (\<open>None\<close>). The allocator callback and the load of \<open>cr3\<close> are parameters too.
\<close>

section \<open>Constants and entries\<close>

definition INDEX_MASK :: u64 where "INDEX_MASK = 0x1FF"
definition PAGE_OFFSET_MASK :: u64 where "PAGE_OFFSET_MASK = 0x3FF"
definition PAGE_TABLE_SIZE :: u64 where "PAGE_TABLE_SIZE = 4096"
definition PAGE_SIZE :: u64 where "PAGE_SIZE = 4096"
definition HUGE_PAGE_SIZE :: u64 where "HUGE_PAGE_SIZE = 1024 * 1024 * 2"
definition SIGN_EXTENSION :: u64 where "SIGN_EXTENSION = push_bit 48 0xFFFF"
definition RECURSIVE_INDEX :: u64 where "RECURSIVE_INDEX = 0x01"
definition P4_SHIFT :: nat where "P4_SHIFT = 39"
definition P3_SHIFT :: nat where "P3_SHIFT = 30"
definition P2_SHIFT :: nat where "P2_SHIFT = 21"
definition P1_SHIFT :: nat where "P1_SHIFT = 12"

definition GET_ADDR_FROM_ENTRY :: "u64 \<Rightarrow> u64" where
  "GET_ADDR_FROM_ENTRY entry = drop_bit 12 entry AND 40"

definition SET_PHYSICAL_ADDRESS :: "u64 \<Rightarrow> u64 \<Rightarrow> u64" where
  "SET_PHYSICAL_ADDRESS entry val = entry OR push_bit 12 val"

definition constructTableEntry :: "u64 \<Rightarrow> PageFlags \<Rightarrow> u64" where
  "constructTableEntry physicalAddress flags = (
     let data = 0;
         x = 0;
         x = (if PageFlags_and flags PF_Present = PF_Present
              then X86_64PageFlags_or x X86_Present else x);
         x = (if PageFlags_and flags PF_UserModeAccessible = PF_UserModeAccessible
              then X86_64PageFlags_or x X86_UserModeAccessible else x);
         x = (if PageFlags_and flags PF_WriteBit = PF_WriteBit
              then X86_64PageFlags_or x X86_WriteEnable else x);
         x = (if PageFlags_and flags PF_IsHugePage = PF_IsHugePage
              then X86_64PageFlags_or x X86_HugePage else x);
         x = (if PageFlags_and flags PF_ExecuteBit \<noteq> PF_ExecuteBit
              then X86_64PageFlags_or x X86_ExecuteDisable else x);
         data = data OR push_bit 0 x
     in SET_PHYSICAL_ADDRESS data physicalAddress)"

text \<open>The body of \<open>invalidatePage\<close> is commented out.\<close>

definition invalidatePage :: "u64 \<Rightarrow> 'e machine \<Rightarrow> 'e machine" where
  "invalidatePage virtAddress s = s"

section \<open>Access through a table pointer\<close>

type_synonym mmu = "mem \<Rightarrow> u64 \<Rightarrow> u64 option"

definition deref :: "mmu \<Rightarrow> bool \<Rightarrow> mem \<Rightarrow> u64 \<Rightarrow> u64 option" where
  "deref mmu pagingDisabledNow m p = (if pagingDisabledNow then Some p else mmu m p)"

definition ld_entry :: "mmu \<Rightarrow> bool \<Rightarrow> mem \<Rightarrow> u64 \<Rightarrow> u64 \<Rightarrow> u64 option" where
  "ld_entry mmu off m table i = map_option (ld64 m) (deref mmu off m (tbl_slot table i))"

definition st_entry :: "mmu \<Rightarrow> bool \<Rightarrow> 'e machine \<Rightarrow> u64 \<Rightarrow> u64 \<Rightarrow> u64 \<Rightarrow> 'e machine option" where
  "st_entry mmu off s table i v = map_option (\<lambda>a. s\<lparr>memory := st64 (memory s) a v\<rparr>)
     (deref mmu off (memory s) (tbl_slot table i))"

section \<open>The walk\<close>

definition l4Idx :: "u64 \<Rightarrow> u64" where "l4Idx v = drop_bit P4_SHIFT v AND INDEX_MASK"
definition l3Idx :: "u64 \<Rightarrow> u64" where "l3Idx v = drop_bit P3_SHIFT v AND INDEX_MASK"
definition l2Idx :: "u64 \<Rightarrow> u64" where "l2Idx v = drop_bit P2_SHIFT v AND INDEX_MASK"
definition l1Idx :: "u64 \<Rightarrow> u64" where "l1Idx v = drop_bit P1_SHIFT v AND INDEX_MASK"

definition recursive_address :: "u64 \<Rightarrow> u64 \<Rightarrow> u64 \<Rightarrow> u64 \<Rightarrow> u64" where
  "recursive_address i4 i3 i2 i1 = SIGN_EXTENSION OR push_bit P4_SHIFT i4 OR push_bit P3_SHIFT i3
     OR push_bit P2_SHIFT i2 OR push_bit P1_SHIFT i1"

text \<open>
  The block the code repeats for each of the upper three levels: read entry \<open>i\<close> of \<open>table\<close>;
  when it is 0, allocate and clear a table, store its entry in slot \<open>i\<close> of the \<^emph>\<open>root\<close>
  table (as the code does on every level) and in slot 1 of the new table. The result is the
  pointer to the next table, computed from the entry or the recursive address, or the error.
\<close>

definition table_pointer :: "bool \<Rightarrow> u64 \<Rightarrow> u64 \<Rightarrow> u64" where
  "table_pointer pagingDisabledNow entry recursiveAddress =
     (if pagingDisabledNow then GET_ADDR_FROM_ENTRY entry else recursiveAddress)"

definition next_level :: "mmu \<Rightarrow> ('e machine \<Rightarrow> u64 \<times> 'e machine) \<Rightarrow> bool \<Rightarrow> u64 \<Rightarrow> u64 \<Rightarrow> u64
    \<Rightarrow> u64 \<Rightarrow> 'e machine \<Rightarrow> ((PageMapError + u64) \<times> 'e machine) option" where
  "next_level mmu allocator off rootPageTable table i recursiveAddress s =
    (case ld_entry mmu off (memory s) table i of None \<Rightarrow> None | Some entry \<Rightarrow>
      if entry \<noteq> 0 then Some (Inr (table_pointer off entry recursiveAddress), s)
      else (let (physAddr, s) = allocator s in
        if physAddr = 0 then Some (Inl PM_AllocFailed, s)
        else let s = (if off then s\<lparr>memory := snd (memset (memory s) physAddr 0 PAGE_TABLE_SIZE)\<rparr>
                      else s);
                 entry = constructTableEntry physAddr (PageFlags_or PF_Present PF_WriteBit) in
          case st_entry mmu off s rootPageTable i entry of None \<Rightarrow> None | Some s \<Rightarrow>
          case st_entry mmu off s (table_pointer off entry recursiveAddress) RECURSIVE_INDEX entry of
            None \<Rightarrow> None
          | Some s \<Rightarrow> Some (Inr (table_pointer off entry recursiveAddress), s)))"

definition translateVirtToPhys :: "mmu \<Rightarrow> u64 \<Rightarrow> u64 \<Rightarrow> bool \<Rightarrow> mem \<Rightarrow> u64 option" where
  "translateVirtToPhys mmu rootPageTable virtAddress off m =
    (let i4 = l4Idx virtAddress; i3 = l3Idx virtAddress; i2 = l2Idx virtAddress;
         i1 = l1Idx virtAddress in
     if i4 > INDEX_MASK \<or> i3 > INDEX_MASK \<or> i2 > INDEX_MASK \<or> i1 > INDEX_MASK then Some 0 else
     case ld_entry mmu off m rootPageTable i4 of None \<Rightarrow> None | Some e4 \<Rightarrow>
     let l3PhysAddr = GET_ADDR_FROM_ENTRY e4 in if l3PhysAddr = 0 then Some 0 else
     case ld_entry mmu off m l3PhysAddr i3 of None \<Rightarrow> None | Some e3 \<Rightarrow>
     let l2PhysAddr = GET_ADDR_FROM_ENTRY e3 in if l2PhysAddr = 0 then Some 0 else
     case ld_entry mmu off m l2PhysAddr i2 of None \<Rightarrow> None | Some e2 \<Rightarrow>
     let l1PhysAddr = GET_ADDR_FROM_ENTRY e2 in if l1PhysAddr = 0 then Some 0 else
     map_option GET_ADDR_FROM_ENTRY (ld_entry mmu off m l1PhysAddr i1))"

definition mapPage :: "mmu \<Rightarrow> u64 \<Rightarrow> ('e machine \<Rightarrow> u64 \<times> 'e machine) \<Rightarrow> u64 \<Rightarrow> u64 \<Rightarrow> PageFlags
    \<Rightarrow> bool \<Rightarrow> bool \<Rightarrow> 'e machine \<Rightarrow> (PageMapError \<times> 'e machine) option" where
  "mapPage mmu rootPageTable allocator virtAddress physAddress flags forceWrite off s =
    (let i4 = l4Idx virtAddress; i3 = l3Idx virtAddress; i2 = l2Idx virtAddress;
         i1 = l1Idx virtAddress in
     if i4 > INDEX_MASK \<or> i3 > INDEX_MASK \<or> i2 > INDEX_MASK \<or> i1 > INDEX_MASK
     then Some (PM_InvalidVirtAddress, s) else
     let signExtension = drop_bit 48 virtAddress in
     if signExtension \<noteq> 0 \<and> signExtension \<noteq> 0xFFFF then Some (PM_InvalidVirtAddress, s) else
     case (if forceWrite then Some 0
           else translateVirtToPhys mmu rootPageTable virtAddress off (memory s)) of
       None \<Rightarrow> None
     | Some phys \<Rightarrow> if \<not> forceWrite \<and> phys \<noteq> 0 then Some (PM_EntryExists, s) else
     case next_level mmu allocator off rootPageTable rootPageTable i4
         (recursive_address RECURSIVE_INDEX RECURSIVE_INDEX RECURSIVE_INDEX i4) s of
       None \<Rightarrow> None | Some (Inl err, s) \<Rightarrow> Some (err, s) | Some (Inr l3Table, s) \<Rightarrow>
     case next_level mmu allocator off rootPageTable l3Table i3
         (recursive_address RECURSIVE_INDEX RECURSIVE_INDEX i4 i3) s of
       None \<Rightarrow> None | Some (Inl err, s) \<Rightarrow> Some (err, s) | Some (Inr l2Table, s) \<Rightarrow>
     case next_level mmu allocator off rootPageTable l2Table i2
         (recursive_address RECURSIVE_INDEX i4 i3 i2) s of
       None \<Rightarrow> None | Some (Inl err, s) \<Rightarrow> Some (err, s) | Some (Inr l1Table, s) \<Rightarrow>
     case ld_entry mmu off (memory s) l1Table i1 of None \<Rightarrow> None | Some existingPhysAddress \<Rightarrow>
     if existingPhysAddress \<noteq> 0 \<and> \<not> forceWrite then Some (PM_EntryExists, s) else
     let s = (if existingPhysAddress \<noteq> 0 then invalidatePage virtAddress s else s) in
     map_option (\<lambda>s. (PM_NoError, s))
       (st_entry mmu off s l1Table i1 (constructTableEntry physAddress flags)))"

definition unmapPage :: "u64 \<Rightarrow> u64 \<Rightarrow> bool \<Rightarrow> 'e machine \<Rightarrow> 'e machine" where
  "unmapPage rootPageTable virtAddress off s = s"

definition activateRootPageTable :: "mmu \<Rightarrow> (u64 \<Rightarrow> 'e machine \<Rightarrow> 'e machine) \<Rightarrow> u64 \<Rightarrow> bool
    \<Rightarrow> 'e machine \<Rightarrow> (bool \<times> 'e machine) option" where
  "activateRootPageTable mmu load_cr3 rootPageTable off s =
    (let recursiveAddr = recursive_address RECURSIVE_INDEX RECURSIVE_INDEX RECURSIVE_INDEX
           RECURSIVE_INDEX in
     map_option (\<lambda>physAddr. (False, load_cr3 physAddr s))
       (if off then Some rootPageTable
        else ld_entry mmu off (memory s) recursiveAddr RECURSIVE_INDEX))"

section \<open>Lemmas on indexes and entries\<close>

lemmas index_defs = l4Idx_def l3Idx_def l2Idx_def l1Idx_def

lemma index_le [simp]:
  "\<not> INDEX_MASK < l4Idx v" "\<not> INDEX_MASK < l3Idx v" "\<not> INDEX_MASK < l2Idx v"
  "\<not> INDEX_MASK < l1Idx v"
  by (simp_all add: index_defs not_less word_and_le1)

lemma index_mask: "(x :: u64) AND INDEX_MASK = take_bit 9 x"
  by (simp add: INDEX_MASK_def take_bit_eq_mask mask_eq_exp_minus_1)

lemma bit_unit: "bit (push_bit k 1 :: 'a :: len word) n \<longleftrightarrow> n = k \<and> k < LENGTH('a)"
  by (auto simp: bit_simps)

lemma bit_masks:
  "bit (8 :: int) n \<longleftrightarrow> n = 3" "bit (32 :: int) n \<longleftrightarrow> n = 5"
  "bit (40 :: int) n \<longleftrightarrow> n = 3 \<or> n = 5"
proof -
  have p: "bit (2 ^ k :: int) n \<longleftrightarrow> n = k" for k
    by (simp add: bit_exp_iff eq_commute)
  show 8: "bit (8 :: int) n \<longleftrightarrow> n = 3" and 32: "bit (32 :: int) n \<longleftrightarrow> n = 5"
    using p [of 3] p [of 5] by auto
  have "(40 :: int) = 8 OR 32" by simp
  then show "bit (40 :: int) n \<longleftrightarrow> n = 3 \<or> n = 5" by (metis 8 32 bit_or_iff)
qed

lemma and_40: "(x :: u64) AND 40 = (if bit x 3 then 8 else 0) + (if bit x 5 then 32 else 0)"
proof -
  have "x AND 40 = (if bit x 3 then 8 else 0) OR (if bit x 5 then 32 else 0)"
    by (rule bit_word_eqI) (auto simp: bit_and_iff bit_or_iff bit_masks)
  then show ?thesis by simp
qed

lemma GET_ADDR_cases: "GET_ADDR_FROM_ENTRY e \<in> {0, 8, 32, 40}"
  by (simp add: GET_ADDR_FROM_ENTRY_def and_40)

lemma flag_test: "k < 32 \<Longrightarrow> PageFlags_and flags (push_bit k 1) = push_bit k 1 \<longleftrightarrow> bit flags k"
proof
  assume "k < 32" "PageFlags_and flags (push_bit k 1) = push_bit k 1"
  then have "bit (flags AND push_bit k 1) k"
    by (simp only: PageFlags_and_def bit_unit) simp
  then show "bit flags k" by (simp add: bit_and_iff)
next
  assume "k < 32" "bit flags k"
  then show "PageFlags_and flags (push_bit k 1) = push_bit k 1"
    unfolding PageFlags_and_def by (intro bit_word_eqI) (auto simp: bit_and_iff bit_exp_iff)
qed

lemma constructTableEntry_bits:
  "bit (constructTableEntry p flags) n \<longleftrightarrow>
     n = 0 \<and> bit flags 0 \<or> n = 1 \<and> bit flags 3 \<or> n = 2 \<and> bit flags 1 \<or> n = 7 \<and> bit flags 15
     \<or> n = 63 \<and> \<not> bit flags 2 \<or> 12 \<le> n \<and> n < 64 \<and> bit p (n - 12)"
proof -
  have t: "PageFlags_and flags PF_Present = PF_Present \<longleftrightarrow> bit flags 0"
    "PageFlags_and flags PF_UserModeAccessible = PF_UserModeAccessible \<longleftrightarrow> bit flags 1"
    "PageFlags_and flags PF_ExecuteBit = PF_ExecuteBit \<longleftrightarrow> bit flags 2"
    "PageFlags_and flags PF_WriteBit = PF_WriteBit \<longleftrightarrow> bit flags 3"
    "PageFlags_and flags PF_IsHugePage = PF_IsHugePage \<longleftrightarrow> bit flags 15"
    using flag_test [of 0 flags] flag_test [of 1 flags] flag_test [of 2 flags]
      flag_test [of 3 flags] flag_test [of 15 flags]
    by (simp_all only: PF_Present_def PF_UserModeAccessible_def PF_ExecuteBit_def PF_WriteBit_def
        PF_IsHugePage_def push_bit_0_id id_apply)
  have b: "bit X86_Present n \<longleftrightarrow> n = 0" "bit X86_WriteEnable n \<longleftrightarrow> n = 1"
    "bit X86_UserModeAccessible n \<longleftrightarrow> n = 2" "bit X86_HugePage n \<longleftrightarrow> n = 7"
    "bit X86_ExecuteDisable n \<longleftrightarrow> n = 63"
    using bit_unit [of 0 n, where 'a = 64] bit_unit [of 1 n, where 'a = 64]
      bit_unit [of 2 n, where 'a = 64] bit_unit [of 7 n, where 'a = 64]
      bit_unit [of 63 n, where 'a = 64]
    by (simp_all only: X86_Present_def X86_WriteEnable_def X86_UserModeAccessible_def
        X86_HugePage_def X86_ExecuteDisable_def push_bit_0_id id_apply) simp_all
  show ?thesis
    unfolding constructTableEntry_def SET_PHYSICAL_ADDRESS_def X86_64PageFlags_or_def t Let_def
    by (auto simp: bit_or_iff bit_push_bit_iff b)
qed

lemma GET_ADDR_construct: "GET_ADDR_FROM_ENTRY (constructTableEntry p flags) = p AND 40"
  unfolding GET_ADDR_FROM_ENTRY_def
  by (rule bit_word_eqI) (auto simp: bit_and_iff bit_drop_bit_eq constructTableEntry_bits bit_masks)

lemma construct_nonzero:
  "constructTableEntry p (PageFlags_or PF_Present PF_WriteBit) \<noteq> 0"
proof -
  have "bit (constructTableEntry p (PageFlags_or PF_Present PF_WriteBit)) 0"
    by (simp add: constructTableEntry_bits PageFlags_or_def PF_Present_def PF_WriteBit_def bit_1_iff
        bit_or_iff)
  then show ?thesis by auto
qed

lemma page_aligned_and_40:
  assumes "take_bit 12 (p :: u64) = 0"
  shows "p AND 40 = 0"
proof -
  have "\<not> bit p n" if "n < 12" for n
    using assms that by (metis bit_0_eq bit_take_bit_iff bot_apply bot_bool_def)
  then show ?thesis by (simp add: and_40)
qed

section \<open>Properties of entries and translation\<close>

text \<open>
  C25: \<open>constructTableEntry\<close> sets exactly the hardware bits that stand for the flags
  (present, writable, user, huge, and the inverted execute flag in bit 63) and the bits of the
  physical address moved up by 12: the hardware reads the frame \<open>physicalAddress * 4096\<close>,
  so the argument is a frame number, not the address that \<open>mapPage\<close> passes.
\<close>

theorem entry_encodes_flags_and_shifted_address:
  "(\<forall>n. bit (constructTableEntry p flags) n \<longleftrightarrow>
     n = 0 \<and> bit flags 0 \<or> n = 1 \<and> bit flags 3 \<or> n = 2 \<and> bit flags 1 \<or> n = 7 \<and> bit flags 15
     \<or> n = 63 \<and> \<not> bit flags 2 \<or> 12 \<le> n \<and> n < 64 \<and> bit p (n - 12))
   \<and> take_bit 40 (drop_bit 12 (constructTableEntry p flags)) = take_bit 40 p"
proof (intro conjI allI)
  show "take_bit 40 (drop_bit 12 (constructTableEntry p flags)) = take_bit 40 p"
    by (rule bit_word_eqI) (auto simp: bit_take_bit_iff bit_drop_bit_eq constructTableEntry_bits)
qed (rule constructTableEntry_bits)

text \<open>
  Reading the address back from a new entry masks it with the decimal 40: only bits
  3 and 5 of the address survive, and the address of a table, which is page aligned, reads
  back as the null pointer.
\<close>

theorem entry_address_reads_back_null:
  "GET_ADDR_FROM_ENTRY (constructTableEntry p flags) = p AND 40
   \<and> GET_ADDR_FROM_ENTRY (constructTableEntry (push_bit 12 frame) flags) = 0"
proof -
  have "push_bit 12 frame AND 40 = 0"
    by (rule page_aligned_and_40) (simp add: take_bit_push_bit)
  then show ?thesis by (simp add: GET_ADDR_construct)
qed

lemma translate_cases:
  "translateVirtToPhys mmu root v off m = None \<or> translateVirtToPhys mmu root v off m = Some 0
   \<or> (\<exists>e. translateVirtToPhys mmu root v off m = Some (GET_ADDR_FROM_ENTRY e))"
proof -
  define ok where
    "ok x \<longleftrightarrow> x = None \<or> x = Some 0 \<or> (\<exists>e. x = Some (GET_ADDR_FROM_ENTRY e))" for x
  have n: "ok None" and z: "ok (Some 0)" and m: "ok (map_option GET_ADDR_FROM_ENTRY x)" for x
    by (auto simp: ok_def)
  have i: "ok y \<Longrightarrow> ok z \<Longrightarrow> ok (if b then y else z)" for b y z
    by simp
  have c: "(\<And>e. ok (f e)) \<Longrightarrow> ok (case x of None \<Rightarrow> None | Some e \<Rightarrow> f e)"
    for x :: "u64 option" and f
    by (simp add: n split: option.split)
  have "ok (translateVirtToPhys mmu root v off m)"
    unfolding translateVirtToPhys_def Let_def by (intro i c m n z)
  then show ?thesis by (simp add: ok_def)
qed

lemma ld_entry_off [simp]: "ld_entry mmu True m table i = Some (ld64 m (tbl_slot table i))"
  by (simp add: ld_entry_def deref_def)

lemma st_entry_off [simp]:
  "st_entry mmu True s table i v = Some (s\<lparr>memory := st64 (memory s) (tbl_slot table i) v\<rparr>)"
  by (simp add: st_entry_def deref_def)

lemma translate_off: "translateVirtToPhys mmu root v True m \<noteq> None"
  by (simp add: translateVirtToPhys_def Let_def)

text \<open>
  Whatever the tables hold, a translation that does not fault yields 0, 8, 32 or 40,
  never the address of a page; with identity-mapped memory it does not fault.
\<close>

theorem translation_range:
  "translateVirtToPhys mmu root v off m \<in> {None, Some 0, Some 8, Some 32, Some 40}
   \<and> translateVirtToPhys mmu root v True m \<noteq> None"
proof
  show "translateVirtToPhys mmu root v off m \<in> {None, Some 0, Some 8, Some 32, Some 40}"
    using translate_cases [of mmu root v off m]
  proof (elim disjE exE)
    fix e assume "translateVirtToPhys mmu root v off m = Some (GET_ADDR_FROM_ENTRY e)"
    with GET_ADDR_cases [of e] show ?thesis by auto
  qed simp_all
qed (rule translate_off)

section \<open>The walk on identity-mapped memory\<close>

text \<open>
  With \<open>pagingDisabledNow\<close> no access faults; one level and the whole walk are total
  functions of the machine.
\<close>

definition new_table :: "mem \<Rightarrow> u64 \<Rightarrow> u64 \<Rightarrow> u64 \<Rightarrow> mem" where
  "new_table m root i p = (let e = constructTableEntry p (PageFlags_or PF_Present PF_WriteBit) in
     st64 (st64 (fill m p 4096 0) (tbl_slot root i) e) (tbl_slot (GET_ADDR_FROM_ENTRY e) 1) e)"

definition level_step :: "('e machine \<Rightarrow> u64 \<times> 'e machine) \<Rightarrow> u64 \<Rightarrow> u64 \<Rightarrow> u64 \<Rightarrow> 'e machine
    \<Rightarrow> (PageMapError + u64) \<times> 'e machine" where
  "level_step allocator root table i s =
    (if ld64 (memory s) (tbl_slot table i) \<noteq> 0
     then (Inr (GET_ADDR_FROM_ENTRY (ld64 (memory s) (tbl_slot table i))), s)
     else let (p, s) = allocator s in
       if p = 0 then (Inl PM_AllocFailed, s)
       else (Inr (p AND 40), s\<lparr>memory := new_table (memory s) root i p\<rparr>))"

definition last_step :: "u64 \<Rightarrow> u64 \<Rightarrow> u64 \<Rightarrow> bool \<Rightarrow> 'e machine \<Rightarrow> PageMapError \<times> 'e machine" where
  "last_step table i e forceWrite s =
    (if ld64 (memory s) (tbl_slot table i) \<noteq> 0 \<and> \<not> forceWrite then (PM_EntryExists, s)
     else (PM_NoError, s\<lparr>memory := st64 (memory s) (tbl_slot table i) e\<rparr>))"

lemma next_level_off:
  "next_level mmu allocator True root table i r s = Some (level_step allocator root table i s)"
  by (cases "allocator s")
    (simp add: next_level_def level_step_def table_pointer_def new_table_def Let_def
      GET_ADDR_construct RECURSIVE_INDEX_def PAGE_TABLE_SIZE_def memset_eq)

lemma mapPage_off:
  "mapPage mmu root allocator v phys flags forceWrite True s = Some (
     if drop_bit 48 v \<noteq> 0 \<and> drop_bit 48 v \<noteq> 0xFFFF then (PM_InvalidVirtAddress, s)
     else if \<not> forceWrite \<and> translateVirtToPhys mmu root v True (memory s) \<noteq> Some 0
     then (PM_EntryExists, s)
     else case level_step allocator root root (l4Idx v) s of
       (Inl e, s) \<Rightarrow> (e, s) | (Inr t3, s) \<Rightarrow>
     (case level_step allocator root t3 (l3Idx v) s of
       (Inl e, s) \<Rightarrow> (e, s) | (Inr t2, s) \<Rightarrow>
     (case level_step allocator root t2 (l2Idx v) s of
       (Inl e, s) \<Rightarrow> (e, s) | (Inr t1, s) \<Rightarrow>
     last_step t1 (l1Idx v) (constructTableEntry phys flags) forceWrite s)))"
proof (cases "translateVirtToPhys mmu root v True (memory s)")
  case None
  then show ?thesis using translate_off by blast
next
  case (Some a)
  then show ?thesis
    by (simp add: mapPage_def Let_def next_level_off last_step_def invalidatePage_def
        split: prod.split sum.split)
qed

lemma level_step_table:
  "level_step allocator root table i s = (Inr t, s') \<Longrightarrow> t \<in> {0, 8, 32, 40}"
  using GET_ADDR_cases and_40
  by (auto simp: level_step_def Let_def split: prod.splits if_splits)

lemma level_step_error:
  "level_step allocator root table i s = (Inl e, s') \<Longrightarrow>
   e = PM_AllocFailed \<and> allocator s = (0, s')"
  by (auto simp: level_step_def Let_def split: prod.splits if_splits)

text \<open>How a walk ends: before the first level, in an allocation, or in the last table.\<close>

lemma mapPage_walk:
  assumes "mapPage mmu root allocator v phys flags forceWrite True s = Some (err, s')"
  obtains
    (address) "err = PM_InvalidVirtAddress" "s' = s" "drop_bit 48 v \<noteq> 0" "drop_bit 48 v \<noteq> 0xFFFF"
  | (exists) "err = PM_EntryExists" "s' = s" "\<not> forceWrite"
      "drop_bit 48 v = 0 \<or> drop_bit 48 v = 0xFFFF"
  | (alloc4) "level_step allocator root root (l4Idx v) s = (Inl err, s')"
  | (alloc3) t3 s3 where "level_step allocator root root (l4Idx v) s = (Inr t3, s3)"
      "level_step allocator root t3 (l3Idx v) s3 = (Inl err, s')"
  | (alloc2) t3 s3 t2 s2 where "level_step allocator root root (l4Idx v) s = (Inr t3, s3)"
      "level_step allocator root t3 (l3Idx v) s3 = (Inr t2, s2)"
      "level_step allocator root t2 (l2Idx v) s2 = (Inl err, s')"
  | (last) t3 s3 t2 s2 t1 s1 where "level_step allocator root root (l4Idx v) s = (Inr t3, s3)"
      "level_step allocator root t3 (l3Idx v) s3 = (Inr t2, s2)"
      "level_step allocator root t2 (l2Idx v) s2 = (Inr t1, s1)"
      "last_step t1 (l1Idx v) (constructTableEntry phys flags) forceWrite s1 = (err, s')"
proof -
  note * = assms [unfolded mapPage_off option.inject]
  consider "drop_bit 48 v \<noteq> 0 \<and> drop_bit 48 v \<noteq> 0xFFFF"
    | "drop_bit 48 v = 0 \<or> drop_bit 48 v = 0xFFFF" "\<not> forceWrite"
      "translateVirtToPhys mmu root v True (memory s) \<noteq> Some 0"
    | "drop_bit 48 v = 0 \<or> drop_bit 48 v = 0xFFFF"
      "forceWrite \<or> translateVirtToPhys mmu root v True (memory s) = Some 0" by blast
  then show ?thesis
  proof cases
    case 1 with * show ?thesis by (intro address) auto
  next
    case 2 with * show ?thesis by (intro exists) auto
  next
    case 3
    obtain r3 s3 where 3: "level_step allocator root root (l4Idx v) s = (r3, s3)" by fastforce
    show ?thesis
    proof (cases r3)
      case (Inl e) with * 3 \<open>drop_bit 48 v = 0 \<or> _\<close> \<open>forceWrite \<or> _\<close> show ?thesis by (intro alloc4) auto
    next
      case t3: (Inr t3)
      obtain r2 s2 where 2: "level_step allocator root t3 (l3Idx v) s3 = (r2, s2)" by fastforce
      show ?thesis
      proof (cases r2)
        case (Inl e) with * 3 2 t3 \<open>drop_bit 48 v = 0 \<or> _\<close> \<open>forceWrite \<or> _\<close>
        show ?thesis by (intro alloc3) auto
      next
        case t2: (Inr t2)
        obtain r1 s1 where 1: "level_step allocator root t2 (l2Idx v) s2 = (r1, s1)" by fastforce
        show ?thesis
        proof (cases r1)
          case (Inl e) with * 3 2 1 t3 t2 \<open>drop_bit 48 v = 0 \<or> _\<close> \<open>forceWrite \<or> _\<close>
          show ?thesis by (intro alloc2) auto
        next
          case (Inr t1) with * 3 2 1 t3 t2 \<open>drop_bit 48 v = 0 \<or> _\<close> \<open>forceWrite \<or> _\<close>
          show ?thesis by (intro last) auto
        qed
      qed
    qed
  qed
qed

text \<open>What every level and the last store preserve, the walk preserves.\<close>

lemma mapPage_preserves:
  assumes "mapPage mmu root allocator v phys flags forceWrite True s = Some (err, s')" and "P s"
    and step: "\<And>s table i r s'. level_step allocator root table i s = (r, s') \<Longrightarrow> P s \<Longrightarrow>
      table = root \<or> table \<in> {0, 8, 32, 40} \<Longrightarrow> i \<le> INDEX_MASK \<Longrightarrow> P s'"
    and last: "\<And>s table i. P s \<Longrightarrow> table \<in> {0, 8, 32, 40} \<Longrightarrow> i \<le> INDEX_MASK \<Longrightarrow>
      P (s\<lparr>memory := st64 (memory s) (tbl_slot table i) (constructTableEntry phys flags)\<rparr>)"
  shows "P s'"
proof -
  have le: "l4Idx v \<le> INDEX_MASK" "l3Idx v \<le> INDEX_MASK" "l2Idx v \<le> INDEX_MASK"
    "l1Idx v \<le> INDEX_MASK"
    by (simp_all add: leI)
  note s4 = step [OF _ \<open>P s\<close> disjI1 [OF refl] le(1)]
  note s3 = step [OF _ _ disjI2 [OF level_step_table] le(2)]
  note s2 = step [OF _ _ disjI2 [OF level_step_table] le(3)]
  from assms(1) show ?thesis
  proof (cases rule: mapPage_walk)
    case (last t3 s3 t2 s2 t1 s1)
    from s2 [OF last(3) s3 [OF last(2) s4 [OF last(1)] last(1)] last(2)] have "P s1" .
    with last(4) level_step_table [OF last(3)] le(4) assms(4) show ?thesis
      by (auto simp: last_step_def split: if_splits)
  next
    case alloc4 then show ?thesis by (rule s4)
  next
    case (alloc3 t3 s3')
    show ?thesis by (rule s3 [OF alloc3(2) s4 [OF alloc3(1)] alloc3(1)])
  next
    case (alloc2 t3 s3' t2 s2')
    show ?thesis by (rule s2 [OF alloc2(3) s3 [OF alloc2(2) s4 [OF alloc2(1)] alloc2(1)] alloc2(2)])
  qed (use \<open>P s\<close> in simp_all)
qed

lemma mapPage_off_Some:
  obtains err s' where "mapPage mmu root allocator v phys flags forceWrite True s = Some (err, s')"
proof -
  have "\<exists>x. mapPage mmu root allocator v phys flags forceWrite True s = Some x"
    unfolding mapPage_off by (rule exI) (rule refl)
  with that show thesis by auto
qed

lemma next_level_error:
  "next_level mmu allocator off root table i r s = Some (Inl e, s') \<Longrightarrow> e = PM_AllocFailed"
  by (auto simp: next_level_def Let_def split: option.splits prod.splits if_splits)

section \<open>Slots of the tables\<close>

lemma slot_in_table:
  assumes "in_blk (tbl_slot table i) 8 a" "i \<le> INDEX_MASK"
  shows "in_blk table 4096 a"
proof -
  have i: "unat i \<le> 511" using assms(2) by (simp add: INDEX_MASK_def word_le_nat_alt)
  then have "unat (8 * i) = 8 * unat i" by (simp add: unat_word_ariths)
  with i assms(1) in_blk_shift [of table "8 * i" 8 a 4096] show ?thesis
    by (simp add: tbl_slot_def)
qed

lemma low_slot:
  assumes "in_blk (tbl_slot table i) 8 a" "i \<le> INDEX_MASK" "table \<in> {0, 8, 32, 40}"
  shows "unat a < 4136"
proof -
  have "in_blk table 4096 a" using assms(1,2) by (rule slot_in_table)
  moreover have "unat table \<le> 40" using assms(3) by auto
  ultimately have "in_blk 0 4136 a"
    using in_blk_shift [of 0 table 4096 a 4136] by simp
  then show ?thesis by (simp add: in_blk_def)
qed

lemma slot_low:
  assumes "table \<in> {0, 8, 32, 40}" "i \<le> INDEX_MASK"
  shows "unat (tbl_slot table i) + 8 \<le> 4136"
proof -
  have "unat i \<le> 511" using assms(2) by (simp add: INDEX_MASK_def word_le_nat_alt)
  then have "unat (8 * i) = 8 * unat i" "8 * unat i \<le> 4088" by (simp_all add: unat_word_ariths)
  moreover have "unat table \<le> 40" using assms(1) by auto
  ultimately show ?thesis
    unfolding tbl_slot_def using unat_add_cases [of table "8 * i"] by (auto split: if_splits)
qed

section \<open>Properties of mapPage\<close>

text \<open>An empty machine and an allocator with a single frame, for the witnesses.\<close>

definition empty_machine :: "unit machine" where
  "empty_machine = \<lparr> memory = (\<lambda>_. 0), env = () \<rparr>"

definition one_frame :: "unit machine \<Rightarrow> u64 \<times> unit machine" where
  "one_frame s = (0x200000, s)"

lemma ld64_empty [simp]: "ld64 (memory empty_machine) p = 0"
  by (rule ld64_zero) (simp add: empty_machine_def)

text \<open>
  C15: in every mode \<open>mapPage\<close> reports an invalid address exactly when the upper 16 bits are
  neither all 0 nor all 1, and then it changes nothing. Bit 47 plays no part, so addresses the
  processor rejects as non-canonical (\<open>0x0000800000000000\<close>) are accepted.
\<close>

theorem invalid_virt_address:
  "mapPage mmu root allocator v phys flags forceWrite off s = Some (PM_InvalidVirtAddress, s')
   \<longleftrightarrow> s' = s \<and> drop_bit 48 v \<noteq> 0 \<and> drop_bit 48 v \<noteq> 0xFFFF"
proof (cases "drop_bit 48 v \<noteq> 0 \<and> drop_bit 48 v \<noteq> 0xFFFF")
  case True
  then show ?thesis by (auto simp: mapPage_def Let_def)
next
  case False
  define ok where "ok x \<longleftrightarrow> (\<forall>s'. x \<noteq> Some (PM_InvalidVirtAddress, s'))"
    for x :: "(PageMapError \<times> 'a machine) option"
  have n: "ok None" and e: "ok (Some (PM_EntryExists, s))"
    and m: "ok (map_option (\<lambda>s. (PM_NoError, s)) x)" for s x
    by (auto simp: ok_def)
  have i: "(b \<Longrightarrow> ok y) \<Longrightarrow> (\<not> b \<Longrightarrow> ok z) \<Longrightarrow> ok (if b then y else z)" for b y z
    by simp
  have c: "(\<And>e. ok (f e)) \<Longrightarrow> ok (case x of None \<Rightarrow> None | Some e \<Rightarrow> f e)"
    for x :: "u64 option" and f
    by (simp add: n split: option.split)
  have l: "(\<And>t s. ok (f t s)) \<Longrightarrow> ok (case next_level mmu allocator off root table j r s of
      None \<Rightarrow> None | Some (Inl err, s) \<Rightarrow> Some (err, s) | Some (Inr t, s) \<Rightarrow> f t s)"
    for f table j r s
    by (auto simp: n ok_def dest: next_level_error split: option.split prod.split sum.split)
  have "ok (mapPage mmu root allocator v phys flags forceWrite off s)"
    unfolding mapPage_def Let_def using False by (simp only: index_le simp_thms if_False) (intro i c l m n e; simp)
  with False show ?thesis by (auto simp: ok_def)
qed

text \<open>
  C33: on identity-mapped memory, with a valid address, a forced write and an allocator that
  never fails, \<open>mapPage\<close> succeeds, and whatever the tables held, the new entry ends up in slot
  \<open>l1Idx\<close> of a table at address 0, 8, 32 or 40: in the first 4136 bytes of memory.
\<close>

theorem mapping_lands_in_low_memory:
  assumes "drop_bit 48 v = 0 \<or> drop_bit 48 v = 0xFFFF"
    and "\<And>s. fst (allocator s) \<noteq> 0"
  shows "\<exists>s' table. mapPage mmu root allocator v phys flags True True s = Some (PM_NoError, s')
    \<and> table \<in> {0, 8, 32, 40} \<and> unat (tbl_slot table (l1Idx v)) + 8 \<le> 4136
    \<and> ld64 (memory s') (tbl_slot table (l1Idx v)) = constructTableEntry phys flags"
proof -
  have ne: "level_step allocator root table i s \<noteq> (Inl e, s')" for table i s e s'
    using assms(2) level_step_error by (metis fst_conv)
  obtain err s' where m: "mapPage mmu root allocator v phys flags True True s = Some (err, s')"
    by (rule mapPage_off_Some)
  then show ?thesis
  proof (cases rule: mapPage_walk)
    case (last t3 s3 t2 s2 t1 s1)
    then have "err = PM_NoError"
      "ld64 (memory s') (tbl_slot t1 (l1Idx v)) = constructTableEntry phys flags"
      by (auto simp: last_step_def ld64_st64_same)
    with m level_step_table [OF last(3)] slot_low [of t1 "l1Idx v"] show ?thesis by (auto simp: leI)
  next
    case address with assms(1) show ?thesis by blast
  next
    case "exists" then show ?thesis by blast
  next
    case alloc4 with ne show ?thesis by blast
  next
    case (alloc3 t3 s3) with ne show ?thesis by blast
  next
    case (alloc2 t3 s3 t2 s2) with ne show ?thesis by blast
  qed
qed

theorem mapping_lands_in_low_memory_witness:
  "\<exists>s' table. mapPage (\<lambda>m a. Some a) 0x100000 one_frame 0x400000 0x300000 9 True True empty_machine
      = Some (PM_NoError, s')
    \<and> table \<in> {0, 8, 32, 40} \<and> unat (tbl_slot table 0) + 8 \<le> 4136
    \<and> ld64 (memory s') (tbl_slot table 0) = constructTableEntry 0x300000 9"
  using mapping_lands_in_low_memory [of "0x400000" one_frame "\<lambda>m a. Some a" "0x100000" "0x300000" 9
      empty_machine]
  by (simp add: one_frame_def l1Idx_def P1_SHIFT_def INDEX_MASK_def)

text \<open>
  The three levels the code writes out, as a loop over the indexes: a table per level, until the
  indexes are used up or a level fails.
\<close>

fun walk_levels :: "('e machine \<Rightarrow> u64 \<times> 'e machine) \<Rightarrow> u64 \<Rightarrow> u64 list \<Rightarrow> u64 \<Rightarrow> 'e machine
    \<Rightarrow> (PageMapError + u64) \<times> 'e machine" where
  "walk_levels allocator root [] table s = (Inr table, s)"
| "walk_levels allocator root (i # is) table s = (case level_step allocator root table i s of
     (Inl err, s) \<Rightarrow> (Inl err, s)
   | (Inr table, s) \<Rightarrow> walk_levels allocator root is table s)"

lemma mapPage_levels:
  "mapPage mmu root allocator v phys flags forceWrite True s = Some (
     if drop_bit 48 v \<noteq> 0 \<and> drop_bit 48 v \<noteq> 0xFFFF then (PM_InvalidVirtAddress, s)
     else if \<not> forceWrite \<and> translateVirtToPhys mmu root v True (memory s) \<noteq> Some 0
     then (PM_EntryExists, s)
     else case walk_levels allocator root [l4Idx v, l3Idx v, l2Idx v] root s of
       (Inl e, s) \<Rightarrow> (e, s)
     | (Inr t1, s) \<Rightarrow> last_step t1 (l1Idx v) (constructTableEntry phys flags) forceWrite s)"
  by (simp add: mapPage_off split: prod.split sum.split)

text \<open>An allocator whose environment records the frames it returns.\<close>

definition records_frames :: "(u64 list machine \<Rightarrow> u64 \<times> u64 list machine) \<Rightarrow> bool" where
  "records_frames allocator \<longleftrightarrow>
     (\<forall>s p s'. allocator s = (p, s') \<longrightarrow> env s' = env s @ [p])"

lemma level_step_frames:
  assumes "records_frames allocator" and "level_step allocator root table i s = (r, s')"
  shows "case r of Inl e \<Rightarrow> e = PM_AllocFailed \<and> env s' = env s @ [0]
    | Inr t \<Rightarrow> t \<in> {0, 8, 32, 40} \<and> (env s' = env s \<or> (\<exists>p. p \<noteq> 0 \<and> env s' = env s @ [p]))"
proof -
  obtain p s1 where "allocator s = (p, s1)" by fastforce
  moreover from this have "env s1 = env s @ [p]" using assms(1) by (simp add: records_frames_def)
  ultimately show ?thesis
    using assms(2) level_step_table [of allocator root table i s]
    by (cases r) (auto simp: level_step_def split: if_splits)
qed

lemma walk_frames:
  assumes "records_frames allocator" and "walk_levels allocator root is table s = (r, s')"
  shows "\<exists>ps. env s' = env s @ ps \<and> length ps \<le> length is \<and> 0 \<notin> set (butlast ps)
    \<and> (case r of Inl e \<Rightarrow> e = PM_AllocFailed \<and> 0 \<in> set ps
        | Inr t \<Rightarrow> 0 \<notin> set ps \<and> (is \<noteq> [] \<longrightarrow> t \<in> {0, 8, 32, 40}))"
  using assms(2)
proof (induction "is" arbitrary: table s)
  case (Cons i "is")
  obtain x s1 where x: "level_step allocator root table i s = (x, s1)" by fastforce
  note f = level_step_frames [OF assms(1) x]
  show ?case
  proof (cases x)
    case (Inl e)
    with f x Cons.prems show ?thesis by (intro exI [of _ "[0]"]) auto
  next
    case (Inr t)
    with Cons.prems x have w: "walk_levels allocator root is t s1 = (r, s')" by simp
    from Cons.IH [OF w] obtain ps where ps: "env s' = env s1 @ ps" "length ps \<le> length is"
        "0 \<notin> set (butlast ps)" "case r of Inl e \<Rightarrow> e = PM_AllocFailed \<and> 0 \<in> set ps
          | Inr t \<Rightarrow> 0 \<notin> set ps \<and> (is \<noteq> [] \<longrightarrow> t \<in> {0, 8, 32, 40})" by blast
    have t: "is = [] \<Longrightarrow> r = Inr t" using w by simp
    from f Inr consider "env s1 = env s" | p where "p \<noteq> 0" "env s1 = env s @ [p]" by auto
    then show ?thesis
    proof cases
      case 1
      with ps f t Inr show ?thesis by (intro exI [of _ ps]) (cases "is"; auto split: sum.splits)
    next
      case 2
      with ps f t Inr show ?thesis by (intro exI [of _ "p # ps"]) (cases "is"; auto split: sum.splits)
    qed
  qed
qed auto

text \<open>
  C19: the result of \<open>mapPage\<close> on identity-mapped memory, in every case, by the frames the
  allocator returned during the call (at most three, and none after a 0). It is \<open>AllocFailed\<close>
  exactly when one of them is 0; \<open>InvalidVirtAddress\<close> exactly for upper bits that are neither all
  0 nor all 1; \<open>EntryExists\<close> exactly when writing is not forced and, the address being valid,
  either the address translates to something or the walk over the three levels gets all its
  frames and the slot of the last table is not 0. In all other cases it is \<open>NoError\<close>, and the
  machine is as the walk left it but for the new entry in that slot. (\<open>UnknownError\<close> is never
  returned; without \<open>NoError\<close> nothing is stored but what the walk stored.)
\<close>

theorem mapPage_results:
  assumes "records_frames allocator"
    and "mapPage mmu root allocator v phys flags forceWrite True s = Some (err, s')"
    and "walk_levels allocator root [l4Idx v, l3Idx v, l2Idx v] root s = (r, s1)"
    and "valid \<longleftrightarrow> drop_bit 48 v = 0 \<or> drop_bit 48 v = 0xFFFF"
    and "mapped \<longleftrightarrow> translateVirtToPhys mmu root v True (memory s) \<noteq> Some 0"
  shows "\<exists>ps. env s' = env s @ ps \<and> length ps \<le> 3 \<and> 0 \<notin> set (butlast ps)
    \<and> (err = PM_AllocFailed \<longleftrightarrow> 0 \<in> set ps)
    \<and> (err = PM_InvalidVirtAddress \<longleftrightarrow> \<not> valid)
    \<and> (err = PM_EntryExists \<longleftrightarrow> valid \<and> \<not> forceWrite \<and> (mapped
         \<or> (\<exists>t. r = Inr t \<and> ld64 (memory s1) (tbl_slot t (l1Idx v)) \<noteq> 0)))
    \<and> err \<noteq> PM_UnknownError
    \<and> s' = (if \<not> valid \<or> mapped \<and> \<not> forceWrite then s
        else if err = PM_NoError then s1\<lparr>memory :=
          st64 (memory s1) (tbl_slot (projr r) (l1Idx v)) (constructTableEntry phys flags)\<rparr>
        else s1)"
proof -
  obtain ps where ps: "env s1 = env s @ ps" "length ps \<le> 3" "0 \<notin> set (butlast ps)"
      "case r of Inl e \<Rightarrow> e = PM_AllocFailed \<and> 0 \<in> set ps | Inr t \<Rightarrow> 0 \<notin> set ps"
    using walk_frames [OF assms(1,3)] by (cases r) auto
  note run = assms(2) [unfolded mapPage_levels assms(3)]
  show ?thesis
  proof (cases "\<not> valid \<or> mapped \<and> \<not> forceWrite")
    case True
    then show ?thesis using run assms(4,5) by (intro exI [of _ "[]"]) (auto split: if_splits)
  next
    case False
    with run have "(case r of Inl e \<Rightarrow> (e, s1) | Inr t \<Rightarrow>
        last_step t (l1Idx v) (constructTableEntry phys flags) forceWrite s1) = (err, s')"
      using assms(4,5) by (auto split: if_splits)
    with ps False show ?thesis
      by (intro exI [of _ ps]) (cases r; auto simp: last_step_def split: if_splits)
  qed
qed

text \<open>An allocator that has no frame left: the first level gets no table.\<close>

definition no_frame :: "u64 list machine \<Rightarrow> u64 \<times> u64 list machine" where
  "no_frame s = (0, s\<lparr>env := env s @ [0]\<rparr>)"

theorem mapPage_results_witness:
  "\<exists>s'. mapPage (\<lambda>m a. Some a) 0x100000 no_frame 0x400000 0x300000 9 True True
      \<lparr> memory = \<lambda>_. 0, env = [] \<rparr> = Some (PM_AllocFailed, s') \<and> env s' = [0]"
proof -
  let ?s = "\<lparr> memory = \<lambda>_. 0, env = [] \<rparr> :: u64 list machine"
  have rec: "records_frames no_frame" by (simp add: records_frames_def no_frame_def)
  obtain err s' where m: "mapPage (\<lambda>m a. Some a) 0x100000 no_frame 0x400000 0x300000 9 True True ?s
      = Some (err, s')" by (rule mapPage_off_Some)
  have "ld64 (\<lambda>_. 0) p = 0" for p by (rule ld64_zero) simp
  then have w: "walk_levels no_frame 0x100000 [l4Idx 0x400000, l3Idx 0x400000, l2Idx 0x400000] 0x100000 ?s
      = (Inl PM_AllocFailed, ?s\<lparr>env := [0]\<rparr>)"
    by (simp add: level_step_def no_frame_def)
  have v: "drop_bit 48 (0x400000 :: u64) = 0" by simp
  from mapPage_results [OF rec m w refl refl] obtain ps where
      "env s' = ps" "err = PM_AllocFailed \<longleftrightarrow> 0 \<in> set ps" "env s' = [0]"
    using v by (auto split: if_splits)
  then have "env s' = [0]" "err = PM_AllocFailed" by auto
  with m show ?thesis by blast
qed

section \<open>The memory a walk touches\<close>

lemma one_le_mask: "1 \<le> INDEX_MASK"
  by (simp add: INDEX_MASK_def)

lemma new_table_other:
  assumes "i \<le> INDEX_MASK" "\<not> in_blk root 4096 a" "\<not> in_blk p 4096 a" "4136 \<le> unat a"
  shows "new_table m root i p a = m a"
proof -
  let ?e = "constructTableEntry p (PageFlags_or PF_Present PF_WriteBit)"
  have "\<not> in_blk (tbl_slot (GET_ADDR_FROM_ENTRY ?e) 1) 8 a"
    using low_slot [OF _ one_le_mask GET_ADDR_cases] assms(4) by fastforce
  moreover have "\<not> in_blk (tbl_slot root i) 8 a"
    using slot_in_table assms(1,2) by blast
  ultimately show ?thesis
    using assms(3) by (simp add: new_table_def Let_def st64_other fill_apply)
qed

text \<open>
  On identity-mapped memory \<open>mapPage\<close> changes at most the root table, the frames the
  allocator hands out and the first 4136 bytes of memory, where its null and near-null table
  pointers point; every other byte keeps its value, whatever the result.
\<close>

theorem mapPage_frame:
  assumes "mapPage mmu root allocator v phys flags forceWrite True s = Some (err, s')"
    and "\<And>s. memory (snd (allocator s)) = memory s"
    and "\<And>s. \<not> in_blk (fst (allocator s)) 4096 a"
    and "\<not> in_blk root 4096 a" and "4136 \<le> unat a"
  shows "memory s' a = memory s a"
proof (rule mapPage_preserves [OF assms(1), where P = "\<lambda>s'. memory s' a = memory s a"])
  fix s1 s2 table i r
  assume *: "level_step allocator root table i s1 = (r, s2)" "memory s1 a = memory s a"
    "i \<le> INDEX_MASK"
  obtain p s3 where p: "allocator s1 = (p, s3)" by fastforce
  with assms(2,3) [of s1] have "memory s3 = memory s1" "\<not> in_blk p 4096 a" by simp_all
  with * p assms(4,5) show "memory s2 a = memory s a"
    by (auto simp: level_step_def new_table_other split: if_splits)
next
  fix s1 :: "'a machine" and table i :: u64
  assume *: "memory s1 a = memory s a" "table \<in> {0, 8, 32, 40}" "i \<le> INDEX_MASK"
  have "\<not> in_blk (tbl_slot table i) 8 a" using low_slot [OF _ *(3,2)] assms(5) by fastforce
  with * show "memory (s1\<lparr>memory := st64 (memory s1) (tbl_slot table i)
      (constructTableEntry phys flags)\<rparr>) a = memory s a"
    by (simp add: st64_other)
qed simp

theorem mapPage_frame_witness:
  "\<exists>err s'. mapPage (\<lambda>m a. Some a) 0x100000 one_frame 0x400000 0x300000 9 True True empty_machine
      = Some (err, s') \<and> memory s' 0x300000 = 0"
proof -
  obtain err s' where m: "mapPage (\<lambda>m a. Some a) 0x100000 one_frame 0x400000 0x300000 9 True True
      empty_machine = Some (err, s')"
    by (rule mapPage_off_Some)
  from mapPage_frame [OF m, of "0x300000"] have "memory s' 0x300000 = memory empty_machine 0x300000"
    by (simp add: one_frame_def in_blk_def)
  with m show ?thesis by (auto simp: empty_machine_def)
qed

section \<open>A table entry goes to the wrong table\<close>

text \<open>
  On every level the entry of a new table is stored in the root table: when the
  table being walked is another one, its own slot stays 0 and the root slot of the same
  index is overwritten, whatever it mapped before.
\<close>

theorem new_entry_goes_to_root:
  assumes "ld64 (memory s) (tbl_slot table i) = 0" and "allocator s = (p, s')" "p \<noteq> 0"
    and "memory s' = memory s" and "i \<le> INDEX_MASK"
    and "disj_blk (tbl_slot root i) 8 (tbl_slot table i) 8"
    and "disj_blk p 4096 (tbl_slot table i) 8"
    and "disj_blk (tbl_slot (p AND 40) 1) 8 (tbl_slot table i) 8"
    and "disj_blk (tbl_slot (p AND 40) 1) 8 (tbl_slot root i) 8"
  shows "\<exists>s2. next_level mmu allocator True root table i r s = Some (Inr (p AND 40), s2)
    \<and> ld64 (memory s2) (tbl_slot table i) = 0
    \<and> ld64 (memory s2) (tbl_slot root i)
      = constructTableEntry p (PageFlags_or PF_Present PF_WriteBit)"
proof -
  let ?e = "constructTableEntry p (PageFlags_or PF_Present PF_WriteBit)"
  have "ld64 (fill (memory s) p 4096 0) (tbl_slot table i) = ld64 (memory s) (tbl_slot table i)"
    by (rule ld64_cong) (use assms(7) disj_blkD disj_blk_sym in \<open>auto simp: fill_apply\<close>)
  then have "ld64 (new_table (memory s) root i p) (tbl_slot table i) = 0"
    using assms(1,6,8)
    by (simp add: new_table_def Let_def GET_ADDR_construct ld64_st64_other)
  moreover have "ld64 (new_table (memory s) root i p) (tbl_slot root i) = ?e"
    using assms(9)
    by (simp add: new_table_def Let_def GET_ADDR_construct ld64_st64_other ld64_st64_same)
  ultimately show ?thesis
    using assms(1-4) by (simp add: next_level_off level_step_def)
qed

theorem new_entry_goes_to_root_witness:
  "\<exists>s2. next_level (\<lambda>m a. Some a) one_frame True 0x100000 0x180000 3 0 empty_machine = Some (Inr 0, s2)
    \<and> ld64 (memory s2) 0x180018 = 0
    \<and> ld64 (memory s2) 0x100018
      = constructTableEntry 0x200000 (PageFlags_or PF_Present PF_WriteBit)"
  using new_entry_goes_to_root [of empty_machine "0x180000" 3 one_frame "0x200000" empty_machine
      "0x100000" "\<lambda>m a. Some a" 0]
  by (simp add: one_frame_def INDEX_MASK_def tbl_slot_def disj_blk_def)

section \<open>Recursive addresses\<close>

definition canonical :: "u64 \<Rightarrow> bool" where
  "canonical a \<longleftrightarrow> (\<forall>n \<in> {48..<64}. bit a n = bit a 47)"

lemma bit_word_ge: "bit (w :: 'a :: len word) n \<Longrightarrow> 2 ^ n \<le> unat w"
proof -
  assume "bit w n"
  then have "bit (unat w) n" by (simp add: bit_unsigned_iff)
  then have "unat w div 2 ^ n \<noteq> 0" by (metis bit_iff_odd even_zero)
  then show ?thesis by (simp add: div_eq_0_iff)
qed

lemma index_bits:
  assumes "i \<le> INDEX_MASK" "9 \<le> n"
  shows "\<not> bit i n"
proof
  assume "bit i n"
  then have "2 ^ n \<le> unat i" by (rule bit_word_ge)
  moreover have "unat i \<le> 511" using assms(1) by (simp add: INDEX_MASK_def word_le_nat_alt)
  moreover have "(2 :: nat) ^ 9 \<le> 2 ^ n" using assms(2) by (intro power_increasing) simp_all
  ultimately show False by simp
qed

lemma bit_SIGN_EXTENSION: "bit SIGN_EXTENSION n \<longleftrightarrow> 48 \<le> n \<and> n < 64"
proof -
  have eq: "SIGN_EXTENSION = push_bit 48 (mask 16)"
    by (simp add: SIGN_EXTENSION_def mask_eq_exp_minus_1)
  show ?thesis unfolding eq by (simp only: bit_push_bit_iff bit_mask_iff) auto
qed

lemma bit_RECURSIVE_INDEX: "bit RECURSIVE_INDEX n \<longleftrightarrow> n = 0"
  by (simp add: RECURSIVE_INDEX_def bit_1_iff)

lemma recursive_address_not_canonical:
  assumes "i3 \<le> INDEX_MASK" "i2 \<le> INDEX_MASK" "i1 \<le> INDEX_MASK" "i \<le> INDEX_MASK"
  shows "\<not> canonical (tbl_slot (recursive_address RECURSIVE_INDEX i3 i2 i1) i)"
proof -
  let ?r = "recursive_address RECURSIVE_INDEX i3 i2 i1"
  note b = recursive_address_def bit_or_iff bit_push_bit_iff bit_SIGN_EXTENSION P4_SHIFT_def
    P3_SHIFT_def P2_SHIFT_def P1_SHIFT_def bit_RECURSIVE_INDEX
  have "\<not> bit ?r n \<or> \<not> bit (push_bit 3 i) n" for n
  proof (cases "n < 12")
    case False
    then show ?thesis using index_bits [OF assms(4), of "n - 3"] by (simp add: bit_push_bit_iff)
  qed (simp add: b)
  then have "?r + push_bit 3 i = ?r OR push_bit 3 i" by (rule disjunctive_add)
  moreover have "push_bit 3 i = 8 * i" by (simp add: push_bit_eq_mult mult.commute)
  ultimately have t: "tbl_slot ?r i = ?r OR push_bit 3 i" by (simp add: tbl_slot_def)
  have "\<not> bit (tbl_slot ?r i) 47" "bit (tbl_slot ?r i) 48"
    unfolding t using index_bits [OF assms(1), of 17] index_bits [OF assms(2), of 26]
      index_bits [OF assms(3), of 35] index_bits [OF assms(4), of 44]
    by (simp_all add: b)
  then show ?thesis by (force simp: canonical_def)
qed

text \<open>
  C34: with paging enabled every table below the root is addressed through the recursive
  slot 1, and these addresses are not canonical (bits 48 to 63 set, bit 47 clear). On a
  processor that faults on such addresses a forced \<open>mapPage\<close> of a valid address never
  returns, even when no allocation fails.
\<close>

theorem recursive_mapping_faults:
  assumes "\<And>m a. \<not> canonical a \<Longrightarrow> mmu m a = None"
    and "drop_bit 48 v = 0 \<or> drop_bit 48 v = 0xFFFF"
    and "\<And>s. fst (allocator s) \<noteq> 0"
  shows "mapPage mmu root allocator v phys flags True False s = None"
proof -
  let ?r = "recursive_address RECURSIVE_INDEX RECURSIVE_INDEX RECURSIVE_INDEX (l4Idx v)"
  have le: "l4Idx v \<le> INDEX_MASK" "l3Idx v \<le> INDEX_MASK" "RECURSIVE_INDEX \<le> INDEX_MASK"
    using one_le_mask by (simp_all add: leI RECURSIVE_INDEX_def)
  have f: "mmu m (tbl_slot ?r i) = None" if "i \<le> INDEX_MASK" for m i
    by (rule assms(1), rule recursive_address_not_canonical) (use le that in simp_all)
  have "ld_entry mmu False m ?r (l3Idx v) = None" for m
    using f [OF le(2)] by (simp add: ld_entry_def deref_def)
  then have "next_level mmu allocator False root ?r (l3Idx v) r' s' = None" for r' s'
    by (simp add: next_level_def)
  moreover have "next_level mmu allocator False root root (l4Idx v) ?r s = None
      \<or> (\<exists>s'. next_level mmu allocator False root root (l4Idx v) ?r s = Some (Inr ?r, s'))"
  proof -
    have "allocator s \<noteq> (0, s1)" for s1 using assms(3) by (metis fst_conv)
    then show ?thesis
      by (auto simp: next_level_def table_pointer_def Let_def split: option.split prod.split)
  qed
  ultimately show ?thesis
    using assms(2) by (auto simp: mapPage_def Let_def)
qed

text \<open>A processor that translates canonical addresses to themselves and faults on the others.\<close>

theorem recursive_mapping_faults_witness:
  "mapPage (\<lambda>m a. if canonical a then Some a else None) 0x100000 one_frame 0x400000 0x300000 9
     True False empty_machine = None"
  by (rule recursive_mapping_faults) (simp_all add: one_frame_def)

section \<open>Mapping and translation\<close>

lemma aligned_slot:
  assumes "aligned8 root" "i \<le> INDEX_MASK"
  shows "aligned8 (tbl_slot root i)"
proof -
  have "unat (8 * i) mod 8 = 0"
    by (simp add: unat_word_ariths mod_mod_cancel)
  then have "(unat root + unat (8 * i)) mod 8 = 0"
    using assms(1) by (simp add: aligned8_def mod_add_eq [symmetric])
  moreover have "unat (root + 8 * i) mod 8 = (unat root + unat (8 * i)) mod 8"
    by (simp only: unat_word_ariths) (simp add: mod_mod_cancel)
  ultimately show ?thesis by (simp add: aligned8_def tbl_slot_def)
qed

lemma ld64_outside:
  assumes "\<And>a. in_blk p 8 a \<Longrightarrow> in_blk root 4096 a"
    and "\<And>a. in_blk root 4096 a \<Longrightarrow> m a = m' a"
  shows "ld64 m p = ld64 m' p"
  by (rule ld64_cong) (use assms in blast)

lemma root_not_low:
  assumes "4136 \<le> unat root" "unat root + 4096 \<le> 2 ^ 64" "in_blk root 4096 a"
  shows "4136 \<le> unat a"
  using assms unat_sub_cases [of a root] by (auto simp: in_blk_def split: if_splits)

text \<open>The entries of the root table all read back as null pointers.\<close>

definition root_null :: "u64 \<Rightarrow> mem \<Rightarrow> bool" where
  "root_null root m \<longleftrightarrow> (\<forall>i \<le> INDEX_MASK. GET_ADDR_FROM_ENTRY (ld64 m (tbl_slot root i)) = 0)"

lemma root_null_cong:
  assumes "root_null root m" and "\<And>a. in_blk root 4096 a \<Longrightarrow> m' a = m a"
  shows "root_null root m'"
proof -
  have "ld64 m' (tbl_slot root i) = ld64 m (tbl_slot root i)" if "i \<le> INDEX_MASK" for i
    by (rule ld64_outside [OF slot_in_table [OF _ that] assms(2)])
  with assms(1) show ?thesis by (simp add: root_null_def)
qed

lemma root_null_store:
  assumes "root_null root m" "aligned8 root" "i \<le> INDEX_MASK" "GET_ADDR_FROM_ENTRY e = 0"
  shows "root_null root (st64 m (tbl_slot root i) e)"
  unfolding root_null_def
proof (intro allI impI)
  fix j assume "j \<le> INDEX_MASK"
  then show "GET_ADDR_FROM_ENTRY (ld64 (st64 m (tbl_slot root i) e) (tbl_slot root j)) = 0"
    using assms cells.get_put [OF aligned_slot aligned_slot, of root i root j m e]
    by (simp add: root_null_def)
qed

lemma root_null_low_store:
  assumes "root_null root m" "4136 \<le> unat root" "unat root + 4096 \<le> 2 ^ 64"
    and "table \<in> {0, 8, 32, 40}" "i \<le> INDEX_MASK"
  shows "root_null root (st64 m (tbl_slot table i) e)"
proof (rule root_null_cong [OF assms(1)])
  fix a assume "in_blk root 4096 a"
  then have "4136 \<le> unat a" using assms(2,3) root_not_low by blast
  then have "\<not> in_blk (tbl_slot table i) 8 a" using low_slot [OF _ assms(5,4)] by fastforce
  then show "st64 m (tbl_slot table i) e a = m a" by (rule st64_other)
qed

text \<open>
  C35: before the repository's paging runs (\<open>pagingDisabledNow\<close>), mapping and translation do not
  fit together: starting from a root table whose entries all read back as null pointers (an
  empty one, say), which is 8-byte aligned, lies at 4136 or above and does not wrap around, with
  an allocator of page-aligned frames outside the root table that leaves memory alone, after any
  call of \<open>mapPage\<close> in this mode, successful or not, every address still translates to 0 in this
  mode, which stands for an address that is not mapped.
\<close>

theorem mapped_address_does_not_translate:
  assumes "mapPage mmu root allocator v phys flags forceWrite True s = Some (err, s')"
    and "aligned8 root" "4136 \<le> unat root" "unat root + 4096 \<le> 2 ^ 64"
    and "root_null root (memory s)"
    and "\<And>s. memory (snd (allocator s)) = memory s \<and> take_bit 12 (fst (allocator s)) = 0
      \<and> disj_blk (fst (allocator s)) 4096 root 4096"
  shows "translateVirtToPhys mmu' root w True (memory s') = Some 0"
proof -
  have "root_null root (memory s')"
  proof (rule mapPage_preserves [OF assms(1), where P = "\<lambda>s. root_null root (memory s)"])
    fix s1 s2 table i r
    assume *: "level_step allocator root table i s1 = (r, s2)" "root_null root (memory s1)"
      "i \<le> INDEX_MASK"
    obtain p s3 where p: "allocator s1 = (p, s3)" by fastforce
    with assms(6) [of s1] have a: "memory s3 = memory s1" "p AND 40 = 0"
      "disj_blk p 4096 root 4096" by (simp_all add: page_aligned_and_40)
    have "root_null root (fill (memory s1) p 4096 0)"
      by (rule root_null_cong [OF *(2)]) (use a(3) disj_blkD in \<open>auto simp: fill_apply\<close>)
    then have "root_null root (new_table (memory s1) root i p)"
      unfolding new_table_def Let_def GET_ADDR_construct a(2)
      by (intro root_null_low_store root_null_store assms(2-4) *(3) one_le_mask)
        (simp_all add: GET_ADDR_construct a(2))
    with * p a(1) show "root_null root (memory s2)"
      by (auto simp: level_step_def split: if_splits)
  qed (use assms(3-5) root_null_low_store in auto)
  then have "GET_ADDR_FROM_ENTRY (ld64 (memory s') (tbl_slot root (l4Idx w))) = 0"
    by (simp add: root_null_def leI)
  then show ?thesis by (simp add: translateVirtToPhys_def Let_def)
qed

theorem mapped_address_does_not_translate_witness:
  "\<exists>s'. mapPage (\<lambda>m a. Some a) 0x100000 one_frame 0x400000 0x300000 9 True True empty_machine
      = Some (PM_NoError, s')
    \<and> translateVirtToPhys (\<lambda>m a. Some a) 0x100000 0x400000 True (memory s') = Some 0"
proof -
  have ok: "level_step one_frame root table i s \<noteq> (Inl e, s')" for root table i s e s'
    using level_step_error by (fastforce simp: one_frame_def)
  obtain err s' where m: "mapPage (\<lambda>m a. Some a) 0x100000 one_frame 0x400000 0x300000 9 True True
      empty_machine = Some (err, s')"
    by (rule mapPage_off_Some)
  have "err = PM_NoError"
    using m by (cases rule: mapPage_walk) (simp_all add: ok last_step_def)
  moreover have "root_null 0x100000 (memory empty_machine)"
    by (simp add: root_null_def GET_ADDR_FROM_ENTRY_def)
  ultimately show ?thesis
    using m mapped_address_does_not_translate [OF m, of "\<lambda>m a. Some a" "0x400000"]
    by (simp add: one_frame_def aligned8_def disj_blk_def take_bit_eq_mod)
qed

end
