(* ===== verification/Page_Table.thy ===== *)
theory Page_Table
  imports X86_64_Paging
begin

text \<open>
  \<open>static_libs/paginator/src/page_table.cpp\<close>: the controller object through which the
  paging code is used. Its state is the pointer to the root table, the allocator callback and
  the flag that tells whether the repository's own paging is running; every operation passes
  them to the x86_64 code (the only architecture there is).
\<close>

section \<open>Definitions\<close>

record 'e PageTableRootController =
  rootPageTableAddress :: u64
  pagingDisabledNow :: bool
  frame_allocator :: "'e machine \<Rightarrow> u64 \<times> 'e machine"

definition mk_controller ::
  "u64 \<Rightarrow> ('e machine \<Rightarrow> u64 \<times> 'e machine) \<Rightarrow> bool \<Rightarrow> 'e PageTableRootController" where
  "mk_controller rootPageTable allocator off = \<lparr> rootPageTableAddress = rootPageTable,
     pagingDisabledNow = off, frame_allocator = allocator \<rparr>"

definition controller_mapPage :: "mmu \<Rightarrow> 'e PageTableRootController \<Rightarrow> u64 \<Rightarrow> u64 \<Rightarrow> PageFlags
    \<Rightarrow> bool \<Rightarrow> 'e machine \<Rightarrow> (PageMapError \<times> 'e machine) option" where
  "controller_mapPage mmu c virtAddress physAddress flags forceWrite s =
     mapPage mmu (rootPageTableAddress c) (frame_allocator c) virtAddress physAddress flags forceWrite
       (pagingDisabledNow c) s"

definition controller_unmapPage :: "'e PageTableRootController \<Rightarrow> u64 \<Rightarrow> 'e machine \<Rightarrow> 'e machine" where
  "controller_unmapPage c virtAddress s =
     unmapPage (rootPageTableAddress c) virtAddress (pagingDisabledNow c) s"

definition identityMapPage :: "mmu \<Rightarrow> 'e PageTableRootController \<Rightarrow> u64 \<Rightarrow> PageFlags
    \<Rightarrow> bool \<Rightarrow> 'e machine \<Rightarrow> (PageMapError \<times> 'e machine) option" where
  "identityMapPage mmu c address flags forceWrite s =
     mapPage mmu (rootPageTableAddress c) (frame_allocator c) address address flags forceWrite
       (pagingDisabledNow c) s"

definition controller_translate :: "mmu \<Rightarrow> 'e PageTableRootController \<Rightarrow> u64 \<Rightarrow> mem \<Rightarrow> u64 option" where
  "controller_translate mmu c virtAddress m =
     translateVirtToPhys mmu (rootPageTableAddress c) virtAddress (pagingDisabledNow c) m"

definition controller_activate :: "mmu \<Rightarrow> (u64 \<Rightarrow> 'e machine \<Rightarrow> 'e machine)
    \<Rightarrow> 'e PageTableRootController \<Rightarrow> 'e machine \<Rightarrow> (bool \<times> 'e machine) option" where
  "controller_activate mmu load_cr3 c s =
     activateRootPageTable mmu load_cr3 (rootPageTableAddress c) (pagingDisabledNow c) s"

section \<open>Properties\<close>

text \<open>
  \<open>activateRootPageTable\<close> never reports success: before the repository's paging runs it
  loads \<open>cr3\<close> with the root table and returns false; afterwards it reads the root entry through
  a recursive address that is not canonical, so a processor that faults on such addresses never
  reaches the load.
\<close>

theorem activation_never_succeeds:
  assumes "\<And>m a. \<not> canonical a \<Longrightarrow> mmu m a = None"
  shows "controller_activate mmu load_cr3 c s =
    (if pagingDisabledNow c then Some (False, load_cr3 (rootPageTableAddress c) s) else None)"
proof -
  have le: "RECURSIVE_INDEX \<le> INDEX_MASK" by (simp add: RECURSIVE_INDEX_def INDEX_MASK_def)
  have "mmu m (tbl_slot (recursive_address RECURSIVE_INDEX RECURSIVE_INDEX RECURSIVE_INDEX
      RECURSIVE_INDEX) RECURSIVE_INDEX) = None" for m
    by (rule assms) (rule recursive_address_not_canonical [OF le le le le])
  then show ?thesis
    by (simp add: controller_activate_def activateRootPageTable_def Let_def ld_entry_def deref_def)
qed

theorem activation_never_succeeds_witness:
  "controller_activate (\<lambda>m a. if canonical a then Some a else None) (\<lambda>a s. s)
     (mk_controller 0x100000 one_frame True) empty_machine = Some (False, empty_machine)"
  using activation_never_succeeds [of "\<lambda>m a. if canonical a then Some a else None" "\<lambda>a s. s"
      "mk_controller 0x100000 one_frame True" empty_machine]
  by (simp add: mk_controller_def)

end
