(* ===== verification/Paging_Session.thy ===== *)
theory Paging_Session
  imports Page_Table
begin

text \<open>
  Sequences of calls on a page table controller before its paging runs. The locale \<open>frame_user\<close>
  is the contract of an operation that may take frames from an allocator: it returns, takes a
  bounded number of frames, and writes to its own memory and to those frames only. Its client
  lemma \<open>session\<close> extends this to every sequence of calls; the controller interprets it.
\<close>

section \<open>Calls in a row\<close>

fun run_all :: "('r \<Rightarrow> 's \<Rightarrow> 's option) \<Rightarrow> 'r list \<Rightarrow> 's \<Rightarrow> 's option" where
  "run_all f [] s = Some s"
| "run_all f (r # rs) s = (case f r s of None \<Rightarrow> None | Some s' \<Rightarrow> run_all f rs s')"

text \<open>
  From \<open>s\<close> to \<open>s'\<close> at most \<open>n\<close> frames were taken (the environment lists all of them), and no byte
  outside of the memory \<open>own\<close> and of these frames has changed.
\<close>

definition spent :: "(u64 \<Rightarrow> bool) \<Rightarrow> nat \<Rightarrow> u64 list machine \<Rightarrow> u64 list machine \<Rightarrow> bool" where
  "spent own n s s' \<longleftrightarrow> (\<exists>fs. env s' = env s @ fs \<and> length fs \<le> n
     \<and> (\<forall>a. \<not> own a \<and> (\<forall>p \<in> set fs. \<not> in_blk p 4096 a) \<longrightarrow> memory s' a = memory s a))"

lemma spent_refl [simp]: "spent own n s s"
  by (auto simp: spent_def)

lemma spent_trans:
  assumes "spent own n s s1" and "spent own k s1 s2" and "n + k \<le> j"
  shows "spent own j s s2"
proof -
  from assms obtain fs gs where
      "env s1 = env s @ fs" "length fs \<le> n" "env s2 = env s1 @ gs" "length gs \<le> k"
      "\<And>a. \<not> own a \<Longrightarrow> \<forall>p \<in> set fs. \<not> in_blk p 4096 a \<Longrightarrow> memory s1 a = memory s a"
      "\<And>a. \<not> own a \<Longrightarrow> \<forall>p \<in> set gs. \<not> in_blk p 4096 a \<Longrightarrow> memory s2 a = memory s1 a"
    unfolding spent_def by blast
  then show ?thesis
    unfolding spent_def using assms(3) by (intro exI [of _ "fs @ gs"]) auto
qed

lemma spent_own:
  "env s' = env s \<Longrightarrow> (\<And>a. \<not> own a \<Longrightarrow> memory s' a = memory s a) \<Longrightarrow> spent own n s s'"
  unfolding spent_def by (intro exI [of _ "[]"]) simp

lemma spent_one:
  assumes "env s' = env s @ [p]" and "0 < n"
    and "\<And>a. \<not> own a \<Longrightarrow> \<not> in_blk p 4096 a \<Longrightarrow> memory s' a = memory s a"
  shows "spent own n s s'"
  unfolding spent_def using assms by (intro exI [of _ "[p]"]) auto

locale frame_user =
  fixes serve :: "'c \<Rightarrow> 'r \<Rightarrow> u64 list machine \<Rightarrow> u64 list machine option"
    and ready :: "'c \<Rightarrow> bool" and own :: "'c \<Rightarrow> u64 \<Rightarrow> bool" and cost :: nat
  assumes served: "ready c \<Longrightarrow> \<exists>s'. serve c r s = Some s' \<and> spent (own c) cost s s'"
begin

lemma session:
  "ready c \<Longrightarrow> \<exists>s'. run_all (serve c) rs s = Some s' \<and> spent (own c) (cost * length rs) s s'"
proof (induction rs arbitrary: s)
  case (Cons r rs)
  obtain s1 where 1: "serve c r s = Some s1" "spent (own c) cost s s1"
    using served [OF Cons.prems] by blast
  obtain s2 where 2: "run_all (serve c) rs s1 = Some s2" "spent (own c) (cost * length rs) s1 s2"
    using Cons.IH [OF Cons.prems] by blast
  have "spent (own c) (cost * length (r # rs)) s s2" by (rule spent_trans [OF 1(2) 2(2)]) simp
  with 1(1) 2(1) show ?case by simp
qed simp

end

section \<open>The calls on the controller\<close>

datatype request = MapPage u64 u64 PageFlags bool | IdentityMapPage u64 PageFlags bool | UnmapPage u64

fun serve_request :: "mmu \<times> 'e PageTableRootController \<Rightarrow> request \<Rightarrow> 'e machine \<Rightarrow> 'e machine option" where
  "serve_request (mmu, c) (MapPage v p flags force) s =
     map_option snd (controller_mapPage mmu c v p flags force s)"
| "serve_request (mmu, c) (IdentityMapPage a flags force) s =
     map_option snd (identityMapPage mmu c a flags force s)"
| "serve_request (mmu, c) (UnmapPage v) s = Some (controller_unmapPage c v s)"

text \<open>An allocator that lists what it hands out (a 0 too) and does not write to memory.\<close>

definition records_frames :: "(u64 list machine \<Rightarrow> u64 \<times> u64 list machine) \<Rightarrow> bool" where
  "records_frames allocator \<longleftrightarrow> (\<forall>s. case allocator s of (p, s') \<Rightarrow>
     env s' = env s @ [p] \<and> memory s' = memory s)"

definition root_or_low :: "u64 \<Rightarrow> u64 \<Rightarrow> bool" where
  "root_or_low root a \<longleftrightarrow> in_blk root 4096 a \<or> unat a < 4136"

lemma level_step_spent:
  assumes "records_frames allocator" and "i \<le> INDEX_MASK"
    and "level_step allocator root table i s = (r, s')"
  shows "spent (root_or_low root) 1 s s'"
proof (cases "ld64 (memory s) (tbl_slot table i) = 0")
  case True
  obtain p s1 where p: "allocator s = (p, s1)" by fastforce
  then have s1: "env s1 = env s @ [p]" "memory s1 = memory s"
    using assms(1) by (auto simp: records_frames_def split: prod.splits)
  have "memory s' a = memory s a" if "\<not> root_or_low root a" "\<not> in_blk p 4096 a" for a
    using that assms(3) True p s1 new_table_other [OF assms(2)]
    by (auto simp: level_step_def root_or_low_def split: if_splits)
  moreover have "env s' = env s @ [p]"
    using assms(3) True p s1 by (auto simp: level_step_def split: if_splits)
  ultimately show ?thesis by (intro spent_one) auto
qed (use assms(3) in \<open>simp add: level_step_def\<close>)

lemma last_step_spent:
  assumes "table \<in> {0, 8, 32, 40}" and "i \<le> INDEX_MASK" and "last_step table i e force s = (r, s')"
  shows "spent (root_or_low root) 0 s s'"
proof (rule spent_own)
  show "env s' = env s" using assms(3) by (auto simp: last_step_def split: if_splits)
  fix a assume "\<not> root_or_low root a"
  then have "\<not> in_blk (tbl_slot table i) 8 a"
    using low_slot [OF _ assms(2,1)] by (auto simp: root_or_low_def)
  then show "memory s' a = memory s a"
    using assms(3) by (auto simp: last_step_def st64_other split: if_splits)
qed

lemma mapPage_spent:
  assumes "records_frames allocator"
    and "mapPage mmu root allocator v phys flags force True s = Some (err, s')"
  shows "spent (root_or_low root) 3 s s'"
proof -
  have le: "l4Idx v \<le> INDEX_MASK" "l3Idx v \<le> INDEX_MASK" "l2Idx v \<le> INDEX_MASK" "l1Idx v \<le> INDEX_MASK"
    by (simp_all add: leI)
  note step = level_step_spent [OF assms(1)]
  from assms(2) show ?thesis
  proof (cases rule: mapPage_walk)
    case alloc4
    then show ?thesis using spent_trans [OF step [OF le(1)] spent_refl [of _ 0]] by simp
  next
    case (alloc3 t3 s3)
    show ?thesis by (rule spent_trans [OF step [OF le(1) alloc3(1)] step [OF le(2) alloc3(2)]]) simp
  next
    case (alloc2 t3 s3 t2 s2)
    have "spent (root_or_low root) 2 s s2"
      by (rule spent_trans [OF step [OF le(1) alloc2(1)] step [OF le(2) alloc2(2)]]) simp
    then show ?thesis by (rule spent_trans [OF _ step [OF le(3) alloc2(3)]]) simp
  next
    case (last t3 s3 t2 s2 t1 s1)
    have "spent (root_or_low root) 2 s s2"
      by (rule spent_trans [OF step [OF le(1) last(1)] step [OF le(2) last(2)]]) simp
    then have "spent (root_or_low root) 3 s s1" by (rule spent_trans [OF _ step [OF le(3) last(3)]]) simp
    then show ?thesis
      by (rule spent_trans [OF _ last_step_spent [OF level_step_table [OF last(3)] le(4) last(4)]]) simp
  qed simp_all
qed

definition session_ready :: "mmu \<times> u64 list PageTableRootController \<Rightarrow> bool" where
  "session_ready = (\<lambda>(mmu, c). pagingDisabledNow c \<and> records_frames (frame_allocator c))"

lemma controller_mapPage_spent:
  assumes "session_ready (mmu, c)"
  shows "\<exists>s'. map_option snd (mapPage mmu (rootPageTableAddress c) (frame_allocator c) v phys flags force
      (pagingDisabledNow c) s) = Some s' \<and> spent (root_or_low (rootPageTableAddress c)) 3 s s'"
proof -
  have c: "pagingDisabledNow c" "records_frames (frame_allocator c)"
    using assms by (simp_all add: session_ready_def)
  obtain err s' where "mapPage mmu (rootPageTableAddress c) (frame_allocator c) v phys flags force True s
      = Some (err, s')" by (rule mapPage_off_Some)
  with mapPage_spent [OF c(2) this] c(1) show ?thesis by simp
qed

interpretation controller: frame_user serve_request session_ready
  "\<lambda>(mmu, c). root_or_low (rootPageTableAddress c)" 3
proof
  fix c :: "mmu \<times> u64 list PageTableRootController" and r s
  obtain mmu d where c: "c = (mmu, d)" by fastforce
  assume "session_ready c"
  then show "\<exists>s'. serve_request c r s = Some s'
      \<and> spent ((\<lambda>(mmu, c). root_or_low (rootPageTableAddress c)) c) 3 s s'"
    unfolding c by (cases r)
      (simp_all add: controller_mapPage_def identityMapPage_def controller_unmapPage_def unmapPage_def
        controller_mapPage_spent del: map_option_eq_Some)
qed

section \<open>Property\<close>

text \<open>
  C20: before the repository's paging runs, every sequence of map, identity map and unmap calls on a
  controller returns, takes at most three frames per call from the allocator, and changes no
  byte outside of the root table, the frames taken and the first 4136 bytes of memory, where the
  null and near-null table pointers of the walk point.
\<close>

theorem controller_session_confined:
  assumes "pagingDisabledNow c" and "records_frames (frame_allocator c)"
  shows "\<exists>s' fs. run_all (serve_request (mmu, c)) rs s = Some s'
    \<and> env s' = env s @ fs \<and> length fs \<le> 3 * length rs
    \<and> (\<forall>a. \<not> in_blk (rootPageTableAddress c) 4096 a \<longrightarrow> 4136 \<le> unat a
        \<longrightarrow> (\<forall>p \<in> set fs. \<not> in_blk p 4096 a) \<longrightarrow> memory s' a = memory s a)"
  using controller.session [of "(mmu, c)" rs s] assms
  by (auto simp: session_ready_def spent_def root_or_low_def)

definition next_frame :: "u64 list machine \<Rightarrow> u64 \<times> u64 list machine" where
  "next_frame s = (let p = 0x200000 + 4096 * of_nat (length (env s)) in
     (p, s\<lparr>env := env s @ [p]\<rparr>))"

theorem controller_session_confined_witness:
  "\<exists>s'. run_all (serve_request (\<lambda>m a. Some a, mk_controller 0x100000 next_frame True))
      [IdentityMapPage 0x400000 9 True, MapPage 0x600000 0x300000 9 True, UnmapPage 0x400000]
      \<lparr> memory = \<lambda>_. 0, env = [] \<rparr> = Some s' \<and> length (env s') \<le> 9"
proof -
  have "records_frames next_frame" by (simp add: records_frames_def next_frame_def Let_def)
  from controller_session_confined [where c = "mk_controller 0x100000 next_frame True"
      and mmu = "\<lambda>m a. Some a" and s = "\<lparr> memory = \<lambda>_. 0, env = [] \<rparr>"
      and rs = "[IdentityMapPage 0x400000 9 True, MapPage 0x600000 0x300000 9 True, UnmapPage 0x400000]"] this
  show ?thesis by (auto simp: mk_controller_def)
qed

end
