(* ===== verification/Efi_Base.thy ===== *)
theory Efi_Base
  imports CLayout
begin

text \<open>
  The scalar types and status macros of \<open>efi_headers/x86_64/efibind.h\<close> and \<open>efierr.h\<close>, and
  the vocabulary in which the other header theories transcribe declarations: GUIDs and the
  signatures of services (direction, name and type of every argument).
\<close>

abbreviation "UINT8 \<equiv> C8"
abbreviation "INT8 \<equiv> C8"
abbreviation "CHAR8 \<equiv> C8"
abbreviation "BOOLEAN \<equiv> C8"
abbreviation "UINT16 \<equiv> C16"
abbreviation "INT16 \<equiv> C16"
abbreviation "CHAR16 \<equiv> C16"
abbreviation "UINT32 \<equiv> C32"
abbreviation "INT32 \<equiv> C32"
abbreviation "UINT64 \<equiv> C64"
abbreviation "INT64 \<equiv> C64"
abbreviation "UINTN \<equiv> C64"
abbreviation "INTN \<equiv> C64"

datatype guid = GUID u32 u16 u16 "u8 list"

datatype cdir = NoDir | In | Out | InOut

text \<open>An argument of a service, and the service: its result (\<open>None\<close> for \<open>VOID\<close>) and arguments.\<close>

datatype carg = Arg cdir string cty | OptArg cdir string cty

datatype csig = Fn "cty option" "carg list" | FnVar "cty option" "carg list"

fun arg_type :: "carg \<Rightarrow> cty" where
  "arg_type (Arg d n t) = t"
| "arg_type (OptArg d n t) = t"

fun arg_dir :: "carg \<Rightarrow> cdir" where
  "arg_dir (Arg d n t) = d"
| "arg_dir (OptArg d n t) = d"

fun sig_args :: "csig \<Rightarrow> carg list" where
  "sig_args (Fn r as) = as"
| "sig_args (FnVar r as) = as"

fun sig_result :: "csig \<Rightarrow> cty option" where
  "sig_result (Fn r as) = r"
| "sig_result (FnVar r as) = r"

section \<open>Status codes\<close>

definition EFIERR :: "u64 \<Rightarrow> u64" where "EFIERR a = 0x8000000000000000 OR a"
definition EFI_ERROR_MASK :: u64 where "EFI_ERROR_MASK = 0x8000000000000000"
definition EFIERR_OEM :: "u64 \<Rightarrow> u64" where "EFIERR_OEM a = 0xC000000000000000 OR a"
definition EFIWARN :: "u64 \<Rightarrow> u64" where "EFIWARN a = a"
definition EFI_ERROR :: "u64 \<Rightarrow> bool" where "EFI_ERROR a \<longleftrightarrow> sint a < 0"
definition BAD_POINTER :: u64 where "BAD_POINTER = 0xFBFBFBFBFBFBFBFB"

definition EFI_SPECIFICATION_REVISION_MAJORMINOR :: "u64 \<Rightarrow> u64 \<Rightarrow> u64" where
  "EFI_SPECIFICATION_REVISION_MAJORMINOR major minor = push_bit 16 major OR minor"

lemma EFI_ERROR_bit: "EFI_ERROR a \<longleftrightarrow> bit a 63"
  using bit_last_iff [of a] by (simp add: EFI_ERROR_def)

end
