(* ===== verification/Efi_Def.thy ===== *)
theory Efi_Def
  imports Efi_Base
begin

text \<open>
  The declarations of \<open>efi_headers/efidef.h\<close> and the status codes of \<open>efierr.h\<close>:
  constants as words, structures as layouts, enumerations as 32-bit types with their values.
\<close>

section \<open>efidef.h\<close>

definition EFI_STATUS :: cty where "EFI_STATUS = UINTN"
definition EFI_LBA :: cty where "EFI_LBA = UINT64"
definition EFI_TPL :: cty where "EFI_TPL = UINTN"
definition EFI_HANDLE :: cty where "EFI_HANDLE = CPtr ''VOID''"
definition EFI_EVENT :: cty where "EFI_EVENT = CPtr ''VOID''"

definition EFI_GUID :: cty where
  "EFI_GUID = CStruct [(''Data1'', UINT32), (''Data2'', UINT16), (''Data3'', UINT16),
    (''Data4'', CArr UINT8 8)]"

definition EFI_TIME :: cty where
  "EFI_TIME = CStruct [(''Year'', UINT16), (''Month'', UINT8), (''Day'', UINT8),
    (''Hour'', UINT8), (''Minute'', UINT8), (''Second'', UINT8), (''Pad1'', UINT8),
    (''Nanosecond'', UINT32), (''TimeZone'', INT16), (''Daylight'', UINT8), (''Pad2'', UINT8)]"

definition EFI_TIME_ADJUST_DAYLIGHT :: u64 where "EFI_TIME_ADJUST_DAYLIGHT = 0x01"
definition EFI_TIME_IN_DAYLIGHT :: u64 where "EFI_TIME_IN_DAYLIGHT = 0x02"
definition EFI_UNSPECIFIED_TIMEZONE :: u64 where "EFI_UNSPECIFIED_TIMEZONE = 0x07FF"

definition EFI_IPv4_ADDRESS :: cty where "EFI_IPv4_ADDRESS = CStruct [(''Addr'', CArr UINT8 4)]"

definition EFI_IPv6_ADDRESS :: cty where "EFI_IPv6_ADDRESS = CStruct [(''Addr'', CArr UINT8 16)]"

definition EFI_MAC_ADDRESS :: cty where "EFI_MAC_ADDRESS = CStruct [(''Addr'', CArr UINT8 32)]"

definition EFI_MANAGED_NETWORK_CONFIG_DATA :: cty where
  "EFI_MANAGED_NETWORK_CONFIG_DATA = CStruct [(''ReceivedQueueTimeoutValue'', UINT32),
    (''TransmitQueueTimeoutValue'', UINT32), (''ProtocolTypeFilter'', UINT16),
    (''EnableUnicastReceive'', BOOLEAN), (''EnableMulticastReceive'', BOOLEAN),
    (''EnableBroadcastReceive'', BOOLEAN), (''EnablePromiscuousReceive'', BOOLEAN),
    (''FlushQueuesOnReset'', BOOLEAN), (''EnableReceiveTimestamps'', BOOLEAN),
    (''DisableBackgroundPolling'', BOOLEAN)]"

definition EFI_PHYSICAL_ADDRESS :: cty where "EFI_PHYSICAL_ADDRESS = UINT64"
definition EFI_VIRTUAL_ADDRESS :: cty where "EFI_VIRTUAL_ADDRESS = UINT64"
definition EFI_ALLOCATE_TYPE :: cty where "EFI_ALLOCATE_TYPE = C32"
definition AllocateAnyPages :: u32 where "AllocateAnyPages = 0"
definition AllocateMaxAddress :: u32 where "AllocateMaxAddress = 1"
definition AllocateAddress :: u32 where "AllocateAddress = 2"
definition MaxAllocateType :: u32 where "MaxAllocateType = 3"
definition EFI_MEMORY_TYPE :: cty where "EFI_MEMORY_TYPE = C32"
definition EfiReservedMemoryType :: u32 where "EfiReservedMemoryType = 0"
definition EfiLoaderCode :: u32 where "EfiLoaderCode = 1"
definition EfiLoaderData :: u32 where "EfiLoaderData = 2"
definition EfiBootServicesCode :: u32 where "EfiBootServicesCode = 3"
definition EfiBootServicesData :: u32 where "EfiBootServicesData = 4"
definition EfiRuntimeServicesCode :: u32 where "EfiRuntimeServicesCode = 5"
definition EfiRuntimeServicesData :: u32 where "EfiRuntimeServicesData = 6"
definition EfiConventionalMemory :: u32 where "EfiConventionalMemory = 7"
definition EfiUnusableMemory :: u32 where "EfiUnusableMemory = 8"
definition EfiACPIReclaimMemory :: u32 where "EfiACPIReclaimMemory = 9"
definition EfiACPIMemoryNVS :: u32 where "EfiACPIMemoryNVS = 10"
definition EfiMemoryMappedIO :: u32 where "EfiMemoryMappedIO = 11"
definition EfiMemoryMappedIOPortSpace :: u32 where "EfiMemoryMappedIOPortSpace = 12"
definition EfiPalCode :: u32 where "EfiPalCode = 13"
definition EfiPersistentMemory :: u32 where "EfiPersistentMemory = 14"
definition EfiUnacceptedMemoryType :: u32 where "EfiUnacceptedMemoryType = 15"
definition EfiMaxMemoryType :: u32 where "EfiMaxMemoryType = 16"
definition EFI_MEMORY_UC :: u64 where "EFI_MEMORY_UC = 0x0000000000000001"
definition EFI_MEMORY_WC :: u64 where "EFI_MEMORY_WC = 0x0000000000000002"
definition EFI_MEMORY_WT :: u64 where "EFI_MEMORY_WT = 0x0000000000000004"
definition EFI_MEMORY_WB :: u64 where "EFI_MEMORY_WB = 0x0000000000000008"
definition EFI_MEMORY_UCE :: u64 where "EFI_MEMORY_UCE = 0x0000000000000010"
definition EFI_MEMORY_WP :: u64 where "EFI_MEMORY_WP = 0x0000000000001000"
definition EFI_MEMORY_RP :: u64 where "EFI_MEMORY_RP = 0x0000000000002000"
definition EFI_MEMORY_XP :: u64 where "EFI_MEMORY_XP = 0x0000000000004000"
definition EFI_MEMORY_RO :: u64 where "EFI_MEMORY_RO = 0x0000000000020000"
definition EFI_MEMORY_NV :: u64 where "EFI_MEMORY_NV = 0x0000000000008000"
definition EFI_MEMORY_RUNTIME :: u64 where "EFI_MEMORY_RUNTIME = 0x8000000000000000"
definition EFI_MEMORY_MORE_RELIABLE :: u64 where "EFI_MEMORY_MORE_RELIABLE = 0x0000000000010000"
definition EFI_MEMORY_SP :: u64 where "EFI_MEMORY_SP = 0x0000000000040000"
definition EFI_MEMORY_CPU_CRYPTO :: u64 where "EFI_MEMORY_CPU_CRYPTO = 0x0000000000080000"
definition EFI_MEMORY_ISA_VALID :: u64 where "EFI_MEMORY_ISA_VALID = 0x4000000000000000"
definition EFI_MEMORY_ISA_MASK :: u64 where "EFI_MEMORY_ISA_MASK = 0x0FFFF00000000000"
definition EFI_MEMORY_DESCRIPTOR_VERSION :: u64 where "EFI_MEMORY_DESCRIPTOR_VERSION = 1"

definition EFI_MEMORY_DESCRIPTOR :: cty where
  "EFI_MEMORY_DESCRIPTOR = CStruct [(''Type'', UINT32), (''Pad'', UINT32),
    (''PhysicalStart'', EFI_PHYSICAL_ADDRESS), (''VirtualStart'', EFI_VIRTUAL_ADDRESS),
    (''NumberOfPages'', UINT64), (''Attribute'', UINT64)]"

definition ISO_639_2 :: cty where "ISO_639_2 = CHAR8"
definition ISO_639_2_ENTRY_SIZE :: u64 where "ISO_639_2_ENTRY_SIZE = 3"
definition EFI_PAGE_SIZE :: u64 where "EFI_PAGE_SIZE = 4096"
definition EFI_PAGE_MASK :: u64 where "EFI_PAGE_MASK = 0xFFF"
definition EFI_PAGE_SHIFT :: u64 where "EFI_PAGE_SHIFT = 12"
definition EFI_OS_INDICATIONS_BOOT_TO_FW_UI :: u64 where
  "EFI_OS_INDICATIONS_BOOT_TO_FW_UI = 0x0000000000000001"

definition EFI_OS_INDICATIONS_TIMESTAMP_REVOCATION :: u64 where
  "EFI_OS_INDICATIONS_TIMESTAMP_REVOCATION = 0x0000000000000002"

definition EFI_OS_INDICATIONS_FILE_CAPSULE_DELIVERY_SUPPORTED :: u64 where
  "EFI_OS_INDICATIONS_FILE_CAPSULE_DELIVERY_SUPPORTED = 0x0000000000000004"

definition EFI_OS_INDICATIONS_FMP_CAPSULE_SUPPORTED :: u64 where
  "EFI_OS_INDICATIONS_FMP_CAPSULE_SUPPORTED = 0x0000000000000008"

definition EFI_OS_INDICATIONS_CAPSULE_RESULT_VAR_SUPPORTED :: u64 where
  "EFI_OS_INDICATIONS_CAPSULE_RESULT_VAR_SUPPORTED = 0x0000000000000010"

definition EFI_OS_INDICATIONS_START_OS_RECOVERY :: u64 where
  "EFI_OS_INDICATIONS_START_OS_RECOVERY = 0x0000000000000020"

definition EFI_OS_INDICATIONS_START_PLATFORM_RECOVERY :: u64 where
  "EFI_OS_INDICATIONS_START_PLATFORM_RECOVERY = 0x0000000000000040"

definition EFI_OS_INDICATIONS_JSON_CONFIG_DATA_REFRESH :: u64 where
  "EFI_OS_INDICATIONS_JSON_CONFIG_DATA_REFRESH = 0x0000000000000080"

section \<open>efierr.h\<close>

definition EFI_SUCCESS :: u64 where "EFI_SUCCESS = 0"
definition EFI_LOAD_ERROR :: u64 where "EFI_LOAD_ERROR = EFIERR 1"
definition EFI_INVALID_PARAMETER :: u64 where "EFI_INVALID_PARAMETER = EFIERR 2"
definition EFI_UNSUPPORTED :: u64 where "EFI_UNSUPPORTED = EFIERR 3"
definition EFI_BAD_BUFFER_SIZE :: u64 where "EFI_BAD_BUFFER_SIZE = EFIERR 4"
definition EFI_BUFFER_TOO_SMALL :: u64 where "EFI_BUFFER_TOO_SMALL = EFIERR 5"
definition EFI_NOT_READY :: u64 where "EFI_NOT_READY = EFIERR 6"
definition EFI_DEVICE_ERROR :: u64 where "EFI_DEVICE_ERROR = EFIERR 7"
definition EFI_WRITE_PROTECTED :: u64 where "EFI_WRITE_PROTECTED = EFIERR 8"
definition EFI_OUT_OF_RESOURCES :: u64 where "EFI_OUT_OF_RESOURCES = EFIERR 9"
definition EFI_VOLUME_CORRUPTED :: u64 where "EFI_VOLUME_CORRUPTED = EFIERR 10"
definition EFI_VOLUME_FULL :: u64 where "EFI_VOLUME_FULL = EFIERR 11"
definition EFI_NO_MEDIA :: u64 where "EFI_NO_MEDIA = EFIERR 12"
definition EFI_MEDIA_CHANGED :: u64 where "EFI_MEDIA_CHANGED = EFIERR 13"
definition EFI_NOT_FOUND :: u64 where "EFI_NOT_FOUND = EFIERR 14"
definition EFI_ACCESS_DENIED :: u64 where "EFI_ACCESS_DENIED = EFIERR 15"
definition EFI_NO_RESPONSE :: u64 where "EFI_NO_RESPONSE = EFIERR 16"
definition EFI_NO_MAPPING :: u64 where "EFI_NO_MAPPING = EFIERR 17"
definition EFI_TIMEOUT :: u64 where "EFI_TIMEOUT = EFIERR 18"
definition EFI_NOT_STARTED :: u64 where "EFI_NOT_STARTED = EFIERR 19"
definition EFI_ALREADY_STARTED :: u64 where "EFI_ALREADY_STARTED = EFIERR 20"
definition EFI_ABORTED :: u64 where "EFI_ABORTED = EFIERR 21"
definition EFI_ICMP_ERROR :: u64 where "EFI_ICMP_ERROR = EFIERR 22"
definition EFI_TFTP_ERROR :: u64 where "EFI_TFTP_ERROR = EFIERR 23"
definition EFI_PROTOCOL_ERROR :: u64 where "EFI_PROTOCOL_ERROR = EFIERR 24"
definition EFI_INCOMPATIBLE_VERSION :: u64 where "EFI_INCOMPATIBLE_VERSION = EFIERR 25"
definition EFI_SECURITY_VIOLATION :: u64 where "EFI_SECURITY_VIOLATION = EFIERR 26"
definition EFI_CRC_ERROR :: u64 where "EFI_CRC_ERROR = EFIERR 27"
definition EFI_END_OF_MEDIA :: u64 where "EFI_END_OF_MEDIA = EFIERR 28"
definition EFI_END_OF_FILE :: u64 where "EFI_END_OF_FILE = EFIERR 31"
definition EFI_INVALID_LANGUAGE :: u64 where "EFI_INVALID_LANGUAGE = EFIERR 32"
definition EFI_COMPROMISED_DATA :: u64 where "EFI_COMPROMISED_DATA = EFIERR 33"
definition EFI_IP_ADDRESS_CONFLICT :: u64 where "EFI_IP_ADDRESS_CONFLICT = EFIERR 34"
definition EFI_HTTP_ERROR :: u64 where "EFI_HTTP_ERROR = EFIERR 35"
definition EFI_WARN_UNKOWN_GLYPH :: u64 where "EFI_WARN_UNKOWN_GLYPH = EFIWARN 1"
definition EFI_WARN_UNKNOWN_GLYPH :: u64 where "EFI_WARN_UNKNOWN_GLYPH = EFIWARN 1"
definition EFI_WARN_DELETE_FAILURE :: u64 where "EFI_WARN_DELETE_FAILURE = EFIWARN 2"
definition EFI_WARN_WRITE_FAILURE :: u64 where "EFI_WARN_WRITE_FAILURE = EFIWARN 3"
definition EFI_WARN_BUFFER_TOO_SMALL :: u64 where "EFI_WARN_BUFFER_TOO_SMALL = EFIWARN 4"
definition EFI_WARN_STALE_DATA :: u64 where "EFI_WARN_STALE_DATA = EFIWARN 5"
definition EFI_WARN_FILE_SYSTEM :: u64 where "EFI_WARN_FILE_SYSTEM = EFIWARN 6"
definition EFI_WARN_RESET_REQUIRED :: u64 where "EFI_WARN_RESET_REQUIRED = EFIWARN 7"

end
