(* ===== verification/Efi_Device_Path.thy ===== *)
theory Efi_Device_Path
  imports Efi_Def
begin

text \<open>
  The device path nodes of \<open>efi_headers/efidevp.h\<close>: node types, structures and the protocols
  that convert them.
\<close>

section \<open>efidevp.h\<close>

definition EFI_DEVICE_PATH_PROTOCOL :: cty where
  "EFI_DEVICE_PATH_PROTOCOL = CStruct [(''Type'', UINT8), (''SubType'', UINT8),
    (''Length'', CArr UINT8 2)]"

definition EFI_DEVICE_PATH :: cty where "EFI_DEVICE_PATH = EFI_DEVICE_PATH_PROTOCOL"
definition EFI_DP_TYPE_MASK :: u64 where "EFI_DP_TYPE_MASK = 0x7F"
definition EFI_DP_TYPE_UNPACKED :: u64 where "EFI_DP_TYPE_UNPACKED = 0x80"
definition END_DEVICE_PATH_TYPE :: u64 where "END_DEVICE_PATH_TYPE = 0x7f"
definition END_ENTIRE_DEVICE_PATH_SUBTYPE :: u64 where "END_ENTIRE_DEVICE_PATH_SUBTYPE = 0xff"
definition END_INSTANCE_DEVICE_PATH_SUBTYPE :: u64 where
  "END_INSTANCE_DEVICE_PATH_SUBTYPE = 0x01"

definition HARDWARE_DEVICE_PATH :: u64 where "HARDWARE_DEVICE_PATH = 0x01"
definition HW_PCI_DP :: u64 where "HW_PCI_DP = 0x01"

definition PCI_DEVICE_PATH :: cty where
  "PCI_DEVICE_PATH = CStruct [(''Header'', EFI_DEVICE_PATH_PROTOCOL), (''Function'', UINT8),
    (''Device'', UINT8)]"

definition HW_PCCARD_DP :: u64 where "HW_PCCARD_DP = 0x02"

definition PCCARD_DEVICE_PATH :: cty where
  "PCCARD_DEVICE_PATH = CStruct [(''Header'', EFI_DEVICE_PATH_PROTOCOL),
    (''FunctionNumber'', UINT8)]"

definition HW_MEMMAP_DP :: u64 where "HW_MEMMAP_DP = 0x03"

definition MEMMAP_DEVICE_PATH :: cty where
  "MEMMAP_DEVICE_PATH = CStruct [(''Header'', EFI_DEVICE_PATH_PROTOCOL),
    (''MemoryType'', UINT32), (''StartingAddress'', EFI_PHYSICAL_ADDRESS),
    (''EndingAddress'', EFI_PHYSICAL_ADDRESS)]"

definition HW_VENDOR_DP :: u64 where "HW_VENDOR_DP = 0x04"

definition VENDOR_DEVICE_PATH :: cty where
  "VENDOR_DEVICE_PATH = CStruct [(''Header'', EFI_DEVICE_PATH_PROTOCOL), (''Guid'', EFI_GUID)]"

definition UNKNOWN_DEVICE_GUID :: guid where
  "UNKNOWN_DEVICE_GUID = GUID 0xCF31FAC5 0xC24E 0x11D2 [0x85, 0xF3, 0x0, 0xA0, 0xC9, 0x3E, 0xC9, 0x3B]"

definition UNKNOWN_DEVICE_VENDOR_DEVICE_PATH :: cty where
  "UNKNOWN_DEVICE_VENDOR_DEVICE_PATH = CStruct [(''DevicePath'', VENDOR_DEVICE_PATH),
    (''LegacyDriveLetter'', UINT8)]"

definition HW_CONTROLLER_DP :: u64 where "HW_CONTROLLER_DP = 0x05"

definition CONTROLLER_DEVICE_PATH :: cty where
  "CONTROLLER_DEVICE_PATH = CStruct [(''Header'', EFI_DEVICE_PATH_PROTOCOL),
    (''Controller'', UINT32)]"

definition ACPI_DEVICE_PATH :: u64 where "ACPI_DEVICE_PATH = 0x02"
definition ACPI_DP :: u64 where "ACPI_DP = 0x01"

definition ACPI_HID_DEVICE_PATH :: cty where
  "ACPI_HID_DEVICE_PATH = CStruct [(''Header'', EFI_DEVICE_PATH_PROTOCOL), (''HID'', UINT32),
    (''UID'', UINT32)]"

definition EXPANDED_ACPI_DP :: u64 where "EXPANDED_ACPI_DP = 0x02"

definition EXPANDED_ACPI_HID_DEVICE_PATH :: cty where
  "EXPANDED_ACPI_HID_DEVICE_PATH = CStruct [(''Header'', EFI_DEVICE_PATH_PROTOCOL),
    (''HID'', UINT32), (''UID'', UINT32), (''CID'', UINT32), (''HidStr'', CArr UINT8 1)]"

definition ACPI_ADR_DP :: u64 where "ACPI_ADR_DP = 3"

definition ACPI_ADR_DEVICE_PATH :: cty where
  "ACPI_ADR_DEVICE_PATH = CStruct [(''Header'', EFI_DEVICE_PATH_PROTOCOL), (''ADR'', UINT32)]"

definition PNP_EISA_ID_CONST :: u64 where "PNP_EISA_ID_CONST = 0x41d0"
definition PNP_EISA_ID_MASK :: u64 where "PNP_EISA_ID_MASK = 0xffff"
definition MESSAGING_DEVICE_PATH :: u64 where "MESSAGING_DEVICE_PATH = 0x03"
definition MSG_ATAPI_DP :: u64 where "MSG_ATAPI_DP = 0x01"

definition ATAPI_DEVICE_PATH :: cty where
  "ATAPI_DEVICE_PATH = CStruct [(''Header'', EFI_DEVICE_PATH_PROTOCOL),
    (''PrimarySecondary'', UINT8), (''SlaveMaster'', UINT8), (''Lun'', UINT16)]"

definition MSG_SCSI_DP :: u64 where "MSG_SCSI_DP = 0x02"

definition SCSI_DEVICE_PATH :: cty where
  "SCSI_DEVICE_PATH = CStruct [(''Header'', EFI_DEVICE_PATH_PROTOCOL), (''Pun'', UINT16),
    (''Lun'', UINT16)]"

definition MSG_FIBRECHANNEL_DP :: u64 where "MSG_FIBRECHANNEL_DP = 0x03"

definition FIBRECHANNEL_DEVICE_PATH :: cty where
  "FIBRECHANNEL_DEVICE_PATH = CStruct [(''Header'', EFI_DEVICE_PATH_PROTOCOL),
    (''Reserved'', UINT32), (''WWN'', UINT64), (''Lun'', UINT64)]"

definition MSG_FIBRECHANNELEX_DP :: u64 where "MSG_FIBRECHANNELEX_DP = 21"

definition FIBRECHANNELEX_DEVICE_PATH :: cty where
  "FIBRECHANNELEX_DEVICE_PATH = CStruct [(''Header'', EFI_DEVICE_PATH_PROTOCOL),
    (''Reserved'', UINT32), (''WWN'', CArr UINT8 8), (''Lun'', CArr UINT8 8)]"

definition MSG_1394_DP :: u64 where "MSG_1394_DP = 0x04"

definition F1394_DEVICE_PATH :: cty where
  "F1394_DEVICE_PATH = CStruct [(''Header'', EFI_DEVICE_PATH_PROTOCOL), (''Reserved'', UINT32),
    (''Guid'', UINT64)]"

definition MSG_USB_DP :: u64 where "MSG_USB_DP = 0x05"

definition USB_DEVICE_PATH :: cty where
  "USB_DEVICE_PATH = CStruct [(''Header'', EFI_DEVICE_PATH_PROTOCOL), (''Port'', UINT8),
    (''Endpoint'', UINT8)]"

definition MSG_SATA_DP :: u64 where "MSG_SATA_DP = 18"

definition SATA_DEVICE_PATH :: cty where
  "SATA_DEVICE_PATH = CStruct [(''Header'', EFI_DEVICE_PATH_PROTOCOL),
    (''HBAPortNumber'', UINT16), (''PortMultiplierPortNumber'', UINT16), (''Lun'', UINT16)]"

definition MSG_USB_WWID_DP :: u64 where "MSG_USB_WWID_DP = 16"

definition USB_WWID_DEVICE_PATH :: cty where
  "USB_WWID_DEVICE_PATH = CStruct [(''Header'', EFI_DEVICE_PATH_PROTOCOL),
    (''InterfaceNumber'', UINT16), (''VendorId'', UINT16), (''ProductId'', UINT16),
    (''SerialNumber'', CArr CHAR16 1)]"

definition MSG_DEVICE_LOGICAL_UNIT_DP :: u64 where "MSG_DEVICE_LOGICAL_UNIT_DP = 17"

definition DEVICE_LOGICAL_UNIT_DEVICE_PATH :: cty where
  "DEVICE_LOGICAL_UNIT_DEVICE_PATH = CStruct [(''Header'', EFI_DEVICE_PATH_PROTOCOL),
    (''Lun'', UINT8)]"

definition MSG_USB_CLASS_DP :: u64 where "MSG_USB_CLASS_DP = 0x0F"

definition USB_CLASS_DEVICE_PATH :: cty where
  "USB_CLASS_DEVICE_PATH = CStruct [(''Header'', EFI_DEVICE_PATH_PROTOCOL),
    (''VendorId'', UINT16), (''ProductId'', UINT16), (''DeviceClass'', UINT8),
    (''DeviceSubclass'', UINT8), (''DeviceProtocol'', UINT8)]"

definition MSG_I2O_DP :: u64 where "MSG_I2O_DP = 0x06"

definition I2O_DEVICE_PATH :: cty where
  "I2O_DEVICE_PATH = CStruct [(''Header'', EFI_DEVICE_PATH_PROTOCOL), (''Tid'', UINT32)]"

definition MSG_MAC_ADDR_DP :: u64 where "MSG_MAC_ADDR_DP = 0x0b"

definition MAC_ADDR_DEVICE_PATH :: cty where
  "MAC_ADDR_DEVICE_PATH = CStruct [(''Header'', EFI_DEVICE_PATH_PROTOCOL),
    (''MacAddress'', EFI_MAC_ADDRESS), (''IfType'', UINT8)]"

definition MSG_IPv4_DP :: u64 where "MSG_IPv4_DP = 0x0c"

definition IPv4_DEVICE_PATH :: cty where
  "IPv4_DEVICE_PATH = CStruct [(''Header'', EFI_DEVICE_PATH_PROTOCOL),
    (''LocalIpAddress'', EFI_IPv4_ADDRESS), (''RemoteIpAddress'', EFI_IPv4_ADDRESS),
    (''LocalPort'', UINT16), (''RemotePort'', UINT16), (''Protocol'', UINT16),
    (''StaticIpAddress'', BOOLEAN), (''GatewayIpAddress'', EFI_IPv4_ADDRESS),
    (''SubnetMask'', EFI_IPv4_ADDRESS)]"

definition MSG_IPv6_DP :: u64 where "MSG_IPv6_DP = 0x0d"

definition IPv6_DEVICE_PATH :: cty where
  "IPv6_DEVICE_PATH = CStruct [(''Header'', EFI_DEVICE_PATH_PROTOCOL),
    (''LocalIpAddress'', EFI_IPv6_ADDRESS), (''RemoteIpAddress'', EFI_IPv6_ADDRESS),
    (''LocalPort'', UINT16), (''RemotePort'', UINT16), (''Protocol'', UINT16),
    (''IPAddressOrigin'', BOOLEAN), (''PrefixLength'', UINT8),
    (''GatewayIpAddress'', EFI_IPv6_ADDRESS)]"

definition MSG_URI_DP :: u64 where "MSG_URI_DP = 24"

definition URI_DEVICE_PATH :: cty where
  "URI_DEVICE_PATH = CStruct [(''Header'', EFI_DEVICE_PATH_PROTOCOL), (''Uri'', CArr CHAR8 1)]"

definition MSG_VLAN_DP :: u64 where "MSG_VLAN_DP = 20"

definition VLAN_DEVICE_PATH :: cty where
  "VLAN_DEVICE_PATH = CStruct [(''Header'', EFI_DEVICE_PATH_PROTOCOL), (''VlanId'', UINT16)]"

definition MSG_INFINIBAND_DP :: u64 where "MSG_INFINIBAND_DP = 0x09"

definition INFINIBAND_DEVICE_PATH :: cty where
  "INFINIBAND_DEVICE_PATH = CStruct [(''Header'', EFI_DEVICE_PATH_PROTOCOL),
    (''ResourceFlags'', UINT32), (''PortGid'', CArr UINT8 16), (''ServiceId'', UINT64),
    (''TargetPortId'', UINT64), (''DeviceId'', UINT64)]"

definition MSG_UART_DP :: u64 where "MSG_UART_DP = 0x0e"

definition UART_DEVICE_PATH :: cty where
  "UART_DEVICE_PATH = CStruct [(''Header'', EFI_DEVICE_PATH_PROTOCOL), (''Reserved'', UINT32),
    (''BaudRate'', UINT64), (''DataBits'', UINT8), (''Parity'', UINT8), (''StopBits'', UINT8)]"

definition MSG_VENDOR_DP :: u64 where "MSG_VENDOR_DP = 0x0A"
definition EFI_PC_ANSI_GUID :: guid where
  "EFI_PC_ANSI_GUID = GUID 0xE0C14753 0xF9BE 0x11D2 [0x9A, 0x0C, 0x00, 0x90, 0x27, 0x3F, 0xC1, 0x4D]"

definition DEVICE_PATH_MESSAGING_PC_ANSI :: guid where
  "DEVICE_PATH_MESSAGING_PC_ANSI = EFI_PC_ANSI_GUID"

definition EFI_VT_100_GUID :: guid where
  "EFI_VT_100_GUID = GUID 0xDFA66065 0xB419 0x11D3 [0x9A, 0x2D, 0x00, 0x90, 0x27, 0x3F, 0xC1, 0x4D]"

definition DEVICE_PATH_MESSAGING_VT_100 :: guid where
  "DEVICE_PATH_MESSAGING_VT_100 = EFI_VT_100_GUID"

definition EFI_VT_100_PLUS_GUID :: guid where
  "EFI_VT_100_PLUS_GUID = GUID 0x7BAEC70B 0x57E0 0x4C76 [0x8E, 0x87, 0x2F, 0x9E, 0x28, 0x08, 0x83, 0x43]"

definition DEVICE_PATH_MESSAGING_VT_100_PLUS :: guid where
  "DEVICE_PATH_MESSAGING_VT_100_PLUS = EFI_VT_100_PLUS_GUID"

definition EFI_VT_UTF8_GUID :: guid where
  "EFI_VT_UTF8_GUID = GUID 0xAD15A0D6 0x8BEC 0x4ACF [0xA0, 0x73, 0xD0, 0x1D, 0xE7, 0x7E, 0x2D, 0x88]"

definition DEVICE_PATH_MESSAGING_VT_UTF8 :: guid where
  "DEVICE_PATH_MESSAGING_VT_UTF8 = EFI_VT_UTF8_GUID"

definition MEDIA_DEVICE_PATH :: u64 where "MEDIA_DEVICE_PATH = 0x04"
definition MEDIA_HARDDRIVE_DP :: u64 where "MEDIA_HARDDRIVE_DP = 0x01"

definition HARDDRIVE_DEVICE_PATH :: cty where
  "HARDDRIVE_DEVICE_PATH = CStruct [(''Header'', EFI_DEVICE_PATH_PROTOCOL),
    (''PartitionNumber'', UINT32), (''PartitionStart'', UINT64), (''PartitionSize'', UINT64),
    (''Signature'', CArr UINT8 16), (''MBRType'', UINT8), (''SignatureType'', UINT8)]"

definition MBR_TYPE_PCAT :: u64 where "MBR_TYPE_PCAT = 0x01"
definition MBR_TYPE_EFI_PARTITION_TABLE_HEADER :: u64 where
  "MBR_TYPE_EFI_PARTITION_TABLE_HEADER = 0x02"

definition SIGNATURE_TYPE_MBR :: u64 where "SIGNATURE_TYPE_MBR = 0x01"
definition SIGNATURE_TYPE_GUID :: u64 where "SIGNATURE_TYPE_GUID = 0x02"
definition MEDIA_CDROM_DP :: u64 where "MEDIA_CDROM_DP = 0x02"

definition CDROM_DEVICE_PATH :: cty where
  "CDROM_DEVICE_PATH = CStruct [(''Header'', EFI_DEVICE_PATH_PROTOCOL), (''BootEntry'', UINT32),
    (''PartitionStart'', UINT64), (''PartitionSize'', UINT64)]"

definition MEDIA_VENDOR_DP :: u64 where "MEDIA_VENDOR_DP = 0x03"
definition MEDIA_FILEPATH_DP :: u64 where "MEDIA_FILEPATH_DP = 0x04"

definition FILEPATH_DEVICE_PATH :: cty where
  "FILEPATH_DEVICE_PATH = CStruct [(''Header'', EFI_DEVICE_PATH_PROTOCOL),
    (''PathName'', CArr CHAR16 1)]"

definition SIZE_OF_FILEPATH_DEVICE_PATH :: "nat option" where
  "SIZE_OF_FILEPATH_DEVICE_PATH = offset FILEPATH_DEVICE_PATH ''PathName''"

definition MEDIA_PROTOCOL_DP :: u64 where "MEDIA_PROTOCOL_DP = 0x05"

definition MEDIA_PROTOCOL_DEVICE_PATH :: cty where
  "MEDIA_PROTOCOL_DEVICE_PATH = CStruct [(''Header'', EFI_DEVICE_PATH_PROTOCOL),
    (''Protocol'', EFI_GUID)]"

definition MEDIA_PIWG_FW_FILE_DP :: u64 where "MEDIA_PIWG_FW_FILE_DP = 6"

definition MEDIA_FW_VOL_FILEPATH_DEVICE_PATH :: cty where
  "MEDIA_FW_VOL_FILEPATH_DEVICE_PATH = CStruct [(''Header'', EFI_DEVICE_PATH_PROTOCOL),
    (''FvFileName'', EFI_GUID)]"

definition MEDIA_PIWG_FW_VOL_DP :: u64 where "MEDIA_PIWG_FW_VOL_DP = 7"

definition MEDIA_FW_VOL_DEVICE_PATH :: cty where
  "MEDIA_FW_VOL_DEVICE_PATH = CStruct [(''Header'', EFI_DEVICE_PATH_PROTOCOL),
    (''FvName'', EFI_GUID)]"

definition MEDIA_RELATIVE_OFFSET_RANGE_DP :: u64 where "MEDIA_RELATIVE_OFFSET_RANGE_DP = 8"

definition MEDIA_RELATIVE_OFFSET_RANGE_DEVICE_PATH :: cty where
  "MEDIA_RELATIVE_OFFSET_RANGE_DEVICE_PATH = CStruct [(''Header'', EFI_DEVICE_PATH_PROTOCOL),
    (''Reserved'', UINT32), (''StartingOffset'', UINT64), (''EndingOffset'', UINT64)]"

definition BBS_DEVICE_PATH :: u64 where "BBS_DEVICE_PATH = 0x05"
definition BBS_BBS_DP :: u64 where "BBS_BBS_DP = 0x01"

definition BBS_BBS_DEVICE_PATH :: cty where
  "BBS_BBS_DEVICE_PATH = CStruct [(''Header'', EFI_DEVICE_PATH_PROTOCOL),
    (''DeviceType'', UINT16), (''StatusFlag'', UINT16), (''String'', CArr CHAR8 1)]"

definition BBS_TYPE_FLOPPY :: u64 where "BBS_TYPE_FLOPPY = 0x01"
definition BBS_TYPE_HARDDRIVE :: u64 where "BBS_TYPE_HARDDRIVE = 0x02"
definition BBS_TYPE_CDROM :: u64 where "BBS_TYPE_CDROM = 0x03"
definition BBS_TYPE_PCMCIA :: u64 where "BBS_TYPE_PCMCIA = 0x04"
definition BBS_TYPE_USB :: u64 where "BBS_TYPE_USB = 0x05"
definition BBS_TYPE_EMBEDDED_NETWORK :: u64 where "BBS_TYPE_EMBEDDED_NETWORK = 0x06"
definition BBS_TYPE_DEV :: u64 where "BBS_TYPE_DEV = 0x80"
definition BBS_TYPE_UNKNOWN :: u64 where "BBS_TYPE_UNKNOWN = 0xFF"

definition EFI_DEV_PATH :: cty where
  "EFI_DEV_PATH = CUnion [(''DevPath'', EFI_DEVICE_PATH_PROTOCOL), (''Pci'', PCI_DEVICE_PATH),
    (''PcCard'', PCCARD_DEVICE_PATH), (''MemMap'', MEMMAP_DEVICE_PATH),
    (''Vendor'', VENDOR_DEVICE_PATH), (''UnknownVendor'', UNKNOWN_DEVICE_VENDOR_DEVICE_PATH),
    (''Controller'', CONTROLLER_DEVICE_PATH), (''Acpi'', ACPI_HID_DEVICE_PATH),
    (''Atapi'', ATAPI_DEVICE_PATH), (''Scsi'', SCSI_DEVICE_PATH),
    (''FibreChannel'', FIBRECHANNEL_DEVICE_PATH), (''F1394'', F1394_DEVICE_PATH),
    (''Usb'', USB_DEVICE_PATH), (''UsbClass'', USB_CLASS_DEVICE_PATH),
    (''I2O'', I2O_DEVICE_PATH), (''MacAddr'', MAC_ADDR_DEVICE_PATH),
    (''Ipv4'', IPv4_DEVICE_PATH), (''Ipv6'', IPv6_DEVICE_PATH), (''Uri'', URI_DEVICE_PATH),
    (''InfiniBand'', INFINIBAND_DEVICE_PATH), (''Uart'', UART_DEVICE_PATH),
    (''HardDrive'', HARDDRIVE_DEVICE_PATH), (''CD'', CDROM_DEVICE_PATH),
    (''FilePath'', FILEPATH_DEVICE_PATH), (''MediaProtocol'', MEDIA_PROTOCOL_DEVICE_PATH),
    (''Bbs'', BBS_BBS_DEVICE_PATH)]"

definition EFI_DEV_PATH_PTR :: cty where
  "EFI_DEV_PATH_PTR = CUnion [(''DevPath'', CPtr ''EFI_DEVICE_PATH_PROTOCOL''),
    (''Pci'', CPtr ''PCI_DEVICE_PATH''), (''PcCard'', CPtr ''PCCARD_DEVICE_PATH''),
    (''MemMap'', CPtr ''MEMMAP_DEVICE_PATH''), (''Vendor'', CPtr ''VENDOR_DEVICE_PATH''),
    (''UnknownVendor'', CPtr ''UNKNOWN_DEVICE_VENDOR_DEVICE_PATH''),
    (''Controller'', CPtr ''CONTROLLER_DEVICE_PATH''), (''Acpi'', CPtr ''ACPI_HID_DEVICE_PATH''),
    (''Atapi'', CPtr ''ATAPI_DEVICE_PATH''), (''Scsi'', CPtr ''SCSI_DEVICE_PATH''),
    (''FibreChannel'', CPtr ''FIBRECHANNEL_DEVICE_PATH''),
    (''F1394'', CPtr ''F1394_DEVICE_PATH''), (''Usb'', CPtr ''USB_DEVICE_PATH''),
    (''UsbClass'', CPtr ''USB_CLASS_DEVICE_PATH''), (''I2O'', CPtr ''I2O_DEVICE_PATH''),
    (''MacAddr'', CPtr ''MAC_ADDR_DEVICE_PATH''), (''Ipv4'', CPtr ''IPv4_DEVICE_PATH''),
    (''Ipv6'', CPtr ''IPv6_DEVICE_PATH''), (''Uri'', CPtr ''URI_DEVICE_PATH''),
    (''InfiniBand'', CPtr ''INFINIBAND_DEVICE_PATH''), (''Uart'', CPtr ''UART_DEVICE_PATH''),
    (''HardDrive'', CPtr ''HARDDRIVE_DEVICE_PATH''),
    (''FilePath'', CPtr ''FILEPATH_DEVICE_PATH''),
    (''MediaProtocol'', CPtr ''MEDIA_PROTOCOL_DEVICE_PATH''),
    (''CD'', CPtr ''CDROM_DEVICE_PATH''), (''Bbs'', CPtr ''BBS_BBS_DEVICE_PATH'')]"

definition EFI_DEVICE_PATH_TO_TEXT_PROTOCOL_GUID :: guid where
  "EFI_DEVICE_PATH_TO_TEXT_PROTOCOL_GUID = GUID 0x8B843E20 0x8132 0x4852 [0x90, 0xCC, 0x55, 0x1A, 0x4E, 0x4A, 0x7F, 0x1C]"

definition EFI_DEVICE_PATH_TO_TEXT_NODE :: csig where
  "EFI_DEVICE_PATH_TO_TEXT_NODE = Fn (Some (CPtr ''CHAR16'')) [
    Arg In ''DeviceNode'' (CPtr ''EFI_DEVICE_PATH_PROTOCOL''), Arg In ''DisplayOnly'' BOOLEAN,
    Arg In ''AllowShortcuts'' BOOLEAN]"

definition EFI_DEVICE_PATH_TO_TEXT_PATH :: csig where
  "EFI_DEVICE_PATH_TO_TEXT_PATH = Fn (Some (CPtr ''CHAR16'')) [
    Arg In ''DevicePath'' (CPtr ''EFI_DEVICE_PATH_PROTOCOL''), Arg In ''DisplayOnly'' BOOLEAN,
    Arg In ''AllowShortcuts'' BOOLEAN]"

definition EFI_DEVICE_PATH_TO_TEXT_PROTOCOL :: cty where
  "EFI_DEVICE_PATH_TO_TEXT_PROTOCOL = CStruct [
    (''ConvertDeviceNodeToText'', CPtr ''EFI_DEVICE_PATH_TO_TEXT_NODE''),
    (''ConvertDevicePathToText'', CPtr ''EFI_DEVICE_PATH_TO_TEXT_PATH'')]"

definition EFI_DEVICE_PATH_FROM_TEXT_PROTOCOL_GUID :: guid where
  "EFI_DEVICE_PATH_FROM_TEXT_PROTOCOL_GUID = GUID 0x5C99A21 0xC70F 0x4AD2 [0x8A, 0x5F, 0x35, 0xDF, 0x33, 0x43, 0xF5, 0x1E]"

definition EFI_DEVICE_PATH_FROM_TEXT_NODE :: csig where
  "EFI_DEVICE_PATH_FROM_TEXT_NODE = Fn (Some (CPtr ''EFI_DEVICE_PATH_PROTOCOL'')) [
    Arg In ''TextDeviceNode'' (CPtr ''CHAR16'')]"

definition EFI_DEVICE_PATH_FROM_TEXT_PATH :: csig where
  "EFI_DEVICE_PATH_FROM_TEXT_PATH = Fn (Some (CPtr ''EFI_DEVICE_PATH_PROTOCOL'')) [
    Arg In ''TextDevicePath'' (CPtr ''CHAR16'')]"

definition EFI_DEVICE_PATH_FROM_TEXT_PROTOCOL :: cty where
  "EFI_DEVICE_PATH_FROM_TEXT_PROTOCOL = CStruct [
    (''ConvertTextToDeviceNode'', CPtr ''EFI_DEVICE_PATH_FROM_TEXT_NODE''),
    (''ConvertTextToDevicePath'', CPtr ''EFI_DEVICE_PATH_FROM_TEXT_PATH'')]"

definition EFI_DEVICE_PATH_UTILITIES_PROTOCOL_GUID :: guid where
  "EFI_DEVICE_PATH_UTILITIES_PROTOCOL_GUID = GUID 0x379BE4E 0xD706 0x437D [0xB0, 0x37, 0xED, 0xB8, 0x2F, 0xB7, 0x72, 0xA4]"

definition EFI_DEVICE_PATH_UTILS_GET_DEVICE_PATH_SIZE :: csig where
  "EFI_DEVICE_PATH_UTILS_GET_DEVICE_PATH_SIZE = Fn (Some UINTN) [
    Arg In ''DevicePath'' (CPtr ''EFI_DEVICE_PATH_PROTOCOL'')]"

definition EFI_DEVICE_PATH_UTILS_DUP_DEVICE_PATH :: csig where
  "EFI_DEVICE_PATH_UTILS_DUP_DEVICE_PATH = Fn (Some (CPtr ''EFI_DEVICE_PATH_PROTOCOL'')) [
    Arg In ''DevicePath'' (CPtr ''EFI_DEVICE_PATH_PROTOCOL'')]"

definition EFI_DEVICE_PATH_UTILS_APPEND_PATH :: csig where
  "EFI_DEVICE_PATH_UTILS_APPEND_PATH = Fn (Some (CPtr ''EFI_DEVICE_PATH_PROTOCOL'')) [
    Arg In ''Src1'' (CPtr ''EFI_DEVICE_PATH_PROTOCOL''),
    Arg In ''Src2'' (CPtr ''EFI_DEVICE_PATH_PROTOCOL'')]"

definition EFI_DEVICE_PATH_UTILS_APPEND_NODE :: csig where
  "EFI_DEVICE_PATH_UTILS_APPEND_NODE = Fn (Some (CPtr ''EFI_DEVICE_PATH_PROTOCOL'')) [
    Arg In ''DevicePath'' (CPtr ''EFI_DEVICE_PATH_PROTOCOL''),
    Arg In ''DeviceNode'' (CPtr ''EFI_DEVICE_PATH_PROTOCOL'')]"

definition EFI_DEVICE_PATH_UTILS_APPEND_INSTANCE :: csig where
  "EFI_DEVICE_PATH_UTILS_APPEND_INSTANCE = Fn (Some (CPtr ''EFI_DEVICE_PATH_PROTOCOL'')) [
    Arg In ''DevicePath'' (CPtr ''EFI_DEVICE_PATH_PROTOCOL''),
    Arg In ''DevicePathInstance'' (CPtr ''EFI_DEVICE_PATH_PROTOCOL'')]"

definition EFI_DEVICE_PATH_UTILS_GET_NEXT_INSTANCE :: csig where
  "EFI_DEVICE_PATH_UTILS_GET_NEXT_INSTANCE = Fn (Some (CPtr ''EFI_DEVICE_PATH_PROTOCOL'')) [
    Arg InOut ''DevicePathInstance'' (CPtr ''EFI_DEVICE_PATH_PROTOCOL *''),
    OptArg Out ''DevicePathInstanceSize'' (CPtr ''UINTN'')]"

definition EFI_DEVICE_PATH_UTILS_CREATE_NODE :: csig where
  "EFI_DEVICE_PATH_UTILS_CREATE_NODE = Fn (Some (CPtr ''EFI_DEVICE_PATH_PROTOCOL'')) [
    Arg In ''NodeType'' UINT8, Arg In ''NodeSubType'' UINT8, Arg In ''NodeLength'' UINT16]"

definition EFI_DEVICE_PATH_UTILS_IS_MULTI_INSTANCE :: csig where
  "EFI_DEVICE_PATH_UTILS_IS_MULTI_INSTANCE = Fn (Some BOOLEAN) [
    Arg In ''DevicePath'' (CPtr ''EFI_DEVICE_PATH_PROTOCOL'')]"

definition EFI_DEVICE_PATH_UTILITIES_PROTOCOL :: cty where
  "EFI_DEVICE_PATH_UTILITIES_PROTOCOL = CStruct [
    (''GetDevicePathSize'', CPtr ''EFI_DEVICE_PATH_UTILS_GET_DEVICE_PATH_SIZE''),
    (''DuplicateDevicePath'', CPtr ''EFI_DEVICE_PATH_UTILS_DUP_DEVICE_PATH''),
    (''AppendDevicePath'', CPtr ''EFI_DEVICE_PATH_UTILS_APPEND_PATH''),
    (''AppendDeviceNode'', CPtr ''EFI_DEVICE_PATH_UTILS_APPEND_NODE''),
    (''AppendDevicePathInstance'', CPtr ''EFI_DEVICE_PATH_UTILS_APPEND_INSTANCE''),
    (''GetNextDevicePathInstance'', CPtr ''EFI_DEVICE_PATH_UTILS_GET_NEXT_INSTANCE''),
    (''IsDevicePathMultiInstance'', CPtr ''EFI_DEVICE_PATH_UTILS_IS_MULTI_INSTANCE''),
    (''CreateDeviceNode'', CPtr ''EFI_DEVICE_PATH_UTILS_CREATE_NODE'')]"


end
