(* ===== verification/Efi_Prot.thy ===== *)
theory Efi_Prot
  imports Efi_Device_Path
begin

text \<open>
  The protocols of \<open>efi_headers/efiprot.h\<close>: block and disk access, the simple file system,
  loaded images, graphics output and the others, as layouts and signatures.
\<close>

section \<open>efiprot.h\<close>

definition EFI_FPSWA_PROTOCOL_GUID :: guid where
  "EFI_FPSWA_PROTOCOL_GUID = GUID 0xC41B6531 0x97B9 0x11D3 [0x9A, 0x29, 0x0, 0x90, 0x27, 0x3F, 0xC1, 0x4D]"

definition FPSWA_PROTOCOL :: guid where "FPSWA_PROTOCOL = EFI_FPSWA_PROTOCOL_GUID"
definition EFI_DEVICE_PATH_PROTOCOL_GUID :: guid where
  "EFI_DEVICE_PATH_PROTOCOL_GUID = GUID 0x9576E91 0x6D3F 0x11D2 [0x8E, 0x39, 0x0, 0xA0, 0xC9, 0x69, 0x72, 0x3B]"

definition DEVICE_PATH_PROTOCOL :: guid where
  "DEVICE_PATH_PROTOCOL = EFI_DEVICE_PATH_PROTOCOL_GUID"

definition EFI_BLOCK_IO_PROTOCOL_GUID :: guid where
  "EFI_BLOCK_IO_PROTOCOL_GUID = GUID 0x964E5B21 0x6459 0x11D2 [0x8E, 0x39, 0x0, 0xA0, 0xC9, 0x69, 0x72, 0x3B]"

definition BLOCK_IO_PROTOCOL :: guid where "BLOCK_IO_PROTOCOL = EFI_BLOCK_IO_PROTOCOL_GUID"
definition EFI_BLOCK_IO_PROTOCOL_REVISION :: u64 where
  "EFI_BLOCK_IO_PROTOCOL_REVISION = 0x00010000"

definition EFI_BLOCK_IO_PROTOCOL_REVISION2 :: u64 where
  "EFI_BLOCK_IO_PROTOCOL_REVISION2 = 0x00020001"

definition EFI_BLOCK_IO_PROTOCOL_REVISION3 :: u64 where
  "EFI_BLOCK_IO_PROTOCOL_REVISION3 = (((push_bit 16 2)) OR 31)"

definition EFI_BLOCK_IO_INTERFACE_REVISION :: u64 where
  "EFI_BLOCK_IO_INTERFACE_REVISION = EFI_BLOCK_IO_PROTOCOL_REVISION"

definition EFI_BLOCK_IO_INTERFACE_REVISION2 :: u64 where
  "EFI_BLOCK_IO_INTERFACE_REVISION2 = EFI_BLOCK_IO_PROTOCOL_REVISION2"

definition EFI_BLOCK_IO_INTERFACE_REVISION3 :: u64 where
  "EFI_BLOCK_IO_INTERFACE_REVISION3 = EFI_BLOCK_IO_PROTOCOL_REVISION3"

definition EFI_BLOCK_RESET :: csig where
  "EFI_BLOCK_RESET = Fn (Some EFI_STATUS) [Arg In ''This'' (CPtr ''_EFI_BLOCK_IO_PROTOCOL''),
    Arg In ''ExtendedVerification'' BOOLEAN]"

definition EFI_BLOCK_READ :: csig where
  "EFI_BLOCK_READ = Fn (Some EFI_STATUS) [Arg In ''This'' (CPtr ''_EFI_BLOCK_IO_PROTOCOL''),
    Arg In ''MediaId'' UINT32, Arg In ''LBA'' EFI_LBA, Arg In ''BufferSize'' UINTN,
    Arg Out ''Buffer'' (CPtr ''VOID'')]"

definition EFI_BLOCK_WRITE :: csig where
  "EFI_BLOCK_WRITE = Fn (Some EFI_STATUS) [Arg In ''This'' (CPtr ''_EFI_BLOCK_IO_PROTOCOL''),
    Arg In ''MediaId'' UINT32, Arg In ''LBA'' EFI_LBA, Arg In ''BufferSize'' UINTN,
    Arg In ''Buffer'' (CPtr ''VOID'')]"

definition EFI_BLOCK_FLUSH :: csig where
  "EFI_BLOCK_FLUSH = Fn (Some EFI_STATUS) [Arg In ''This'' (CPtr ''_EFI_BLOCK_IO_PROTOCOL'')]"

definition EFI_BLOCK_IO_MEDIA :: cty where
  "EFI_BLOCK_IO_MEDIA = CStruct [(''MediaId'', UINT32), (''RemovableMedia'', BOOLEAN),
    (''MediaPresent'', BOOLEAN), (''LogicalPartition'', BOOLEAN), (''ReadOnly'', BOOLEAN),
    (''WriteCaching'', BOOLEAN), (''BlockSize'', UINT32), (''IoAlign'', UINT32),
    (''LastBlock'', EFI_LBA), (''LowestAlignedLba'', EFI_LBA),
    (''LogicalBlocksPerPhysicalBlock'', UINT32), (''OptimalTransferLengthGranularity'', UINT32)]"

definition EFI_BLOCK_IO_PROTOCOL :: cty where
  "EFI_BLOCK_IO_PROTOCOL = CStruct [(''Revision'', UINT64),
    (''Media'', CPtr ''EFI_BLOCK_IO_MEDIA''), (''Reset'', CPtr ''EFI_BLOCK_RESET''),
    (''ReadBlocks'', CPtr ''EFI_BLOCK_READ''), (''WriteBlocks'', CPtr ''EFI_BLOCK_WRITE''),
    (''FlushBlocks'', CPtr ''EFI_BLOCK_FLUSH'')]"

definition EFI_BLOCK_IO :: cty where "EFI_BLOCK_IO = EFI_BLOCK_IO_PROTOCOL"
definition EFI_BLOCK_IO2_PROTOCOL_GUID :: guid where
  "EFI_BLOCK_IO2_PROTOCOL_GUID = GUID 0xA77B2472 0xE282 0x4E9F [0xA2, 0x45, 0xC2, 0xC0, 0xE2, 0x7B, 0xBC, 0xC1]"

definition EFI_BLOCK_IO2_TOKEN :: cty where
  "EFI_BLOCK_IO2_TOKEN = CStruct [(''Event'', EFI_EVENT), (''TransactionStatus'', EFI_STATUS)]"

definition EFI_BLOCK_RESET_EX :: csig where
  "EFI_BLOCK_RESET_EX = Fn (Some EFI_STATUS) [Arg In ''This'' (CPtr ''_EFI_BLOCK_IO2_PROTOCOL''),
    Arg In ''ExtendedVerification'' BOOLEAN]"

definition EFI_BLOCK_READ_EX :: csig where
  "EFI_BLOCK_READ_EX = Fn (Some EFI_STATUS) [Arg In ''This'' (CPtr ''_EFI_BLOCK_IO2_PROTOCOL''),
    Arg In ''MediaId'' UINT32, Arg In ''LBA'' EFI_LBA,
    Arg InOut ''Token'' (CPtr ''EFI_BLOCK_IO2_TOKEN''), Arg In ''BufferSize'' UINTN,
    Arg Out ''Buffer'' (CPtr ''VOID'')]"

definition EFI_BLOCK_WRITE_EX :: csig where
  "EFI_BLOCK_WRITE_EX = Fn (Some EFI_STATUS) [Arg In ''This'' (CPtr ''_EFI_BLOCK_IO2_PROTOCOL''),
    Arg In ''MediaId'' UINT32, Arg In ''LBA'' EFI_LBA,
    Arg InOut ''Token'' (CPtr ''EFI_BLOCK_IO2_TOKEN''), Arg In ''BufferSize'' UINTN,
    Arg In ''Buffer'' (CPtr ''VOID'')]"

definition EFI_BLOCK_FLUSH_EX :: csig where
  "EFI_BLOCK_FLUSH_EX = Fn (Some EFI_STATUS) [Arg In ''This'' (CPtr ''_EFI_BLOCK_IO2_PROTOCOL''),
    Arg InOut ''Token'' (CPtr ''EFI_BLOCK_IO2_TOKEN'')]"

definition EFI_BLOCK_IO2_PROTOCOL :: cty where
  "EFI_BLOCK_IO2_PROTOCOL = CStruct [(''Media'', CPtr ''EFI_BLOCK_IO_MEDIA''),
    (''Reset'', CPtr ''EFI_BLOCK_RESET_EX''), (''ReadBlocksEx'', CPtr ''EFI_BLOCK_READ_EX''),
    (''WriteBlocksEx'', CPtr ''EFI_BLOCK_WRITE_EX''),
    (''FlushBlocksEx'', CPtr ''EFI_BLOCK_FLUSH_EX'')]"

definition EFI_DISK_IO_PROTOCOL_GUID :: guid where
  "EFI_DISK_IO_PROTOCOL_GUID = GUID 0xCE345171 0xBA0B 0x11D2 [0x8E, 0x4F, 0x0, 0xA0, 0xC9, 0x69, 0x72, 0x3B]"

definition DISK_IO_PROTOCOL :: guid where "DISK_IO_PROTOCOL = EFI_DISK_IO_PROTOCOL_GUID"
definition EFI_DISK_IO_PROTOCOL_REVISION :: u64 where
  "EFI_DISK_IO_PROTOCOL_REVISION = 0x00010000"

definition EFI_DISK_IO_INTERFACE_REVISION :: u64 where
  "EFI_DISK_IO_INTERFACE_REVISION = EFI_DISK_IO_PROTOCOL_REVISION"

definition EFI_DISK_READ :: csig where
  "EFI_DISK_READ = Fn (Some EFI_STATUS) [Arg In ''This'' (CPtr ''_EFI_DISK_IO_PROTOCOL''),
    Arg In ''MediaId'' UINT32, Arg In ''Offset'' UINT64, Arg In ''BufferSize'' UINTN,
    Arg Out ''Buffer'' (CPtr ''VOID'')]"

definition EFI_DISK_WRITE :: csig where
  "EFI_DISK_WRITE = Fn (Some EFI_STATUS) [Arg In ''This'' (CPtr ''_EFI_DISK_IO_PROTOCOL''),
    Arg In ''MediaId'' UINT32, Arg In ''Offset'' UINT64, Arg In ''BufferSize'' UINTN,
    Arg In ''Buffer'' (CPtr ''VOID'')]"

definition EFI_DISK_IO_PROTOCOL :: cty where
  "EFI_DISK_IO_PROTOCOL = CStruct [(''Revision'', UINT64),
    (''ReadDisk'', CPtr ''EFI_DISK_READ''), (''WriteDisk'', CPtr ''EFI_DISK_WRITE'')]"

definition EFI_DISK_IO :: cty where "EFI_DISK_IO = EFI_DISK_IO_PROTOCOL"
definition EFI_DISK_IO2_PROTOCOL_GUID :: guid where
  "EFI_DISK_IO2_PROTOCOL_GUID = GUID 0x151C8EAE 0x7F2C 0x472C [0x9E, 0x54, 0x98, 0x28, 0x19, 0x4F, 0x6A, 0x88]"

definition EFI_DISK_IO2_PROTOCOL_REVISION :: u64 where
  "EFI_DISK_IO2_PROTOCOL_REVISION = 0x00020000"

definition EFI_DISK_IO2_TOKEN :: cty where
  "EFI_DISK_IO2_TOKEN = CStruct [(''Event'', EFI_EVENT), (''TransactionStatus'', EFI_STATUS)]"

definition EFI_DISK_CANCEL_EX :: csig where
  "EFI_DISK_CANCEL_EX = Fn (Some EFI_STATUS) [Arg In ''This'' (CPtr ''_EFI_DISK_IO2_PROTOCOL'')]"

definition EFI_DISK_READ_EX :: csig where
  "EFI_DISK_READ_EX = Fn (Some EFI_STATUS) [Arg In ''This'' (CPtr ''_EFI_DISK_IO2_PROTOCOL''),
    Arg In ''MediaId'' UINT32, Arg In ''Offset'' UINT64,
    Arg InOut ''Token'' (CPtr ''EFI_DISK_IO2_TOKEN''), Arg In ''BufferSize'' UINTN,
    Arg Out ''Buffer'' (CPtr ''VOID'')]"

definition EFI_DISK_WRITE_EX :: csig where
  "EFI_DISK_WRITE_EX = Fn (Some EFI_STATUS) [Arg In ''This'' (CPtr ''_EFI_DISK_IO2_PROTOCOL''),
    Arg In ''MediaId'' UINT32, Arg In ''Offset'' UINT64,
    Arg InOut ''Token'' (CPtr ''EFI_DISK_IO2_TOKEN''), Arg In ''BufferSize'' UINTN,
    Arg In ''Buffer'' (CPtr ''VOID'')]"

definition EFI_DISK_FLUSH_EX :: csig where
  "EFI_DISK_FLUSH_EX = Fn (Some EFI_STATUS) [Arg In ''This'' (CPtr ''_EFI_DISK_IO2_PROTOCOL''),
    Arg InOut ''Token'' (CPtr ''EFI_DISK_IO2_TOKEN'')]"

definition EFI_DISK_IO2_PROTOCOL :: cty where
  "EFI_DISK_IO2_PROTOCOL = CStruct [(''Revision'', UINT64),
    (''Cancel'', CPtr ''EFI_DISK_CANCEL_EX''), (''ReadDiskEx'', CPtr ''EFI_DISK_READ_EX''),
    (''WriteDiskEx'', CPtr ''EFI_DISK_WRITE_EX''), (''FlushDiskEx'', CPtr ''EFI_DISK_FLUSH_EX'')]"

definition EFI_SIMPLE_FILE_SYSTEM_PROTOCOL_GUID :: guid where
  "EFI_SIMPLE_FILE_SYSTEM_PROTOCOL_GUID = GUID 0x964E5B22 0x6459 0x11D2 [0x8E, 0x39, 0x0, 0xA0, 0xC9, 0x69, 0x72, 0x3B]"

definition SIMPLE_FILE_SYSTEM_PROTOCOL :: guid where
  "SIMPLE_FILE_SYSTEM_PROTOCOL = EFI_SIMPLE_FILE_SYSTEM_PROTOCOL_GUID"

definition EFI_VOLUME_OPEN :: csig where
  "EFI_VOLUME_OPEN = Fn (Some EFI_STATUS) [
    Arg In ''This'' (CPtr ''_EFI_SIMPLE_FILE_SYSTEM_PROTOCOL''),
    Arg Out ''Root'' (CPtr ''_EFI_FILE_HANDLE *'')]"

definition EFI_SIMPLE_FILE_SYSTEM_PROTOCOL_REVISION :: u64 where
  "EFI_SIMPLE_FILE_SYSTEM_PROTOCOL_REVISION = 0x00010000"

definition EFI_FILE_IO_INTERFACE_REVISION :: u64 where
  "EFI_FILE_IO_INTERFACE_REVISION = EFI_SIMPLE_FILE_SYSTEM_PROTOCOL_REVISION"

definition EFI_SIMPLE_FILE_SYSTEM_PROTOCOL :: cty where
  "EFI_SIMPLE_FILE_SYSTEM_PROTOCOL = CStruct [(''Revision'', UINT64),
    (''OpenVolume'', CPtr ''EFI_VOLUME_OPEN'')]"

definition EFI_FILE_IO_INTERFACE :: cty where
  "EFI_FILE_IO_INTERFACE = EFI_SIMPLE_FILE_SYSTEM_PROTOCOL"

definition EFI_FILE_OPEN :: csig where
  "EFI_FILE_OPEN = Fn (Some EFI_STATUS) [Arg In ''File'' (CPtr ''_EFI_FILE_HANDLE''),
    Arg Out ''NewHandle'' (CPtr ''_EFI_FILE_HANDLE *''), Arg In ''FileName'' (CPtr ''CHAR16''),
    Arg In ''OpenMode'' UINT64, Arg In ''Attributes'' UINT64]"

definition EFI_FILE_MODE_READ :: u64 where "EFI_FILE_MODE_READ = 0x0000000000000001"
definition EFI_FILE_MODE_WRITE :: u64 where "EFI_FILE_MODE_WRITE = 0x0000000000000002"
definition EFI_FILE_MODE_CREATE :: u64 where "EFI_FILE_MODE_CREATE = 0x8000000000000000"
definition EFI_FILE_READ_ONLY :: u64 where "EFI_FILE_READ_ONLY = 0x0000000000000001"
definition EFI_FILE_HIDDEN :: u64 where "EFI_FILE_HIDDEN = 0x0000000000000002"
definition EFI_FILE_SYSTEM :: u64 where "EFI_FILE_SYSTEM = 0x0000000000000004"
definition EFI_FILE_RESERVIED :: u64 where "EFI_FILE_RESERVIED = 0x0000000000000008"
definition EFI_FILE_DIRECTORY :: u64 where "EFI_FILE_DIRECTORY = 0x0000000000000010"
definition EFI_FILE_ARCHIVE :: u64 where "EFI_FILE_ARCHIVE = 0x0000000000000020"
definition EFI_FILE_VALID_ATTR :: u64 where "EFI_FILE_VALID_ATTR = 0x0000000000000037"

definition EFI_FILE_CLOSE :: csig where
  "EFI_FILE_CLOSE = Fn (Some EFI_STATUS) [Arg In ''File'' (CPtr ''_EFI_FILE_HANDLE'')]"

definition EFI_FILE_DELETE :: csig where
  "EFI_FILE_DELETE = Fn (Some EFI_STATUS) [Arg In ''File'' (CPtr ''_EFI_FILE_HANDLE'')]"

definition EFI_FILE_READ :: csig where
  "EFI_FILE_READ = Fn (Some EFI_STATUS) [Arg In ''File'' (CPtr ''_EFI_FILE_HANDLE''),
    Arg InOut ''BufferSize'' (CPtr ''UINTN''), Arg Out ''Buffer'' (CPtr ''VOID'')]"

definition EFI_FILE_WRITE :: csig where
  "EFI_FILE_WRITE = Fn (Some EFI_STATUS) [Arg In ''File'' (CPtr ''_EFI_FILE_HANDLE''),
    Arg InOut ''BufferSize'' (CPtr ''UINTN''), Arg In ''Buffer'' (CPtr ''VOID'')]"

definition EFI_FILE_SET_POSITION :: csig where
  "EFI_FILE_SET_POSITION = Fn (Some EFI_STATUS) [Arg In ''File'' (CPtr ''_EFI_FILE_HANDLE''),
    Arg In ''Position'' UINT64]"

definition EFI_FILE_GET_POSITION :: csig where
  "EFI_FILE_GET_POSITION = Fn (Some EFI_STATUS) [Arg In ''File'' (CPtr ''_EFI_FILE_HANDLE''),
    Arg Out ''Position'' (CPtr ''UINT64'')]"

definition EFI_FILE_GET_INFO :: csig where
  "EFI_FILE_GET_INFO = Fn (Some EFI_STATUS) [Arg In ''File'' (CPtr ''_EFI_FILE_HANDLE''),
    Arg In ''InformationType'' (CPtr ''EFI_GUID''), Arg InOut ''BufferSize'' (CPtr ''UINTN''),
    Arg Out ''Buffer'' (CPtr ''VOID'')]"

definition EFI_FILE_SET_INFO :: csig where
  "EFI_FILE_SET_INFO = Fn (Some EFI_STATUS) [Arg In ''File'' (CPtr ''_EFI_FILE_HANDLE''),
    Arg In ''InformationType'' (CPtr ''EFI_GUID''), Arg In ''BufferSize'' UINTN,
    Arg In ''Buffer'' (CPtr ''VOID'')]"

definition EFI_FILE_FLUSH :: csig where
  "EFI_FILE_FLUSH = Fn (Some EFI_STATUS) [Arg In ''File'' (CPtr ''_EFI_FILE_HANDLE'')]"

definition EFI_FILE_IO_TOKEN :: cty where
  "EFI_FILE_IO_TOKEN = CStruct [(''Event'', EFI_EVENT), (''Status'', EFI_STATUS),
    (''BufferSize'', UINTN), (''Buffer'', CPtr ''VOID'')]"

definition EFI_FILE_OPEN_EX :: csig where
  "EFI_FILE_OPEN_EX = Fn (Some EFI_STATUS) [Arg In ''File'' (CPtr ''_EFI_FILE_HANDLE''),
    Arg Out ''NewHandle'' (CPtr ''_EFI_FILE_HANDLE *''), Arg In ''FileName'' (CPtr ''CHAR16''),
    Arg In ''OpenMode'' UINT64, Arg In ''Attributes'' UINT64,
    Arg InOut ''Token'' (CPtr ''EFI_FILE_IO_TOKEN'')]"

definition EFI_FILE_READ_EX :: csig where
  "EFI_FILE_READ_EX = Fn (Some EFI_STATUS) [Arg In ''File'' (CPtr ''_EFI_FILE_HANDLE''),
    Arg InOut ''Token'' (CPtr ''EFI_FILE_IO_TOKEN'')]"

definition EFI_FILE_WRITE_EX :: csig where
  "EFI_FILE_WRITE_EX = Fn (Some EFI_STATUS) [Arg In ''File'' (CPtr ''_EFI_FILE_HANDLE''),
    Arg InOut ''Token'' (CPtr ''EFI_FILE_IO_TOKEN'')]"

definition EFI_FILE_FLUSH_EX :: csig where
  "EFI_FILE_FLUSH_EX = Fn (Some EFI_STATUS) [Arg In ''File'' (CPtr ''_EFI_FILE_HANDLE''),
    Arg InOut ''Token'' (CPtr ''EFI_FILE_IO_TOKEN'')]"

definition EFI_FILE_PROTOCOL_REVISION :: u64 where "EFI_FILE_PROTOCOL_REVISION = 0x00010000"
definition EFI_FILE_PROTOCOL_REVISION2 :: u64 where "EFI_FILE_PROTOCOL_REVISION2 = 0x00020000"
definition EFI_FILE_PROTOCOL_LATEST_REVISION :: u64 where
  "EFI_FILE_PROTOCOL_LATEST_REVISION = EFI_FILE_PROTOCOL_REVISION2"

definition EFI_FILE_HANDLE_REVISION :: u64 where
  "EFI_FILE_HANDLE_REVISION = EFI_FILE_PROTOCOL_REVISION"

definition EFI_FILE_PROTOCOL :: cty where
  "EFI_FILE_PROTOCOL = CStruct [(''Revision'', UINT64), (''Open'', CPtr ''EFI_FILE_OPEN''),
    (''Close'', CPtr ''EFI_FILE_CLOSE''), (''Delete'', CPtr ''EFI_FILE_DELETE''),
    (''Read'', CPtr ''EFI_FILE_READ''), (''Write'', CPtr ''EFI_FILE_WRITE''),
    (''GetPosition'', CPtr ''EFI_FILE_GET_POSITION''),
    (''SetPosition'', CPtr ''EFI_FILE_SET_POSITION''), (''GetInfo'', CPtr ''EFI_FILE_GET_INFO''),
    (''SetInfo'', CPtr ''EFI_FILE_SET_INFO''), (''Flush'', CPtr ''EFI_FILE_FLUSH''),
    (''OpenEx'', CPtr ''EFI_FILE_OPEN_EX''), (''ReadEx'', CPtr ''EFI_FILE_READ_EX''),
    (''WriteEx'', CPtr ''EFI_FILE_WRITE_EX''), (''FlushEx'', CPtr ''EFI_FILE_FLUSH_EX'')]"

definition EFI_FILE_HANDLE :: cty where "EFI_FILE_HANDLE = CPtr ''EFI_FILE_PROTOCOL''"
definition EFI_FILE :: cty where "EFI_FILE = EFI_FILE_PROTOCOL"
definition EFI_FILE_INFO_ID :: guid where
  "EFI_FILE_INFO_ID = GUID 0x9576E92 0x6D3F 0x11D2 [0x8E, 0x39, 0x0, 0xA0, 0xC9, 0x69, 0x72, 0x3B]"

definition EFI_FILE_INFO :: cty where
  "EFI_FILE_INFO = CStruct [(''Size'', UINT64), (''FileSize'', UINT64),
    (''PhysicalSize'', UINT64), (''CreateTime'', EFI_TIME), (''LastAccessTime'', EFI_TIME),
    (''ModificationTime'', EFI_TIME), (''Attribute'', UINT64), (''FileName'', CArr CHAR16 1)]"

definition SIZE_OF_EFI_FILE_INFO :: "nat option" where
  "SIZE_OF_EFI_FILE_INFO = offset EFI_FILE_INFO ''FileName''"

definition EFI_FILE_SYSTEM_INFO_ID :: guid where
  "EFI_FILE_SYSTEM_INFO_ID = GUID 0x9576E93 0x6D3F 0x11D2 [0x8E, 0x39, 0x0, 0xA0, 0xC9, 0x69, 0x72, 0x3B]"

definition EFI_FILE_SYSTEM_INFO :: cty where
  "EFI_FILE_SYSTEM_INFO = CStruct [(''Size'', UINT64), (''ReadOnly'', BOOLEAN),
    (''VolumeSize'', UINT64), (''FreeSpace'', UINT64), (''BlockSize'', UINT32),
    (''VolumeLabel'', CArr CHAR16 1)]"

definition SIZE_OF_EFI_FILE_SYSTEM_INFO :: "nat option" where
  "SIZE_OF_EFI_FILE_SYSTEM_INFO = offset EFI_FILE_SYSTEM_INFO ''VolumeLabel''"

definition EFI_FILE_SYSTEM_VOLUME_LABEL_ID :: guid where
  "EFI_FILE_SYSTEM_VOLUME_LABEL_ID = GUID 0xDB47D7D3 0xFE81 0x11D3 [0x9A, 0x35, 0x00, 0x90, 0x27, 0x3F, 0xC1, 0x4D]"

definition EFI_FILE_SYSTEM_VOLUME_LABEL :: cty where
  "EFI_FILE_SYSTEM_VOLUME_LABEL = CStruct [(''VolumeLabel'', CArr CHAR16 1)]"

definition SIZE_OF_EFI_FILE_SYSTEM_VOLUME_LABEL_INFO :: "nat option" where
  "SIZE_OF_EFI_FILE_SYSTEM_VOLUME_LABEL_INFO = offset EFI_FILE_SYSTEM_VOLUME_LABEL ''VolumeLabel''"

definition EFI_FILE_SYSTEM_VOLUME_LABEL_INFO_ID :: guid where
  "EFI_FILE_SYSTEM_VOLUME_LABEL_INFO_ID = EFI_FILE_SYSTEM_VOLUME_LABEL_ID"

definition EFI_FILE_SYSTEM_VOLUME_LABEL_INFO :: cty where
  "EFI_FILE_SYSTEM_VOLUME_LABEL_INFO = EFI_FILE_SYSTEM_VOLUME_LABEL"

definition EFI_LOAD_FILE_PROTOCOL_GUID :: guid where
  "EFI_LOAD_FILE_PROTOCOL_GUID = GUID 0x56EC3091 0x954C 0x11D2 [0x8E, 0x3F, 0x00, 0xA0, 0xC9, 0x69, 0x72, 0x3B]"

definition LOAD_FILE_PROTOCOL :: guid where "LOAD_FILE_PROTOCOL = EFI_LOAD_FILE_PROTOCOL_GUID"

definition EFI_LOAD_FILE :: csig where
  "EFI_LOAD_FILE = Fn (Some EFI_STATUS) [Arg In ''This'' (CPtr ''_EFI_LOAD_FILE_PROTOCOL''),
    Arg In ''FilePath'' (CPtr ''EFI_DEVICE_PATH''), Arg In ''BootPolicy'' BOOLEAN,
    Arg InOut ''BufferSize'' (CPtr ''UINTN''), OptArg In ''Buffer'' (CPtr ''VOID'')]"

definition EFI_LOAD_FILE_PROTOCOL :: cty where
  "EFI_LOAD_FILE_PROTOCOL = CStruct [(''LoadFile'', CPtr ''EFI_LOAD_FILE'')]"

definition EFI_LOAD_FILE_INTERFACE :: cty where
  "EFI_LOAD_FILE_INTERFACE = EFI_LOAD_FILE_PROTOCOL"

definition EFI_DEVICE_IO_PROTOCOL_GUID :: guid where
  "EFI_DEVICE_IO_PROTOCOL_GUID = GUID 0xAF6AC311 0x84C3 0x11D2 [0x8E, 0x3C, 0x00, 0xA0, 0xC9, 0x69, 0x72, 0x3B]"

definition DEVICE_IO_PROTOCOL :: guid where "DEVICE_IO_PROTOCOL = EFI_DEVICE_IO_PROTOCOL_GUID"
definition EFI_IO_WIDTH :: cty where "EFI_IO_WIDTH = C32"
definition IO_UINT8 :: u32 where "IO_UINT8 = 0"
definition IO_UINT16 :: u32 where "IO_UINT16 = 1"
definition IO_UINT32 :: u32 where "IO_UINT32 = 2"
definition IO_UINT64 :: u32 where "IO_UINT64 = 3"
definition MMIO_COPY_UINT8 :: u32 where "MMIO_COPY_UINT8 = 4"
definition MMIO_COPY_UINT16 :: u32 where "MMIO_COPY_UINT16 = 5"
definition MMIO_COPY_UINT32 :: u32 where "MMIO_COPY_UINT32 = 6"
definition MMIO_COPY_UINT64 :: u32 where "MMIO_COPY_UINT64 = 7"

definition EFI_DEVICE_IO :: csig where
  "EFI_DEVICE_IO = Fn (Some EFI_STATUS) [Arg In ''This'' (CPtr ''_EFI_DEVICE_IO_PROTOCOL''),
    Arg In ''Width'' EFI_IO_WIDTH, Arg In ''Address'' UINT64, Arg In ''Count'' UINTN,
    Arg InOut ''Buffer'' (CPtr ''VOID'')]"

definition EFI_IO_ACCESS :: cty where
  "EFI_IO_ACCESS = CStruct [(''Read'', CPtr ''EFI_DEVICE_IO''),
    (''Write'', CPtr ''EFI_DEVICE_IO'')]"

definition EFI_PCI_DEVICE_PATH :: csig where
  "EFI_PCI_DEVICE_PATH = Fn (Some EFI_STATUS) [Arg In ''This'' (CPtr ''_EFI_DEVICE_IO_PROTOCOL''),
    Arg In ''Address'' UINT64, Arg InOut ''PciDevicePath'' (CPtr ''EFI_DEVICE_PATH *'')]"

definition EFI_IO_OPERATION_TYPE :: cty where "EFI_IO_OPERATION_TYPE = C32"
definition EfiBusMasterRead :: u32 where "EfiBusMasterRead = 0"
definition EfiBusMasterWrite :: u32 where "EfiBusMasterWrite = 1"
definition EfiBusMasterCommonBuffer :: u32 where "EfiBusMasterCommonBuffer = 2"

definition EFI_IO_MAP :: csig where
  "EFI_IO_MAP = Fn (Some EFI_STATUS) [Arg In ''This'' (CPtr ''_EFI_DEVICE_IO_PROTOCOL''),
    Arg In ''Operation'' EFI_IO_OPERATION_TYPE,
    Arg In ''HostAddress'' (CPtr ''EFI_PHYSICAL_ADDRESS''),
    Arg InOut ''NumberOfBytes'' (CPtr ''UINTN''),
    Arg Out ''DeviceAddress'' (CPtr ''EFI_PHYSICAL_ADDRESS''),
    Arg Out ''Mapping'' (CPtr ''VOID *'')]"

definition EFI_IO_UNMAP :: csig where
  "EFI_IO_UNMAP = Fn (Some EFI_STATUS) [Arg In ''This'' (CPtr ''_EFI_DEVICE_IO_PROTOCOL''),
    Arg In ''Mapping'' (CPtr ''VOID'')]"

definition EFI_IO_ALLOCATE_BUFFER :: csig where
  "EFI_IO_ALLOCATE_BUFFER = Fn (Some EFI_STATUS) [
    Arg In ''This'' (CPtr ''_EFI_DEVICE_IO_PROTOCOL''), Arg In ''Type'' EFI_ALLOCATE_TYPE,
    Arg In ''MemoryType'' EFI_MEMORY_TYPE, Arg In ''Pages'' UINTN,
    Arg InOut ''HostAddress'' (CPtr ''EFI_PHYSICAL_ADDRESS'')]"

definition EFI_IO_FLUSH :: csig where
  "EFI_IO_FLUSH = Fn (Some EFI_STATUS) [Arg In ''This'' (CPtr ''_EFI_DEVICE_IO_PROTOCOL'')]"

definition EFI_IO_FREE_BUFFER :: csig where
  "EFI_IO_FREE_BUFFER = Fn (Some EFI_STATUS) [Arg In ''This'' (CPtr ''_EFI_DEVICE_IO_PROTOCOL''),
    Arg In ''Pages'' UINTN, Arg In ''HostAddress'' EFI_PHYSICAL_ADDRESS]"

definition EFI_DEVICE_IO_PROTOCOL :: cty where
  "EFI_DEVICE_IO_PROTOCOL = CStruct [(''Mem'', EFI_IO_ACCESS), (''Io'', EFI_IO_ACCESS),
    (''Pci'', EFI_IO_ACCESS), (''Map'', CPtr ''EFI_IO_MAP''),
    (''PciDevicePath'', CPtr ''EFI_PCI_DEVICE_PATH''), (''Unmap'', CPtr ''EFI_IO_UNMAP''),
    (''AllocateBuffer'', CPtr ''EFI_IO_ALLOCATE_BUFFER''), (''Flush'', CPtr ''EFI_IO_FLUSH''),
    (''FreeBuffer'', CPtr ''EFI_IO_FREE_BUFFER'')]"

definition EFI_DEVICE_IO_INTERFACE :: cty where
  "EFI_DEVICE_IO_INTERFACE = EFI_DEVICE_IO_PROTOCOL"

definition EFI_UNICODE_COLLATION_PROTOCOL_GUID :: guid where
  "EFI_UNICODE_COLLATION_PROTOCOL_GUID = GUID 0x1D85CD7F 0xF43D 0x11D2 [0x9A, 0xC, 0x0, 0x90, 0x27, 0x3F, 0xC1, 0x4D]"

definition UNICODE_COLLATION_PROTOCOL :: guid where
  "UNICODE_COLLATION_PROTOCOL = EFI_UNICODE_COLLATION_PROTOCOL_GUID"

definition EFI_UNICODE_BYTE_ORDER_MARK :: u64 where "EFI_UNICODE_BYTE_ORDER_MARK = 0xfeff"
definition UNICODE_BYTE_ORDER_MARK :: u64 where
  "UNICODE_BYTE_ORDER_MARK = EFI_UNICODE_BYTE_ORDER_MARK"

definition EFI_UNICODE_STRICOLL :: csig where
  "EFI_UNICODE_STRICOLL = Fn (Some INTN) [
    Arg In ''This'' (CPtr ''_EFI_UNICODE_COLLATION_PROTOCOL''), Arg In ''s1'' (CPtr ''CHAR16''),
    Arg In ''s2'' (CPtr ''CHAR16'')]"

definition EFI_UNICODE_METAIMATCH :: csig where
  "EFI_UNICODE_METAIMATCH = Fn (Some BOOLEAN) [
    Arg In ''This'' (CPtr ''_EFI_UNICODE_COLLATION_PROTOCOL''),
    Arg In ''String'' (CPtr ''CHAR16''), Arg In ''Pattern'' (CPtr ''CHAR16'')]"

definition EFI_UNICODE_STRLWR :: csig where
  "EFI_UNICODE_STRLWR = Fn None [Arg In ''This'' (CPtr ''_EFI_UNICODE_COLLATION_PROTOCOL''),
    Arg InOut ''Str'' (CPtr ''CHAR16'')]"

definition EFI_UNICODE_STRUPR :: csig where
  "EFI_UNICODE_STRUPR = Fn None [Arg In ''This'' (CPtr ''_EFI_UNICODE_COLLATION_PROTOCOL''),
    Arg InOut ''Str'' (CPtr ''CHAR16'')]"

definition EFI_UNICODE_FATTOSTR :: csig where
  "EFI_UNICODE_FATTOSTR = Fn None [Arg In ''This'' (CPtr ''_EFI_UNICODE_COLLATION_PROTOCOL''),
    Arg In ''FatSize'' UINTN, Arg In ''Fat'' (CPtr ''CHAR8''),
    Arg Out ''String'' (CPtr ''CHAR16'')]"

definition EFI_UNICODE_STRTOFAT :: csig where
  "EFI_UNICODE_STRTOFAT = Fn (Some BOOLEAN) [
    Arg In ''This'' (CPtr ''_EFI_UNICODE_COLLATION_PROTOCOL''),
    Arg In ''String'' (CPtr ''CHAR16''), Arg In ''FatSize'' UINTN,
    Arg Out ''Fat'' (CPtr ''CHAR8'')]"

definition EFI_HASH_PROTOCOL_GUID :: guid where
  "EFI_HASH_PROTOCOL_GUID = GUID 0xC5184932 0xDBA5 0x46DB [0xA5, 0xBA, 0xCC, 0x0B, 0xDA, 0x9C, 0x14, 0x35]"

definition HASH_PROTOCOL :: guid where "HASH_PROTOCOL = EFI_HASH_PROTOCOL_GUID"
definition EFI_HASH_ALGORITHM_SHA1_GUID :: guid where
  "EFI_HASH_ALGORITHM_SHA1_GUID = GUID 0x2AE9D80F 0x3FB2 0x4095 [0xB7, 0xB1, 0xE9, 0x31, 0x57, 0xB9, 0x46, 0xB6]"

definition EFI_HASH_ALGORITHM_SHA1 :: guid where
  "EFI_HASH_ALGORITHM_SHA1 = EFI_HASH_ALGORITHM_SHA1_GUID"

definition EFI_HASH_ALGORITHM_SHA224_GUID :: guid where
  "EFI_HASH_ALGORITHM_SHA224_GUID = GUID 0x8DF01A06 0x9BD5 0x4BF7 [0xB0, 0x21, 0xDB, 0x4F, 0xD9, 0xCC, 0xF4, 0x5B]"

definition EFI_HASH_ALGORITHM_SHA224 :: guid where
  "EFI_HASH_ALGORITHM_SHA224 = EFI_HASH_ALGORITHM_SHA224_GUID"

definition EFI_HASH_ALGORITHM_SHA256_GUID :: guid where
  "EFI_HASH_ALGORITHM_SHA256_GUID = GUID 0x51AA59DE 0xFDF2 0x4EA3 [0xBC, 0x63, 0x87, 0x5F, 0xB7, 0x84, 0x2E, 0xE9]"

definition EFI_HASH_ALGORITHM_SHA256 :: guid where
  "EFI_HASH_ALGORITHM_SHA256 = EFI_HASH_ALGORITHM_SHA256_GUID"

definition EFI_HASH_ALGORITHM_SHA384_GUID :: guid where
  "EFI_HASH_ALGORITHM_SHA384_GUID = GUID 0xEFA96432 0xDE33 0x4DD2 [0xAE, 0xE6, 0x32, 0x8C, 0x33, 0xDF, 0x77, 0x7A]"

definition EFI_HASH_ALGORITHM_SHA384 :: guid where
  "EFI_HASH_ALGORITHM_SHA384 = EFI_HASH_ALGORITHM_SHA384_GUID"

definition EFI_HASH_ALGORITHM_SHA512_GUID :: guid where
  "EFI_HASH_ALGORITHM_SHA512_GUID = GUID 0xCAA4381E 0x750C 0x4770 [0xB8, 0x70, 0x7A, 0x23, 0xB4, 0xE4, 0x21, 0x30]"

definition EFI_HASH_ALGORITHM_SHA512 :: guid where
  "EFI_HASH_ALGORITHM_SHA512 = EFI_HASH_ALGORITHM_SHA512_GUID"

definition EFI_HASH_ALGORITHM_MD5_GUID :: guid where
  "EFI_HASH_ALGORITHM_MD5_GUID = GUID 0x0AF7C79C 0x65B5 0x4319 [0xB0, 0xAE, 0x44, 0xEC, 0x48, 0x4E, 0x4A, 0xD7]"

definition EFI_HASH_ALGORITHM_MD5 :: guid where
  "EFI_HASH_ALGORITHM_MD5 = EFI_HASH_ALGORITHM_MD5_GUID"

definition EFI_HASH_ALGORITHM_SHA1_NOPAD_GUID :: guid where
  "EFI_HASH_ALGORITHM_SHA1_NOPAD_GUID = GUID 0x24C5DC2F 0x53E2 0x40CA [0x9E, 0xD6, 0xA5, 0xD9, 0xA4, 0x9F, 0x46, 0x3B]"

definition EFI_HASH_ALGORITHM_SHA1_NOPAD :: guid where
  "EFI_HASH_ALGORITHM_SHA1_NOPAD = EFI_HASH_ALGORITHM_SHA1_NOPAD_GUID"

definition EFI_HASH_ALGORITHM_SHA256_NOPAD_GUID :: guid where
  "EFI_HASH_ALGORITHM_SHA256_NOPAD_GUID = GUID 0x8628752A 0x6CB7 0x4814 [0x96, 0xFC, 0x24, 0xA8, 0x15, 0xAC, 0x22, 0x26]"

definition EFI_HASH_ALGORITHM_SHA256_NOPAD :: guid where
  "EFI_HASH_ALGORITHM_SHA256_NOPAD = EFI_HASH_ALGORITHM_SHA256_NOPAD_GUID"

definition EFI_MD5_HASH :: cty where "EFI_MD5_HASH = CArr UINT8 16"
definition EFI_SHA1_HASH :: cty where "EFI_SHA1_HASH = CArr UINT8 20"
definition EFI_SHA224_HASH :: cty where "EFI_SHA224_HASH = CArr UINT8 28"
definition EFI_SHA256_HASH :: cty where "EFI_SHA256_HASH = CArr UINT8 32"
definition EFI_SHA384_HASH :: cty where "EFI_SHA384_HASH = CArr UINT8 48"
definition EFI_SHA512_HASH :: cty where "EFI_SHA512_HASH = CArr UINT8 64"

definition EFI_HASH_OUTPUT :: cty where
  "EFI_HASH_OUTPUT = CUnion [(''Md5Hash'', CPtr ''EFI_MD5_HASH''),
    (''Sha1Hash'', CPtr ''EFI_SHA1_HASH''), (''Sha224Hash'', CPtr ''EFI_SHA224_HASH''),
    (''Sha256Hash'', CPtr ''EFI_SHA256_HASH''), (''Sha384Hash'', CPtr ''EFI_SHA384_HASH''),
    (''Sha512Hash'', CPtr ''EFI_SHA512_HASH'')]"

definition EFI_HASH_GET_HASH_SIZE :: csig where
  "EFI_HASH_GET_HASH_SIZE = Fn (Some EFI_STATUS) [Arg In ''This'' (CPtr ''_EFI_HASH_PROTOCOL''),
    Arg In ''HashAlgorithm'' (CPtr ''EFI_GUID''), Arg Out ''HashSize'' (CPtr ''UINTN'')]"

definition EFI_HASH_HASH :: csig where
  "EFI_HASH_HASH = Fn (Some EFI_STATUS) [Arg In ''This'' (CPtr ''_EFI_HASH_PROTOCOL''),
    Arg In ''HashAlgorithm'' (CPtr ''EFI_GUID''), Arg In ''Extend'' BOOLEAN,
    Arg In ''Message'' (CPtr ''UINT8''), Arg In ''MessageSize'' UINT64,
    Arg InOut ''Hash'' (CPtr ''EFI_HASH_OUTPUT'')]"

definition EFI_HASH_PROTOCOL :: cty where
  "EFI_HASH_PROTOCOL = CStruct [(''GetHashSize'', CPtr ''EFI_HASH_GET_HASH_SIZE''),
    (''Hash'', CPtr ''EFI_HASH_HASH'')]"

definition EFI_HASH :: cty where "EFI_HASH = EFI_HASH_PROTOCOL"

definition EFI_UNICODE_COLLATION_PROTOCOL :: cty where
  "EFI_UNICODE_COLLATION_PROTOCOL = CStruct [(''StriColl'', CPtr ''EFI_UNICODE_STRICOLL''),
    (''MetaiMatch'', CPtr ''EFI_UNICODE_METAIMATCH''), (''StrLwr'', CPtr ''EFI_UNICODE_STRLWR''),
    (''StrUpr'', CPtr ''EFI_UNICODE_STRUPR''), (''FatToStr'', CPtr ''EFI_UNICODE_FATTOSTR''),
    (''StrToFat'', CPtr ''EFI_UNICODE_STRTOFAT''), (''SupportedLanguages'', CPtr ''CHAR8'')]"

definition EFI_UNICODE_COLLATION_INTERFACE :: cty where
  "EFI_UNICODE_COLLATION_INTERFACE = EFI_UNICODE_COLLATION_PROTOCOL"

definition EFI_GRAPHICS_OUTPUT_PROTOCOL_GUID :: guid where
  "EFI_GRAPHICS_OUTPUT_PROTOCOL_GUID = GUID 0x9042A9DE 0x23DC 0x4A38 [0x96, 0xFB, 0x7A, 0xDE, 0xD0, 0x80, 0x51, 0x6A]"

definition EFI_PIXEL_BITMASK :: cty where
  "EFI_PIXEL_BITMASK = CStruct [(''RedMask'', UINT32), (''GreenMask'', UINT32),
    (''BlueMask'', UINT32), (''ReservedMask'', UINT32)]"

definition EFI_GRAPHICS_PIXEL_FORMAT :: cty where "EFI_GRAPHICS_PIXEL_FORMAT = C32"
definition PixelRedGreenBlueReserved8BitPerColor :: u32 where
  "PixelRedGreenBlueReserved8BitPerColor = 0"

definition PixelBlueGreenRedReserved8BitPerColor :: u32 where
  "PixelBlueGreenRedReserved8BitPerColor = 1"

definition PixelBitMask :: u32 where "PixelBitMask = 2"
definition PixelBltOnly :: u32 where "PixelBltOnly = 3"
definition PixelFormatMax :: u32 where "PixelFormatMax = 4"

definition EFI_GRAPHICS_OUTPUT_MODE_INFORMATION :: cty where
  "EFI_GRAPHICS_OUTPUT_MODE_INFORMATION = CStruct [(''Version'', UINT32),
    (''HorizontalResolution'', UINT32), (''VerticalResolution'', UINT32),
    (''PixelFormat'', EFI_GRAPHICS_PIXEL_FORMAT), (''PixelInformation'', EFI_PIXEL_BITMASK),
    (''PixelsPerScanLine'', UINT32)]"

definition EFI_GRAPHICS_OUTPUT_PROTOCOL_QUERY_MODE :: csig where
  "EFI_GRAPHICS_OUTPUT_PROTOCOL_QUERY_MODE = Fn (Some EFI_STATUS) [
    Arg In ''This'' (CPtr ''EFI_GRAPHICS_OUTPUT_PROTOCOL''), Arg In ''ModeNumber'' UINT32,
    Arg Out ''SizeOfInfo'' (CPtr ''UINTN''),
    Arg Out ''Info'' (CPtr ''EFI_GRAPHICS_OUTPUT_MODE_INFORMATION *'')]"

definition EFI_GRAPHICS_OUTPUT_PROTOCOL_SET_MODE :: csig where
  "EFI_GRAPHICS_OUTPUT_PROTOCOL_SET_MODE = Fn (Some EFI_STATUS) [
    Arg In ''This'' (CPtr ''EFI_GRAPHICS_OUTPUT_PROTOCOL''), Arg In ''ModeNumber'' UINT32]"

definition EFI_GRAPHICS_OUTPUT_BLT_PIXEL :: cty where
  "EFI_GRAPHICS_OUTPUT_BLT_PIXEL = CStruct [(''Blue'', UINT8), (''Green'', UINT8),
    (''Red'', UINT8), (''Reserved'', UINT8)]"

definition EFI_GRAPHICS_OUTPUT_BLT_PIXEL_UNION :: cty where
  "EFI_GRAPHICS_OUTPUT_BLT_PIXEL_UNION = CUnion [(''Pixel'', EFI_GRAPHICS_OUTPUT_BLT_PIXEL),
    (''Raw'', UINT32)]"

definition EFI_GRAPHICS_OUTPUT_BLT_OPERATION :: cty where
  "EFI_GRAPHICS_OUTPUT_BLT_OPERATION = C32"

definition EfiBltVideoFill :: u32 where "EfiBltVideoFill = 0"
definition EfiBltVideoToBltBuffer :: u32 where "EfiBltVideoToBltBuffer = 1"
definition EfiBltBufferToVideo :: u32 where "EfiBltBufferToVideo = 2"
definition EfiBltVideoToVideo :: u32 where "EfiBltVideoToVideo = 3"
definition EfiGraphicsOutputBltOperationMax :: u32 where "EfiGraphicsOutputBltOperationMax = 4"

definition EFI_GRAPHICS_OUTPUT_PROTOCOL_BLT :: csig where
  "EFI_GRAPHICS_OUTPUT_PROTOCOL_BLT = Fn (Some EFI_STATUS) [
    Arg In ''This'' (CPtr ''EFI_GRAPHICS_OUTPUT_PROTOCOL''),
    OptArg In ''BltBuffer'' (CPtr ''EFI_GRAPHICS_OUTPUT_BLT_PIXEL''),
    Arg In ''BltOperation'' EFI_GRAPHICS_OUTPUT_BLT_OPERATION, Arg In ''SourceX'' UINTN,
    Arg In ''SourceY'' UINTN, Arg In ''DestinationX'' UINTN, Arg In ''DestinationY'' UINTN,
    Arg In ''Width'' UINTN, Arg In ''Height'' UINTN, OptArg In ''Delta'' UINTN]"

definition EFI_GRAPHICS_OUTPUT_PROTOCOL_MODE :: cty where
  "EFI_GRAPHICS_OUTPUT_PROTOCOL_MODE = CStruct [(''MaxMode'', UINT32), (''Mode'', UINT32),
    (''Info'', CPtr ''EFI_GRAPHICS_OUTPUT_MODE_INFORMATION''), (''SizeOfInfo'', UINTN),
    (''FrameBufferBase'', EFI_PHYSICAL_ADDRESS), (''FrameBufferSize'', UINTN)]"

definition EFI_GRAPHICS_OUTPUT_PROTOCOL :: cty where
  "EFI_GRAPHICS_OUTPUT_PROTOCOL = CStruct [
    (''QueryMode'', CPtr ''EFI_GRAPHICS_OUTPUT_PROTOCOL_QUERY_MODE''),
    (''SetMode'', CPtr ''EFI_GRAPHICS_OUTPUT_PROTOCOL_SET_MODE''),
    (''Blt'', CPtr ''EFI_GRAPHICS_OUTPUT_PROTOCOL_BLT''),
    (''Mode'', CPtr ''EFI_GRAPHICS_OUTPUT_PROTOCOL_MODE'')]"

definition EFI_EDID_DISCOVERED_PROTOCOL_GUID :: guid where
  "EFI_EDID_DISCOVERED_PROTOCOL_GUID = GUID 0x1C0C34F6 0xD380 0x41FA [0xA0, 0x49, 0x8A, 0xD0, 0x6C, 0x1A, 0x66, 0xAA]"

definition EFI_EDID_DISCOVERED_PROTOCOL :: cty where
  "EFI_EDID_DISCOVERED_PROTOCOL = CStruct [(''SizeOfEdid'', UINT32), (''Edid'', CPtr ''UINT8'')]"

definition EFI_EDID_ACTIVE_PROTOCOL_GUID :: guid where
  "EFI_EDID_ACTIVE_PROTOCOL_GUID = GUID 0xBD8C1056 0x9F36 0x44EC [0x92, 0xA8, 0xA6, 0x33, 0x7F, 0x81, 0x79, 0x86]"

definition EFI_EDID_ACTIVE_PROTOCOL :: cty where
  "EFI_EDID_ACTIVE_PROTOCOL = CStruct [(''SizeOfEdid'', UINT32), (''Edid'', CPtr ''UINT8'')]"

definition EFI_EDID_OVERRIDE_PROTOCOL_GUID :: guid where
  "EFI_EDID_OVERRIDE_PROTOCOL_GUID = GUID 0x48ECB431 0xFB72 0x45C0 [0xA9, 0x22, 0xF4, 0x58, 0xFE, 0x04, 0x0B, 0xD5]"

definition EFI_EDID_OVERRIDE_PROTOCOL_GET_EDID :: csig where
  "EFI_EDID_OVERRIDE_PROTOCOL_GET_EDID = Fn (Some EFI_STATUS) [
    Arg In ''This'' (CPtr ''_EFI_EDID_OVERRIDE_PROTOCOL''),
    Arg In ''ChildHandle'' (CPtr ''EFI_HANDLE''), Arg Out ''Attributes'' (CPtr ''UINT32''),
    Arg InOut ''EdidSize'' (CPtr ''UINTN''), Arg InOut ''Edid'' (CPtr ''UINT8 *'')]"

definition EFI_EDID_OVERRIDE_PROTOCOL :: cty where
  "EFI_EDID_OVERRIDE_PROTOCOL = CStruct [
    (''GetEdid'', CPtr ''EFI_EDID_OVERRIDE_PROTOCOL_GET_EDID'')]"

definition EFI_SERVICE_BINDING_CREATE_CHILD :: csig where
  "EFI_SERVICE_BINDING_CREATE_CHILD = Fn (Some EFI_STATUS) [
    Arg In ''This'' (CPtr ''_EFI_SERVICE_BINDING''), Arg In ''ChildHandle'' (CPtr ''EFI_HANDLE'')]"

definition EFI_SERVICE_BINDING_DESTROY_CHILD :: csig where
  "EFI_SERVICE_BINDING_DESTROY_CHILD = Fn (Some EFI_STATUS) [
    Arg In ''This'' (CPtr ''_EFI_SERVICE_BINDING''), Arg In ''ChildHandle'' EFI_HANDLE]"

definition EFI_SERVICE_BINDING :: cty where
  "EFI_SERVICE_BINDING = CStruct [(''CreateChild'', CPtr ''EFI_SERVICE_BINDING_CREATE_CHILD''),
    (''DestroyChild'', CPtr ''EFI_SERVICE_BINDING_DESTROY_CHILD'')]"

definition EFI_DRIVER_BINDING_PROTOCOL_GUID :: guid where
  "EFI_DRIVER_BINDING_PROTOCOL_GUID = GUID 0x18A031AB 0xB443 0x4D1A [0xA5, 0xC0, 0x0C, 0x09, 0x26, 0x1E, 0x9F, 0x71]"

definition DRIVER_BINDING_PROTOCOL :: guid where
  "DRIVER_BINDING_PROTOCOL = EFI_DRIVER_BINDING_PROTOCOL_GUID"

definition EFI_DRIVER_BINDING_PROTOCOL_SUPPORTED :: csig where
  "EFI_DRIVER_BINDING_PROTOCOL_SUPPORTED = Fn (Some EFI_STATUS) [
    Arg In ''This'' (CPtr ''_EFI_DRIVER_BINDING_PROTOCOL''),
    Arg In ''ControllerHandle'' EFI_HANDLE,
    OptArg In ''RemainingDevicePath'' (CPtr ''EFI_DEVICE_PATH'')]"

definition EFI_DRIVER_BINDING_PROTOCOL_START :: csig where
  "EFI_DRIVER_BINDING_PROTOCOL_START = Fn (Some EFI_STATUS) [
    Arg In ''This'' (CPtr ''_EFI_DRIVER_BINDING_PROTOCOL''),
    Arg In ''ControllerHandle'' EFI_HANDLE,
    OptArg In ''RemainingDevicePath'' (CPtr ''EFI_DEVICE_PATH'')]"

definition EFI_DRIVER_BINDING_PROTOCOL_STOP :: csig where
  "EFI_DRIVER_BINDING_PROTOCOL_STOP = Fn (Some EFI_STATUS) [
    Arg In ''This'' (CPtr ''_EFI_DRIVER_BINDING_PROTOCOL''),
    Arg In ''ControllerHandle'' EFI_HANDLE, Arg In ''NumberOfChildren'' UINTN,
    OptArg In ''ChildHandleBuffer'' (CPtr ''EFI_HANDLE'')]"

definition EFI_DRIVER_BINDING_PROTOCOL :: cty where
  "EFI_DRIVER_BINDING_PROTOCOL = CStruct [
    (''Supported'', CPtr ''EFI_DRIVER_BINDING_PROTOCOL_SUPPORTED''),
    (''Start'', CPtr ''EFI_DRIVER_BINDING_PROTOCOL_START''),
    (''Stop'', CPtr ''EFI_DRIVER_BINDING_PROTOCOL_STOP''), (''Version'', UINT32),
    (''ImageHandle'', EFI_HANDLE), (''DriverBindingHandle'', EFI_HANDLE)]"

definition EFI_DRIVER_BINDING :: cty where "EFI_DRIVER_BINDING = EFI_DRIVER_BINDING_PROTOCOL"
definition EFI_DRIVER_SUPPORTED :: csig where
  "EFI_DRIVER_SUPPORTED = EFI_DRIVER_BINDING_PROTOCOL_SUPPORTED"

definition EFI_DRIVER_START :: csig where "EFI_DRIVER_START = EFI_DRIVER_BINDING_PROTOCOL_START"
definition EFI_DRIVER_STOP :: csig where "EFI_DRIVER_STOP = EFI_DRIVER_BINDING_PROTOCOL_STOP"
definition EFI_COMPONENT_NAME_PROTOCOL_GUID :: guid where
  "EFI_COMPONENT_NAME_PROTOCOL_GUID = GUID 0x107A772C 0xD5E1 0x11D4 [0x9A, 0x46, 0x00, 0x90, 0x27, 0x3F, 0xC1, 0x4D]"

definition COMPONENT_NAME_PROTOCOL :: guid where
  "COMPONENT_NAME_PROTOCOL = EFI_COMPONENT_NAME_PROTOCOL_GUID"

definition EFI_COMPONENT_NAME_GET_DRIVER_NAME :: csig where
  "EFI_COMPONENT_NAME_GET_DRIVER_NAME = Fn (Some EFI_STATUS) [
    Arg In ''This'' (CPtr ''_EFI_COMPONENT_NAME_PROTOCOL''),
    Arg In ''Language'' (CPtr ''CHAR8''), Arg Out ''DriverName'' (CPtr ''CHAR16 *'')]"

definition EFI_COMPONENT_NAME_GET_CONTROLLER_NAME :: csig where
  "EFI_COMPONENT_NAME_GET_CONTROLLER_NAME = Fn (Some EFI_STATUS) [
    Arg In ''This'' (CPtr ''_EFI_COMPONENT_NAME_PROTOCOL''),
    Arg In ''ControllerHandle'' EFI_HANDLE, OptArg In ''ChildHandle'' EFI_HANDLE,
    Arg In ''Language'' (CPtr ''CHAR8''), Arg Out ''ControllerName'' (CPtr ''CHAR16 *'')]"

definition EFI_COMPONENT_NAME_PROTOCOL :: cty where
  "EFI_COMPONENT_NAME_PROTOCOL = CStruct [
    (''GetDriverName'', CPtr ''EFI_COMPONENT_NAME_GET_DRIVER_NAME''),
    (''GetControllerName'', CPtr ''EFI_COMPONENT_NAME_GET_CONTROLLER_NAME''),
    (''SupportedLanguages'', CPtr ''CHAR8'')]"

definition EFI_COMPONENT_NAME :: cty where "EFI_COMPONENT_NAME = EFI_COMPONENT_NAME_PROTOCOL"
definition EFI_COMPONENT_NAME2_PROTOCOL_GUID :: guid where
  "EFI_COMPONENT_NAME2_PROTOCOL_GUID = GUID 0x6A7A5CFF 0xE8D9 0x4F70 [0xBA, 0xDA, 0x75, 0xAB, 0x30, 0x25, 0xCE, 0x14]"

definition COMPONENT_NAME2_PROTOCOL :: guid where
  "COMPONENT_NAME2_PROTOCOL = EFI_COMPONENT_NAME2_PROTOCOL_GUID"

definition EFI_COMPONENT_NAME2_GET_DRIVER_NAME :: csig where
  "EFI_COMPONENT_NAME2_GET_DRIVER_NAME = Fn (Some EFI_STATUS) [
    Arg In ''This'' (CPtr ''_EFI_COMPONENT_NAME2_PROTOCOL''),
    Arg In ''Language'' (CPtr ''CHAR8''), Arg Out ''DriverName'' (CPtr ''CHAR16 *'')]"

definition EFI_COMPONENT_NAME2_GET_CONTROLLER_NAME :: csig where
  "EFI_COMPONENT_NAME2_GET_CONTROLLER_NAME = Fn (Some EFI_STATUS) [
    Arg In ''This'' (CPtr ''_EFI_COMPONENT_NAME2_PROTOCOL''),
    Arg In ''ControllerHandle'' EFI_HANDLE, OptArg In ''ChildHandle'' EFI_HANDLE,
    Arg In ''Language'' (CPtr ''CHAR8''), Arg Out ''ControllerName'' (CPtr ''CHAR16 *'')]"

definition EFI_COMPONENT_NAME2_PROTOCOL :: cty where
  "EFI_COMPONENT_NAME2_PROTOCOL = CStruct [
    (''GetDriverName'', CPtr ''EFI_COMPONENT_NAME2_GET_DRIVER_NAME''),
    (''GetControllerName'', CPtr ''EFI_COMPONENT_NAME2_GET_CONTROLLER_NAME''),
    (''SupportedLanguages'', CPtr ''CHAR8'')]"

definition EFI_COMPONENT_NAME2 :: cty where "EFI_COMPONENT_NAME2 = EFI_COMPONENT_NAME2_PROTOCOL"
definition EFI_LOADED_IMAGE_PROTOCOL_GUID :: guid where
  "EFI_LOADED_IMAGE_PROTOCOL_GUID = GUID 0x5B1B31A1 0x9562 0x11D2 [0x8E, 0x3F, 0x00, 0xA0, 0xC9, 0x69, 0x72, 0x3B]"

definition LOADED_IMAGE_PROTOCOL :: guid where
  "LOADED_IMAGE_PROTOCOL = EFI_LOADED_IMAGE_PROTOCOL_GUID"

definition EFI_LOADED_IMAGE_PROTOCOL_REVISION :: u64 where
  "EFI_LOADED_IMAGE_PROTOCOL_REVISION = 0x1000"

definition EFI_IMAGE_INFORMATION_REVISION :: u64 where
  "EFI_IMAGE_INFORMATION_REVISION = EFI_LOADED_IMAGE_PROTOCOL_REVISION"

definition EFI_IMAGE_UNLOAD :: csig where
  "EFI_IMAGE_UNLOAD = Fn (Some EFI_STATUS) [Arg In ''ImageHandle'' EFI_HANDLE]"

definition EFI_LOADED_IMAGE_PROTOCOL :: cty where
  "EFI_LOADED_IMAGE_PROTOCOL = CStruct [(''Revision'', UINT32), (''ParentHandle'', EFI_HANDLE),
    (''SystemTable'', CPtr ''_EFI_SYSTEM_TABLE''), (''DeviceHandle'', EFI_HANDLE),
    (''FilePath'', CPtr ''EFI_DEVICE_PATH''), (''Reserved'', CPtr ''VOID''),
    (''LoadOptionsSize'', UINT32), (''LoadOptions'', CPtr ''VOID''),
    (''ImageBase'', CPtr ''VOID''), (''ImageSize'', UINT64),
    (''ImageCodeType'', EFI_MEMORY_TYPE), (''ImageDataType'', EFI_MEMORY_TYPE),
    (''Unload'', CPtr ''EFI_IMAGE_UNLOAD'')]"

definition EFI_LOADED_IMAGE :: cty where "EFI_LOADED_IMAGE = EFI_LOADED_IMAGE_PROTOCOL"
definition EFI_LOADED_IMAGE_DEVICE_PATH_PROTOCOL_GUID :: guid where
  "EFI_LOADED_IMAGE_DEVICE_PATH_PROTOCOL_GUID = GUID 0xBC62157E 0x3E33 0x4FEC [0x99, 0x20, 0x2D, 0x3B, 0x36, 0xD7, 0x50, 0xDF]"

definition EFI_RNG_PROTOCOL_GUID :: guid where
  "EFI_RNG_PROTOCOL_GUID = GUID 0x3152BCA5 0xEADE 0x433D [0x86, 0x2E, 0xC0, 0x1C, 0xDC, 0x29, 0x1F, 0x44]"

definition EFI_RNG_ALGORITHM :: cty where "EFI_RNG_ALGORITHM = EFI_GUID"
definition EFI_RNG_ALGORITHM_SP800_90_HASH_256_GUID :: guid where
  "EFI_RNG_ALGORITHM_SP800_90_HASH_256_GUID = GUID 0xA7AF67CB 0x603B 0x4D42 [0xBA, 0x21, 0x70, 0xBF, 0xB6, 0x29, 0x3F, 0x96]"

definition EFI_RNG_ALGORITHM_SP800_90_HMAC_256_GUID :: guid where
  "EFI_RNG_ALGORITHM_SP800_90_HMAC_256_GUID = GUID 0xC5149B43 0xAE85 0x4F53 [0x99, 0x82, 0xB9, 0x43, 0x35, 0xD3, 0xA9, 0xE7]"

definition EFI_RNG_ALGORITHM_SP800_90_CTR_256_GUID :: guid where
  "EFI_RNG_ALGORITHM_SP800_90_CTR_256_GUID = GUID 0x44F0DE6E 0x4D8C 0x4045 [0xA8, 0xC7, 0x4D, 0xD1, 0x68, 0x85, 0x6B, 0x9E]"

definition EFI_RNG_ALGORITHM_X9_31_3DES_GUID :: guid where
  "EFI_RNG_ALGORITHM_X9_31_3DES_GUID = GUID 0x63C4785A 0xCA34 0x4012 [0xA3, 0xC8, 0x0B, 0x6A, 0x32, 0x4F, 0x55, 0x46]"

definition EFI_RNG_ALGORITHM_X9_31_AES_GUID :: guid where
  "EFI_RNG_ALGORITHM_X9_31_AES_GUID = GUID 0xACD03321 0x777E 0x4D3D [0xB1, 0xC8, 0x20, 0xCF, 0xD8, 0x88, 0x20, 0xC9]"

definition EFI_RNG_ALGORITHM_RAW :: guid where
  "EFI_RNG_ALGORITHM_RAW = GUID 0xE43176D7 0xB6E8 0x4827 [0xB7, 0x84, 0x7F, 0xFD, 0xC4, 0xB6, 0x85, 0x61]"

definition EFI_RNG_GET_INFO :: csig where
  "EFI_RNG_GET_INFO = Fn (Some EFI_STATUS) [Arg In ''This'' (CPtr ''_EFI_RNG_PROTOCOL''),
    Arg InOut ''RNGAlgorithmListSize'' (CPtr ''UINTN''),
    Arg Out ''RNGAlgorithmList'' (CPtr ''EFI_RNG_ALGORITHM'')]"

definition EFI_RNG_GET_RNG :: csig where
  "EFI_RNG_GET_RNG = Fn (Some EFI_STATUS) [Arg In ''This'' (CPtr ''_EFI_RNG_PROTOCOL''),
    OptArg In ''RNGAlgorithm'' (CPtr ''EFI_RNG_ALGORITHM''), Arg In ''RNGValueLength'' UINTN,
    Arg Out ''RNGValue'' (CPtr ''UINT8'')]"

definition EFI_RNG_PROTOCOL :: cty where
  "EFI_RNG_PROTOCOL = CStruct [(''GetInfo'', CPtr ''EFI_RNG_GET_INFO''),
    (''GetRNG'', CPtr ''EFI_RNG_GET_RNG'')]"

definition EFI_PLATFORM_DRIVER_OVERRIDE_PROTOCOL_GUID :: guid where
  "EFI_PLATFORM_DRIVER_OVERRIDE_PROTOCOL_GUID = GUID 0x6B30C738 0xA391 0x11D4 [0x9A, 0x3B, 0x00, 0x90, 0x27, 0x3F, 0xC1, 0x4D]"

definition EFI_PLATFORM_DRIVER_OVERRIDE_GET_DRIVER :: csig where
  "EFI_PLATFORM_DRIVER_OVERRIDE_GET_DRIVER = Fn (Some EFI_STATUS) [
    Arg In ''This'' (CPtr ''_EFI_PLATFORM_DRIVER_OVERRIDE_PROTOCOL''),
    Arg In ''ControllerHandle'' EFI_HANDLE, Arg InOut ''DriverImageHandle'' (CPtr ''EFI_HANDLE'')]"

definition EFI_PLATFORM_DRIVER_OVERRIDE_GET_DRIVER_PATH :: csig where
  "EFI_PLATFORM_DRIVER_OVERRIDE_GET_DRIVER_PATH = Fn (Some EFI_STATUS) [
    Arg In ''This'' (CPtr ''_EFI_PLATFORM_DRIVER_OVERRIDE_PROTOCOL''),
    Arg In ''ControllerHandle'' EFI_HANDLE,
    Arg InOut ''DriverImagePath'' (CPtr ''EFI_DEVICE_PATH *'')]"

definition EFI_PLATFORM_DRIVER_OVERRIDE_DRIVER_LOADED :: csig where
  "EFI_PLATFORM_DRIVER_OVERRIDE_DRIVER_LOADED = Fn (Some EFI_STATUS) [
    Arg In ''This'' (CPtr ''_EFI_PLATFORM_DRIVER_OVERRIDE_PROTOCOL''),
    Arg In ''ControllerHandle'' EFI_HANDLE,
    Arg In ''DriverImagePath'' (CPtr ''EFI_DEVICE_PATH''), Arg In ''DriverImageHandle'' EFI_HANDLE]"

definition EFI_PLATFORM_DRIVER_OVERRIDE_PROTOCOL :: cty where
  "EFI_PLATFORM_DRIVER_OVERRIDE_PROTOCOL = CStruct [
    (''GetDriver'', CPtr ''EFI_PLATFORM_DRIVER_OVERRIDE_GET_DRIVER''),
    (''GetDriverPath'', CPtr ''EFI_PLATFORM_DRIVER_OVERRIDE_GET_DRIVER_PATH''),
    (''DriverLoaded'', CPtr ''EFI_PLATFORM_DRIVER_OVERRIDE_DRIVER_LOADED'')]"

definition EFI_BUS_SPECIFIC_DRIVER_OVERRIDE_PROTOCOL_GUID :: guid where
  "EFI_BUS_SPECIFIC_DRIVER_OVERRIDE_PROTOCOL_GUID = GUID 0x3BC1B285 0x8A15 0x4A82 [0xAA, 0xBF, 0x4D, 0x7D, 0x13, 0xFB, 0x32, 0x65]"

definition EFI_BUS_SPECIFIC_DRIVER_OVERRIDE_GET_DRIVER :: csig where
  "EFI_BUS_SPECIFIC_DRIVER_OVERRIDE_GET_DRIVER = Fn (Some EFI_STATUS) [
    Arg In ''This'' (CPtr ''_EFI_BUS_SPECIFIC_DRIVER_OVERRIDE_PROTOCOL''),
    Arg InOut ''DriverImageHandle'' (CPtr ''EFI_HANDLE'')]"

definition EFI_BUS_SPECIFIC_DRIVER_OVERRIDE_PROTOCOL :: cty where
  "EFI_BUS_SPECIFIC_DRIVER_OVERRIDE_PROTOCOL = CStruct [
    (''GetDriver'', CPtr ''EFI_BUS_SPECIFIC_DRIVER_OVERRIDE_GET_DRIVER'')]"

definition EFI_DRIVER_FAMILY_OVERRIDE_PROTOCOL_GUID :: guid where
  "EFI_DRIVER_FAMILY_OVERRIDE_PROTOCOL_GUID = GUID 0xB1EE129E 0xDA36 0x4181 [0x91, 0xF8, 0x04, 0xA4, 0x92, 0x37, 0x66, 0xA7]"

definition EFI_DRIVER_FAMILY_OVERRIDE_GET_VERSION :: csig where
  "EFI_DRIVER_FAMILY_OVERRIDE_GET_VERSION = Fn (Some UINT32) [
    Arg In ''This'' (CPtr ''_EFI_DRIVER_FAMILY_OVERRIDE_PROTOCOL'')]"

definition EFI_DRIVER_FAMILY_OVERRIDE_PROTOCOL :: cty where
  "EFI_DRIVER_FAMILY_OVERRIDE_PROTOCOL = CStruct [
    (''GetVersion'', CPtr ''EFI_DRIVER_FAMILY_OVERRIDE_GET_VERSION'')]"

definition EFI_EBC_INTERPRETER_PROTOCOL_GUID :: guid where
  "EFI_EBC_INTERPRETER_PROTOCOL_GUID = GUID 0x13AC6DD1 0x73D0 0x11D4 [0xB0, 0x6B, 0x00, 0xAA, 0x00, 0xBD, 0x6D, 0xE7]"

definition EFI_EBC_PROTOCOL_GUID :: guid where
  "EFI_EBC_PROTOCOL_GUID = EFI_EBC_INTERPRETER_PROTOCOL_GUID"

definition EFI_EBC_CREATE_THUNK :: csig where
  "EFI_EBC_CREATE_THUNK = Fn (Some EFI_STATUS) [Arg In ''This'' (CPtr ''_EFI_EBC_PROTOCOL''),
    Arg In ''ImageHandle'' EFI_HANDLE, Arg In ''EbcEntryPoint'' (CPtr ''VOID''),
    Arg Out ''Thunk'' (CPtr ''VOID *'')]"

definition EFI_EBC_UNLOAD_IMAGE :: csig where
  "EFI_EBC_UNLOAD_IMAGE = Fn (Some EFI_STATUS) [Arg In ''This'' (CPtr ''_EFI_EBC_PROTOCOL''),
    Arg In ''ImageHandle'' EFI_HANDLE]"

definition EBC_ICACHE_FLUSH :: csig where
  "EBC_ICACHE_FLUSH = Fn (Some EFI_STATUS) [Arg In ''Start'' EFI_PHYSICAL_ADDRESS,
    Arg In ''Length'' UINT64]"

definition EFI_EBC_REGISTER_ICACHE_FLUSH :: csig where
  "EFI_EBC_REGISTER_ICACHE_FLUSH = Fn (Some EFI_STATUS) [
    Arg In ''This'' (CPtr ''_EFI_EBC_PROTOCOL''), Arg In ''Flush'' (CPtr ''EBC_ICACHE_FLUSH'')]"

definition EFI_EBC_GET_VERSION :: csig where
  "EFI_EBC_GET_VERSION = Fn (Some EFI_STATUS) [Arg In ''This'' (CPtr ''_EFI_EBC_PROTOCOL''),
    Arg InOut ''Version'' (CPtr ''UINT64'')]"

definition EFI_EBC_PROTOCOL :: cty where
  "EFI_EBC_PROTOCOL = CStruct [(''CreateThunk'', CPtr ''EFI_EBC_CREATE_THUNK''),
    (''UnloadImage'', CPtr ''EFI_EBC_UNLOAD_IMAGE''),
    (''RegisterICacheFlush'', CPtr ''EFI_EBC_REGISTER_ICACHE_FLUSH''),
    (''GetVersion'', CPtr ''EFI_EBC_GET_VERSION'')]"

definition EFI_GET_MEMORY_ATTRIBUTES :: csig where
  "EFI_GET_MEMORY_ATTRIBUTES = Fn (Some EFI_STATUS) [
    Arg In ''This'' (CPtr ''_EFI_MEMORY_ATTRIBUTE_PROTOCOL''),
    Arg In ''BaseAddress'' EFI_PHYSICAL_ADDRESS, Arg In ''Length'' UINT64,
    Arg Out ''Attributes'' (CPtr ''UINT64'')]"

definition EFI_SET_MEMORY_ATTRIBUTES :: csig where
  "EFI_SET_MEMORY_ATTRIBUTES = Fn (Some EFI_STATUS) [
    Arg In ''This'' (CPtr ''_EFI_MEMORY_ATTRIBUTE_PROTOCOL''),
    Arg In ''BaseAddress'' EFI_PHYSICAL_ADDRESS, Arg In ''Length'' UINT64,
    Arg In ''Attributes'' UINT64]"

definition EFI_CLEAR_MEMORY_ATTRIBUTES :: csig where
  "EFI_CLEAR_MEMORY_ATTRIBUTES = Fn (Some EFI_STATUS) [
    Arg In ''This'' (CPtr ''_EFI_MEMORY_ATTRIBUTE_PROTOCOL''),
    Arg In ''BaseAddress'' EFI_PHYSICAL_ADDRESS, Arg In ''Length'' UINT64,
    Arg In ''Attributes'' UINT64]"

definition EFI_MEMORY_ATTRIBUTE_PROTOCOL :: cty where
  "EFI_MEMORY_ATTRIBUTE_PROTOCOL = CStruct [
    (''GetMemoryAttributes'', CPtr ''EFI_GET_MEMORY_ATTRIBUTES''),
    (''SetMemoryAttributes'', CPtr ''EFI_SET_MEMORY_ATTRIBUTES''),
    (''ClearMemoryAttributes'', CPtr ''EFI_CLEAR_MEMORY_ATTRIBUTES'')]"


end
