(* ===== verification/Efi_Con.thy ===== *)
theory Efi_Con
  imports Efi_Def
begin

text \<open>
  The console protocols of \<open>efi_headers/eficon.h\<close>.
\<close>

section \<open>eficon.h\<close>

definition EFI_SIMPLE_TEXT_OUTPUT_PROTOCOL_GUID :: guid where
  "EFI_SIMPLE_TEXT_OUTPUT_PROTOCOL_GUID = GUID 0x387477C2 0x69C7 0x11D2 [0x8E, 0x39, 0x0, 0xA0, 0xC9, 0x69, 0x72, 0x3B]"

definition SIMPLE_TEXT_OUTPUT_PROTOCOL :: guid where
  "SIMPLE_TEXT_OUTPUT_PROTOCOL = EFI_SIMPLE_TEXT_OUTPUT_PROTOCOL_GUID"

definition EFI_TEXT_RESET :: csig where
  "EFI_TEXT_RESET = Fn (Some EFI_STATUS) [Arg In ''This'' (CPtr ''_SIMPLE_TEXT_OUTPUT_INTERFACE''),
    Arg In ''ExtendedVerification'' BOOLEAN]"

definition EFI_TEXT_OUTPUT_STRING :: csig where
  "EFI_TEXT_OUTPUT_STRING = Fn (Some EFI_STATUS) [
    Arg In ''This'' (CPtr ''_SIMPLE_TEXT_OUTPUT_INTERFACE''), Arg In ''String'' (CPtr ''CHAR16'')]"

definition EFI_TEXT_TEST_STRING :: csig where
  "EFI_TEXT_TEST_STRING = Fn (Some EFI_STATUS) [
    Arg In ''This'' (CPtr ''_SIMPLE_TEXT_OUTPUT_INTERFACE''), Arg In ''String'' (CPtr ''CHAR16'')]"

definition EFI_TEXT_QUERY_MODE :: csig where
  "EFI_TEXT_QUERY_MODE = Fn (Some EFI_STATUS) [
    Arg In ''This'' (CPtr ''_SIMPLE_TEXT_OUTPUT_INTERFACE''), Arg In ''ModeNumber'' UINTN,
    Arg Out ''Columns'' (CPtr ''UINTN''), Arg Out ''Rows'' (CPtr ''UINTN'')]"

definition EFI_TEXT_SET_MODE :: csig where
  "EFI_TEXT_SET_MODE = Fn (Some EFI_STATUS) [
    Arg In ''This'' (CPtr ''_SIMPLE_TEXT_OUTPUT_INTERFACE''), Arg In ''ModeNumber'' UINTN]"

definition EFI_TEXT_SET_ATTRIBUTE :: csig where
  "EFI_TEXT_SET_ATTRIBUTE = Fn (Some EFI_STATUS) [
    Arg In ''This'' (CPtr ''_SIMPLE_TEXT_OUTPUT_INTERFACE''), Arg In ''Attribute'' UINTN]"

definition EFI_BLACK :: u64 where "EFI_BLACK = 0x00"
definition EFI_BLUE :: u64 where "EFI_BLUE = 0x01"
definition EFI_GREEN :: u64 where "EFI_GREEN = 0x02"
definition EFI_CYAN :: u64 where "EFI_CYAN = EFI_BLUE OR EFI_GREEN"
definition EFI_RED :: u64 where "EFI_RED = 0x04"
definition EFI_MAGENTA :: u64 where "EFI_MAGENTA = EFI_BLUE OR EFI_RED"
definition EFI_BROWN :: u64 where "EFI_BROWN = EFI_GREEN OR EFI_RED"
definition EFI_LIGHTGRAY :: u64 where "EFI_LIGHTGRAY = EFI_BLUE OR EFI_GREEN OR EFI_RED"
definition EFI_BRIGHT :: u64 where "EFI_BRIGHT = 0x08"
definition EFI_DARKGRAY :: u64 where "EFI_DARKGRAY = EFI_BRIGHT"
definition EFI_LIGHTBLUE :: u64 where "EFI_LIGHTBLUE = EFI_BLUE OR EFI_BRIGHT"
definition EFI_LIGHTGREEN :: u64 where "EFI_LIGHTGREEN = EFI_GREEN OR EFI_BRIGHT"
definition EFI_LIGHTCYAN :: u64 where "EFI_LIGHTCYAN = EFI_CYAN OR EFI_BRIGHT"
definition EFI_LIGHTRED :: u64 where "EFI_LIGHTRED = EFI_RED OR EFI_BRIGHT"
definition EFI_LIGHTMAGENTA :: u64 where "EFI_LIGHTMAGENTA = EFI_MAGENTA OR EFI_BRIGHT"
definition EFI_YELLOW :: u64 where "EFI_YELLOW = EFI_BROWN OR EFI_BRIGHT"
definition EFI_WHITE :: u64 where "EFI_WHITE = EFI_BLUE OR EFI_GREEN OR EFI_RED OR EFI_BRIGHT"
definition EFI_BACKGROUND_BLACK :: u64 where "EFI_BACKGROUND_BLACK = 0x00"
definition EFI_BACKGROUND_BLUE :: u64 where "EFI_BACKGROUND_BLUE = 0x10"
definition EFI_BACKGROUND_GREEN :: u64 where "EFI_BACKGROUND_GREEN = 0x20"
definition EFI_BACKGROUND_CYAN :: u64 where
  "EFI_BACKGROUND_CYAN = EFI_BACKGROUND_BLUE OR EFI_BACKGROUND_GREEN"

definition EFI_BACKGROUND_RED :: u64 where "EFI_BACKGROUND_RED = 0x40"
definition EFI_BACKGROUND_MAGENTA :: u64 where
  "EFI_BACKGROUND_MAGENTA = EFI_BACKGROUND_BLUE OR EFI_BACKGROUND_RED"

definition EFI_BACKGROUND_BROWN :: u64 where
  "EFI_BACKGROUND_BROWN = EFI_BACKGROUND_GREEN OR EFI_BACKGROUND_RED"

definition EFI_BACKGROUND_LIGHTGRAY :: u64 where
  "EFI_BACKGROUND_LIGHTGRAY = EFI_BACKGROUND_BLUE OR EFI_BACKGROUND_GREEN OR EFI_BACKGROUND_RED"

definition EFI_TEXT_CLEAR_SCREEN :: csig where
  "EFI_TEXT_CLEAR_SCREEN = Fn (Some EFI_STATUS) [
    Arg In ''This'' (CPtr ''_SIMPLE_TEXT_OUTPUT_INTERFACE'')]"

definition EFI_TEXT_SET_CURSOR_POSITION :: csig where
  "EFI_TEXT_SET_CURSOR_POSITION = Fn (Some EFI_STATUS) [
    Arg In ''This'' (CPtr ''_SIMPLE_TEXT_OUTPUT_INTERFACE''), Arg In ''Column'' UINTN,
    Arg In ''Row'' UINTN]"

definition EFI_TEXT_ENABLE_CURSOR :: csig where
  "EFI_TEXT_ENABLE_CURSOR = Fn (Some EFI_STATUS) [
    Arg In ''This'' (CPtr ''_SIMPLE_TEXT_OUTPUT_INTERFACE''), Arg In ''Enable'' BOOLEAN]"

definition SIMPLE_TEXT_OUTPUT_MODE :: cty where
  "SIMPLE_TEXT_OUTPUT_MODE = CStruct [(''MaxMode'', INT32), (''Mode'', INT32),
    (''Attribute'', INT32), (''CursorColumn'', INT32), (''CursorRow'', INT32),
    (''CursorVisible'', BOOLEAN)]"

definition SIMPLE_TEXT_OUTPUT_INTERFACE :: cty where
  "SIMPLE_TEXT_OUTPUT_INTERFACE = CStruct [(''Reset'', CPtr ''EFI_TEXT_RESET''),
    (''OutputString'', CPtr ''EFI_TEXT_OUTPUT_STRING''),
    (''TestString'', CPtr ''EFI_TEXT_TEST_STRING''),
    (''QueryMode'', CPtr ''EFI_TEXT_QUERY_MODE''), (''SetMode'', CPtr ''EFI_TEXT_SET_MODE''),
    (''SetAttribute'', CPtr ''EFI_TEXT_SET_ATTRIBUTE''),
    (''ClearScreen'', CPtr ''EFI_TEXT_CLEAR_SCREEN''),
    (''SetCursorPosition'', CPtr ''EFI_TEXT_SET_CURSOR_POSITION''),
    (''EnableCursor'', CPtr ''EFI_TEXT_ENABLE_CURSOR''),
    (''Mode'', CPtr ''SIMPLE_TEXT_OUTPUT_MODE'')]"

definition EFI_SIMPLE_TEXT_OUT_PROTOCOL :: cty where
  "EFI_SIMPLE_TEXT_OUT_PROTOCOL = SIMPLE_TEXT_OUTPUT_INTERFACE"

definition BOXDRAW_HORIZONTAL :: u64 where "BOXDRAW_HORIZONTAL = 0x2500"
definition BOXDRAW_VERTICAL :: u64 where "BOXDRAW_VERTICAL = 0x2502"
definition BOXDRAW_DOWN_RIGHT :: u64 where "BOXDRAW_DOWN_RIGHT = 0x250c"
definition BOXDRAW_DOWN_LEFT :: u64 where "BOXDRAW_DOWN_LEFT = 0x2510"
definition BOXDRAW_UP_RIGHT :: u64 where "BOXDRAW_UP_RIGHT = 0x2514"
definition BOXDRAW_UP_LEFT :: u64 where "BOXDRAW_UP_LEFT = 0x2518"
definition BOXDRAW_VERTICAL_RIGHT :: u64 where "BOXDRAW_VERTICAL_RIGHT = 0x251c"
definition BOXDRAW_VERTICAL_LEFT :: u64 where "BOXDRAW_VERTICAL_LEFT = 0x2524"
definition BOXDRAW_DOWN_HORIZONTAL :: u64 where "BOXDRAW_DOWN_HORIZONTAL = 0x252c"
definition BOXDRAW_UP_HORIZONTAL :: u64 where "BOXDRAW_UP_HORIZONTAL = 0x2534"
definition BOXDRAW_VERTICAL_HORIZONTAL :: u64 where "BOXDRAW_VERTICAL_HORIZONTAL = 0x253c"
definition BOXDRAW_DOUBLE_HORIZONTAL :: u64 where "BOXDRAW_DOUBLE_HORIZONTAL = 0x2550"
definition BOXDRAW_DOUBLE_VERTICAL :: u64 where "BOXDRAW_DOUBLE_VERTICAL = 0x2551"
definition BOXDRAW_DOWN_RIGHT_DOUBLE :: u64 where "BOXDRAW_DOWN_RIGHT_DOUBLE = 0x2552"
definition BOXDRAW_DOWN_DOUBLE_RIGHT :: u64 where "BOXDRAW_DOWN_DOUBLE_RIGHT = 0x2553"
definition BOXDRAW_DOUBLE_DOWN_RIGHT :: u64 where "BOXDRAW_DOUBLE_DOWN_RIGHT = 0x2554"
definition BOXDRAW_DOWN_LEFT_DOUBLE :: u64 where "BOXDRAW_DOWN_LEFT_DOUBLE = 0x2555"
definition BOXDRAW_DOWN_DOUBLE_LEFT :: u64 where "BOXDRAW_DOWN_DOUBLE_LEFT = 0x2556"
definition BOXDRAW_DOUBLE_DOWN_LEFT :: u64 where "BOXDRAW_DOUBLE_DOWN_LEFT = 0x2557"
definition BOXDRAW_UP_RIGHT_DOUBLE :: u64 where "BOXDRAW_UP_RIGHT_DOUBLE = 0x2558"
definition BOXDRAW_UP_DOUBLE_RIGHT :: u64 where "BOXDRAW_UP_DOUBLE_RIGHT = 0x2559"
definition BOXDRAW_DOUBLE_UP_RIGHT :: u64 where "BOXDRAW_DOUBLE_UP_RIGHT = 0x255a"
definition BOXDRAW_UP_LEFT_DOUBLE :: u64 where "BOXDRAW_UP_LEFT_DOUBLE = 0x255b"
definition BOXDRAW_UP_DOUBLE_LEFT :: u64 where "BOXDRAW_UP_DOUBLE_LEFT = 0x255c"
definition BOXDRAW_DOUBLE_UP_LEFT :: u64 where "BOXDRAW_DOUBLE_UP_LEFT = 0x255d"
definition BOXDRAW_VERTICAL_RIGHT_DOUBLE :: u64 where "BOXDRAW_VERTICAL_RIGHT_DOUBLE = 0x255e"
definition BOXDRAW_VERTICAL_DOUBLE_RIGHT :: u64 where "BOXDRAW_VERTICAL_DOUBLE_RIGHT = 0x255f"
definition BOXDRAW_DOUBLE_VERTICAL_RIGHT :: u64 where "BOXDRAW_DOUBLE_VERTICAL_RIGHT = 0x2560"
definition BOXDRAW_VERTICAL_LEFT_DOUBLE :: u64 where "BOXDRAW_VERTICAL_LEFT_DOUBLE = 0x2561"
definition BOXDRAW_VERTICAL_DOUBLE_LEFT :: u64 where "BOXDRAW_VERTICAL_DOUBLE_LEFT = 0x2562"
definition BOXDRAW_DOUBLE_VERTICAL_LEFT :: u64 where "BOXDRAW_DOUBLE_VERTICAL_LEFT = 0x2563"
definition BOXDRAW_DOWN_HORIZONTAL_DOUBLE :: u64 where "BOXDRAW_DOWN_HORIZONTAL_DOUBLE = 0x2564"
definition BOXDRAW_DOWN_DOUBLE_HORIZONTAL :: u64 where "BOXDRAW_DOWN_DOUBLE_HORIZONTAL = 0x2565"
definition BOXDRAW_DOUBLE_DOWN_HORIZONTAL :: u64 where "BOXDRAW_DOUBLE_DOWN_HORIZONTAL = 0x2566"
definition BOXDRAW_UP_HORIZONTAL_DOUBLE :: u64 where "BOXDRAW_UP_HORIZONTAL_DOUBLE = 0x2567"
definition BOXDRAW_UP_DOUBLE_HORIZONTAL :: u64 where "BOXDRAW_UP_DOUBLE_HORIZONTAL = 0x2568"
definition BOXDRAW_DOUBLE_UP_HORIZONTAL :: u64 where "BOXDRAW_DOUBLE_UP_HORIZONTAL = 0x2569"
definition BOXDRAW_VERTICAL_HORIZONTAL_DOUBLE :: u64 where
  "BOXDRAW_VERTICAL_HORIZONTAL_DOUBLE = 0x256a"

definition BOXDRAW_VERTICAL_DOUBLE_HORIZONTAL :: u64 where
  "BOXDRAW_VERTICAL_DOUBLE_HORIZONTAL = 0x256b"

definition BOXDRAW_DOUBLE_VERTICAL_HORIZONTAL :: u64 where
  "BOXDRAW_DOUBLE_VERTICAL_HORIZONTAL = 0x256c"

definition BLOCKELEMENT_FULL_BLOCK :: u64 where "BLOCKELEMENT_FULL_BLOCK = 0x2588"
definition BLOCKELEMENT_LIGHT_SHADE :: u64 where "BLOCKELEMENT_LIGHT_SHADE = 0x2591"
definition GEOMETRICSHAPE_UP_TRIANGLE :: u64 where "GEOMETRICSHAPE_UP_TRIANGLE = 0x25b2"
definition GEOMETRICSHAPE_RIGHT_TRIANGLE :: u64 where "GEOMETRICSHAPE_RIGHT_TRIANGLE = 0x25ba"
definition GEOMETRICSHAPE_DOWN_TRIANGLE :: u64 where "GEOMETRICSHAPE_DOWN_TRIANGLE = 0x25bc"
definition GEOMETRICSHAPE_LEFT_TRIANGLE :: u64 where "GEOMETRICSHAPE_LEFT_TRIANGLE = 0x25c4"
definition ARROW_UP :: u64 where "ARROW_UP = 0x2191"
definition ARROW_DOWN :: u64 where "ARROW_DOWN = 0x2193"
definition EFI_SIMPLE_TEXT_INPUT_PROTOCOL_GUID :: guid where
  "EFI_SIMPLE_TEXT_INPUT_PROTOCOL_GUID = GUID 0x387477C1 0x69C7 0x11D2 [0x8E, 0x39, 0x0, 0xA0, 0xC9, 0x69, 0x72, 0x3B]"

definition SIMPLE_TEXT_INPUT_PROTOCOL :: guid where
  "SIMPLE_TEXT_INPUT_PROTOCOL = EFI_SIMPLE_TEXT_INPUT_PROTOCOL_GUID"

definition EFI_INPUT_KEY :: cty where
  "EFI_INPUT_KEY = CStruct [(''ScanCode'', UINT16), (''UnicodeChar'', CHAR16)]"

definition CHAR_NULL :: u64 where "CHAR_NULL = 0x0000"
definition CHAR_BACKSPACE :: u64 where "CHAR_BACKSPACE = 0x0008"
definition CHAR_TAB :: u64 where "CHAR_TAB = 0x0009"
definition CHAR_LINEFEED :: u64 where "CHAR_LINEFEED = 0x000A"
definition CHAR_CARRIAGE_RETURN :: u64 where "CHAR_CARRIAGE_RETURN = 0x000D"
definition SCAN_NULL :: u64 where "SCAN_NULL = 0x0000"
definition SCAN_UP :: u64 where "SCAN_UP = 0x0001"
definition SCAN_DOWN :: u64 where "SCAN_DOWN = 0x0002"
definition SCAN_RIGHT :: u64 where "SCAN_RIGHT = 0x0003"
definition SCAN_LEFT :: u64 where "SCAN_LEFT = 0x0004"
definition SCAN_HOME :: u64 where "SCAN_HOME = 0x0005"
definition SCAN_END :: u64 where "SCAN_END = 0x0006"
definition SCAN_INSERT :: u64 where "SCAN_INSERT = 0x0007"
definition SCAN_DELETE :: u64 where "SCAN_DELETE = 0x0008"
definition SCAN_PAGE_UP :: u64 where "SCAN_PAGE_UP = 0x0009"
definition SCAN_PAGE_DOWN :: u64 where "SCAN_PAGE_DOWN = 0x000A"
definition SCAN_F1 :: u64 where "SCAN_F1 = 0x000B"
definition SCAN_F2 :: u64 where "SCAN_F2 = 0x000C"
definition SCAN_F3 :: u64 where "SCAN_F3 = 0x000D"
definition SCAN_F4 :: u64 where "SCAN_F4 = 0x000E"
definition SCAN_F5 :: u64 where "SCAN_F5 = 0x000F"
definition SCAN_F6 :: u64 where "SCAN_F6 = 0x0010"
definition SCAN_F7 :: u64 where "SCAN_F7 = 0x0011"
definition SCAN_F8 :: u64 where "SCAN_F8 = 0x0012"
definition SCAN_F9 :: u64 where "SCAN_F9 = 0x0013"
definition SCAN_F10 :: u64 where "SCAN_F10 = 0x0014"
definition SCAN_F11 :: u64 where "SCAN_F11 = 0x0015"
definition SCAN_F12 :: u64 where "SCAN_F12 = 0x0016"
definition SCAN_ESC :: u64 where "SCAN_ESC = 0x0017"

definition EFI_INPUT_RESET :: csig where
  "EFI_INPUT_RESET = Fn (Some EFI_STATUS) [Arg In ''This'' (CPtr ''_SIMPLE_INPUT_INTERFACE''),
    Arg In ''ExtendedVerification'' BOOLEAN]"

definition EFI_INPUT_READ_KEY :: csig where
  "EFI_INPUT_READ_KEY = Fn (Some EFI_STATUS) [Arg In ''This'' (CPtr ''_SIMPLE_INPUT_INTERFACE''),
    Arg Out ''Key'' (CPtr ''EFI_INPUT_KEY'')]"

definition SIMPLE_INPUT_INTERFACE :: cty where
  "SIMPLE_INPUT_INTERFACE = CStruct [(''Reset'', CPtr ''EFI_INPUT_RESET''),
    (''ReadKeyStroke'', CPtr ''EFI_INPUT_READ_KEY''), (''WaitForKey'', EFI_EVENT)]"

definition EFI_SIMPLE_TEXT_IN_PROTOCOL :: cty where
  "EFI_SIMPLE_TEXT_IN_PROTOCOL = SIMPLE_INPUT_INTERFACE"


end
