(* ===== verification/Efi_Api.thy ===== *)
theory Efi_Api
  imports Efi_Prot Efi_Con
begin

text \<open>
  The system tables of \<open>efi_headers/efiapi.h\<close> and the file system structures of
  \<open>efifs.h\<close>: the signature of every service and the layout of the tables that hold them.
\<close>

section \<open>efiapi.h\<close>

definition EFI_SPECIFICATION_MAJOR_REVISION :: u64 where "EFI_SPECIFICATION_MAJOR_REVISION = 1"
definition EFI_SPECIFICATION_MINOR_REVISION :: u64 where "EFI_SPECIFICATION_MINOR_REVISION = 2"
definition EFI_SPECIFICATION_VERSION :: u64 where
  "EFI_SPECIFICATION_VERSION = EFI_SPECIFICATION_REVISION_MAJORMINOR EFI_SPECIFICATION_MAJOR_REVISION EFI_SPECIFICATION_MINOR_REVISION"

definition EFI_ALLOCATE_PAGES :: csig where
  "EFI_ALLOCATE_PAGES = Fn (Some EFI_STATUS) [Arg In ''Type'' EFI_ALLOCATE_TYPE,
    Arg In ''MemoryType'' EFI_MEMORY_TYPE, Arg In ''NoPages'' UINTN,
    Arg Out ''Memory'' (CPtr ''EFI_PHYSICAL_ADDRESS'')]"

definition EFI_FREE_PAGES :: csig where
  "EFI_FREE_PAGES = Fn (Some EFI_STATUS) [Arg In ''Memory'' EFI_PHYSICAL_ADDRESS,
    Arg In ''NoPages'' UINTN]"

definition EFI_GET_MEMORY_MAP :: csig where
  "EFI_GET_MEMORY_MAP = Fn (Some EFI_STATUS) [Arg InOut ''MemoryMapSize'' (CPtr ''UINTN''),
    Arg InOut ''MemoryMap'' (CPtr ''EFI_MEMORY_DESCRIPTOR''),
    Arg Out ''MapKey'' (CPtr ''UINTN''), Arg Out ''DescriptorSize'' (CPtr ''UINTN''),
    Arg Out ''DescriptorVersion'' (CPtr ''UINT32'')]"

definition EFI_ALLOCATE_POOL :: csig where
  "EFI_ALLOCATE_POOL = Fn (Some EFI_STATUS) [Arg In ''PoolType'' EFI_MEMORY_TYPE,
    Arg In ''Size'' UINTN, Arg Out ''Buffer'' (CPtr ''VOID *'')]"

definition EFI_FREE_POOL :: csig where
  "EFI_FREE_POOL = Fn (Some EFI_STATUS) [Arg In ''Buffer'' (CPtr ''VOID'')]"

definition EFI_SET_VIRTUAL_ADDRESS_MAP :: csig where
  "EFI_SET_VIRTUAL_ADDRESS_MAP = Fn (Some EFI_STATUS) [Arg In ''MemoryMapSize'' UINTN,
    Arg In ''DescriptorSize'' UINTN, Arg In ''DescriptorVersion'' UINT32,
    Arg In ''VirtualMap'' (CPtr ''EFI_MEMORY_DESCRIPTOR'')]"

definition EFI_OPTIONAL_PTR :: u64 where "EFI_OPTIONAL_PTR = 0x00000001"
definition EFI_INTERNAL_FNC :: u64 where "EFI_INTERNAL_FNC = 0x00000002"
definition EFI_INTERNAL_PTR :: u64 where "EFI_INTERNAL_PTR = 0x00000004"

definition EFI_CONVERT_POINTER :: csig where
  "EFI_CONVERT_POINTER = Fn (Some EFI_STATUS) [Arg In ''DebugDisposition'' UINTN,
    Arg InOut ''Address'' (CPtr ''VOID *'')]"

definition EVT_TIMER :: u64 where "EVT_TIMER = 0x80000000"
definition EVT_RUNTIME :: u64 where "EVT_RUNTIME = 0x40000000"
definition EVT_RUNTIME_CONTEXT :: u64 where "EVT_RUNTIME_CONTEXT = 0x20000000"
definition EVT_NOTIFY_WAIT :: u64 where "EVT_NOTIFY_WAIT = 0x00000100"
definition EVT_NOTIFY_SIGNAL :: u64 where "EVT_NOTIFY_SIGNAL = 0x00000200"
definition EVT_SIGNAL_EXIT_BOOT_SERVICES :: u64 where
  "EVT_SIGNAL_EXIT_BOOT_SERVICES = 0x00000201"

definition EVT_SIGNAL_VIRTUAL_ADDRESS_CHANGE :: u64 where
  "EVT_SIGNAL_VIRTUAL_ADDRESS_CHANGE = 0x60000202"

definition EVT_EFI_SIGNAL_MASK :: u64 where "EVT_EFI_SIGNAL_MASK = 0x000000FF"
definition EVT_EFI_SIGNAL_MAX :: u64 where "EVT_EFI_SIGNAL_MAX = 4"
definition EFI_EVENT_TIMER :: u64 where "EFI_EVENT_TIMER = EVT_TIMER"
definition EFI_EVENT_RUNTIME :: u64 where "EFI_EVENT_RUNTIME = EVT_RUNTIME"
definition EFI_EVENT_RUNTIME_CONTEXT :: u64 where
  "EFI_EVENT_RUNTIME_CONTEXT = EVT_RUNTIME_CONTEXT"

definition EFI_EVENT_NOTIFY_WAIT :: u64 where "EFI_EVENT_NOTIFY_WAIT = EVT_NOTIFY_WAIT"
definition EFI_EVENT_NOTIFY_SIGNAL :: u64 where "EFI_EVENT_NOTIFY_SIGNAL = EVT_NOTIFY_SIGNAL"
definition EFI_EVENT_SIGNAL_EXIT_BOOT_SERVICES :: u64 where
  "EFI_EVENT_SIGNAL_EXIT_BOOT_SERVICES = EVT_SIGNAL_EXIT_BOOT_SERVICES"

definition EFI_EVENT_SIGNAL_VIRTUAL_ADDRESS_CHANGE :: u64 where
  "EFI_EVENT_SIGNAL_VIRTUAL_ADDRESS_CHANGE = EVT_SIGNAL_VIRTUAL_ADDRESS_CHANGE"

definition EFI_EVENT_EFI_SIGNAL_MASK :: u64 where
  "EFI_EVENT_EFI_SIGNAL_MASK = EVT_EFI_SIGNAL_MASK"

definition EFI_EVENT_EFI_SIGNAL_MAX :: u64 where "EFI_EVENT_EFI_SIGNAL_MAX = EVT_EFI_SIGNAL_MAX"

definition EFI_EVENT_NOTIFY :: csig where
  "EFI_EVENT_NOTIFY = Fn None [Arg In ''Event'' EFI_EVENT, Arg In ''Context'' (CPtr ''VOID'')]"

definition EFI_CREATE_EVENT :: csig where
  "EFI_CREATE_EVENT = Fn (Some EFI_STATUS) [Arg In ''Type'' UINT32, Arg In ''NotifyTpl'' EFI_TPL,
    Arg In ''NotifyFunction'' (CPtr ''EFI_EVENT_NOTIFY''),
    Arg In ''NotifyContext'' (CPtr ''VOID''), Arg Out ''Event'' (CPtr ''EFI_EVENT'')]"

definition EFI_TIMER_DELAY :: cty where "EFI_TIMER_DELAY = C32"
definition TimerCancel :: u32 where "TimerCancel = 0"
definition TimerPeriodic :: u32 where "TimerPeriodic = 1"
definition TimerRelative :: u32 where "TimerRelative = 2"
definition TimerTypeMax :: u32 where "TimerTypeMax = 3"

definition EFI_SET_TIMER :: csig where
  "EFI_SET_TIMER = Fn (Some EFI_STATUS) [Arg In ''Event'' EFI_EVENT,
    Arg In ''Type'' EFI_TIMER_DELAY, Arg In ''TriggerTime'' UINT64]"

definition EFI_SIGNAL_EVENT :: csig where
  "EFI_SIGNAL_EVENT = Fn (Some EFI_STATUS) [Arg In ''Event'' EFI_EVENT]"

definition EFI_WAIT_FOR_EVENT :: csig where
  "EFI_WAIT_FOR_EVENT = Fn (Some EFI_STATUS) [Arg In ''NumberOfEvents'' UINTN,
    Arg In ''Event'' (CPtr ''EFI_EVENT''), Arg Out ''Index'' (CPtr ''UINTN'')]"

definition EFI_CLOSE_EVENT :: csig where
  "EFI_CLOSE_EVENT = Fn (Some EFI_STATUS) [Arg In ''Event'' EFI_EVENT]"

definition EFI_CHECK_EVENT :: csig where
  "EFI_CHECK_EVENT = Fn (Some EFI_STATUS) [Arg In ''Event'' EFI_EVENT]"

definition TPL_APPLICATION :: u64 where "TPL_APPLICATION = 4"
definition TPL_CALLBACK :: u64 where "TPL_CALLBACK = 8"
definition TPL_NOTIFY :: u64 where "TPL_NOTIFY = 16"
definition TPL_HIGH_LEVEL :: u64 where "TPL_HIGH_LEVEL = 31"
definition EFI_TPL_APPLICATION :: u64 where "EFI_TPL_APPLICATION = TPL_APPLICATION"
definition EFI_TPL_CALLBACK :: u64 where "EFI_TPL_CALLBACK = TPL_CALLBACK"
definition EFI_TPL_NOTIFY :: u64 where "EFI_TPL_NOTIFY = TPL_NOTIFY"
definition EFI_TPL_HIGH_LEVEL :: u64 where "EFI_TPL_HIGH_LEVEL = TPL_HIGH_LEVEL"

definition EFI_RAISE_TPL :: csig where
  "EFI_RAISE_TPL = Fn (Some EFI_TPL) [Arg In ''NewTpl'' EFI_TPL]"

definition EFI_RESTORE_TPL :: csig where "EFI_RESTORE_TPL = Fn None [Arg In ''OldTpl'' EFI_TPL]"

definition EFI_GLOBAL_VARIABLE :: guid where
  "EFI_GLOBAL_VARIABLE = GUID 0x8BE4DF61 0x93CA 0x11D2 [0xAA, 0x0D, 0x00, 0xE0, 0x98, 0x03, 0x2B, 0x8C]"

definition EFI_VARIABLE_NON_VOLATILE :: u64 where "EFI_VARIABLE_NON_VOLATILE = 0x00000001"
definition EFI_VARIABLE_BOOTSERVICE_ACCESS :: u64 where
  "EFI_VARIABLE_BOOTSERVICE_ACCESS = 0x00000002"

definition EFI_VARIABLE_RUNTIME_ACCESS :: u64 where "EFI_VARIABLE_RUNTIME_ACCESS = 0x00000004"
definition EFI_VARIABLE_HARDWARE_ERROR_RECORD :: u64 where
  "EFI_VARIABLE_HARDWARE_ERROR_RECORD = 0x00000008"

definition EFI_VARIABLE_AUTHENTICATED_WRITE_ACCESS :: u64 where
  "EFI_VARIABLE_AUTHENTICATED_WRITE_ACCESS = 0x00000010"

definition EFI_VARIABLE_TIME_BASED_AUTHENTICATED_WRITE_ACCESS :: u64 where
  "EFI_VARIABLE_TIME_BASED_AUTHENTICATED_WRITE_ACCESS = 0x00000020"

definition EFI_VARIABLE_APPEND_WRITE :: u64 where "EFI_VARIABLE_APPEND_WRITE = 0x00000040"
definition EFI_VARIABLE_ENHANCED_AUTHENTICATED_ACCESS :: u64 where
  "EFI_VARIABLE_ENHANCED_AUTHENTICATED_ACCESS = 0x00000080"

definition EFI_MAXIMUM_VARIABLE_SIZE :: u64 where "EFI_MAXIMUM_VARIABLE_SIZE = 1024"

definition EFI_GET_VARIABLE :: csig where
  "EFI_GET_VARIABLE = Fn (Some EFI_STATUS) [Arg In ''VariableName'' (CPtr ''CHAR16''),
    Arg In ''VendorGuid'' (CPtr ''EFI_GUID''), OptArg Out ''Attributes'' (CPtr ''UINT32''),
    Arg InOut ''DataSize'' (CPtr ''UINTN''), Arg Out ''Data'' (CPtr ''VOID'')]"

definition EFI_GET_NEXT_VARIABLE_NAME :: csig where
  "EFI_GET_NEXT_VARIABLE_NAME = Fn (Some EFI_STATUS) [
    Arg InOut ''VariableNameSize'' (CPtr ''UINTN''),
    Arg InOut ''VariableName'' (CPtr ''CHAR16''), Arg InOut ''VendorGuid'' (CPtr ''EFI_GUID'')]"

definition EFI_SET_VARIABLE :: csig where
  "EFI_SET_VARIABLE = Fn (Some EFI_STATUS) [Arg In ''VariableName'' (CPtr ''CHAR16''),
    Arg In ''VendorGuid'' (CPtr ''EFI_GUID''), Arg In ''Attributes'' UINT32,
    Arg In ''DataSize'' UINTN, Arg In ''Data'' (CPtr ''VOID'')]"

definition EFI_TIME_CAPABILITIES :: cty where
  "EFI_TIME_CAPABILITIES = CStruct [(''Resolution'', UINT32), (''Accuracy'', UINT32),
    (''SetsToZero'', BOOLEAN)]"

definition EFI_GET_TIME :: csig where
  "EFI_GET_TIME = Fn (Some EFI_STATUS) [Arg Out ''Time'' (CPtr ''EFI_TIME''),
    OptArg Out ''Capabilities'' (CPtr ''EFI_TIME_CAPABILITIES'')]"

definition EFI_SET_TIME :: csig where
  "EFI_SET_TIME = Fn (Some EFI_STATUS) [Arg In ''Time'' (CPtr ''EFI_TIME'')]"

definition EFI_GET_WAKEUP_TIME :: csig where
  "EFI_GET_WAKEUP_TIME = Fn (Some EFI_STATUS) [Arg Out ''Enabled'' (CPtr ''BOOLEAN''),
    Arg Out ''Pending'' (CPtr ''BOOLEAN''), Arg Out ''Time'' (CPtr ''EFI_TIME'')]"

definition EFI_SET_WAKEUP_TIME :: csig where
  "EFI_SET_WAKEUP_TIME = Fn (Some EFI_STATUS) [Arg In ''Enable'' BOOLEAN,
    OptArg In ''Time'' (CPtr ''EFI_TIME'')]"

definition IMAGE_SUBSYSTEM_EFI_APPLICATION :: u64 where "IMAGE_SUBSYSTEM_EFI_APPLICATION = 10"
definition IMAGE_SUBSYSTEM_EFI_BOOT_SERVICE_DRIVER :: u64 where
  "IMAGE_SUBSYSTEM_EFI_BOOT_SERVICE_DRIVER = 11"

definition IMAGE_SUBSYSTEM_EFI_RUNTIME_DRIVER :: u64 where
  "IMAGE_SUBSYSTEM_EFI_RUNTIME_DRIVER = 12"

definition EFI_IMAGE_MACHINE_IA32 :: u64 where "EFI_IMAGE_MACHINE_IA32 = 0x014c"
definition EFI_IMAGE_MACHINE_IA64 :: u64 where "EFI_IMAGE_MACHINE_IA64 = 0x0200"
definition EFI_IMAGE_MACHINE_EBC :: u64 where "EFI_IMAGE_MACHINE_EBC = 0x0EBC"
definition EFI_IMAGE_MACHINE_X64 :: u64 where "EFI_IMAGE_MACHINE_X64 = 0x8664"
definition EFI_IMAGE_MACHINE_ARMTHUMB_MIXED :: u64 where
  "EFI_IMAGE_MACHINE_ARMTHUMB_MIXED = 0x01C2"

definition EFI_IMAGE_MACHINE_AARCH64 :: u64 where "EFI_IMAGE_MACHINE_AARCH64 = 0xAA64"
definition EFI_IMAGE_MACHINE_RISCV32 :: u64 where "EFI_IMAGE_MACHINE_RISCV32 = 0x5032"
definition EFI_IMAGE_MACHINE_RISCV64 :: u64 where "EFI_IMAGE_MACHINE_RISCV64 = 0x5064"
definition EFI_IMAGE_MACHINE_RISCV128 :: u64 where "EFI_IMAGE_MACHINE_RISCV128 = 0x5128"
definition EFI_IMAGE_MACHINE_LOONGARCH32 :: u64 where "EFI_IMAGE_MACHINE_LOONGARCH32 = 0x6232"
definition EFI_IMAGE_MACHINE_LOONGARCH64 :: u64 where "EFI_IMAGE_MACHINE_LOONGARCH64 = 0x6264"

definition EFI_IMAGE_ENTRY_POINT :: csig where
  "EFI_IMAGE_ENTRY_POINT = Fn (Some EFI_STATUS) [Arg In ''ImageHandle'' EFI_HANDLE,
    Arg In ''SystemTable'' (CPtr ''_EFI_SYSTEM_TABLE'')]"

definition EFI_IMAGE_LOAD :: csig where
  "EFI_IMAGE_LOAD = Fn (Some EFI_STATUS) [Arg In ''BootPolicy'' BOOLEAN,
    Arg In ''ParentImageHandle'' EFI_HANDLE, Arg In ''FilePath'' (CPtr ''EFI_DEVICE_PATH''),
    OptArg In ''SourceBuffer'' (CPtr ''VOID''), Arg In ''SourceSize'' UINTN,
    Arg Out ''ImageHandle'' (CPtr ''EFI_HANDLE'')]"

definition EFI_IMAGE_START :: csig where
  "EFI_IMAGE_START = Fn (Some EFI_STATUS) [Arg In ''ImageHandle'' EFI_HANDLE,
    Arg Out ''ExitDataSize'' (CPtr ''UINTN''), OptArg Out ''ExitData'' (CPtr ''CHAR16 *'')]"

definition EFI_EXIT :: csig where
  "EFI_EXIT = Fn (Some EFI_STATUS) [Arg In ''ImageHandle'' EFI_HANDLE,
    Arg In ''ExitStatus'' EFI_STATUS, Arg In ''ExitDataSize'' UINTN,
    OptArg In ''ExitData'' (CPtr ''CHAR16'')]"

definition EFI_EXIT_BOOT_SERVICES :: csig where
  "EFI_EXIT_BOOT_SERVICES = Fn (Some EFI_STATUS) [Arg In ''ImageHandle'' EFI_HANDLE,
    Arg In ''MapKey'' UINTN]"

definition EFI_STALL :: csig where
  "EFI_STALL = Fn (Some EFI_STATUS) [Arg In ''Microseconds'' UINTN]"

definition EFI_SET_WATCHDOG_TIMER :: csig where
  "EFI_SET_WATCHDOG_TIMER = Fn (Some EFI_STATUS) [Arg In ''Timeout'' UINTN,
    Arg In ''WatchdogCode'' UINT64, Arg In ''DataSize'' UINTN,
    OptArg In ''WatchdogData'' (CPtr ''CHAR16'')]"

definition EFI_CONNECT_CONTROLLER :: csig where
  "EFI_CONNECT_CONTROLLER = Fn (Some EFI_STATUS) [Arg In ''ControllerHandle'' EFI_HANDLE,
    OptArg In ''DriverImageHandle'' (CPtr ''EFI_HANDLE''),
    OptArg In ''RemainingDevicePath'' (CPtr ''EFI_DEVICE_PATH''), Arg In ''Recursive'' BOOLEAN]"

definition EFI_DISCONNECT_CONTROLLER :: csig where
  "EFI_DISCONNECT_CONTROLLER = Fn (Some EFI_STATUS) [Arg In ''ControllerHandle'' EFI_HANDLE,
    OptArg In ''DriverImageHandle'' EFI_HANDLE, OptArg In ''ChildHandle'' EFI_HANDLE]"

definition EFI_OPEN_PROTOCOL_BY_HANDLE_PROTOCOL :: u64 where
  "EFI_OPEN_PROTOCOL_BY_HANDLE_PROTOCOL = 0x00000001"

definition EFI_OPEN_PROTOCOL_GET_PROTOCOL :: u64 where
  "EFI_OPEN_PROTOCOL_GET_PROTOCOL = 0x00000002"

definition EFI_OPEN_PROTOCOL_TEST_PROTOCOL :: u64 where
  "EFI_OPEN_PROTOCOL_TEST_PROTOCOL = 0x00000004"

definition EFI_OPEN_PROTOCOL_BY_CHILD_CONTROLLER :: u64 where
  "EFI_OPEN_PROTOCOL_BY_CHILD_CONTROLLER = 0x00000008"

definition EFI_OPEN_PROTOCOL_BY_DRIVER :: u64 where "EFI_OPEN_PROTOCOL_BY_DRIVER = 0x00000010"
definition EFI_OPEN_PROTOCOL_EXCLUSIVE :: u64 where "EFI_OPEN_PROTOCOL_EXCLUSIVE = 0x00000020"

definition EFI_OPEN_PROTOCOL :: csig where
  "EFI_OPEN_PROTOCOL = Fn (Some EFI_STATUS) [Arg In ''Handle'' EFI_HANDLE,
    Arg In ''Protocol'' (CPtr ''EFI_GUID''), OptArg Out ''Interface'' (CPtr ''VOID *''),
    Arg In ''AgentHandle'' EFI_HANDLE, Arg In ''ControllerHandle'' EFI_HANDLE,
    Arg In ''Attributes'' UINT32]"

definition EFI_CLOSE_PROTOCOL :: csig where
  "EFI_CLOSE_PROTOCOL = Fn (Some EFI_STATUS) [Arg In ''Handle'' EFI_HANDLE,
    Arg In ''Protocol'' (CPtr ''EFI_GUID''), Arg In ''AgentHandle'' EFI_HANDLE,
    Arg In ''ControllerHandle'' EFI_HANDLE]"

definition EFI_OPEN_PROTOCOL_INFORMATION_ENTRY :: cty where
  "EFI_OPEN_PROTOCOL_INFORMATION_ENTRY = CStruct [(''AgentHandle'', EFI_HANDLE),
    (''ControllerHandle'', EFI_HANDLE), (''Attributes'', UINT32), (''OpenCount'', UINT32)]"

definition EFI_OPEN_PROTOCOL_INFORMATION :: csig where
  "EFI_OPEN_PROTOCOL_INFORMATION = Fn (Some EFI_STATUS) [Arg In ''Handle'' EFI_HANDLE,
    Arg In ''Protocol'' (CPtr ''EFI_GUID''),
    Arg Out ''EntryBuffer'' (CPtr ''EFI_OPEN_PROTOCOL_INFORMATION_ENTRY *''),
    Arg Out ''EntryCount'' (CPtr ''UINTN'')]"

definition EFI_PROTOCOLS_PER_HANDLE :: csig where
  "EFI_PROTOCOLS_PER_HANDLE = Fn (Some EFI_STATUS) [Arg In ''Handle'' EFI_HANDLE,
    Arg Out ''ProtocolBuffer'' (CPtr ''EFI_GUID **''),
    Arg Out ''ProtocolBufferCount'' (CPtr ''UINTN'')]"

definition EFI_LOCATE_SEARCH_TYPE :: cty where "EFI_LOCATE_SEARCH_TYPE = C32"
definition AllHandles :: u32 where "AllHandles = 0"
definition ByRegisterNotify :: u32 where "ByRegisterNotify = 1"
definition ByProtocol :: u32 where "ByProtocol = 2"

definition EFI_LOCATE_HANDLE_BUFFER :: csig where
  "EFI_LOCATE_HANDLE_BUFFER = Fn (Some EFI_STATUS) [Arg In ''SearchType'' EFI_LOCATE_SEARCH_TYPE,
    OptArg In ''Protocol'' (CPtr ''EFI_GUID''), OptArg In ''SearchKey'' (CPtr ''VOID''),
    Arg InOut ''NoHandles'' (CPtr ''UINTN''), Arg Out ''Buffer'' (CPtr ''EFI_HANDLE *'')]"

definition EFI_LOCATE_PROTOCOL :: csig where
  "EFI_LOCATE_PROTOCOL = Fn (Some EFI_STATUS) [Arg In ''Protocol'' (CPtr ''EFI_GUID''),
    OptArg In ''Registration'' (CPtr ''VOID''), Arg Out ''Interface'' (CPtr ''VOID *'')]"

definition EFI_INSTALL_MULTIPLE_PROTOCOL_INTERFACES :: csig where
  "EFI_INSTALL_MULTIPLE_PROTOCOL_INTERFACES = FnVar (Some EFI_STATUS) [
    Arg InOut ''Handle'' (CPtr ''EFI_HANDLE'')]"

definition EFI_UNINSTALL_MULTIPLE_PROTOCOL_INTERFACES :: csig where
  "EFI_UNINSTALL_MULTIPLE_PROTOCOL_INTERFACES = FnVar (Some EFI_STATUS) [
    Arg InOut ''Handle'' EFI_HANDLE]"

definition EFI_CALCULATE_CRC32 :: csig where
  "EFI_CALCULATE_CRC32 = Fn (Some EFI_STATUS) [Arg In ''Data'' (CPtr ''VOID''),
    Arg In ''DataSize'' UINTN, Arg Out ''Crc32'' (CPtr ''UINT32'')]"

definition EFI_COPY_MEM :: csig where
  "EFI_COPY_MEM = Fn None [Arg In ''Destination'' (CPtr ''VOID''),
    Arg In ''Source'' (CPtr ''VOID''), Arg In ''Length'' UINTN]"

definition EFI_SET_MEM :: csig where
  "EFI_SET_MEM = Fn None [Arg In ''Buffer'' (CPtr ''VOID''), Arg In ''Size'' UINTN,
    Arg In ''Value'' UINT8]"

definition EFI_CREATE_EVENT_EX :: csig where
  "EFI_CREATE_EVENT_EX = Fn (Some EFI_STATUS) [Arg In ''Type'' UINT32,
    Arg In ''NotifyTpl'' EFI_TPL, OptArg In ''NotifyFunction'' (CPtr ''EFI_EVENT_NOTIFY''),
    OptArg In ''NotifyContext'' (CPtr ''VOID''), OptArg In ''EventGroup'' (CPtr ''EFI_GUID''),
    Arg Out ''Event'' (CPtr ''EFI_EVENT'')]"

definition EFI_RESET_TYPE :: cty where "EFI_RESET_TYPE = C32"
definition EfiResetCold :: u32 where "EfiResetCold = 0"
definition EfiResetWarm :: u32 where "EfiResetWarm = 1"
definition EfiResetShutdown :: u32 where "EfiResetShutdown = 2"

definition EFI_RESET_SYSTEM :: csig where
  "EFI_RESET_SYSTEM = Fn (Some EFI_STATUS) [Arg In ''ResetType'' EFI_RESET_TYPE,
    Arg In ''ResetStatus'' EFI_STATUS, Arg In ''DataSize'' UINTN,
    OptArg In ''ResetData'' (CPtr ''CHAR16'')]"

definition EFI_GET_NEXT_MONOTONIC_COUNT :: csig where
  "EFI_GET_NEXT_MONOTONIC_COUNT = Fn (Some EFI_STATUS) [Arg Out ''Count'' (CPtr ''UINT64'')]"

definition EFI_GET_NEXT_HIGH_MONO_COUNT :: csig where
  "EFI_GET_NEXT_HIGH_MONO_COUNT = Fn (Some EFI_STATUS) [Arg Out ''HighCount'' (CPtr ''UINT32'')]"

definition EFI_CAPSULE_BLOCK_DESCRIPTOR :: cty where
  "EFI_CAPSULE_BLOCK_DESCRIPTOR = CStruct [(''Length'', UINT64),
    (''Union'', CUnion [(''DataBlock'', EFI_PHYSICAL_ADDRESS), (''ContinuationPointer'', EFI_PHYSICAL_ADDRESS)])]"

definition EFI_CAPSULE_HEADER :: cty where
  "EFI_CAPSULE_HEADER = CStruct [(''CapsuleGuid'', EFI_GUID), (''HeaderSize'', UINT32),
    (''Flags'', UINT32), (''CapsuleImageSize'', UINT32)]"

definition CAPSULE_FLAGS_PERSIST_ACROSS_RESET :: u64 where
  "CAPSULE_FLAGS_PERSIST_ACROSS_RESET = 0x00010000"

definition CAPSULE_FLAGS_POPULATE_SYSTEM_TABLE :: u64 where
  "CAPSULE_FLAGS_POPULATE_SYSTEM_TABLE = 0x00020000"

definition CAPSULE_FLAGS_INITIATE_RESET :: u64 where "CAPSULE_FLAGS_INITIATE_RESET = 0x00040000"

definition EFI_UPDATE_CAPSULE :: csig where
  "EFI_UPDATE_CAPSULE = Fn (Some EFI_STATUS) [
    Arg In ''CapsuleHeaderArray'' (CPtr ''EFI_CAPSULE_HEADER *''), Arg In ''CapsuleCount'' UINTN,
    OptArg In ''ScatterGatherList'' EFI_PHYSICAL_ADDRESS]"

definition EFI_QUERY_CAPSULE_CAPABILITIES :: csig where
  "EFI_QUERY_CAPSULE_CAPABILITIES = Fn (Some EFI_STATUS) [
    Arg In ''CapsuleHeaderArray'' (CPtr ''EFI_CAPSULE_HEADER *''), Arg In ''CapsuleCount'' UINTN,
    Arg Out ''MaximumCapsuleSize'' (CPtr ''UINT64''),
    Arg Out ''ResetType'' (CPtr ''EFI_RESET_TYPE'')]"

definition EFI_QUERY_VARIABLE_INFO :: csig where
  "EFI_QUERY_VARIABLE_INFO = Fn (Some EFI_STATUS) [Arg In ''Attributes'' UINT32,
    Arg Out ''MaximumVariableStorageSize'' (CPtr ''UINT64''),
    Arg Out ''RemainingVariableStorageSize'' (CPtr ''UINT64''),
    Arg Out ''MaximumVariableSize'' (CPtr ''UINT64'')]"

definition EFI_INTERFACE_TYPE :: cty where "EFI_INTERFACE_TYPE = C32"
definition EFI_NATIVE_INTERFACE :: u32 where "EFI_NATIVE_INTERFACE = 0"
definition EFI_PCODE_INTERFACE :: u32 where "EFI_PCODE_INTERFACE = 1"

definition EFI_INSTALL_PROTOCOL_INTERFACE :: csig where
  "EFI_INSTALL_PROTOCOL_INTERFACE = Fn (Some EFI_STATUS) [
    Arg InOut ''Handle'' (CPtr ''EFI_HANDLE''), Arg In ''Protocol'' (CPtr ''EFI_GUID''),
    Arg In ''InterfaceType'' EFI_INTERFACE_TYPE, Arg In ''Interface'' (CPtr ''VOID'')]"

definition EFI_REINSTALL_PROTOCOL_INTERFACE :: csig where
  "EFI_REINSTALL_PROTOCOL_INTERFACE = Fn (Some EFI_STATUS) [Arg In ''Handle'' EFI_HANDLE,
    Arg In ''Protocol'' (CPtr ''EFI_GUID''), Arg In ''OldInterface'' (CPtr ''VOID''),
    Arg In ''NewInterface'' (CPtr ''VOID'')]"

definition EFI_UNINSTALL_PROTOCOL_INTERFACE :: csig where
  "EFI_UNINSTALL_PROTOCOL_INTERFACE = Fn (Some EFI_STATUS) [Arg In ''Handle'' EFI_HANDLE,
    Arg In ''Protocol'' (CPtr ''EFI_GUID''), Arg In ''Interface'' (CPtr ''VOID'')]"

definition EFI_HANDLE_PROTOCOL :: csig where
  "EFI_HANDLE_PROTOCOL = Fn (Some EFI_STATUS) [Arg In ''Handle'' EFI_HANDLE,
    Arg In ''Protocol'' (CPtr ''EFI_GUID''), Arg Out ''Interface'' (CPtr ''VOID *'')]"

definition EFI_REGISTER_PROTOCOL_NOTIFY :: csig where
  "EFI_REGISTER_PROTOCOL_NOTIFY = Fn (Some EFI_STATUS) [Arg In ''Protocol'' (CPtr ''EFI_GUID''),
    Arg In ''Event'' EFI_EVENT, Arg Out ''Registration'' (CPtr ''VOID *'')]"

definition EFI_LOCATE_HANDLE :: csig where
  "EFI_LOCATE_HANDLE = Fn (Some EFI_STATUS) [Arg In ''SearchType'' EFI_LOCATE_SEARCH_TYPE,
    OptArg In ''Protocol'' (CPtr ''EFI_GUID''), OptArg In ''SearchKey'' (CPtr ''VOID''),
    Arg InOut ''BufferSize'' (CPtr ''UINTN''), Arg Out ''Buffer'' (CPtr ''EFI_HANDLE'')]"

definition EFI_LOCATE_DEVICE_PATH :: csig where
  "EFI_LOCATE_DEVICE_PATH = Fn (Some EFI_STATUS) [Arg In ''Protocol'' (CPtr ''EFI_GUID''),
    Arg InOut ''DevicePath'' (CPtr ''EFI_DEVICE_PATH *''),
    Arg Out ''Device'' (CPtr ''EFI_HANDLE'')]"

definition EFI_INSTALL_CONFIGURATION_TABLE :: csig where
  "EFI_INSTALL_CONFIGURATION_TABLE = Fn (Some EFI_STATUS) [Arg In ''Guid'' (CPtr ''EFI_GUID''),
    Arg In ''Table'' (CPtr ''VOID'')]"

definition EFI_RESERVED_SERVICE :: csig where "EFI_RESERVED_SERVICE = Fn (Some EFI_STATUS) []"

definition EFI_TABLE_HEADER :: cty where
  "EFI_TABLE_HEADER = CStruct [(''Signature'', UINT64), (''Revision'', UINT32),
    (''HeaderSize'', UINT32), (''CRC32'', UINT32), (''Reserved'', UINT32)]"

definition EFI_RUNTIME_SERVICES_SIGNATURE :: u64 where
  "EFI_RUNTIME_SERVICES_SIGNATURE = 0x56524553544e5552"

definition EFI_1_02_RUNTIME_SERVICES_REVISION :: u64 where
  "EFI_1_02_RUNTIME_SERVICES_REVISION = EFI_SPECIFICATION_REVISION_MAJORMINOR 1 2"

definition EFI_1_10_RUNTIME_SERVICES_REVISION :: u64 where
  "EFI_1_10_RUNTIME_SERVICES_REVISION = EFI_SPECIFICATION_REVISION_MAJORMINOR 1 10"

definition EFI_2_00_RUNTIME_SERVICES_REVISION :: u64 where
  "EFI_2_00_RUNTIME_SERVICES_REVISION = EFI_SPECIFICATION_REVISION_MAJORMINOR 2 0"

definition EFI_2_10_RUNTIME_SERVICES_REVISION :: u64 where
  "EFI_2_10_RUNTIME_SERVICES_REVISION = EFI_SPECIFICATION_REVISION_MAJORMINOR 2 10"

definition EFI_2_20_RUNTIME_SERVICES_REVISION :: u64 where
  "EFI_2_20_RUNTIME_SERVICES_REVISION = EFI_SPECIFICATION_REVISION_MAJORMINOR 2 20"

definition EFI_2_30_RUNTIME_SERVICES_REVISION :: u64 where
  "EFI_2_30_RUNTIME_SERVICES_REVISION = EFI_SPECIFICATION_REVISION_MAJORMINOR 2 30"

definition EFI_2_31_RUNTIME_SERVICES_REVISION :: u64 where
  "EFI_2_31_RUNTIME_SERVICES_REVISION = EFI_SPECIFICATION_REVISION_MAJORMINOR 2 31"

definition EFI_2_40_RUNTIME_SERVICES_REVISION :: u64 where
  "EFI_2_40_RUNTIME_SERVICES_REVISION = EFI_SPECIFICATION_REVISION_MAJORMINOR 2 40"

definition EFI_2_50_RUNTIME_SERVICES_REVISION :: u64 where
  "EFI_2_50_RUNTIME_SERVICES_REVISION = EFI_SPECIFICATION_REVISION_MAJORMINOR 2 50"

definition EFI_2_60_RUNTIME_SERVICES_REVISION :: u64 where
  "EFI_2_60_RUNTIME_SERVICES_REVISION = EFI_SPECIFICATION_REVISION_MAJORMINOR 2 60"

definition EFI_2_70_RUNTIME_SERVICES_REVISION :: u64 where
  "EFI_2_70_RUNTIME_SERVICES_REVISION = EFI_SPECIFICATION_REVISION_MAJORMINOR 2 70"

definition EFI_2_80_RUNTIME_SERVICES_REVISION :: u64 where
  "EFI_2_80_RUNTIME_SERVICES_REVISION = EFI_SPECIFICATION_REVISION_MAJORMINOR 2 80"

definition EFI_2_90_RUNTIME_SERVICES_REVISION :: u64 where
  "EFI_2_90_RUNTIME_SERVICES_REVISION = EFI_SPECIFICATION_REVISION_MAJORMINOR 2 90"

definition EFI_2_100_RUNTIME_SERVICES_REVISION :: u64 where
  "EFI_2_100_RUNTIME_SERVICES_REVISION = EFI_SPECIFICATION_REVISION_MAJORMINOR 2 100"

definition EFI_RUNTIME_SERVICES_REVISION :: u64 where
  "EFI_RUNTIME_SERVICES_REVISION = EFI_SPECIFICATION_VERSION"

definition EFI_RUNTIME_SERVICES :: cty where
  "EFI_RUNTIME_SERVICES = CStruct [(''Hdr'', EFI_TABLE_HEADER),
    (''GetTime'', CPtr ''EFI_GET_TIME''), (''SetTime'', CPtr ''EFI_SET_TIME''),
    (''GetWakeupTime'', CPtr ''EFI_GET_WAKEUP_TIME''),
    (''SetWakeupTime'', CPtr ''EFI_SET_WAKEUP_TIME''),
    (''SetVirtualAddressMap'', CPtr ''EFI_SET_VIRTUAL_ADDRESS_MAP''),
    (''ConvertPointer'', CPtr ''EFI_CONVERT_POINTER''),
    (''GetVariable'', CPtr ''EFI_GET_VARIABLE''),
    (''GetNextVariableName'', CPtr ''EFI_GET_NEXT_VARIABLE_NAME''),
    (''SetVariable'', CPtr ''EFI_SET_VARIABLE''),
    (''GetNextHighMonotonicCount'', CPtr ''EFI_GET_NEXT_HIGH_MONO_COUNT''),
    (''ResetSystem'', CPtr ''EFI_RESET_SYSTEM''),
    (''UpdateCapsule'', CPtr ''EFI_UPDATE_CAPSULE''),
    (''QueryCapsuleCapabilities'', CPtr ''EFI_QUERY_CAPSULE_CAPABILITIES''),
    (''QueryVariableInfo'', CPtr ''EFI_QUERY_VARIABLE_INFO'')]"

definition EFI_BOOT_SERVICES_SIGNATURE :: u64 where
  "EFI_BOOT_SERVICES_SIGNATURE = 0x56524553544f4f42"

definition EFI_1_02_BOOT_SERVICES_REVISION :: u64 where
  "EFI_1_02_BOOT_SERVICES_REVISION = EFI_SPECIFICATION_REVISION_MAJORMINOR 1 2"

definition EFI_1_10_BOOT_SERVICES_REVISION :: u64 where
  "EFI_1_10_BOOT_SERVICES_REVISION = EFI_SPECIFICATION_REVISION_MAJORMINOR 1 10"

definition EFI_2_00_BOOT_SERVICES_REVISION :: u64 where
  "EFI_2_00_BOOT_SERVICES_REVISION = EFI_SPECIFICATION_REVISION_MAJORMINOR 2 0"

definition EFI_2_10_BOOT_SERVICES_REVISION :: u64 where
  "EFI_2_10_BOOT_SERVICES_REVISION = EFI_SPECIFICATION_REVISION_MAJORMINOR 2 10"

definition EFI_2_20_BOOT_SERVICES_REVISION :: u64 where
  "EFI_2_20_BOOT_SERVICES_REVISION = EFI_SPECIFICATION_REVISION_MAJORMINOR 2 20"

definition EFI_2_30_BOOT_SERVICES_REVISION :: u64 where
  "EFI_2_30_BOOT_SERVICES_REVISION = EFI_SPECIFICATION_REVISION_MAJORMINOR 2 30"

definition EFI_2_31_BOOT_SERVICES_REVISION :: u64 where
  "EFI_2_31_BOOT_SERVICES_REVISION = EFI_SPECIFICATION_REVISION_MAJORMINOR 2 31"

definition EFI_2_40_BOOT_SERVICES_REVISION :: u64 where
  "EFI_2_40_BOOT_SERVICES_REVISION = EFI_SPECIFICATION_REVISION_MAJORMINOR 2 40"

definition EFI_2_50_BOOT_SERVICES_REVISION :: u64 where
  "EFI_2_50_BOOT_SERVICES_REVISION = EFI_SPECIFICATION_REVISION_MAJORMINOR 2 50"

definition EFI_2_60_BOOT_SERVICES_REVISION :: u64 where
  "EFI_2_60_BOOT_SERVICES_REVISION = EFI_SPECIFICATION_REVISION_MAJORMINOR 2 60"

definition EFI_2_70_BOOT_SERVICES_REVISION :: u64 where
  "EFI_2_70_BOOT_SERVICES_REVISION = EFI_SPECIFICATION_REVISION_MAJORMINOR 2 70"

definition EFI_2_80_BOOT_SERVICES_REVISION :: u64 where
  "EFI_2_80_BOOT_SERVICES_REVISION = EFI_SPECIFICATION_REVISION_MAJORMINOR 2 80"

definition EFI_2_90_BOOT_SERVICES_REVISION :: u64 where
  "EFI_2_90_BOOT_SERVICES_REVISION = EFI_SPECIFICATION_REVISION_MAJORMINOR 2 90"

definition EFI_2_100_BOOT_SERVICES_REVISION :: u64 where
  "EFI_2_100_BOOT_SERVICES_REVISION = EFI_SPECIFICATION_REVISION_MAJORMINOR 2 100"

definition EFI_BOOT_SERVICES_REVISION :: u64 where
  "EFI_BOOT_SERVICES_REVISION = EFI_SPECIFICATION_VERSION"

definition EFI_BOOT_SERVICES :: cty where
  "EFI_BOOT_SERVICES = CStruct [(''Hdr'', EFI_TABLE_HEADER),
    (''RaiseTPL'', CPtr ''EFI_RAISE_TPL''), (''RestoreTPL'', CPtr ''EFI_RESTORE_TPL''),
    (''AllocatePages'', CPtr ''EFI_ALLOCATE_PAGES''), (''FreePages'', CPtr ''EFI_FREE_PAGES''),
    (''GetMemoryMap'', CPtr ''EFI_GET_MEMORY_MAP''),
    (''AllocatePool'', CPtr ''EFI_ALLOCATE_POOL''), (''FreePool'', CPtr ''EFI_FREE_POOL''),
    (''CreateEvent'', CPtr ''EFI_CREATE_EVENT''), (''SetTimer'', CPtr ''EFI_SET_TIMER''),
    (''WaitForEvent'', CPtr ''EFI_WAIT_FOR_EVENT''),
    (''SignalEvent'', CPtr ''EFI_SIGNAL_EVENT''), (''CloseEvent'', CPtr ''EFI_CLOSE_EVENT''),
    (''CheckEvent'', CPtr ''EFI_CHECK_EVENT''),
    (''InstallProtocolInterface'', CPtr ''EFI_INSTALL_PROTOCOL_INTERFACE''),
    (''ReinstallProtocolInterface'', CPtr ''EFI_REINSTALL_PROTOCOL_INTERFACE''),
    (''UninstallProtocolInterface'', CPtr ''EFI_UNINSTALL_PROTOCOL_INTERFACE''),
    (''HandleProtocol'', CPtr ''EFI_HANDLE_PROTOCOL''),
    (''PCHandleProtocol'', CPtr ''EFI_HANDLE_PROTOCOL''),
    (''RegisterProtocolNotify'', CPtr ''EFI_REGISTER_PROTOCOL_NOTIFY''),
    (''LocateHandle'', CPtr ''EFI_LOCATE_HANDLE''),
    (''LocateDevicePath'', CPtr ''EFI_LOCATE_DEVICE_PATH''),
    (''InstallConfigurationTable'', CPtr ''EFI_INSTALL_CONFIGURATION_TABLE''),
    (''LoadImage'', CPtr ''EFI_IMAGE_LOAD''), (''StartImage'', CPtr ''EFI_IMAGE_START''),
    (''Exit'', CPtr ''EFI_EXIT''), (''UnloadImage'', CPtr ''EFI_IMAGE_UNLOAD''),
    (''ExitBootServices'', CPtr ''EFI_EXIT_BOOT_SERVICES''),
    (''GetNextMonotonicCount'', CPtr ''EFI_GET_NEXT_MONOTONIC_COUNT''),
    (''Stall'', CPtr ''EFI_STALL''), (''SetWatchdogTimer'', CPtr ''EFI_SET_WATCHDOG_TIMER''),
    (''ConnectController'', CPtr ''EFI_CONNECT_CONTROLLER''),
    (''DisconnectController'', CPtr ''EFI_DISCONNECT_CONTROLLER''),
    (''OpenProtocol'', CPtr ''EFI_OPEN_PROTOCOL''),
    (''CloseProtocol'', CPtr ''EFI_CLOSE_PROTOCOL''),
    (''OpenProtocolInformation'', CPtr ''EFI_OPEN_PROTOCOL_INFORMATION''),
    (''ProtocolsPerHandle'', CPtr ''EFI_PROTOCOLS_PER_HANDLE''),
    (''LocateHandleBuffer'', CPtr ''EFI_LOCATE_HANDLE_BUFFER''),
    (''LocateProtocol'', CPtr ''EFI_LOCATE_PROTOCOL''),
    (''InstallMultipleProtocolInterfaces'', CPtr ''EFI_INSTALL_MULTIPLE_PROTOCOL_INTERFACES''),
    (''UninstallMultipleProtocolInterfaces'', CPtr ''EFI_UNINSTALL_MULTIPLE_PROTOCOL_INTERFACES''),
    (''CalculateCrc32'', CPtr ''EFI_CALCULATE_CRC32''), (''CopyMem'', CPtr ''EFI_COPY_MEM''),
    (''SetMem'', CPtr ''EFI_SET_MEM''), (''CreateEventEx'', CPtr ''EFI_CREATE_EVENT_EX'')]"

definition MPS_TABLE_GUID :: guid where
  "MPS_TABLE_GUID = GUID 0xEB9D2D2F 0x2D88 0x11D3 [0x9A, 0x16, 0x0, 0x90, 0x27, 0x3F, 0xC1, 0x4D]"

definition ACPI_TABLE_GUID :: guid where
  "ACPI_TABLE_GUID = GUID 0xEB9D2D30 0x2D88 0x11D3 [0x9A, 0x16, 0x0, 0x90, 0x27, 0x3F, 0xC1, 0x4D]"

definition ACPI_20_TABLE_GUID :: guid where
  "ACPI_20_TABLE_GUID = GUID 0x8868E871 0xE4F1 0x11D3 [0xBC, 0x22, 0x0, 0x80, 0xC7, 0x3C, 0x88, 0x81]"

definition SMBIOS_TABLE_GUID :: guid where
  "SMBIOS_TABLE_GUID = GUID 0xEB9D2D31 0x2D88 0x11D3 [0x9A, 0x16, 0x0, 0x90, 0x27, 0x3F, 0xC1, 0x4D]"

definition SMBIOS3_TABLE_GUID :: guid where
  "SMBIOS3_TABLE_GUID = GUID 0xF2FD1544 0x9794 0x4A2C [0x99, 0x2E, 0xE5, 0xBB, 0xCF, 0x20, 0xE3, 0x94]"

definition SAL_SYSTEM_TABLE_GUID :: guid where
  "SAL_SYSTEM_TABLE_GUID = GUID 0xEB9D2D32 0x2D88 0x11D3 [0x9A, 0x16, 0x0, 0x90, 0x27, 0x3F, 0xC1, 0x4D]"

definition EFI_DTB_TABLE_GUID :: guid where
  "EFI_DTB_TABLE_GUID = GUID 0xB1B621D5 0xF19C 0x41A5 [0x83, 0x0B, 0xD9, 0x15, 0x2C, 0x69, 0xAA, 0xE0]"

definition EFI_CONFIGURATION_TABLE :: cty where
  "EFI_CONFIGURATION_TABLE = CStruct [(''VendorGuid'', EFI_GUID), (''VendorTable'', CPtr ''VOID'')]"

definition EFI_SYSTEM_TABLE_SIGNATURE :: u64 where
  "EFI_SYSTEM_TABLE_SIGNATURE = 0x5453595320494249"

definition EFI_1_02_SYSTEM_TABLE_REVISION :: u64 where
  "EFI_1_02_SYSTEM_TABLE_REVISION = EFI_SPECIFICATION_REVISION_MAJORMINOR 1 2"

definition EFI_1_10_SYSTEM_TABLE_REVISION :: u64 where
  "EFI_1_10_SYSTEM_TABLE_REVISION = EFI_SPECIFICATION_REVISION_MAJORMINOR 1 10"

definition EFI_2_00_SYSTEM_TABLE_REVISION :: u64 where
  "EFI_2_00_SYSTEM_TABLE_REVISION = EFI_SPECIFICATION_REVISION_MAJORMINOR 2 0"

definition EFI_2_10_SYSTEM_TABLE_REVISION :: u64 where
  "EFI_2_10_SYSTEM_TABLE_REVISION = EFI_SPECIFICATION_REVISION_MAJORMINOR 2 10"

definition EFI_2_20_SYSTEM_TABLE_REVISION :: u64 where
  "EFI_2_20_SYSTEM_TABLE_REVISION = EFI_SPECIFICATION_REVISION_MAJORMINOR 2 20"

definition EFI_2_30_SYSTEM_TABLE_REVISION :: u64 where
  "EFI_2_30_SYSTEM_TABLE_REVISION = EFI_SPECIFICATION_REVISION_MAJORMINOR 2 30"

definition EFI_2_31_SYSTEM_TABLE_REVISION :: u64 where
  "EFI_2_31_SYSTEM_TABLE_REVISION = EFI_SPECIFICATION_REVISION_MAJORMINOR 2 31"

definition EFI_2_40_SYSTEM_TABLE_REVISION :: u64 where
  "EFI_2_40_SYSTEM_TABLE_REVISION = EFI_SPECIFICATION_REVISION_MAJORMINOR 2 40"

definition EFI_2_50_SYSTEM_TABLE_REVISION :: u64 where
  "EFI_2_50_SYSTEM_TABLE_REVISION = EFI_SPECIFICATION_REVISION_MAJORMINOR 2 50"

definition EFI_2_60_SYSTEM_TABLE_REVISION :: u64 where
  "EFI_2_60_SYSTEM_TABLE_REVISION = EFI_SPECIFICATION_REVISION_MAJORMINOR 2 60"

definition EFI_2_70_SYSTEM_TABLE_REVISION :: u64 where
  "EFI_2_70_SYSTEM_TABLE_REVISION = EFI_SPECIFICATION_REVISION_MAJORMINOR 2 70"

definition EFI_2_80_SYSTEM_TABLE_REVISION :: u64 where
  "EFI_2_80_SYSTEM_TABLE_REVISION = EFI_SPECIFICATION_REVISION_MAJORMINOR 2 80"

definition EFI_2_90_SYSTEM_TABLE_REVISION :: u64 where
  "EFI_2_90_SYSTEM_TABLE_REVISION = EFI_SPECIFICATION_REVISION_MAJORMINOR 2 90"

definition EFI_2_100_SYSTEM_TABLE_REVISION :: u64 where
  "EFI_2_100_SYSTEM_TABLE_REVISION = EFI_SPECIFICATION_REVISION_MAJORMINOR 2 100"

definition EFI_SYSTEM_TABLE_REVISION :: u64 where
  "EFI_SYSTEM_TABLE_REVISION = EFI_SPECIFICATION_VERSION"

definition EFI_SYSTEM_TABLE :: cty where
  "EFI_SYSTEM_TABLE = CStruct [(''Hdr'', EFI_TABLE_HEADER),
    (''FirmwareVendor'', CPtr ''CHAR16''), (''FirmwareRevision'', UINT32),
    (''ConsoleInHandle'', EFI_HANDLE), (''ConIn'', CPtr ''SIMPLE_INPUT_INTERFACE''),
    (''ConsoleOutHandle'', EFI_HANDLE), (''ConOut'', CPtr ''SIMPLE_TEXT_OUTPUT_INTERFACE''),
    (''StandardErrorHandle'', EFI_HANDLE), (''StdErr'', CPtr ''SIMPLE_TEXT_OUTPUT_INTERFACE''),
    (''RuntimeServices'', CPtr ''EFI_RUNTIME_SERVICES''),
    (''BootServices'', CPtr ''EFI_BOOT_SERVICES''), (''NumberOfTableEntries'', UINTN),
    (''ConfigurationTable'', CPtr ''EFI_CONFIGURATION_TABLE'')]"

section \<open>efifs.h\<close>

definition EFI_PARTITION_SIGNATURE :: u64 where "EFI_PARTITION_SIGNATURE = 0x5053595320494249"
definition EFI_PARTITION_REVISION :: u64 where "EFI_PARTITION_REVISION = 0x00010001"
definition MIN_EFI_PARTITION_BLOCK_SIZE :: u64 where "MIN_EFI_PARTITION_BLOCK_SIZE = 512"
definition EFI_PARTITION_LBA :: u64 where "EFI_PARTITION_LBA = 1"

definition EFI_PARTITION_HEADER :: cty where
  "EFI_PARTITION_HEADER = CStruct [(''Hdr'', EFI_TABLE_HEADER),
    (''DirectoryAllocationNumber'', UINT32), (''BlockSize'', UINT32),
    (''FirstUsableLba'', EFI_LBA), (''LastUsableLba'', EFI_LBA), (''UnusableSpace'', EFI_LBA),
    (''FreeSpace'', EFI_LBA), (''RootFile'', EFI_LBA), (''SecutiryFile'', EFI_LBA)]"

definition EFI_FILE_HEADER_SIGNATURE :: u64 where
  "EFI_FILE_HEADER_SIGNATURE = 0x454c494620494249"

definition EFI_FILE_HEADER_REVISION :: u64 where "EFI_FILE_HEADER_REVISION = 0x00010000"
definition EFI_FILE_STRING_SIZE :: u64 where "EFI_FILE_STRING_SIZE = 260"

definition EFI_FILE_HEADER :: cty where
  "EFI_FILE_HEADER = CStruct [(''Hdr'', EFI_TABLE_HEADER), (''Class'', UINT32),
    (''LBALOffset'', UINT32), (''Parent'', EFI_LBA), (''FileSize'', UINT64),
    (''FileAttributes'', UINT64), (''FileCreateTime'', EFI_TIME),
    (''FileModificationTime'', EFI_TIME), (''VendorGuid'', EFI_GUID),
    (''FileString'', CArr CHAR16 (unat EFI_FILE_STRING_SIZE))]"

definition EFI_FILE_CLASS_FREE_SPACE :: u64 where "EFI_FILE_CLASS_FREE_SPACE = 1"
definition EFI_FILE_CLASS_EMPTY :: u64 where "EFI_FILE_CLASS_EMPTY = 2"
definition EFI_FILE_CLASS_NORMAL :: u64 where "EFI_FILE_CLASS_NORMAL = 3"
definition EFI_LBAL_SIGNATURE :: u64 where "EFI_LBAL_SIGNATURE = 0x4c41424c20494249"
definition EFI_LBAL_REVISION :: u64 where "EFI_LBAL_REVISION = 0x00010000"

definition EFI_LBAL :: cty where
  "EFI_LBAL = CStruct [(''Hdr'', EFI_TABLE_HEADER), (''Class'', UINT32), (''Parent'', EFI_LBA),
    (''Next'', EFI_LBA), (''ArraySize'', UINT32), (''ArrayCount'', UINT32)]"

definition EFI_RL :: cty where "EFI_RL = CStruct [(''Start'', EFI_LBA), (''Length'', UINT64)]"


end
