(* ===== verification/Efi_Tables.thy ===== *)
theory Efi_Tables
  imports Efi_Api
begin

text \<open>
  What the boot loader relies on in the header declarations: where the services and the data
  it uses lie in the firmware's tables and structures, and how status codes are told apart.
\<close>

section \<open>Fields the boot loader reads\<close>

lemma loaded_image_offsets:
  "offset EFI_LOADED_IMAGE_PROTOCOL ''DeviceHandle'' = Some 24"
  by code_simp

lemma file_info_offsets:
  "offset EFI_FILE_INFO ''FileSize'' = Some 8"
  by code_simp

lemma graphics_offsets:
  "offset EFI_GRAPHICS_OUTPUT_PROTOCOL ''Mode'' = Some 24
   \<and> offset EFI_GRAPHICS_OUTPUT_PROTOCOL_MODE ''MaxMode'' = Some 0
   \<and> offset EFI_GRAPHICS_OUTPUT_PROTOCOL_MODE ''Mode'' = Some 4
   \<and> offset EFI_GRAPHICS_OUTPUT_PROTOCOL_MODE ''Info'' = Some 8
   \<and> offset EFI_GRAPHICS_OUTPUT_MODE_INFORMATION ''HorizontalResolution'' = Some 4
   \<and> offset EFI_GRAPHICS_OUTPUT_MODE_INFORMATION ''VerticalResolution'' = Some 8
   \<and> offset EFI_GRAPHICS_OUTPUT_MODE_INFORMATION ''PixelFormat'' = Some 12
   \<and> offset EFI_GRAPHICS_OUTPUT_MODE_INFORMATION ''PixelsPerScanLine'' = Some 32"
  by code_simp

lemma system_table_offsets:
  "offset EFI_SYSTEM_TABLE ''ConIn'' = Some 48
   \<and> offset EFI_SYSTEM_TABLE ''ConOut'' = Some 64
   \<and> offset EFI_SYSTEM_TABLE ''BootServices'' = Some 96
   \<and> offset SIMPLE_INPUT_INTERFACE ''WaitForKey'' = Some 16"
  by code_simp

lemmas efi_offsets = loaded_image_offsets file_info_offsets graphics_offsets system_table_offsets

section \<open>Properties\<close>

definition error_codes :: "u64 list" where
  "error_codes = [EFI_LOAD_ERROR, EFI_INVALID_PARAMETER, EFI_UNSUPPORTED, EFI_BAD_BUFFER_SIZE,
     EFI_BUFFER_TOO_SMALL, EFI_NOT_READY, EFI_DEVICE_ERROR, EFI_WRITE_PROTECTED,
     EFI_OUT_OF_RESOURCES, EFI_VOLUME_CORRUPTED, EFI_VOLUME_FULL, EFI_NO_MEDIA, EFI_MEDIA_CHANGED,
     EFI_NOT_FOUND, EFI_ACCESS_DENIED, EFI_NO_RESPONSE, EFI_NO_MAPPING, EFI_TIMEOUT,
     EFI_NOT_STARTED, EFI_ALREADY_STARTED, EFI_ABORTED, EFI_ICMP_ERROR, EFI_TFTP_ERROR,
     EFI_PROTOCOL_ERROR, EFI_INCOMPATIBLE_VERSION, EFI_SECURITY_VIOLATION, EFI_CRC_ERROR,
     EFI_END_OF_MEDIA, EFI_END_OF_FILE, EFI_INVALID_LANGUAGE, EFI_COMPROMISED_DATA,
     EFI_IP_ADDRESS_CONFLICT, EFI_HTTP_ERROR]"

definition warning_codes :: "u64 list" where
  "warning_codes = [EFI_WARN_UNKNOWN_GLYPH, EFI_WARN_DELETE_FAILURE, EFI_WARN_WRITE_FAILURE,
     EFI_WARN_BUFFER_TOO_SMALL, EFI_WARN_STALE_DATA, EFI_WARN_FILE_SYSTEM, EFI_WARN_RESET_REQUIRED]"

lemmas status_defs = EFI_LOAD_ERROR_def EFI_INVALID_PARAMETER_def EFI_UNSUPPORTED_def
  EFI_BAD_BUFFER_SIZE_def EFI_BUFFER_TOO_SMALL_def EFI_NOT_READY_def EFI_DEVICE_ERROR_def
  EFI_WRITE_PROTECTED_def EFI_OUT_OF_RESOURCES_def EFI_VOLUME_CORRUPTED_def EFI_VOLUME_FULL_def
  EFI_NO_MEDIA_def EFI_MEDIA_CHANGED_def EFI_NOT_FOUND_def EFI_ACCESS_DENIED_def
  EFI_NO_RESPONSE_def EFI_NO_MAPPING_def EFI_TIMEOUT_def EFI_NOT_STARTED_def
  EFI_ALREADY_STARTED_def EFI_ABORTED_def EFI_ICMP_ERROR_def EFI_TFTP_ERROR_def
  EFI_PROTOCOL_ERROR_def EFI_INCOMPATIBLE_VERSION_def EFI_SECURITY_VIOLATION_def
  EFI_CRC_ERROR_def EFI_END_OF_MEDIA_def EFI_END_OF_FILE_def EFI_INVALID_LANGUAGE_def
  EFI_COMPROMISED_DATA_def EFI_IP_ADDRESS_CONFLICT_def EFI_HTTP_ERROR_def
  EFI_WARN_UNKNOWN_GLYPH_def EFI_WARN_DELETE_FAILURE_def EFI_WARN_WRITE_FAILURE_def
  EFI_WARN_BUFFER_TOO_SMALL_def EFI_WARN_STALE_DATA_def EFI_WARN_FILE_SYSTEM_def
  EFI_WARN_RESET_REQUIRED_def EFI_SUCCESS_def EFIWARN_def

lemma EFI_ERROR_EFIERR [simp]: "EFI_ERROR (EFIERR a)"
proof -
  have "bit (0x8000000000000000 :: u64) 63" by simp
  then show ?thesis by (simp only: EFI_ERROR_bit EFIERR_def bit_or_iff) simp
qed

text \<open>
  The macro \<open>EFI_ERROR\<close> holds for every error code of the header and for no warning and
  not for success; the error codes are pairwise different, so comparing with one of them, as
  the boot loader does, identifies it.
\<close>

theorem status_codes_separate:
  "list_all EFI_ERROR error_codes \<and> \<not> list_ex EFI_ERROR (EFI_SUCCESS # warning_codes)
   \<and> distinct error_codes"
proof (intro conjI)
  show "list_all EFI_ERROR error_codes"
    unfolding error_codes_def status_defs by simp
  show "\<not> list_ex EFI_ERROR (EFI_SUCCESS # warning_codes)"
    by (simp add: warning_codes_def status_defs EFI_ERROR_def)
  show "distinct error_codes"
    by (simp add: error_codes_def status_defs EFIERR_def)
qed

text \<open>
  Laid out by the x86_64 rules, the tables of the headers place the following services and data
  at the offsets of the UEFI specification, and have the sizes it gives them.
\<close>

lemma firmware_tables_layout:
  "map (offset EFI_BOOT_SERVICES) [''AllocatePages'', ''FreePages'', ''GetMemoryMap'',
      ''AllocatePool'', ''FreePool'', ''WaitForEvent'', ''HandleProtocol'', ''LocateProtocol'']
     = map Some [40, 48, 56, 64, 72, 96, 152, 320]
   \<and> map (offset EFI_SYSTEM_TABLE) [''ConIn'', ''ConOut'', ''BootServices''] = map Some [48, 64, 96]
   \<and> map (offset EFI_FILE_PROTOCOL) [''Open'', ''Close'', ''Read'', ''GetInfo''] = map Some [8, 16, 32, 64]
   \<and> csize EFI_TABLE_HEADER = 24 \<and> csize EFI_BOOT_SERVICES = 376
   \<and> csize EFI_RUNTIME_SERVICES = 136 \<and> csize EFI_SYSTEM_TABLE = 120
   \<and> csize EFI_MEMORY_DESCRIPTOR = 40 \<and> csize EFI_GUID = 16 \<and> csize EFI_TIME = 16"
proof (intro conjI)
  show "map (offset EFI_BOOT_SERVICES) [''AllocatePages'', ''FreePages'', ''GetMemoryMap'',
      ''AllocatePool'', ''FreePool'', ''WaitForEvent'', ''HandleProtocol'', ''LocateProtocol'']
     = map Some [40, 48, 56, 64, 72, 96, 152, 320]"
    by code_simp
qed code_simp+

end
