(* ===== verification/Boot_Params.thy ===== *)
theory Boot_Params
  imports CMem Efi_Tables
begin

text \<open>
  \<open>bootloader/include/boot_params.h\<close>: what the boot loader hands to the kernel, the memory
  map and the framebuffer, with the invalid values it uses to report failure.
\<close>

section \<open>Definitions\<close>

definition boot_PAGE_SIZE :: u32 where "boot_PAGE_SIZE = 4096"

definition MemoryMapEntry_t :: cty where
  "MemoryMapEntry_t = CStruct [(''type'', C32), (''physical_start'', C64), (''virtual_start'', C64),
     (''page_count'', C64), (''flags'', C64)]"

record MemoryMap_t =
  mem_map_size :: u64
  entries :: u64
  mem_map_key :: u64
  entry_size :: u64
  entry_version :: u32

definition INVALID_MEMORY_MAP :: MemoryMap_t where
  "INVALID_MEMORY_MAP = \<lparr> mem_map_size = 0, entries = 0, mem_map_key = 0, entry_size = 0,
     entry_version = 0 \<rparr>"

record FramebufferInfo_t =
  Width :: u32
  Height :: u32
  BytesPerRow :: u32
  isRgb :: bool

definition INVALID_FRAMEBUFFER_INFO :: FramebufferInfo_t where
  "INVALID_FRAMEBUFFER_INFO = \<lparr> Width = 0, Height = 0, BytesPerRow = 0, isRgb = False \<rparr>"

section \<open>Properties\<close>

text \<open>
  A memory map entry of the boot parameters is an \<open>EFI_MEMORY_DESCRIPTOR\<close>: the two
  structures have the same size, and their five data fields have the same offsets and sizes.
\<close>

theorem memory_map_entry_compatible:
  "csize MemoryMapEntry_t = csize EFI_MEMORY_DESCRIPTOR
   \<and> map (\<lambda>f. map_option (map_prod id csize) (field MemoryMapEntry_t f))
       [''type'', ''physical_start'', ''virtual_start'', ''page_count'', ''flags'']
     = map (\<lambda>f. map_option (map_prod id csize) (field EFI_MEMORY_DESCRIPTOR f))
       [''Type'', ''PhysicalStart'', ''VirtualStart'', ''NumberOfPages'', ''Attribute'']"
  by (intro conjI; code_simp)

end
