(* ===== verification/Firmware.thy ===== *)
theory Firmware
  imports CMem Efi_Tables
begin

text \<open>
  The UEFI firmware as the boot loader sees it: the services it calls, as functions on the
  machine. They are a parameter of the model; their signatures are those of the header
  theories. An out parameter is passed with the value the variable has before the call
  (the firmware may leave it alone) and returned with the value it has afterwards.
\<close>

type_synonym EFI_STATUS_value = u64

record 'e firmware =
  \<comment> \<open>boot services: memory\<close>
  AllocatePages :: "u32 \<Rightarrow> u32 \<Rightarrow> u64 \<Rightarrow> u64 \<Rightarrow> 'e machine \<Rightarrow> u64 \<times> u64 \<times> 'e machine"
  FreePages :: "u64 \<Rightarrow> u64 \<Rightarrow> 'e machine \<Rightarrow> u64 \<times> 'e machine"
  GetMemoryMap :: "u64 \<Rightarrow> u64 \<Rightarrow> u64 \<Rightarrow> u64 \<Rightarrow> u32 \<Rightarrow> 'e machine
    \<Rightarrow> u64 \<times> (u64 \<times> u64 \<times> u64 \<times> u32) \<times> 'e machine"
  AllocatePool :: "u32 \<Rightarrow> u64 \<Rightarrow> u64 \<Rightarrow> 'e machine \<Rightarrow> u64 \<times> u64 \<times> 'e machine"
  FreePool :: "u64 \<Rightarrow> 'e machine \<Rightarrow> u64 \<times> 'e machine"
  \<comment> \<open>boot services: events and protocols\<close>
  WaitForEvent :: "u64 \<Rightarrow> u64 \<Rightarrow> 'e machine \<Rightarrow> u64 \<times> 'e machine"
  HandleProtocol :: "u64 \<Rightarrow> guid \<Rightarrow> u64 \<Rightarrow> 'e machine \<Rightarrow> u64 \<times> u64 \<times> 'e machine"
  LocateProtocol :: "guid \<Rightarrow> u64 \<Rightarrow> u64 \<Rightarrow> 'e machine \<Rightarrow> u64 \<times> u64 \<times> 'e machine"
  \<comment> \<open>file system protocols\<close>
  OpenVolume :: "u64 \<Rightarrow> u64 \<Rightarrow> 'e machine \<Rightarrow> u64 \<times> u64 \<times> 'e machine"
  FileOpen :: "u64 \<Rightarrow> u64 \<Rightarrow> string \<Rightarrow> u64 \<Rightarrow> u64 \<Rightarrow> 'e machine \<Rightarrow> u64 \<times> u64 \<times> 'e machine"
  FileClose :: "u64 \<Rightarrow> 'e machine \<Rightarrow> u64 \<times> 'e machine"
  FileGetInfo :: "u64 \<Rightarrow> guid \<Rightarrow> u64 \<Rightarrow> u64 \<Rightarrow> 'e machine \<Rightarrow> u64 \<times> u64 \<times> 'e machine"
  FileRead :: "u64 \<Rightarrow> u64 \<Rightarrow> u64 \<Rightarrow> 'e machine \<Rightarrow> u64 \<times> u64 \<times> 'e machine"
  \<comment> \<open>graphics output and console\<close>
  QueryMode :: "u64 \<Rightarrow> u32 \<Rightarrow> u64 \<Rightarrow> 'e machine \<Rightarrow> u64 \<times> u64 \<times> 'e machine"
  SetMode :: "u64 \<Rightarrow> u32 \<Rightarrow> 'e machine \<Rightarrow> u64 \<times> 'e machine"
  OutputString :: "u64 \<Rightarrow> string \<Rightarrow> 'e machine \<Rightarrow> u64 \<times> 'e machine"
  ClearScreen :: "u64 \<Rightarrow> 'e machine \<Rightarrow> u64 \<times> 'e machine"
  SetCursorPosition :: "u64 \<Rightarrow> u64 \<Rightarrow> u64 \<Rightarrow> 'e machine \<Rightarrow> u64 \<times> 'e machine"

end
