(* ===== verification/Gop.thy ===== *)
theory Gop
  imports Boot_Params Firmware
begin

text \<open>
  \<open>bootloader/src/gop.cpp\<close>: the choice of a graphics mode. The firmware's structures are read
  from memory at the offsets of the header declarations. Resolutions are \<open>uint32_t\<close>; the
  deviations are differences taken modulo \<open>2 ^ 32\<close> and then read as \<open>int\<close>. Their sum is an
  \<open>int\<close> addition, whose overflow (undefined in C++) is taken modulo \<open>2 ^ 32\<close>.
\<close>

section \<open>Definitions\<close>

definition gop_mode :: "mem \<Rightarrow> u64 \<Rightarrow> u64" where
  "gop_mode m gop = ld64 m (fld EFI_GRAPHICS_OUTPUT_PROTOCOL ''Mode'' gop)"

definition gop_Info :: "mem \<Rightarrow> u64 \<Rightarrow> u64" where
  "gop_Info m gop = ld64 m (fld EFI_GRAPHICS_OUTPUT_PROTOCOL_MODE ''Info'' (gop_mode m gop))"

definition gop_Mode_index :: "mem \<Rightarrow> u64 \<Rightarrow> u32" where
  "gop_Mode_index m gop = ld32 m (fld EFI_GRAPHICS_OUTPUT_PROTOCOL_MODE ''Mode'' (gop_mode m gop))"

definition gop_MaxMode :: "mem \<Rightarrow> u64 \<Rightarrow> u32" where
  "gop_MaxMode m gop = ld32 m (fld EFI_GRAPHICS_OUTPUT_PROTOCOL_MODE ''MaxMode'' (gop_mode m gop))"

abbreviation "mode_fld \<equiv> fld EFI_GRAPHICS_OUTPUT_MODE_INFORMATION"

definition HorizontalResolution :: "mem \<Rightarrow> u64 \<Rightarrow> u32" where
  "HorizontalResolution m info = ld32 m (mode_fld ''HorizontalResolution'' info)"

definition VerticalResolution :: "mem \<Rightarrow> u64 \<Rightarrow> u32" where
  "VerticalResolution m info = ld32 m (mode_fld ''VerticalResolution'' info)"

definition PixelFormat :: "mem \<Rightarrow> u64 \<Rightarrow> u32" where
  "PixelFormat m info = ld32 m (mode_fld ''PixelFormat'' info)"

definition PixelsPerScanLine :: "mem \<Rightarrow> u64 \<Rightarrow> u32" where
  "PixelsPerScanLine m info = ld32 m (mode_fld ''PixelsPerScanLine'' info)"

definition deviation :: "mem \<Rightarrow> u32 \<Rightarrow> u32 \<Rightarrow> u64 \<Rightarrow> u32 \<times> u32" where
  "deviation m preferredWidth preferredHeight info =
     (preferredWidth - HorizontalResolution m info, preferredHeight - VerticalResolution m info)"

text \<open>\<open>__builtin_abs\<close> of the sum of the two deviations, as an unsigned number.\<close>

definition builtin_abs :: "u32 \<Rightarrow> u32" where
  "builtin_abs x = (if sint x < 0 then - x else x)"

definition deviation_total :: "u32 \<times> u32 \<Rightarrow> u32" where
  "deviation_total d = builtin_abs (fst d + snd d)"

definition supported_format :: "mem \<Rightarrow> u64 \<Rightarrow> bool" where
  "supported_format m info \<longleftrightarrow> \<not> (PixelFormat m info \<noteq> PixelBlueGreenRedReserved8BitPerColor
     \<and> PixelFormat m info \<noteq> PixelRedGreenBlueReserved8BitPerColor)"

record best_mode =
  bestModeInfo :: u64
  bestDeviation :: "u32 \<times> u32"
  bestModeIndex :: u32

text \<open>
  The loop over the modes from \<open>i\<close> on, \<open>n\<close> of them left; \<open>junk\<close> is what the uninitialised
  pointer \<open>thisModeInfo\<close> holds.
\<close>

fun mode_loop :: "'e firmware \<Rightarrow> u64 \<Rightarrow> u32 \<Rightarrow> u32 \<Rightarrow> u64 \<Rightarrow> nat \<Rightarrow> u32 \<Rightarrow> best_mode \<Rightarrow> 'e machine
    \<Rightarrow> best_mode \<times> 'e machine" where
  "mode_loop fw gop pw ph junk 0 i best s = (best, s)"
| "mode_loop fw gop pw ph junk (Suc n) i best s =
    (let (status, thisModeInfo, s) = QueryMode fw gop i junk s in
     if EFI_ERROR status then mode_loop fw gop pw ph junk n (i + 1) best s
     else if \<not> supported_format (memory s) thisModeInfo
     then mode_loop fw gop pw ph junk n (i + 1) best s
     else let thisDeviation = deviation (memory s) pw ph thisModeInfo in
       if deviation_total thisDeviation < deviation_total (bestDeviation best)
       then mode_loop fw gop pw ph junk n (i + 1) \<lparr> bestModeInfo = thisModeInfo,
         bestDeviation = thisDeviation, bestModeIndex = i \<rparr> s
       else mode_loop fw gop pw ph junk n (i + 1) best s)"

definition setAppropriateFramebuffer :: "'e firmware \<Rightarrow> u64 \<Rightarrow> u32 \<Rightarrow> u32 \<Rightarrow> u64 \<Rightarrow> 'e machine
    \<Rightarrow> bool \<times> FramebufferInfo_t \<times> 'e machine" where
  "setAppropriateFramebuffer fw gop preferredWidth preferredHeight junk s =
    (let info = gop_Info (memory s) gop;
         best = \<lparr> bestModeInfo = info,
           bestDeviation = deviation (memory s) preferredWidth preferredHeight info,
           bestModeIndex = gop_Mode_index (memory s) gop \<rparr>;
         modesCount = gop_MaxMode (memory s) gop;
         (best, s) = mode_loop fw gop preferredWidth preferredHeight junk (unat modesCount) 0 best s;
         info = bestModeInfo best;
         fbInfo = \<lparr> Width = HorizontalResolution (memory s) info,
           Height = VerticalResolution (memory s) info,
           BytesPerRow = PixelsPerScanLine (memory s) info,
           isRgb = (PixelFormat (memory s) info = PixelRedGreenBlueReserved8BitPerColor) \<rparr> in
     if info = gop_Info (memory s) gop then (True, fbInfo, s)
     else let (status, s) = SetMode fw gop (bestModeIndex best) s in (\<not> EFI_ERROR status, fbInfo, s))"

section \<open>The candidates of the loop\<close>

text \<open>
  The specification of the loop: the modes it considers, each with the deviation computed when
  it was queried, and the choice of the first mode that is closer than all before it.
\<close>

fun candidates :: "'e firmware \<Rightarrow> u64 \<Rightarrow> u32 \<Rightarrow> u32 \<Rightarrow> u64 \<Rightarrow> nat \<Rightarrow> u32 \<Rightarrow> 'e machine \<Rightarrow> best_mode list" where
  "candidates fw gop pw ph junk 0 i s = []"
| "candidates fw gop pw ph junk (Suc n) i s = (let (status, p, s) = QueryMode fw gop i junk s in
     (if EFI_ERROR status \<or> \<not> supported_format (memory s) p then []
      else [\<lparr> bestModeInfo = p, bestDeviation = deviation (memory s) pw ph p, bestModeIndex = i \<rparr>])
     @ candidates fw gop pw ph junk n (i + 1) s)"

abbreviation distance :: "best_mode \<Rightarrow> u32" where
  "distance b \<equiv> deviation_total (bestDeviation b)"

definition closer :: "best_mode \<Rightarrow> best_mode \<Rightarrow> best_mode" where
  "closer b c = (if distance c < distance b then c else b)"

lemma mode_loop_chooses:
  "fst (mode_loop fw gop pw ph junk n i best s)
     = foldl closer best (candidates fw gop pw ph junk n i s)"
  by (induction fw gop pw ph junk n i best s rule: mode_loop.induct)
    (simp_all add: closer_def Let_def split: prod.splits)

text \<open>The machine after the queries: \<open>n\<close> modes from \<open>i\<close> on are queried, whatever is chosen.\<close>

fun queried :: "'e firmware \<Rightarrow> u64 \<Rightarrow> u64 \<Rightarrow> nat \<Rightarrow> u32 \<Rightarrow> 'e machine \<Rightarrow> 'e machine" where
  "queried fw gop junk 0 i s = s"
| "queried fw gop junk (Suc n) i s = queried fw gop junk n (i + 1) (snd (snd (QueryMode fw gop i junk s)))"

lemma mode_loop_queries: "snd (mode_loop fw gop pw ph junk n i best s) = queried fw gop junk n i s"
  by (induction fw gop pw ph junk n i best s rule: mode_loop.induct)
    (simp_all add: Let_def split: prod.splits)

lemma foldl_closer:
  "foldl closer b cs \<in> set (b # cs) \<and> list_all (\<lambda>c. distance (foldl closer b cs) \<le> distance c) (b # cs)
   \<and> (foldl closer b cs = b \<or> distance (foldl closer b cs) < distance b)"
proof (induction cs arbitrary: b)
  case (Cons c cs)
  have "distance (closer b c) \<le> distance b" "distance (closer b c) \<le> distance c"
      "closer b c = b \<or> closer b c = c \<and> distance c < distance b"
    by (auto simp: closer_def)
  with Cons [of "closer b c"] show ?case by auto
qed simp

definition current_mode :: "mem \<Rightarrow> u64 \<Rightarrow> u32 \<Rightarrow> u32 \<Rightarrow> best_mode" where
  "current_mode m gop pw ph = \<lparr> bestModeInfo = gop_Info m gop,
     bestDeviation = deviation m pw ph (gop_Info m gop), bestModeIndex = gop_Mode_index m gop \<rparr>"

lemma builtin_abs_sub:
  assumes "unat a < 2 ^ 31" "unat b < 2 ^ 31"
  shows "int (unat (builtin_abs (a - b))) = \<bar>int (unat a) - int (unat b)\<bar>"
proof -
  have "uint (builtin_abs (word_of_int d)) = \<bar>d\<bar>" if "\<bar>d\<bar> < 2 ^ 31" for d
  proof -
    have "sint (word_of_int d :: u32) = d"
      using that by (simp add: int_word_sint)
    moreover have "uint (word_of_int d :: u32) = d" if "0 \<le> d"
      using that \<open>\<bar>d\<bar> < 2 ^ 31\<close> by (simp add: uint_word_of_int)
    moreover have "uint (- word_of_int d :: u32) = - d" if "d < 0"
      using that \<open>\<bar>d\<bar> < 2 ^ 31\<close> by (simp only: wi_hom_neg uint_word_of_int) simp
    ultimately show ?thesis by (auto simp: builtin_abs_def)
  qed
  moreover have "a - b = word_of_int (int (unat a) - int (unat b))" by simp
  moreover have "\<bar>int (unat a) - int (unat b)\<bar> < 2 ^ 31"
    using of_nat_less_iff [where 'a = int, THEN iffD2, OF assms(1)]
      of_nat_less_iff [where 'a = int, THEN iffD2, OF assms(2)]
    by (simp add: abs_less_iff) (use uint_ge_0 [of a] uint_ge_0 [of b] in linarith)
  ultimately show ?thesis by (metis uint_nat)
qed

section \<open>Properties\<close>

text \<open>
  C11: every mode is queried once; then the frame buffer is chosen among the current mode and all
  modes the firmware reports without an error in a supported pixel format: the chosen mode has
  the least deviation, and the current mode is kept unless another is strictly closer. The
  description returned is, field by field, that of the chosen mode as it stands after the
  queries, with the number of pixels (not bytes) of a scan line in \<open>BytesPerRow\<close>; and the mode is
  set (with its index, the result telling whether that worked) exactly when its information
  is not the one the current mode points to.
\<close>

theorem closest_mode_is_chosen:
  "let n = unat (gop_MaxMode (memory s) gop);
       modes = current_mode (memory s) gop pw ph # candidates fw gop pw ph junk n 0 s;
       s1 = queried fw gop junk n 0 s in
    \<exists>best fb ok s2. setAppropriateFramebuffer fw gop pw ph junk s = (ok, fb, s2)
    \<and> best \<in> set modes \<and> list_all (\<lambda>c. distance best \<le> distance c) modes
    \<and> (best = hd modes \<or> distance best < distance (hd modes))
    \<and> Width fb = HorizontalResolution (memory s1) (bestModeInfo best)
    \<and> Height fb = VerticalResolution (memory s1) (bestModeInfo best)
    \<and> BytesPerRow fb = PixelsPerScanLine (memory s1) (bestModeInfo best)
    \<and> isRgb fb = (PixelFormat (memory s1) (bestModeInfo best) = 0)
    \<and> (ok, s2) = (if bestModeInfo best = gop_Info (memory s1) gop then (True, s1)
        else (\<not> EFI_ERROR (fst (SetMode fw gop (bestModeIndex best) s1)),
              snd (SetMode fw gop (bestModeIndex best) s1)))"
proof -
  let ?n = "unat (gop_MaxMode (memory s) gop)" and ?c = "current_mode (memory s) gop pw ph"
  obtain best s1 where l: "mode_loop fw gop pw ph junk ?n 0 ?c s = (best, s1)" by fastforce
  then have b: "best = foldl closer ?c (candidates fw gop pw ph junk ?n 0 s)"
    using mode_loop_chooses [of fw gop pw ph junk] by (metis fst_conv)
  have s1: "queried fw gop junk ?n 0 s = s1"
    using mode_loop_queries [of fw gop pw ph junk ?n 0 ?c s] l by simp
  show ?thesis
    unfolding Let_def s1
    apply (rule exI [of _ best])
    using foldl_closer [of ?c "candidates fw gop pw ph junk ?n 0 s", folded b]
    by (auto simp: setAppropriateFramebuffer_def l [unfolded current_mode_def] current_mode_def
        PixelRedGreenBlueReserved8BitPerColor_def Let_def split: prod.splits)
qed

text \<open>
  C38: the two deviations are added before the absolute value is taken, so they cancel: for
  resolutions whose sums are below \<open>2 ^ 31\<close> the deviation is the difference of the sums of width and height,
  and it is 0 whenever the sum of the mode is the preferred one, like 1080 x 1920 for
  1920 x 1080.
\<close>

theorem deviations_cancel:
  assumes "unat pw + unat ph < 2 ^ 31"
    and "unat (HorizontalResolution m info) + unat (VerticalResolution m info) < 2 ^ 31"
  shows "int (unat (deviation_total (deviation m pw ph info)))
      = \<bar>int (unat pw + unat ph)
        - int (unat (HorizontalResolution m info) + unat (VerticalResolution m info))\<bar>"
proof -
  define q where "q = HorizontalResolution m info + VerticalResolution m info"
  have sums: "unat (pw + ph) = unat pw + unat ph"
      "unat q = unat (HorizontalResolution m info) + unat (VerticalResolution m info)"
    unfolding q_def using assms by (simp_all add: unat_word_ariths)
  have e: "fst (deviation m pw ph info) + snd (deviation m pw ph info) = (pw + ph) - q"
    by (simp add: deviation_def q_def)
  show ?thesis
    unfolding deviation_total_def e
    using builtin_abs_sub [of "pw + ph" q] assms by (simp add: sums)
qed

text \<open>A 1080 x 1920 mode at address 0 against the preferred 1920 x 1080.\<close>

definition portrait_mode :: mem where
  "portrait_mode = mem_of_bytes 0 ([0, 0, 0, 0, 0x38, 0x04, 0, 0, 0x80, 0x07, 0, 0] @ replicate 24 0)"

lemma portrait_resolution:
  "HorizontalResolution portrait_mode 0 = 1080" "VerticalResolution portrait_mode 0 = 1920"
  by (simp_all add: HorizontalResolution_def VerticalResolution_def fld_def graphics_offsets
      portrait_mode_def ld_mem_of_bytes)

theorem deviations_cancel_witness:
  "unat (deviation_total (deviation portrait_mode 1920 1080 0)) = 0"
  using deviations_cancel [of 1920 1080 portrait_mode 0]
  by (simp add: portrait_resolution unat_eq_0 flip: of_nat_eq_0_iff [where 'a = int])

end
