(* ===== verification/Boot_Log.thy ===== *)
theory Boot_Log
  imports Firmware
begin

text \<open>
  The static variables of \<open>bootloader/src/main.cpp\<close> and \<open>Log::print\<close>, which the kernel
  reader uses too. The service tables the pointers refer to are the firmware parameter.
\<close>

record statics =
  systemTable :: u64
  cout :: u64

definition initial_statics :: statics where
  "initial_statics = \<lparr> systemTable = 0, cout = 0 \<rparr>"

definition crlf :: string where "crlf = [CHR 0x0D, CHR 0x0A]"

definition Log_print :: "'e firmware \<Rightarrow> statics \<Rightarrow> string \<Rightarrow> 'e machine \<Rightarrow> u64 \<times> 'e machine" where
  "Log_print fw st str s =
     (if cout st = 0 then (EFI_DEVICE_ERROR, s) else OutputString fw (cout st) str s)"

end
