(* ===== verification/Kernel_Reader.thy ===== *)
theory Kernel_Reader
  imports Boot_Log Elf_Loader "HOL-Library.Signed_Division"
begin

text \<open>
  \<open>bootloader/src/loader/kernel_reader.cpp\<close>: finding the boot volume, reading the kernel file
  into memory and loading its segments and NOBITS sections. The boot services are the firmware
  parameter; \<open>junk x\<close> is the value an uninitialised local variable \<open>x\<close> happens to hold.
\<close>

section \<open>Definitions\<close>

record KernelElfInfo =
  PhysicalAddress :: u64
  EntryPointVirtualAddress :: u64

definition INVALID_KERNEL_ELF_INFO :: KernelElfInfo where
  "INVALID_KERNEL_ELF_INFO = \<lparr> PhysicalAddress = 0, EntryPointVirtualAddress = 0 \<rparr>"

datatype KernelLoadError = FileReadSuccess | FileReadVolumeNotFound | FileReadKernelNotFound
  | FileReadAccessDenied | FileReadVolumeCorrupted | FileReadUnknownError

primrec KernelLoadError_value :: "KernelLoadError \<Rightarrow> nat" where
  "KernelLoadError_value FileReadSuccess = 0"
| "KernelLoadError_value FileReadVolumeNotFound = 1"
| "KernelLoadError_value FileReadKernelNotFound = 2"
| "KernelLoadError_value FileReadAccessDenied = 3"
| "KernelLoadError_value FileReadVolumeCorrupted = 4"
| "KernelLoadError_value FileReadUnknownError = 255"

text \<open>The codes are ordered by their values, success first.\<close>

lemma KernelLoadError_value_inject [simp]: "KernelLoadError_value a = KernelLoadError_value b \<longleftrightarrow> a = b"
  by (cases a; cases b) simp_all

instantiation KernelLoadError :: linorder
begin

definition less_eq_KernelLoadError :: "KernelLoadError \<Rightarrow> KernelLoadError \<Rightarrow> bool" where
  "less_eq_KernelLoadError a b \<longleftrightarrow> KernelLoadError_value a \<le> KernelLoadError_value b"

definition less_KernelLoadError :: "KernelLoadError \<Rightarrow> KernelLoadError \<Rightarrow> bool" where
  "less_KernelLoadError a b \<longleftrightarrow> KernelLoadError_value a < KernelLoadError_value b"

instance
  by standard (auto simp: less_eq_KernelLoadError_def less_KernelLoadError_def
      KernelLoadError_value_inject [symmetric] simp del: KernelLoadError_value_inject)

end

lemma error_iff: "FileReadSuccess < e \<longleftrightarrow> e \<noteq> FileReadSuccess"
  by (cases e) (simp_all add: less_KernelLoadError_def)

record ReadFileInfo =
  Buffer :: u64
  BufferSize :: u64

definition INVALID_READ_FILE_INFO :: ReadFileInfo where
  "INVALID_READ_FILE_INFO = \<lparr> Buffer = 0, BufferSize = 0 \<rparr>"

definition getVolume :: "'e firmware \<Rightarrow> (string \<Rightarrow> u64) \<Rightarrow> u64 \<Rightarrow> 'e machine
    \<Rightarrow> u64 \<times> bool \<times> 'e machine" where
  "getVolume fw junk handle s =
     (let (status, loadedImage, s) = HandleProtocol fw handle EFI_LOADED_IMAGE_PROTOCOL_GUID 0 s in
      if EFI_ERROR status then (0, False, s) else
      let DeviceHandle = ld64 (memory s) (fld EFI_LOADED_IMAGE_PROTOCOL ''DeviceHandle'' loadedImage);
          (status, storageVolume, s) = HandleProtocol fw DeviceHandle
            EFI_SIMPLE_FILE_SYSTEM_PROTOCOL_GUID (junk ''storageVolume'') s in
      if EFI_ERROR status then (0, False, s) else
      let (status, volumeHandle, s) = OpenVolume fw storageVolume 0 s in
      if EFI_ERROR status then (volumeHandle, False, s) else (volumeHandle, True, s))"

text \<open>The two \<open>switch\<close> statements of \<open>readFile\<close> and the one of \<open>readKernel\<close>.\<close>

definition read_error :: "u64 \<Rightarrow> KernelLoadError" where
  "read_error status = (if status = EFI_VOLUME_CORRUPTED then FileReadVolumeCorrupted
     else if status = EFI_NO_MEDIA then FileReadKernelNotFound else FileReadUnknownError)"

definition open_error :: "u64 \<Rightarrow> KernelLoadError" where
  "open_error status =
     (if status = EFI_NO_MEDIA \<or> status = EFI_MEDIA_CHANGED \<or> status = EFI_NOT_FOUND
      then FileReadKernelNotFound
      else if status = EFI_VOLUME_CORRUPTED then FileReadVolumeCorrupted
      else if status = EFI_WRITE_PROTECTED \<or> status = EFI_ACCESS_DENIED then FileReadAccessDenied
      else FileReadUnknownError)"

text \<open>
  The loop that asks for the file information, with the number of retries left. \<open>Inl\<close> is the
  early return with its error (the buffer is freed); \<open>Inr\<close> the end of the loop with the
  retries left (0 when the loop ran out of them) and the current buffer.
\<close>

definition NUM_RETRIES :: nat where "NUM_RETRIES = 5"

fun info_loop :: "'e firmware \<Rightarrow> u64 \<Rightarrow> nat \<Rightarrow> u64 \<Rightarrow> u64 \<Rightarrow> 'e machine
    \<Rightarrow> (KernelLoadError \<times> 'e machine) + (nat \<times> u64 \<times> 'e machine)" where
  "info_loop fw fileHandle 0 bufferSize infoBuffer s = Inr (0, infoBuffer, s)"
| "info_loop fw fileHandle (Suc n) bufferSize infoBuffer s =
    (let (status, bufferSize, s) = FileGetInfo fw fileHandle EFI_FILE_INFO_ID bufferSize infoBuffer s in
     if \<not> EFI_ERROR status then Inr (Suc n, infoBuffer, s)
     else if status \<noteq> EFI_BUFFER_TOO_SMALL
     then let (_, s) = FreePool fw infoBuffer s in Inl (read_error status, s)
     else let (_, s) = FreePool fw infoBuffer s;
       (_, infoBuffer, s) = AllocatePool fw EfiLoaderData bufferSize infoBuffer s in
       info_loop fw fileHandle n bufferSize infoBuffer s)"

definition DEFAULT_BUFFER_SIZE :: u64 where "DEFAULT_BUFFER_SIZE = 256"
definition MAX_FILE_SIZE :: u64 where "MAX_FILE_SIZE = 256 * 1024 * 1024"
definition SIZE_MAX :: u64 where "SIZE_MAX = 0xFFFFFFFFFFFFFFFF"

definition readFile :: "'e firmware \<Rightarrow> (string \<Rightarrow> u64) \<Rightarrow> u64 \<Rightarrow> 'e machine
    \<Rightarrow> ReadFileInfo \<times> KernelLoadError \<times> 'e machine" where
  "readFile fw junk fileHandle s =
     (let bufferSize = DEFAULT_BUFFER_SIZE;
          (status, infoBuffer, s) = AllocatePool fw EfiLoaderData bufferSize (junk ''infoBuffer'') s in
      if EFI_ERROR status
      then let (_, s) = FreePool fw infoBuffer s in (INVALID_READ_FILE_INFO, FileReadUnknownError, s)
      else case info_loop fw fileHandle NUM_RETRIES bufferSize infoBuffer s of
        Inl (error, s) \<Rightarrow> (INVALID_READ_FILE_INFO, error, s)
      | Inr (left, infoBuffer, s) \<Rightarrow>
        if left = 0
        then let (_, s) = FreePool fw infoBuffer s in (INVALID_READ_FILE_INFO, FileReadUnknownError, s)
        else let FileSize = ld64 (memory s) (fld EFI_FILE_INFO ''FileSize'' infoBuffer) in
        if FileSize = 0 \<or> FileSize > MAX_FILE_SIZE
        then let (_, s) = FreePool fw infoBuffer s in (INVALID_READ_FILE_INFO, FileReadUnknownError, s)
        else let fileSize = FileSize;
          neededPages = (fileSize + (EFI_PAGE_SIZE - 1)) div EFI_PAGE_SIZE in
        if neededPages > SIZE_MAX
        then let (_, s) = FreePool fw infoBuffer s in (INVALID_READ_FILE_INFO, FileReadUnknownError, s)
        else let (_, s) = FreePool fw infoBuffer s;
          (_, fileBufferPhysAddress, s) = AllocatePages fw AllocateAnyPages EfiLoaderData neededPages
            (junk ''fileBufferPhysAddress'') s;
          (status, fileSize, s) = FileRead fw fileHandle fileSize fileBufferPhysAddress s in
        if \<not> EFI_ERROR status
        then (\<lparr> Buffer = fileBufferPhysAddress, BufferSize = fileSize \<rparr>, FileReadUnknownError, s)
        else let (_, s) = FreePool fw infoBuffer s in (INVALID_READ_FILE_INFO, read_error status, s))"

text \<open>The pages for a size: \<open>int\<close> arithmetic, with the quotient converted to \<open>UINTN\<close>.\<close>

definition needed_pages :: "u32 \<Rightarrow> u64" where
  "needed_pages bufferSize =
     word_of_int (sint (bufferSize + ucast EFI_PAGE_SIZE - 1) sdiv sint (ucast EFI_PAGE_SIZE :: u32))"

definition page_loader :: "'e firmware \<Rightarrow> 'e loader_fn" where
  "page_loader fw bufferSize virt flags s =
     (let (allocStatus, buffer, s) =
        AllocatePages fw AllocateAnyPages EfiLoaderData (needed_pages bufferSize) 0 s in
      if EFI_ERROR allocStatus then (0, s) else (buffer, s))"

definition load_failed :: "ElfError \<Rightarrow> bool" where
  "load_failed e \<longleftrightarrow> e \<noteq> NoError \<and> e \<noteq> ElfSectionNotLoadable"

text \<open>The two loops over the header tables; they stop at the first header that fails to load.\<close>

fun load_programs :: "'e firmware \<Rightarrow> ElfLoader \<Rightarrow> u64 \<Rightarrow> nat \<Rightarrow> u64 \<Rightarrow> 'e machine \<Rightarrow> bool \<times> 'e machine" where
  "load_programs fw l progHeaders 0 i s = (True, s)"
| "load_programs fw l progHeaders (Suc n) i s =
    (let (elfLoadError, s) = loadExecutableProgram l
       (progHeaders + i * of_nat (csize Elf64_ProgHeader_t)) (page_loader fw) s in
     if load_failed elfLoadError then (False, s)
     else load_programs fw l progHeaders n (i + 1) s)"

fun load_sections :: "'e firmware \<Rightarrow> ElfLoader \<Rightarrow> u64 \<Rightarrow> nat \<Rightarrow> u64 \<Rightarrow> 'e machine \<Rightarrow> bool \<times> 'e machine" where
  "load_sections fw l sectionHeaders 0 i s = (True, s)"
| "load_sections fw l sectionHeaders (Suc n) i s =
    (let (elfLoadError, s) = loadNoBitsSection l
       (sectionHeaders + i * of_nat (csize Elf64_SectionHeader_t)) (page_loader fw) s in
     if load_failed elfLoadError then (False, s)
     else load_sections fw l sectionHeaders n (i + 1) s)"

definition corrupt_message :: string where
  "corrupt_message = ''Failed to load kernel: ELF header is corrupt.'' @ crlf"

definition segment_message :: string where
  "segment_message = ''Failed to load program header with index {?}! Boot failed'' @ crlf"

definition load_kernel :: "'e firmware \<Rightarrow> statics \<Rightarrow> ElfLoader \<Rightarrow> 'e machine \<Rightarrow> bool \<times> 'e machine" where
  "load_kernel fw st elfLoader s =
     (let err = checkElf (memory s) elfLoader;
          s = (if err \<noteq> NoError
            then snd (Log_print fw st corrupt_message s) else s);
          (progHeaders, numProgHeaders, err) = getProgramHeaders (memory s) elfLoader 0;
          (ok, s) = load_programs fw elfLoader progHeaders (nat (sint numProgHeaders)) 0 s in
      if \<not> ok then (False, snd (Log_print fw st segment_message s)) else
      let (sectionHeaders, numSectionHeaders, err) = getSectionHeaders (memory s) elfLoader 0;
          (ok, s) = load_sections fw elfLoader sectionHeaders (nat (sint numSectionHeaders)) 0 s in
      if \<not> ok then (False, snd (Log_print fw st segment_message s)) else (True, s))"

definition kernel_path :: string where
  "kernel_path = [CHR 0x5C] @ ''boot'' @ [CHR 0x5C] @ ''kernel.elf''"

definition readKernel :: "'e firmware \<Rightarrow> (string \<Rightarrow> u64) \<Rightarrow> statics \<Rightarrow> u64 \<Rightarrow> 'e machine
    \<Rightarrow> KernelElfInfo \<times> KernelLoadError \<times> 'e machine" where
  "readKernel fw junk st handle s =
     (let (volumeHandle, isSuccessful, s) = getVolume fw junk handle s in
      if \<not> isSuccessful then (INVALID_KERNEL_ELF_INFO, FileReadUnknownError, s) else
      let (status, fileHandle, s) = FileOpen fw volumeHandle (junk ''fileHandle'') kernel_path
            EFI_FILE_MODE_READ EFI_FILE_READ_ONLY s in
      if EFI_ERROR status then (INVALID_KERNEL_ELF_INFO, open_error status, s) else
      let (kernelFileInfo, error, s) = readFile fw junk fileHandle s in
      if BufferSize kernelFileInfo = 0 then (INVALID_KERNEL_ELF_INFO, error, s) else
      let (ok, s) = load_kernel fw st
            (mk_ElfLoader (Buffer kernelFileInfo) (BufferSize kernelFileInfo)) s in
      if \<not> ok then (INVALID_KERNEL_ELF_INFO, error, s) else
      let (_, s) = FileClose fw fileHandle s in (INVALID_KERNEL_ELF_INFO, error, s))"

section \<open>The errors reported\<close>

lemma read_error_values: "read_error st \<noteq> FileReadSuccess"
  by (simp add: read_error_def)

lemma open_error_values: "open_error st \<noteq> FileReadSuccess"
  by (simp add: open_error_def)

lemma info_loop_error: "info_loop fw fh n sz buf s = Inl (e, s') \<Longrightarrow> e \<noteq> FileReadSuccess"
  by (induction fw fh n sz buf s rule: info_loop.induct)
    (auto simp: read_error_values Let_def split: prod.splits if_splits)

lemma readFile_error: "fst (snd (readFile fw junk fh s)) \<noteq> FileReadSuccess"
  by (auto simp: readFile_def Let_def read_error_values info_loop_error
      split: prod.splits sum.splits if_splits)

lemma readKernel_fails:
  "fst (readKernel fw junk st handle s) = INVALID_KERNEL_ELF_INFO
   \<and> FileReadSuccess < fst (snd (readKernel fw junk st handle s))"
proof -
  have "e \<noteq> FileReadSuccess" if "readFile fw junk fh s = (r, e, s')" for fh s r e s'
    using readFile_error [of fw junk fh s] that by simp
  then show ?thesis
    by (simp add: readKernel_def error_iff open_error_values split: prod.splits)
qed

text \<open>
  C36: the kernel reader never succeeds: whatever the firmware and the file do, it returns the
  invalid kernel information and leaves an error code other than \<open>FileReadSuccess\<close>, also
  when the kernel has been loaded completely.
\<close>

theorem readKernel_never_succeeds:
  "fst (readKernel fw junk st handle s) = INVALID_KERNEL_ELF_INFO
   \<and> FileReadSuccess < fst (snd (readKernel fw junk st handle s))"
  by (rule readKernel_fails)

section \<open>The pool buffers of the file information\<close>

text \<open>
  A firmware whose environment is a record of the pool calls and of the results of reading,
  and whose pool allocations succeed.
\<close>

datatype pool_event = Alloc u64 | Free u64 | ReadDone u64

definition records_pool_calls :: "pool_event list firmware \<Rightarrow> bool" where
  "records_pool_calls fw \<longleftrightarrow>
     (\<forall>t sz p s. fst (AllocatePool fw t sz p s) = EFI_SUCCESS
        \<and> env (snd (snd (AllocatePool fw t sz p s))) = env s @ [Alloc (fst (snd (AllocatePool fw t sz p s)))])
   \<and> (\<forall>p s. env (snd (FreePool fw p s)) = env s @ [Free p])
   \<and> (\<forall>h g sz b s. env (snd (snd (FileGetInfo fw h g sz b s))) = env s)
   \<and> (\<forall>t m n p s. env (snd (snd (AllocatePages fw t m n p s))) = env s)
   \<and> (\<forall>h sz b s. env (snd (snd (FileRead fw h sz b s))) = env s @ [ReadDone (fst (FileRead fw h sz b s))])"

lemma records_pool_callsD:
  assumes "records_pool_calls fw"
  shows "AllocatePool fw t sz p s = (st, q, s') \<Longrightarrow> st = EFI_SUCCESS \<and> env s' = env s @ [Alloc q]"
    and "FreePool fw p s = (st, s') \<Longrightarrow> env s' = env s @ [Free p]"
    and "FileGetInfo fw h g sz b s = (st, n, s') \<Longrightarrow> env s' = env s"
    and "AllocatePages fw t' m k p s = (st, q, s') \<Longrightarrow> env s' = env s"
    and "FileRead fw h sz b s = (st, n, s') \<Longrightarrow> env s' = env s @ [ReadDone st]"
  using assms unfolding records_pool_calls_def by (metis fst_conv snd_conv)+

definition taken_and_freed :: "u64 list \<Rightarrow> pool_event list" where
  "taken_and_freed ps = concat (map (\<lambda>p. [Alloc p, Free p]) ps)"

lemma taken_and_freed_simps [simp]:
  "taken_and_freed [] = []" "taken_and_freed (p # ps) = Alloc p # Free p # taken_and_freed ps"
  "taken_and_freed (ps @ qs) = taken_and_freed ps @ taken_and_freed qs"
  by (simp_all add: taken_and_freed_def)

lemma info_loop_pool:
  assumes "records_pool_calls fw" and "env s = L @ [Alloc buf]"
  shows "case info_loop fw fh n sz buf s of
      Inl (e, s') \<Rightarrow> \<exists>ps. ps \<noteq> [] \<and> length ps \<le> n \<and> env s' = L @ taken_and_freed ps
    | Inr (left, b, s') \<Rightarrow> \<exists>ps. length ps \<le> n \<and> env s' = L @ taken_and_freed ps @ [Alloc b]"
  using assms(2)
proof (induction n arbitrary: sz buf s L)
  case 0
  then show ?case by (auto intro: exI [of _ "[]"])
next
  case (Suc n)
  obtain st sz1 s1 where g: "FileGetInfo fw fh EFI_FILE_INFO_ID sz buf s = (st, sz1, s1)"
    by (metis prod_cases3)
  obtain x s2 where f: "FreePool fw buf s1 = (x, s2)" by fastforce
  obtain y b s3 where a: "AllocatePool fw EfiLoaderData sz1 buf s2 = (y, b, s3)"
    by (metis prod_cases3)
  note D = records_pool_callsD [OF assms(1)]
  have e: "env s1 = L @ [Alloc buf]" "env s2 = L @ taken_and_freed [buf]"
      "env s3 = (L @ taken_and_freed [buf]) @ [Alloc b]"
    using D(3) [OF g] D(2) [OF f] D(1) [OF a] Suc.prems by simp_all
  consider (got) "\<not> EFI_ERROR st" | (failed) "EFI_ERROR st" "st \<noteq> EFI_BUFFER_TOO_SMALL"
    | (small) "EFI_ERROR st" "st = EFI_BUFFER_TOO_SMALL" by blast
  then show ?case
  proof cases
    case got
    then show ?thesis using e(1) by (auto simp: g intro: exI [of _ "[]"])
  next
    case failed
    then show ?thesis using e(2) by (auto simp: g f intro: exI [of _ "[buf]"])
  next
    case small
    show ?thesis
    proof (cases "info_loop fw fh n sz1 b s3")
      case (Inl r)
      then obtain ps where "length ps \<le> n" "env (snd r) = L @ taken_and_freed (buf # ps)"
        using Suc.IH [OF e(3), of sz1] by (auto split: prod.splits)
      then show ?thesis
        using small Inl by (auto simp: g f a split: prod.splits intro!: exI [of _ "buf # ps"])
    next
      case (Inr r)
      then obtain ps where "length ps \<le> n"
          "env (snd (snd r)) = L @ taken_and_freed (buf # ps) @ [Alloc (fst (snd r))]"
        using Suc.IH [OF e(3), of sz1] by (auto split: prod.splits)
      then show ?thesis
        using small Inr by (auto simp: g f a split: prod.splits intro!: exI [of _ "buf # ps"])
    qed
  qed
qed

text \<open>
  C8: while pool allocations succeed, \<open>readFile\<close> takes at most six pool buffers, one after the
  other, and gives each of them back before the next is taken. Nothing else happens to the
  pool, but for one path: when the firmware fails to read the file, the last buffer,
  already freed, is freed again.
\<close>

theorem readFile_pool_discipline:
  assumes "records_pool_calls fw" and "readFile fw junk fh s = (r, e, s')"
  shows "\<exists>ps tail. ps \<noteq> [] \<and> length ps \<le> 6 \<and> env s' = env s @ taken_and_freed ps @ tail
    \<and> (tail = [] \<and> r = INVALID_READ_FILE_INFO
       \<or> (\<exists>st. tail = ReadDone st # (if EFI_ERROR st then [Free (last ps)] else [])))"
proof -
  note D = records_pool_callsD [OF assms(1)]
  obtain st b s1 where al: "AllocatePool fw EfiLoaderData DEFAULT_BUFFER_SIZE (junk ''infoBuffer'') s
      = (st, b, s1)" by (metis prod_cases3)
  have ok: "\<not> EFI_ERROR st" "env s1 = env s @ [Alloc b]"
    using D(1) [OF al] by (simp_all add: EFI_SUCCESS_def EFI_ERROR_def)
  note loop = info_loop_pool [OF assms(1) ok(2), where fh = fh and n = NUM_RETRIES
      and sz = DEFAULT_BUFFER_SIZE]
  show ?thesis
  proof (cases "info_loop fw fh NUM_RETRIES DEFAULT_BUFFER_SIZE b s1")
    case (Inl x)
    then show ?thesis
      using loop assms(2) ok(1) by (cases x) (fastforce simp: readFile_def al NUM_RETRIES_def)
  next
    case (Inr y)
    then obtain left b' s2 where y: "info_loop fw fh NUM_RETRIES DEFAULT_BUFFER_SIZE b s1
        = Inr (left, b', s2)" by (cases y) auto
    then obtain ps where ps: "length ps \<le> 5" "env s2 = env s @ taken_and_freed ps @ [Alloc b']"
      using loop by (auto simp: NUM_RETRIES_def)
    obtain x s3 where fr: "FreePool fw b' s2 = (x, s3)" by fastforce
    obtain u q s4 where pg: "AllocatePages fw AllocateAnyPages EfiLoaderData
        ((ld64 (memory s2) (fld EFI_FILE_INFO ''FileSize'' b') + (EFI_PAGE_SIZE - 1)) div EFI_PAGE_SIZE)
        (junk ''fileBufferPhysAddress'') s3 = (u, q, s4)" by (metis prod_cases3)
    obtain w n s5 where rd: "FileRead fw fh (ld64 (memory s2) (fld EFI_FILE_INFO ''FileSize'' b')) q s4
        = (w, n, s5)" by (metis prod_cases3)
    obtain z s6 where fr2: "FreePool fw b' s5 = (z, s6)" by fastforce
    have env: "env s3 = env s @ taken_and_freed (ps @ [b'])"
        "env s5 = env s @ taken_and_freed (ps @ [b']) @ [ReadDone w]"
        "env s6 = env s @ taken_and_freed (ps @ [b']) @ [ReadDone w, Free b']"
      using D(2) [OF fr] D(4) [OF pg] D(5) [OF rd] D(2) [OF fr2] ps(2) by simp_all
    have "(r, s') = (INVALID_READ_FILE_INFO, s3) \<or> s' = (if EFI_ERROR w then s6 else s5)"
      using assms(2) ok(1)
      by (auto simp: readFile_def al y fr pg rd fr2 Let_def split: if_splits)
    then show ?thesis
      using env ps(1) by (intro exI [of _ "ps @ [b']"]) (auto split: if_splits)
  qed
qed

text \<open>A firmware that records its pool calls and reports the given status when a file is read.\<close>

definition recording_firmware :: "u64 \<Rightarrow> pool_event list firmware" where
  "recording_firmware rd = \<lparr>
     AllocatePages = \<lambda>t m n p s. (0, 0x8000, s),
     FreePages = \<lambda>p n s. (0, s),
     GetMemoryMap = \<lambda>n p k d v s. (0, (n, k, d, v), s),
     AllocatePool = \<lambda>t n p s. (0, 0x1000, s\<lparr>env := env s @ [Alloc 0x1000]\<rparr>),
     FreePool = \<lambda>p s. (0, s\<lparr>env := env s @ [Free p]\<rparr>),
     WaitForEvent = \<lambda>n p s. (0, s),
     HandleProtocol = \<lambda>h g p s. (0, 0x2000, s),
     LocateProtocol = \<lambda>g r p s. (0, 0x2000, s),
     OpenVolume = \<lambda>v p s. (0, 0x3000, s),
     FileOpen = \<lambda>v p n m a s. (0, 0x4000, s),
     FileClose = \<lambda>h s. (0, s),
     FileGetInfo = \<lambda>h g n p s. (0, n, s),
     FileRead = \<lambda>h n p s. (rd, n, s\<lparr>env := env s @ [ReadDone rd]\<rparr>),
     QueryMode = \<lambda>g i p s. (0, p, s),
     SetMode = \<lambda>g i s. (0, s),
     OutputString = \<lambda>c t s. (0, s),
     ClearScreen = \<lambda>c s. (0, s),
     SetCursorPosition = \<lambda>c x y s. (0, s) \<rparr>"

lemma recording_firmware_simps [simp]:
  "AllocatePages (recording_firmware rd) t m n p s = (0, 0x8000, s)"
  "AllocatePool (recording_firmware rd) t n p s = (0, 0x1000, s\<lparr>env := env s @ [Alloc 0x1000]\<rparr>)"
  "FreePool (recording_firmware rd) p s = (0, s\<lparr>env := env s @ [Free p]\<rparr>)"
  "FileGetInfo (recording_firmware rd) h g n p s = (0, n, s)"
  "FileRead (recording_firmware rd) h n p s = (rd, n, s\<lparr>env := env s @ [ReadDone rd]\<rparr>)"
  by (simp_all add: recording_firmware_def)

lemma recording_firmware_records: "records_pool_calls (recording_firmware rd)"
  by (simp add: records_pool_calls_def EFI_SUCCESS_def)

definition file_info_memory :: mem where
  "file_info_memory = mem_of_bytes 0x1000 [80, 0, 0, 0, 0, 0, 0, 0, 100, 0, 0, 0, 0, 0, 0, 0]"

lemma file_info_memory_size: "ld64 file_info_memory 0x1008 = 100"
  by (simp add: file_info_memory_def ld_mem_of_bytes)

lemma failed_read_run:
  "readFile (recording_firmware EFI_DEVICE_ERROR) (\<lambda>_. 0) 0x4000
      \<lparr> memory = file_info_memory, env = [] \<rparr>
   = (INVALID_READ_FILE_INFO, FileReadUnknownError, \<lparr> memory = file_info_memory,
      env = [Alloc 0x1000, Free 0x1000, ReadDone EFI_DEVICE_ERROR, Free 0x1000] \<rparr>)"
proof -
  have "\<not> EFI_ERROR 0" "EFI_ERROR EFI_DEVICE_ERROR"
    by (simp_all add: EFI_ERROR_def [of 0] EFI_DEVICE_ERROR_def)
  moreover have "info_loop (recording_firmware rd) h NUM_RETRIES n p s = Inr (5, p, s)" for rd h n p s
    by (simp add: NUM_RETRIES_def numeral_eq_Suc EFI_ERROR_def)
  moreover have "read_error EFI_DEVICE_ERROR = FileReadUnknownError"
    by (simp add: read_error_def status_defs EFIERR_def)
  ultimately show ?thesis
    by (simp add: readFile_def fld_def file_info_offsets file_info_memory_size MAX_FILE_SIZE_def
        SIZE_MAX_def EFI_PAGE_SIZE_def)
qed

theorem readFile_pool_discipline_witness:
  "\<exists>r e s'. readFile (recording_firmware EFI_DEVICE_ERROR) (\<lambda>_. 0) 0x4000
      \<lparr> memory = file_info_memory, env = [] \<rparr> = (r, e, s')
    \<and> env s' = [Alloc 0x1000, Free 0x1000, ReadDone EFI_DEVICE_ERROR, Free 0x1000]
    \<and> (\<exists>ps tail. ps \<noteq> [] \<and> length ps \<le> 6 \<and> env s' = taken_and_freed ps @ tail)"
  using readFile_pool_discipline [OF recording_firmware_records failed_read_run] failed_read_run
  by fastforce

section \<open>The section stage\<close>

lemma count_int: "nat (sint (ucast (x :: u16) :: u32)) = unat x"
proof -
  have "uint x < 65536" using uint_lt2p [of x] by simp
  then have "sint (word_of_int (uint x) :: u32) = uint x"
    by (subst int_word_sint) (simp add: mod_pos_pos_trivial)
  then show ?thesis by (simp only: ucast_eq) simp
qed

text \<open>
  C37: when the header tables of an accepted file have the right entry sizes and the section
  header table ends exactly at the end of the file, where linkers put it, the loading goes
  from the program headers straight to section headers read at the null pointer: as many as the
  file has sections, from address 0 on.
\<close>

theorem sections_walked_from_null:
  assumes "h = read_ElfHeader (memory s) (elfFile l)" and "checkElf (memory s) l = NoError"
    and "getProgramHeaders (memory s) l 0 = (table, n, err)"
    and "load_programs fw l table (nat (sint n)) 0 s = (True, s1)"
    and "read_ElfHeader (memory s1) (elfFile l) = h"
    and "SectionHeaderEntrySize h = 64"
    and "unat (SectionHeaderOffset h) + 64 * unat (SectionHeaderTableEntriesNum h)
      = unat (elfFileSize l)"
  shows "load_kernel fw st l s =
    (let (ok, s2) = load_sections fw l 0 (unat (SectionHeaderTableEntriesNum h)) 0 s1 in
     if ok then (True, s2) else (False, snd (Log_print fw st segment_message s2)))"
proof -
  have c: "checkElf (memory s1) l = NoError"
    using assms(1,2,5) by (simp add: checkElf_def Let_def)
  have "getSectionHeaders (memory s1) l 0
      = (0, ucast (SectionHeaderTableEntriesNum h), ElfSizeExceeded)"
    using assms(5-7) c table_end_no_wrap [of "SectionHeaderOffset h" 64
        "SectionHeaderTableEntriesNum h" "elfFileSize l"] unat64_less [of "elfFileSize l"]
    by (simp add: getSectionHeaders_cases)
  then show ?thesis
    using assms(2-4) by (simp add: load_kernel_def count_int Let_def split: prod.splits)
qed

text \<open>
  The sample file with a size of 128 bytes: the section header table (one entry at offset 64)
  ends with the file; its program header is of type \<open>PT_NULL\<close>.
\<close>

definition edge_state :: "pool_event list machine" where
  "edge_state = \<lparr> memory = sample_header 64 0, env = [] \<rparr>"

lemma edge_program: "SegmentType (read_ProgHeader (sample_header 64 0) 0x1040) = 0"
proof -
  have "sample_header 64 0 0x1040 = 0" "sample_header 64 0 0x1041 = 0"
      "sample_header 64 0 0x1042 = 0" "sample_header 64 0 0x1043 = 0"
    by (simp_all add: sample_header_def mem_of_bytes_def)
  moreover have "ld_nat m p 4 = unat (m p) + 256 * (unat (m (p + 1)) + 256 * (unat (m (p + 2))
      + 256 * unat (m (p + 3))))" for m p
  proof -
    have "(4 :: nat) = Suc (Suc (Suc (Suc 0)))" by simp
    then show ?thesis by (simp only: ld_nat.simps) (simp add: add.assoc)
  qed
  ultimately show ?thesis
    by (simp add: read_ProgHeader_eq ld32_def)
qed

theorem sections_walked_from_null_witness:
  "load_kernel (recording_firmware 0) initial_statics (mk_ElfLoader 0x1000 128) edge_state
   = (let (ok, s2) = load_sections (recording_firmware 0) (mk_ElfLoader 0x1000 128) 0 1 0 edge_state in
      if ok then (True, s2)
      else (False, snd (Log_print (recording_firmware 0) initial_statics segment_message s2)))"
  using sections_walked_from_null [where s = edge_state and ?s1.0 = edge_state
      and l = "mk_ElfLoader 0x1000 128" and table = "0x1040" and n = 1 and err = NoError
      and fw = "recording_firmware 0" and st = initial_statics, OF refl]
  by (simp add: edge_state_def getProgramHeaders_cases sample_simps loadExecutableProgram_def
      edge_program PT_LOAD_def load_failed_def)

end
