(* ===== verification/File_Read.thy ===== *)
theory File_Read
  imports Kernel_Reader
begin

text \<open>
  What \<open>readFile\<close> of \<open>kernel_reader.cpp\<close> hands to the loader when it hands over a file: the
  services that produced the buffer, in their order, and how the size of the allocation
  relates to the size of the read.
\<close>

section \<open>The file information\<close>

lemma info_loop_success:
  "info_loop fw fh n sz b s = Inr (left, b', s') \<Longrightarrow> left \<noteq> 0 \<Longrightarrow>
   \<exists>sz0 s0 st sz'. FileGetInfo fw fh EFI_FILE_INFO_ID sz0 b' s0 = (st, sz', s') \<and> \<not> EFI_ERROR st"
  by (induction fw fh n sz b s rule: info_loop.induct) (fastforce split: prod.splits if_splits)+

text \<open>A size up to 256 MiB, in pages: rounded up, without overflow.\<close>

lemma file_pages:
  assumes "sz \<le> MAX_FILE_SIZE"
  shows "unat ((sz + (EFI_PAGE_SIZE - 1)) div EFI_PAGE_SIZE) = (unat sz + 4095) div 4096"
proof -
  have p: "unat EFI_PAGE_SIZE = 4096" "EFI_PAGE_SIZE - 1 = 4095" by (simp_all add: EFI_PAGE_SIZE_def)
  have "unat sz \<le> 268435456" using assms by (simp add: MAX_FILE_SIZE_def word_le_nat_alt)
  then have "unat (sz + 4095) = unat sz + 4095" by (simp add: unat_add_lem [THEN iffD1])
  then show ?thesis by (simp add: unat_div p)
qed

lemma pages_hold: "0 < n \<Longrightarrow> n \<le> (n + 4095) div 4096 * 4096 \<and> (n + 4095) div 4096 * 4096 < n + 4096"
  for n :: nat
  using div_mult_mod_eq [of "n + 4095" 4096] mod_less_divisor [of 4096 "n + 4095"] by linarith

section \<open>The buffer of the file\<close>

text \<open>
  C9: a file that \<open>readFile\<close> hands over has been read by a \<open>Read\<close> that succeeded, into the address
  the allocation of its pages gave, for the size the file information reported: not 0, at
  most 256 MiB, and within the pages asked for, which exceed it by less than a page. The
  information came from a \<open>GetInfo\<close> that succeeded and its buffer is freed in between. The
  status of the allocation plays no part: when it fails, the file is read to whatever the
  uninitialised address variable holds, and that address is handed over.
\<close>

theorem file_buffer_fits_the_read:
  assumes "readFile fw junk fh s = (r, e, s')" and "r \<noteq> INVALID_READ_FILE_INFO"
  shows "\<exists>n b s1 st n' s2 x s3 pages w s4 size status.
      FileGetInfo fw fh EFI_FILE_INFO_ID n b s1 = (st, n', s2) \<and> \<not> EFI_ERROR st
    \<and> size = ld64 (memory s2) (fld EFI_FILE_INFO ''FileSize'' b) \<and> 0 < size \<and> size \<le> MAX_FILE_SIZE
    \<and> FreePool fw b s2 = (x, s3)
    \<and> AllocatePages fw AllocateAnyPages EfiLoaderData pages (junk ''fileBufferPhysAddress'') s3
        = (w, Buffer r, s4)
    \<and> unat size \<le> unat pages * 4096 \<and> unat pages * 4096 < unat size + 4096
    \<and> FileRead fw fh size (Buffer r) s4 = (status, BufferSize r, s') \<and> \<not> EFI_ERROR status"
proof -
  obtain st b s0 where al: "AllocatePool fw EfiLoaderData DEFAULT_BUFFER_SIZE (junk ''infoBuffer'') s
      = (st, b, s0)" by (metis prod_cases3)
  show ?thesis
  proof (cases "info_loop fw fh NUM_RETRIES DEFAULT_BUFFER_SIZE b s0")
    case (Inl y)
    then show ?thesis
      using assms by (cases y) (auto simp: readFile_def al Let_def split: prod.splits if_splits)
  next
    case (Inr y)
    then obtain left b' s2 where y: "info_loop fw fh NUM_RETRIES DEFAULT_BUFFER_SIZE b s0
        = Inr (left, b', s2)" by (cases y) auto
    let ?size = "ld64 (memory s2) (fld EFI_FILE_INFO ''FileSize'' b')"
    let ?pages = "(?size + (EFI_PAGE_SIZE - 1)) div EFI_PAGE_SIZE"
    obtain x s3 where fr: "FreePool fw b' s2 = (x, s3)" by fastforce
    obtain w q s4 where pg: "AllocatePages fw AllocateAnyPages EfiLoaderData ?pages
        (junk ''fileBufferPhysAddress'') s3 = (w, q, s4)" by (metis prod_cases3)
    obtain v n s5 where rd: "FileRead fw fh ?size q s4 = (v, n, s5)" by (metis prod_cases3)
    have run: "left \<noteq> 0 \<and> ?size \<noteq> 0 \<and> ?size \<le> MAX_FILE_SIZE \<and> \<not> EFI_ERROR v
        \<and> Buffer r = q \<and> BufferSize r = n \<and> s' = s5"
      using assms by (auto simp: readFile_def al y fr pg rd Let_def split: prod.splits if_splits)
    have "unat ?size \<le> unat ?pages * 4096 \<and> unat ?pages * 4096 < unat ?size + 4096"
      using run pages_hold [of "unat ?size"] file_pages [of ?size] by (simp add: unat_gt_0)
    moreover obtain sz s1 w' sz' where "FileGetInfo fw fh EFI_FILE_INFO_ID sz b' s1 = (w', sz', s2)"
        "\<not> EFI_ERROR w'" using info_loop_success [OF y] run by blast
    ultimately show ?thesis using run fr pg rd by (metis word_neq_0_conv)
  qed
qed

text \<open>
  A firmware without free pages: the allocation fails and leaves the address variable alone;
  here it happens to hold \<open>0x7000\<close>.
\<close>

definition no_pages_firmware :: "pool_event list firmware" where
  "no_pages_firmware = recording_firmware 0
     \<lparr> AllocatePages := \<lambda>t m n p s. (EFI_OUT_OF_RESOURCES, p, s) \<rparr>"

lemma no_pages_simps:
  "AllocatePages no_pages_firmware t m n p s = (EFI_OUT_OF_RESOURCES, p, s)"
  "AllocatePool no_pages_firmware t n p s = (0, 0x1000, s\<lparr>env := env s @ [Alloc 0x1000]\<rparr>)"
  "FreePool no_pages_firmware p s = (0, s\<lparr>env := env s @ [Free p]\<rparr>)"
  "FileGetInfo no_pages_firmware h g n p s = (0, n, s)"
  "FileRead no_pages_firmware h n p s = (0, n, s\<lparr>env := env s @ [ReadDone 0]\<rparr>)"
  by (simp_all add: no_pages_firmware_def recording_firmware_def)

lemma no_pages_run:
  "readFile no_pages_firmware (\<lambda>_. 0x7000) 0x4000 \<lparr> memory = file_info_memory, env = [] \<rparr>
   = (\<lparr> Buffer = 0x7000, BufferSize = 100 \<rparr>, FileReadUnknownError,
      \<lparr> memory = file_info_memory, env = [Alloc 0x1000, Free 0x1000, ReadDone 0] \<rparr>)"
proof -
  have "info_loop no_pages_firmware h NUM_RETRIES n p s = Inr (5, p, s)" for h n p s
    by (simp add: NUM_RETRIES_def numeral_eq_Suc EFI_ERROR_def no_pages_simps)
  then show ?thesis
    by (simp add: readFile_def no_pages_simps fld_def file_info_offsets file_info_memory_size MAX_FILE_SIZE_def
        SIZE_MAX_def EFI_PAGE_SIZE_def EFI_ERROR_def)
qed

theorem file_buffer_fits_the_read_witness:
  "\<exists>pages w s3 s4. AllocatePages no_pages_firmware AllocateAnyPages EfiLoaderData pages 0x7000 s3
      = (w, 0x7000, s4) \<and> EFI_ERROR w \<and> 100 \<le> unat pages * 4096
    \<and> (\<exists>status s'. FileRead no_pages_firmware 0x4000 100 0x7000 s4 = (status, 100, s') \<and> \<not> EFI_ERROR status)"
proof -
  have "\<lparr> Buffer = 0x7000, BufferSize = 100 \<rparr> \<noteq> INVALID_READ_FILE_INFO"
    by (simp add: INVALID_READ_FILE_INFO_def)
  from file_buffer_fits_the_read [OF no_pages_run this] obtain pages w size status s3 s4 where run:
      "AllocatePages no_pages_firmware AllocateAnyPages EfiLoaderData pages 0x7000 s3 = (w, 0x7000, s4)"
      "unat size \<le> unat pages * 4096" "\<not> EFI_ERROR status"
      "FileRead no_pages_firmware 0x4000 size 0x7000 s4 = (status, 100,
         \<lparr> memory = file_info_memory, env = [Alloc 0x1000, Free 0x1000, ReadDone 0] \<rparr>)"
    by auto
  from run(4) have sz: "size = 100" by (simp add: no_pages_simps)
  from run(1) have w: "w = EFI_OUT_OF_RESOURCES" by (simp add: no_pages_simps)
  have "EFI_ERROR EFI_OUT_OF_RESOURCES"
    by (simp add: EFI_ERROR_def EFI_OUT_OF_RESOURCES_def EFIERR_def)
  moreover have "100 \<le> unat pages * 4096" using run(2) sz by simp
  ultimately show ?thesis using run(1,3,4) unfolding w sz by blast
qed

end
