(* ===== verification/Header_Loop.thy ===== *)
theory Header_Loop
  imports Kernel_Reader
begin

text \<open>
  What the two loading loops of the kernel reader have in common: they run a step over the
  headers of a table; a step takes pages from the firmware, fills them and leaves everything else
  alone. The locale \<open>header_step\<close> is this contract of a step, its client lemma \<open>run\<close> what a whole
  loop then leaves in memory, for pages that overlap neither the file nor each other.
\<close>

section \<open>Blocks inside and beside the file\<close>

definition in_file :: "ElfLoader \<Rightarrow> u64 \<Rightarrow> bool" where
  "in_file l a \<longleftrightarrow> in_blk (elfFile l) (unat (elfFileSize l)) a"

definition beside_file :: "ElfLoader \<Rightarrow> u64 \<Rightarrow> nat \<Rightarrow> bool" where
  "beside_file l d n \<longleftrightarrow> disj_blk d n (elfFile l) (unat (elfFileSize l))"

definition same_file :: "ElfLoader \<Rightarrow> mem \<Rightarrow> mem \<Rightarrow> bool" where
  "same_file l m0 m \<longleftrightarrow> (\<forall>a. in_file l a \<longrightarrow> m a = m0 a)"

lemma same_file_refl [simp]: "same_file l m m"
  by (simp add: same_file_def)

lemma disj_blk_part:
  assumes "disj_blk d n q k" and "unat x + j \<le> k" and "0 < j"
  shows "disj_blk d n (q + x) j" "j \<le> unat (d - (q + x))"
proof -
  have le: "n \<le> unat (q - d)" "k \<le> unat (d - q)" using assms(1) by (simp_all add: disj_blk_def)
  have w: "d - (q + x) = (d - q) - x" "q + x - d = (q - d) + x" by simp_all
  have sw: "unat (q - d) = 18446744073709551616 - unat (d - q)"
    using unat_sub_cases [of 0 "d - q"] assms(2,3) le by auto
  have 1: "j \<le> unat (d - (q + x))"
    unfolding w using unat_sub_cases [of "d - q" x] le assms(2) by auto
  have "unat (q + x - d) = unat (q - d) + unat x"
    unfolding w using unat_add_cases [of "q - d" x] sw le assms(2,3) unat64_less [of "d - q"] by auto
  then show "disj_blk d n (q + x) j" "j \<le> unat (d - (q + x))"
    using 1 le by (auto simp: disj_blk_def)
qed

lemma in_file_part: "unat x + unat y < unat (elfFileSize l) \<Longrightarrow> in_file l (elfFile l + x + y)"
  unfolding in_file_def using unat_add_cases [of x y] unat64_less [of "elfFileSize l"]
  by (simp add: in_blk_plus add.assoc)

lemma block_in_file:
  "unat (p - elfFile l) + k \<le> unat (elfFileSize l) \<Longrightarrow> in_blk p k a \<Longrightarrow> in_file l a"
  unfolding in_file_def
  by (metis add_diff_cancel_left' diff_add_cancel in_blk_shift unat64_le add.commute)

section \<open>Writing a list of bytes\<close>

definition put_bytes :: "mem \<Rightarrow> u64 \<Rightarrow> u8 list \<Rightarrow> mem" where
  "put_bytes m d xs = (\<lambda>a. if in_blk d (length xs) a then xs ! unat (a - d) else m a)"

lemma put_bytes_other: "\<not> in_blk d (length xs) a \<Longrightarrow> put_bytes m d xs a = m a"
  by (simp add: put_bytes_def)

lemma ld_bytes_put:
  assumes "length xs < 18446744073709551616"
  shows "ld_bytes (put_bytes m d xs) d (length xs) = xs"
proof (rule nth_equalityI)
  fix i assume "i < length (ld_bytes (put_bytes m d xs) d (length xs))"
  then have i: "i < length xs" by simp
  then have "unat (of_nat i :: u64) = i" using assms by (intro unat_of_nat64) simp
  then show "ld_bytes (put_bytes m d xs) d (length xs) ! i = xs ! i"
    using i by (simp add: put_bytes_def in_blk_plus)
qed simp

section \<open>The loop\<close>

fun run_headers :: "(u64 \<Rightarrow> 'e machine \<Rightarrow> ElfError \<times> 'e machine) \<Rightarrow> (nat \<Rightarrow> u64) \<Rightarrow> nat \<Rightarrow> nat
    \<Rightarrow> 'e machine \<Rightarrow> bool \<times> 'e machine" where
  "run_headers step at 0 i s = (True, s)"
| "run_headers step at (Suc n) i s = (let (e, s) = step (at i) s in
     if load_failed e then (False, s) else run_headers step at n (Suc i) s)"

text \<open>The headers that got pages in a run, with the address of their pages.\<close>

fun run_blocks :: "(u64 \<Rightarrow> 'e machine \<Rightarrow> ElfError \<times> 'e machine) \<Rightarrow> (u64 \<Rightarrow> 'e machine \<Rightarrow> u64 option)
    \<Rightarrow> (nat \<Rightarrow> u64) \<Rightarrow> nat \<Rightarrow> nat \<Rightarrow> 'e machine \<Rightarrow> (u64 \<times> u64) list" where
  "run_blocks step target at 0 i s = []"
| "run_blocks step target at (Suc n) i s =
     (case target (at i) s of None \<Rightarrow> [] | Some d \<Rightarrow> [(at i, d)])
     @ run_blocks step target at n (Suc i) (snd (step (at i) s))"

text \<open>The blocks \<open>(d, n)\<close> lie beside the file and beside each other; an address outside of all.\<close>

definition separate :: "ElfLoader \<Rightarrow> (u64 \<times> nat) list \<Rightarrow> bool" where
  "separate l bs \<longleftrightarrow> list_all (\<lambda>(d, n). beside_file l d n) bs
     \<and> sorted_wrt (\<lambda>(d, n) (e, k). disj_blk d n e k) bs"

definition outside :: "(u64 \<times> nat) list \<Rightarrow> u64 \<Rightarrow> bool" where
  "outside bs a \<longleftrightarrow> list_all (\<lambda>(d, n). \<not> in_blk d n a) bs"

lemma outside_simps [simp]:
  "outside [] a" "outside (b # bs) a \<longleftrightarrow> \<not> in_blk (fst b) (snd b) a \<and> outside bs a"
  "outside (bs @ cs) a \<longleftrightarrow> outside bs a \<and> outside cs a"
  by (auto simp: outside_def split: prod.splits)

lemma separate_Cons:
  "separate l ((d, n) # bs) \<longleftrightarrow> beside_file l d n \<and> separate l bs
     \<and> list_all (\<lambda>(e, k). disj_blk d n e k) bs"
  by (auto simp: separate_def list_all_iff)

lemma separate_append:
  "separate l (bs @ cs) \<longleftrightarrow> separate l bs \<and> separate l cs
     \<and> list_all (\<lambda>(d, n). list_all (\<lambda>(e, k). disj_blk d n e k) cs) bs"
  by (induction bs) (auto simp: separate_Cons separate_def list_all_iff)

lemma in_block_outside:
  "in_blk d n a \<Longrightarrow> list_all (\<lambda>(e, k). disj_blk d n e k) bs \<Longrightarrow> outside bs a"
  unfolding outside_def list_all_iff using disj_blkD by fastforce

lemma in_file_outside: "separate l bs \<Longrightarrow> in_file l a \<Longrightarrow> outside bs a"
  unfolding separate_def outside_def list_all_iff in_file_def beside_file_def
  using disj_blkD by fastforce

lemma ld_bytes_frame:
  assumes "length xs < 18446744073709551616" and "\<And>a. in_blk d (length xs) a \<Longrightarrow> m' a = m a"
  shows "ld_bytes m' d (length xs) = ld_bytes m d (length xs)"
  by (rule ld_bytes_cong) (use assms in \<open>simp add: in_blk_plus unat_of_nat64\<close>)

section \<open>The contract of a step\<close>

text \<open>
  A context \<open>c\<close> (the firmware and the file) and a header \<open>p\<close> of the file contents \<open>m0\<close> that is
  usable: a header that is not wanted is skipped without any effect; a wanted one gets pages at
  the target address and they are filled with its bytes.
\<close>

locale header_step =
  fixes elf :: "'c \<Rightarrow> ElfLoader"
    and step :: "'c \<Rightarrow> u64 \<Rightarrow> 'e machine \<Rightarrow> ElfError \<times> 'e machine"
    and target :: "'c \<Rightarrow> u64 \<Rightarrow> 'e machine \<Rightarrow> u64 option"
    and usable :: "'c \<Rightarrow> mem \<Rightarrow> u64 \<Rightarrow> bool"
    and wanted :: "mem \<Rightarrow> u64 \<Rightarrow> bool"
    and bytes :: "'c \<Rightarrow> mem \<Rightarrow> u64 \<Rightarrow> u8 list"
  assumes chosen: "usable c m0 p \<Longrightarrow> same_file (elf c) m0 (memory s) \<Longrightarrow>
      target c p s = None \<longleftrightarrow> \<not> wanted m0 p"
    and skip: "usable c m0 p \<Longrightarrow> same_file (elf c) m0 (memory s) \<Longrightarrow> target c p s = None \<Longrightarrow>
      step c p s = (ElfSectionNotLoadable, s)"
    and fill: "usable c m0 p \<Longrightarrow> same_file (elf c) m0 (memory s) \<Longrightarrow> target c p s = Some d \<Longrightarrow>
      beside_file (elf c) d (length (bytes c m0 p)) \<Longrightarrow>
      fst (step c p s) = NoError \<and> memory (snd (step c p s)) = put_bytes (memory s) d (bytes c m0 p)"
    and small: "usable c m0 p \<Longrightarrow> length (bytes c m0 p) < 18446744073709551616"
begin

abbreviation blocks :: "'c \<Rightarrow> mem \<Rightarrow> (u64 \<times> u64) list \<Rightarrow> (u64 \<times> nat) list" where
  "blocks c m0 ds \<equiv> map (\<lambda>(p, d). (d, length (bytes c m0 p))) ds"

abbreviation filled :: "'c \<Rightarrow> mem \<Rightarrow> mem \<Rightarrow> (u64 \<times> u64) list \<Rightarrow> bool" where
  "filled c m0 m ds \<equiv> list_all (\<lambda>(p, d). ld_bytes m d (length (bytes c m0 p)) = bytes c m0 p) ds"

lemma run:
  assumes "list_all (usable c m0) (map at [i..<i + n])" and "same_file (elf c) m0 (memory s)"
    and "ds = run_blocks (step c) (target c) at n i s" and "separate (elf c) (blocks c m0 ds)"
    and "r = run_headers (step c) at n i s"
  shows "fst r \<and> same_file (elf c) m0 (memory (snd r)) \<and> filled c m0 (memory (snd r)) ds
    \<and> (\<forall>a. outside (blocks c m0 ds) a \<longrightarrow> memory (snd r) a = memory s a)
    \<and> map fst ds = filter (wanted m0) (map at [i..<i + n])"
  using assms
proof (induction n arbitrary: i s ds r)
  case 0
  then show ?case by simp
next
  case (Suc n)
  let ?p = "at i"
  have ups: "[i..<i + Suc n] = i # [Suc i..<Suc i + n]" by (simp add: upt_rec [of i])
  have u: "usable c m0 ?p" and us: "list_all (usable c m0) (map at [Suc i..<Suc i + n])"
    using Suc.prems(1) unfolding ups by simp_all
  note same = Suc.prems(2)
  obtain e s1 where st: "step c ?p s = (e, s1)" by fastforce
  let ?ds = "run_blocks (step c) (target c) at n (Suc i) s1"
  let ?r = "run_headers (step c) at n (Suc i) s1"
  show ?case
  proof (cases "target c ?p s")
    case None
    then have "e = ElfSectionNotLoadable" "s1 = s" "\<not> wanted m0 ?p"
      using skip [OF u same] chosen [OF u same] st by simp_all
    moreover have "ds = ?ds" "r = ?r"
      using Suc.prems(3,5) None st calculation(1) by (simp_all add: load_failed_def)
    ultimately show ?thesis
      using Suc.IH [OF us _ refl _ refl, of s] same Suc.prems(4) unfolding ups by simp
  next
    case (Some d)
    have ds: "ds = (?p, d) # ?ds" using Suc.prems(3) Some st by simp
    let ?xs = "bytes c m0 ?p"
    have beside: "beside_file (elf c) d (length ?xs)" and sep: "separate (elf c) (blocks c m0 ?ds)"
      and apart: "list_all (\<lambda>(q, k). disj_blk d (length ?xs) q k) (blocks c m0 ?ds)"
      using Suc.prems(4) unfolding ds by (simp_all add: separate_Cons)
    have f: "e = NoError" "memory s1 = put_bytes (memory s) d ?xs"
      using fill [OF u same Some beside] st by simp_all
    then have r: "r = ?r" using Suc.prems(5) st by (simp add: load_failed_def)
    have "\<not> in_blk d (length ?xs) a" if "in_file (elf c) a" for a
      using that beside disj_blkD unfolding in_file_def beside_file_def by blast
    then have same1: "same_file (elf c) m0 (memory s1)"
      using same by (simp add: same_file_def f(2) put_bytes_other)
    note ih = Suc.IH [OF us same1 refl sep refl, folded r]
    have "ld_bytes (memory (snd r)) d (length ?xs) = ld_bytes (memory s1) d (length ?xs)"
      using ih in_block_outside [OF _ apart] by (intro ld_bytes_frame [OF small [OF u]]) auto
    then have "ld_bytes (memory (snd r)) d (length ?xs) = ?xs"
      using ld_bytes_put [OF small [OF u]] by (simp add: f(2))
    moreover have "memory (snd r) a = memory s a" if "outside (blocks c m0 ds) a" for a
      using that ih by (simp add: ds f(2) put_bytes_other)
    moreover have "wanted m0 ?p" using chosen [OF u same] Some by simp
    ultimately show ?thesis using ih unfolding ds ups by simp
  qed
qed

end

end
