(* ===== verification/Kernel_Load.thy ===== *)
theory Kernel_Load
  imports Header_Loop
begin

text \<open>
  The loading of the kernel as a whole: with an allocator that hands out pages that overlap
  neither the file nor each other, every loadable segment of a well-formed file is loaded as its
  exact image, and every allocated NOBITS section gets cleared pages. The loading runs the
  ELF loader, the memory functions and the page allocator together. Its two stages are
  interpretations of the locale \<open>header_step\<close>.
\<close>

section \<open>Well-formed files, sufficient memory\<close>

text \<open>
  A program header inside the file that is either not loadable or describes bytes inside the
  file, not more than the segment has in memory, and a segment not larger than the rest of the file.
\<close>

definition good_header :: "mem \<Rightarrow> ElfLoader \<Rightarrow> u64 \<Rightarrow> bool" where
  "good_header m l p \<longleftrightarrow> (let ph = read_ProgHeader m p in
     unat (p - elfFile l) + 56 \<le> unat (elfFileSize l)
     \<and> (SegmentType ph = PT_LOAD \<longrightarrow> SizeInFile ph \<le> SizeInMemory ph
        \<and> unat (Offset ph) + unat (SizeInMemory ph) < unat (elfFileSize l)))"

text \<open>A section header inside the file, and with the bounds the loader asks for.\<close>

definition allocated_nobits :: "Elf64_SectionHeader \<Rightarrow> bool" where
  "allocated_nobits sh \<longleftrightarrow> SectionHeaderType sh = SHT_NOBITS \<and> SectionSize sh \<noteq> 0 \<and> bit (SecFlags sh) 1"

definition good_section :: "mem \<Rightarrow> ElfLoader \<Rightarrow> u64 \<Rightarrow> bool" where
  "good_section m l p \<longleftrightarrow> (let sh = read_SectionHeader m p in
     unat (p - elfFile l) + 64 \<le> unat (elfFileSize l)
     \<and> (allocated_nobits sh \<longrightarrow> unat (OffsetInFile sh) + unat (SectionSize sh) < unat (elfFileSize l)))"

text \<open>A firmware with pages left: its page allocation succeeds and does not write to memory.\<close>

definition supplies_pages :: "'e firmware \<Rightarrow> bool" where
  "supplies_pages fw \<longleftrightarrow> (\<forall>t m n p s. case AllocatePages fw t m n p s of (status, q, s') \<Rightarrow>
     \<not> EFI_ERROR status \<and> q \<noteq> 0 \<and> memory s' = memory s)"

lemma same_file_header:
  "same_file l m0 m \<Longrightarrow> unat (p - elfFile l) + 56 \<le> unat (elfFileSize l) \<Longrightarrow>
   read_ProgHeader m p = read_ProgHeader m0 p"
  by (rule read_ProgHeader_cong) (simp add: same_file_def block_in_file)

lemma same_file_section:
  "same_file l m0 m \<Longrightarrow> unat (p - elfFile l) + 64 \<le> unat (elfFileSize l) \<Longrightarrow>
   read_SectionHeader m p = read_SectionHeader m0 p"
  by (rule read_SectionHeader_cong) (simp add: same_file_def block_in_file)

section \<open>One program header\<close>

lemma page_loader_supplies:
  "supplies_pages fw \<Longrightarrow> page_loader fw n v f s = (d, s') \<Longrightarrow> d \<noteq> 0 \<and> memory s' = memory s"
  unfolding supplies_pages_def page_loader_def by (fastforce split: prod.splits if_splits)

lemma load_one:
  assumes "supplies_pages fw" and "same_file l m0 (memory s)" and "good_header m0 l p"
    and ph: "ph = read_ProgHeader m0 p" "SegmentType ph = PT_LOAD"
    and "page_loader fw (ucast (SizeInMemory ph)) (VirtAddress ph) (SegFlags ph) s = (d, s')"
    and "beside_file l d (unat (SizeInMemory ph))"
  shows "loadExecutableProgram l p (page_loader fw) s = (NoError, s'\<lparr>memory := \<lambda>a.
    if in_blk d (unat (SizeInFile ph)) a then m0 (elfFile l + Offset ph + (a - d))
    else if in_blk d (unat (SizeInMemory ph)) a then 0 else memory s a\<rparr>)"
proof -
  have r: "ph = read_ProgHeader (memory s) p"
    using same_file_header [OF assms(2), of p] assms(3) ph(1) by (simp add: good_header_def Let_def)
  have m: "d \<noteq> 0" "memory s' = memory s" using page_loader_supplies [OF assms(1,6)] by simp_all
  have g: "unat (p - elfFile l) + 56 \<le> unat (elfFileSize l)" "SizeInFile ph \<le> SizeInMemory ph"
      "unat (Offset ph) + unat (SizeInMemory ph) < unat (elfFileSize l)"
    using assms(3) ph by (simp_all add: good_header_def Let_def)
  then have f: "unat (SizeInFile ph) \<le> unat (SizeInMemory ph)" by (simp add: word_le_nat_alt)
  have hd: "disj_blk d (unat (SizeInMemory ph)) p 56"
    using disj_blk_part(1) [OF assms(7) [unfolded beside_file_def] g(1)] by simp
  have far: "unat (SizeInFile ph) \<le> unat (d - (elfFile l + Offset ph))"
  proof (cases "unat (SizeInFile ph) = 0")
    case False
    then show ?thesis
      using disj_blk_part(2) [OF assms(7) [unfolded beside_file_def], of "Offset ph" "unat (SizeInFile ph)"]
        f g(3) by simp
  qed simp
  have "memory s (elfFile l + Offset ph + (a - d)) = m0 (elfFile l + Offset ph + (a - d))"
    if "in_blk d (unat (SizeInFile ph)) a" for a
    using that assms(2) in_file_part [of "Offset ph" "a - d" l] f g(3)
    by (simp add: same_file_def in_blk_def)
  then have "(\<lambda>a. if in_blk d (unat (SizeInFile ph)) a then memory s' (elfFile l + Offset ph + (a - d))
      else if in_blk d (unat (SizeInMemory ph)) a then 0 else memory s' a)
    = (\<lambda>a. if in_blk d (unat (SizeInFile ph)) a then m0 (elfFile l + Offset ph + (a - d))
      else if in_blk d (unat (SizeInMemory ph)) a then 0 else memory s a)"
    by (simp add: m(2) fun_eq_iff)
  then show ?thesis
    using segment_loaded [where ph = ph and s = s and p = p and cb = "page_loader fw" and dest = d
        and s' = s' and l = l, OF r ph(2) assms(6) m(1) _ hd far g(2,3)] m(2) by simp
qed

section \<open>The program header stage\<close>

text \<open>The bytes of a loadable segment: those of the file, then zeros up to its size in memory.\<close>

definition segment_bytes :: "mem \<Rightarrow> ElfLoader \<Rightarrow> u64 \<Rightarrow> u8 list" where
  "segment_bytes m l p = (let ph = read_ProgHeader m p in
     if SegmentType ph = PT_LOAD
     then ld_bytes m (elfFile l + Offset ph) (unat (SizeInFile ph))
       @ replicate (unat (SizeInMemory ph) - unat (SizeInFile ph)) 0
     else [])"

definition loadable :: "mem \<Rightarrow> u64 \<Rightarrow> bool" where
  "loadable m p \<longleftrightarrow> SegmentType (read_ProgHeader m p) = PT_LOAD"

definition program_step :: "'e firmware \<times> ElfLoader \<Rightarrow> u64 \<Rightarrow> 'e machine \<Rightarrow> ElfError \<times> 'e machine" where
  "program_step c p = loadExecutableProgram (snd c) p (page_loader (fst c))"

definition program_target :: "'e firmware \<times> ElfLoader \<Rightarrow> u64 \<Rightarrow> 'e machine \<Rightarrow> u64 option" where
  "program_target c p s = (let ph = read_ProgHeader (memory s) p in
     if SegmentType ph = PT_LOAD
     then Some (fst (page_loader (fst c) (ucast (SizeInMemory ph)) (VirtAddress ph) (SegFlags ph) s))
     else None)"

definition program_usable :: "'e firmware \<times> ElfLoader \<Rightarrow> mem \<Rightarrow> u64 \<Rightarrow> bool" where
  "program_usable c m p \<longleftrightarrow> supplies_pages (fst c) \<and> good_header m (snd c) p"

lemma load_other:
  "SegmentType (read_ProgHeader (memory s) p) \<noteq> PT_LOAD \<Longrightarrow>
   loadExecutableProgram l p cb s = (ElfSectionNotLoadable, s)"
  by (simp add: loadExecutableProgram_def Let_def)

lemma put_segment:
  assumes "unat f \<le> unat (n :: u64)"
  shows "put_bytes m d (ld_bytes m0 q (unat f) @ replicate (unat n - unat f) 0) =
    (\<lambda>a. if in_blk d (unat f) a then m0 (q + (a - d)) else if in_blk d (unat n) a then 0 else m a)"
  using assms by (auto simp: put_bytes_def fun_eq_iff in_blk_def nth_append)

lemma good_sizes:
  "good_header m l p \<Longrightarrow> loadable m p \<Longrightarrow>
   unat (SizeInFile (read_ProgHeader m p)) \<le> unat (SizeInMemory (read_ProgHeader m p))"
  by (simp add: good_header_def loadable_def Let_def word_le_nat_alt)

lemma segment_bytes_length:
  "good_header m l p \<Longrightarrow> loadable m p \<Longrightarrow>
   length (segment_bytes m l p) = unat (SizeInMemory (read_ProgHeader m p))"
  using good_sizes [of m l p] by (simp add: segment_bytes_def loadable_def Let_def)

lemma segment_bytes_small: "length (segment_bytes m l p) < 18446744073709551616"
proof -
  have "a + (b - a) < n" if "a < n" "b < n" for a b n :: nat using that by simp
  then show ?thesis by (simp add: segment_bytes_def unat64_less Let_def)
qed

interpretation programs: header_step snd program_step program_target program_usable loadable
  "\<lambda>c m. segment_bytes m (snd c)"
proof unfold_locales
  fix c :: "'e firmware \<times> ElfLoader" and m0 p and s :: "'e machine" and d
  assume u: "program_usable c m0 p"
  show "length (segment_bytes m0 (snd c) p) < 18446744073709551616"
    by (rule segment_bytes_small)
  assume same: "same_file (snd c) m0 (memory s)"
  have r: "read_ProgHeader (memory s) p = read_ProgHeader m0 p"
    using u by (intro same_file_header [OF same]) (simp add: program_usable_def good_header_def Let_def)
  show "(program_target c p s = None) = (\<not> loadable m0 p)"
    by (simp add: program_target_def loadable_def r Let_def)
  show "program_target c p s = None \<Longrightarrow> program_step c p s = (ElfSectionNotLoadable, s)"
    unfolding program_step_def by (rule load_other) (simp add: program_target_def Let_def split: if_splits)
  let ?xs = "segment_bytes m0 (snd c) p"
  assume t: "program_target c p s = Some d" and beside: "beside_file (snd c) d (length ?xs)"
  show "fst (program_step c p s) = NoError
    \<and> memory (snd (program_step c p s)) = put_bytes (memory s) d ?xs"
  proof (cases "loadable m0 p")
    case False
    then show ?thesis using t r by (simp add: program_target_def loadable_def Let_def)
  next
    case True
    let ?ph = "read_ProgHeader m0 p"
    have g: "supplies_pages (fst c)" "good_header m0 (snd c) p"
      using u by (simp_all add: program_usable_def)
    have n: "length (segment_bytes m0 (snd c) p) = unat (SizeInMemory ?ph)"
      by (rule segment_bytes_length [OF g(2) True])
    have xs: "segment_bytes m0 (snd c) p = ld_bytes m0 (elfFile (snd c) + Offset ?ph) (unat (SizeInFile ?ph))
        @ replicate (unat (SizeInMemory ?ph) - unat (SizeInFile ?ph)) 0"
      using True by (simp add: segment_bytes_def loadable_def Let_def)
    obtain s' where "page_loader (fst c) (ucast (SizeInMemory ?ph)) (VirtAddress ?ph) (SegFlags ?ph) s
        = (d, s')"
      using t by (auto simp: program_target_def r Let_def prod_eq_iff split: if_splits)
    from load_one [OF g(1) same g(2) refl True [unfolded loadable_def] this]
    show ?thesis
      using True beside n
      by (simp add: program_step_def
          put_segment [OF good_sizes [OF g(2) True], of _ _ m0 "elfFile (snd c) + Offset ?ph", folded xs])
  qed
qed

section \<open>The section stage\<close>

definition cleared_bytes :: "mem \<Rightarrow> u64 \<Rightarrow> u8 list" where
  "cleared_bytes m p = (let sh = read_SectionHeader m p in
     if allocated_nobits sh then replicate (unat (SectionSize sh)) 0 else [])"

definition section_step :: "'e firmware \<times> ElfLoader \<Rightarrow> u64 \<Rightarrow> 'e machine \<Rightarrow> ElfError \<times> 'e machine" where
  "section_step c p = loadNoBitsSection (snd c) p (page_loader (fst c))"

definition section_target :: "'e firmware \<times> ElfLoader \<Rightarrow> u64 \<Rightarrow> 'e machine \<Rightarrow> u64 option" where
  "section_target c p s = (let sh = read_SectionHeader (memory s) p in
     if allocated_nobits sh
     then Some (fst (page_loader (fst c) (ucast (SectionSize sh)) (VirtualAddress sh) 6 s))
     else None)"

definition section_usable :: "'e firmware \<times> ElfLoader \<Rightarrow> mem \<Rightarrow> u64 \<Rightarrow> bool" where
  "section_usable c m p \<longleftrightarrow> supplies_pages (fst c) \<and> good_section m (snd c) p"

lemma put_zeros: "put_bytes m d (replicate n 0) = fill m d n 0"
  by (auto simp: put_bytes_def fill_def in_blk_def)

interpretation sections: header_step snd section_step section_target section_usable
  "\<lambda>m p. allocated_nobits (read_SectionHeader m p)" "\<lambda>c. cleared_bytes"
proof unfold_locales
  fix c :: "'e firmware \<times> ElfLoader" and m0 p and s :: "'e machine" and d
  assume u: "section_usable c m0 p"
  show "length (cleared_bytes m0 p) < 18446744073709551616"
    by (simp add: cleared_bytes_def Let_def)
  assume same: "same_file (snd c) m0 (memory s)"
  have r: "read_SectionHeader (memory s) p = read_SectionHeader m0 p"
    using u by (intro same_file_section [OF same]) (simp add: section_usable_def good_section_def Let_def)
  show "(section_target c p s = None) = (\<not> allocated_nobits (read_SectionHeader m0 p))"
    by (simp add: section_target_def r Let_def)
  show "section_target c p s = None \<Longrightarrow> section_step c p s = (ElfSectionNotLoadable, s)"
    by (auto simp: section_target_def section_step_def loadNoBitsSection_def alloc_flag
        allocated_nobits_def Let_def split: if_splits)
  assume t: "section_target c p s = Some d"
  then have a: "allocated_nobits (read_SectionHeader m0 p)"
    by (simp add: section_target_def r Let_def split: if_splits)
  let ?sh = "read_SectionHeader m0 p"
  obtain s' where pl: "page_loader (fst c) (ucast (SectionSize ?sh)) (VirtualAddress ?sh) 6 s = (d, s')"
    using t by (auto simp: section_target_def r Let_def prod_eq_iff split: if_splits)
  have "supplies_pages (fst c)" using u by (simp add: section_usable_def)
  from page_loader_supplies [OF this pl] have m: "d \<noteq> 0" "memory s' = memory s" by simp_all
  show "fst (section_step c p s) = NoError
    \<and> memory (snd (section_step c p s)) = put_bytes (memory s) d (cleared_bytes m0 p)"
    using nobits_loaded [where sh = ?sh and s = s and p = p and cb = "page_loader (fst c)" and dest = d
        and s' = s' and l = "snd c", OF r [symmetric] pl m(1)] u a r m(2)
    by (simp add: section_step_def section_usable_def good_section_def allocated_nobits_def
        cleared_bytes_def put_zeros Let_def)
qed

section \<open>Both stages\<close>

definition header_at :: "u64 \<Rightarrow> nat \<Rightarrow> nat \<Rightarrow> u64" where
  "header_at t n i = t + of_nat i * of_nat n"

lemma load_programs_run:
  "load_programs fw l t n (of_nat i) s = run_headers (program_step (fw, l)) (header_at t 56) n i s"
  by (induction n arbitrary: i s)
    (simp_all add: program_step_def header_at_def elf_sizes Let_def add.commute split: prod.splits
      flip: of_nat_Suc)

lemma load_sections_run:
  "load_sections fw l t n (of_nat i) s = run_headers (section_step (fw, l)) (header_at t 64) n i s"
  by (induction n arbitrary: i s)
    (simp_all add: section_step_def header_at_def elf_sizes Let_def add.commute split: prod.splits
      flip: of_nat_Suc)

definition program_headers :: "mem \<Rightarrow> ElfLoader \<Rightarrow> u64 list" where
  "program_headers m l = (let h = read_ElfHeader m (elfFile l) in
     map (header_at (elfFile l + ProgHeaderOffset h) 56) [0..<unat (ProgHeaderTableEntriesNum h)])"

definition section_headers :: "mem \<Rightarrow> ElfLoader \<Rightarrow> u64 list" where
  "section_headers m l = (let h = read_ElfHeader m (elfFile l) in
     map (header_at (elfFile l + SectionHeaderOffset h) 64) [0..<unat (SectionHeaderTableEntriesNum h)])"

text \<open>
  A well-formed file: it passes the check of its header, both tables have the expected entry size
  and end before the file does, and their headers are good.
\<close>

definition good_file :: "mem \<Rightarrow> ElfLoader \<Rightarrow> bool" where
  "good_file m l \<longleftrightarrow> (let h = read_ElfHeader m (elfFile l) in
     checkElf m l = NoError \<and> 64 \<le> unat (elfFileSize l)
     \<and> ProgHeaderEntrySize h = 56 \<and> SectionHeaderEntrySize h = 64
     \<and> unat (ProgHeaderOffset h) + 56 * unat (ProgHeaderTableEntriesNum h) < unat (elfFileSize l)
     \<and> unat (SectionHeaderOffset h) + 64 * unat (SectionHeaderTableEntriesNum h) < unat (elfFileSize l)
     \<and> list_all (good_header m l) (program_headers m l)
     \<and> list_all (good_section m l) (section_headers m l))"

text \<open>The header and the address of the pages for it, in the order of the run.\<close>

definition program_pages :: "'e firmware \<Rightarrow> ElfLoader \<Rightarrow> 'e machine \<Rightarrow> (u64 \<times> u64) list" where
  "program_pages fw l s = (let h = read_ElfHeader (memory s) (elfFile l) in
     run_blocks (program_step (fw, l)) (program_target (fw, l))
       (header_at (elfFile l + ProgHeaderOffset h) 56) (unat (ProgHeaderTableEntriesNum h)) 0 s)"

definition section_pages :: "'e firmware \<Rightarrow> ElfLoader \<Rightarrow> 'e machine \<Rightarrow> (u64 \<times> u64) list" where
  "section_pages fw l s = (let h = read_ElfHeader (memory s) (elfFile l) in
     run_blocks (section_step (fw, l)) (section_target (fw, l))
       (header_at (elfFile l + SectionHeaderOffset h) 64) (unat (SectionHeaderTableEntriesNum h)) 0 s)"

lemma tables_found:
  assumes "good_file m0 l" and "same_file l m0 m"
  shows "checkElf m l = NoError" "read_ElfHeader m (elfFile l) = read_ElfHeader m0 (elfFile l)"
    and "getProgramHeaders m l k = (let h = read_ElfHeader m0 (elfFile l) in
      (elfFile l + ProgHeaderOffset h, ucast (ProgHeaderTableEntriesNum h), NoError))"
    and "getSectionHeaders m l k = (let h = read_ElfHeader m0 (elfFile l) in
      (elfFile l + SectionHeaderOffset h, ucast (SectionHeaderTableEntriesNum h), NoError))"
proof -
  have "in_blk (elfFile l) 64 a \<Longrightarrow> m a = m0 a" for a
    using assms block_in_file [of "elfFile l" l 64 a] by (simp add: good_file_def same_file_def Let_def)
  then show h: "read_ElfHeader m (elfFile l) = read_ElfHeader m0 (elfFile l)"
    by (rule read_ElfHeader_cong)
  then show c: "checkElf m l = NoError"
    using assms(1) by (simp add: good_file_def checkElf_def Let_def)
  let ?h = "read_ElfHeader m0 (elfFile l)"
  note end_ok = table_end_no_wrap [of "ProgHeaderOffset ?h" 56 "ProgHeaderTableEntriesNum ?h" "elfFileSize l"]
    table_end_no_wrap [of "SectionHeaderOffset ?h" 64 "SectionHeaderTableEntriesNum ?h" "elfFileSize l"]
    unat64_less [of "elfFileSize l"]
  show "getProgramHeaders m l k = (let h = read_ElfHeader m0 (elfFile l) in
      (elfFile l + ProgHeaderOffset h, ucast (ProgHeaderTableEntriesNum h), NoError))"
    using assms(1) c end_ok by (simp add: getProgramHeaders_cases h good_file_def Let_def)
  show "getSectionHeaders m l k = (let h = read_ElfHeader m0 (elfFile l) in
      (elfFile l + SectionHeaderOffset h, ucast (SectionHeaderTableEntriesNum h), NoError))"
    using assms(1) c end_ok by (simp add: getSectionHeaders_cases h good_file_def Let_def)
qed

text \<open>The blocks of memory for the segments and the sections, and what they must hold.\<close>

definition segment_blocks :: "mem \<Rightarrow> ElfLoader \<Rightarrow> (u64 \<times> u64) list \<Rightarrow> (u64 \<times> nat) list" where
  "segment_blocks m l = map (\<lambda>(p, d). (d, length (segment_bytes m l p)))"

definition section_blocks :: "mem \<Rightarrow> (u64 \<times> u64) list \<Rightarrow> (u64 \<times> nat) list" where
  "section_blocks m = map (\<lambda>(p, d). (d, length (cleared_bytes m p)))"

definition holds :: "mem \<Rightarrow> u64 \<Rightarrow> u8 list \<Rightarrow> bool" where
  "holds m d xs \<longleftrightarrow> ld_bytes m d (length xs) = xs"

text \<open>Each stage alone.\<close>

lemma every_segment_loaded:
  assumes "supplies_pages fw" and "good_file m0 l" and "same_file l m0 (memory s)"
    and "ps = program_pages fw l s" and "separate l (segment_blocks m0 l ps)"
    and "h = read_ElfHeader m0 (elfFile l)"
    and "r = load_programs fw l (elfFile l + ProgHeaderOffset h) (unat (ProgHeaderTableEntriesNum h)) 0 s"
  shows "fst r \<and> same_file l m0 (memory (snd r))
    \<and> list_all (\<lambda>(p, d). holds (memory (snd r)) d (segment_bytes m0 l p)) ps
    \<and> (\<forall>a. outside (segment_blocks m0 l ps) a \<longrightarrow> memory (snd r) a = memory s a)
    \<and> map fst ps = filter (loadable m0) (program_headers m0 l)"
proof -
  have h: "h = read_ElfHeader (memory s) (elfFile l)" using tables_found(2) [OF assms(2,3)] assms(6) by simp
  have u: "list_all (program_usable (fw, l) m0)
      (map (header_at (elfFile l + ProgHeaderOffset h) 56) [0..<0 + unat (ProgHeaderTableEntriesNum h)])"
    using assms(1,2,6)
    by (simp add: good_file_def program_headers_def program_usable_def list_all_iff Let_def)
  have ps: "ps = run_blocks (program_step (fw, l)) (program_target (fw, l))
      (header_at (elfFile l + ProgHeaderOffset h) 56) (unat (ProgHeaderTableEntriesNum h)) 0 s"
    by (simp add: assms(4) program_pages_def h Let_def)
  have r: "r = run_headers (program_step (fw, l)) (header_at (elfFile l + ProgHeaderOffset h) 56)
      (unat (ProgHeaderTableEntriesNum h)) 0 s"
    using load_programs_run [where i = 0] assms(7) by simp
  show ?thesis
    using programs.run [OF u _ ps _ r] assms(3,5,6)
    by (simp add: segment_blocks_def holds_def program_headers_def Let_def)
qed

lemma every_section_cleared:
  assumes "supplies_pages fw" and "good_file m0 l" and "same_file l m0 (memory s)"
    and "ss = section_pages fw l s" and "separate l (section_blocks m0 ss)"
    and "h = read_ElfHeader m0 (elfFile l)"
    and "r = load_sections fw l (elfFile l + SectionHeaderOffset h) (unat (SectionHeaderTableEntriesNum h)) 0 s"
  shows "fst r \<and> same_file l m0 (memory (snd r))
    \<and> list_all (\<lambda>(p, d). holds (memory (snd r)) d (cleared_bytes m0 p)) ss
    \<and> (\<forall>a. outside (section_blocks m0 ss) a \<longrightarrow> memory (snd r) a = memory s a)
    \<and> map fst ss = filter (\<lambda>p. allocated_nobits (read_SectionHeader m0 p)) (section_headers m0 l)"
proof -
  have h: "h = read_ElfHeader (memory s) (elfFile l)" using tables_found(2) [OF assms(2,3)] assms(6) by simp
  have u: "list_all (section_usable (fw, l) m0)
      (map (header_at (elfFile l + SectionHeaderOffset h) 64) [0..<0 + unat (SectionHeaderTableEntriesNum h)])"
    using assms(1,2,6)
    by (simp add: good_file_def section_headers_def section_usable_def list_all_iff Let_def)
  have ss: "ss = run_blocks (section_step (fw, l)) (section_target (fw, l))
      (header_at (elfFile l + SectionHeaderOffset h) 64) (unat (SectionHeaderTableEntriesNum h)) 0 s"
    by (simp add: assms(4) section_pages_def h Let_def)
  have r: "r = run_headers (section_step (fw, l)) (header_at (elfFile l + SectionHeaderOffset h) 64)
      (unat (SectionHeaderTableEntriesNum h)) 0 s"
    using load_sections_run [where i = 0] assms(7) by simp
  show ?thesis
    using sections.run [OF u _ ss _ r] assms(3,5,6)
    by (simp add: section_blocks_def holds_def section_headers_def Let_def)
qed

text \<open>Blocks that the second stage fills apart from those of the first keep their bytes.\<close>

lemma segments_kept:
  assumes "list_all (\<lambda>(p, d). holds m d (segment_bytes m0 l p)) ps"
    and "separate l (segment_blocks m0 l ps @ bs)" and "\<And>a. outside bs a \<Longrightarrow> m' a = m a"
  shows "list_all (\<lambda>(p, d). holds m' d (segment_bytes m0 l p)) ps"
proof (unfold list_all_iff, clarify)
  fix p d assume pd: "(p, d) \<in> set ps"
  then have "list_all (\<lambda>(e, k). disj_blk d (length (segment_bytes m0 l p)) e k) bs"
    using assms(2) by (force simp: separate_append segment_blocks_def list_all_iff)
  then have "ld_bytes m' d (length (segment_bytes m0 l p)) = ld_bytes m d (length (segment_bytes m0 l p))"
    using assms(3) in_block_outside by (intro ld_bytes_frame [OF segment_bytes_small]) blast
  then show "holds m' d (segment_bytes m0 l p)" using assms(1) pd by (auto simp: holds_def list_all_iff)
qed

section \<open>Property\<close>

definition after_programs :: "'e firmware \<Rightarrow> ElfLoader \<Rightarrow> 'e machine \<Rightarrow> 'e machine" where
  "after_programs fw l s = (let h = read_ElfHeader (memory s) (elfFile l) in
     snd (load_programs fw l (elfFile l + ProgHeaderOffset h) (unat (ProgHeaderTableEntriesNum h)) 0 s))"

lemma load_kernel_result:
  assumes "supplies_pages fw" and "good_file (memory s) l"
    and "ps = program_pages fw l s" and "ss = section_pages fw l (after_programs fw l s)"
    and "bs = segment_blocks (memory s) l ps @ section_blocks (memory s) ss" and "separate l bs"
  shows "\<exists>s'. load_kernel fw st l s = (True, s')
    \<and> map fst ps = filter (loadable (memory s)) (program_headers (memory s) l)
    \<and> map fst ss = filter (\<lambda>p. allocated_nobits (read_SectionHeader (memory s) p))
        (section_headers (memory s) l)
    \<and> list_all (\<lambda>(p, d). holds (memory s') d (segment_bytes (memory s) l p)) ps
    \<and> list_all (\<lambda>(p, d). holds (memory s') d (cleared_bytes (memory s) p)) ss
    \<and> (\<forall>a. outside bs a \<longrightarrow> memory s' a = memory s a)"
proof -
  let ?m = "memory s" and ?s1 = "after_programs fw l s" and ?h = "read_ElfHeader (memory s) (elfFile l)"
  have sep: "separate l (segment_blocks ?m l ps)" "separate l (section_blocks ?m ss)"
    using assms(5,6) by (simp_all add: separate_append)
  obtain ok s1 where r1: "load_programs fw l (elfFile l + ProgHeaderOffset ?h)
      (unat (ProgHeaderTableEntriesNum ?h)) 0 s = (ok, s1)" by fastforce
  then have s1: "?s1 = s1" by (simp add: after_programs_def Let_def)
  obtain ok' s2 where r2: "load_sections fw l (elfFile l + SectionHeaderOffset ?h)
      (unat (SectionHeaderTableEntriesNum ?h)) 0 s1 = (ok', s2)" by fastforce
  have 1: "ok" "same_file l ?m (memory s1)"
      "list_all (\<lambda>(p, d). holds (memory s1) d (segment_bytes ?m l p)) ps"
      "\<And>a. outside (segment_blocks ?m l ps) a \<Longrightarrow> memory s1 a = ?m a"
      "map fst ps = filter (loadable ?m) (program_headers ?m l)"
    using every_segment_loaded [OF assms(1,2) same_file_refl assms(3) sep(1) refl refl]
    by (simp_all add: r1)
  have 2: "ok'" "list_all (\<lambda>(p, d). holds (memory s2) d (cleared_bytes ?m p)) ss"
      "\<And>a. outside (section_blocks ?m ss) a \<Longrightarrow> memory s2 a = memory s1 a"
      "map fst ss = filter (\<lambda>p. allocated_nobits (read_SectionHeader ?m p)) (section_headers ?m l)"
    using every_section_cleared [OF assms(1,2) _ assms(4) sep(2) refl refl] 1(2) by (simp_all add: r2 s1)
  have "load_kernel fw st l s = (True, s2)"
    using 1(1) 2(1) r1 r2 tables_found(1,3) [OF assms(2) same_file_refl] tables_found(4) [OF assms(2) 1(2)]
    by (simp add: load_kernel_def count_int Let_def)
  moreover have "list_all (\<lambda>(p, d). holds (memory s2) d (segment_bytes ?m l p)) ps"
    using segments_kept [OF 1(3) assms(6) [unfolded assms(5)] 2(3)] by simp
  ultimately show ?thesis using 1 2 by (simp add: assms(5))
qed

text \<open>
  C1: while the firmware has pages left, a well-formed kernel file is loaded completely: the
  loading succeeds, exactly the loadable program headers and the allocated NOBITS sections get
  pages, in the order of their tables; at the end the pages of a segment hold its bytes of the
  file followed by zeros up to its size in memory, those of a section hold zeros, and no other
  byte of memory has changed. The pages may overlap neither the file nor each other.
\<close>

theorem kernel_loaded_completely:
  assumes "supplies_pages fw" and "good_file (memory s) l"
    and "ps = program_pages fw l s" and "ss = section_pages fw l (after_programs fw l s)"
    and "bs = segment_blocks (memory s) l ps @ section_blocks (memory s) ss" and "separate l bs"
  shows "\<exists>s'. load_kernel fw st l s = (True, s')
    \<and> map fst ps = filter (loadable (memory s)) (program_headers (memory s) l)
    \<and> map fst ss = filter (\<lambda>p. allocated_nobits (read_SectionHeader (memory s) p))
        (section_headers (memory s) l)
    \<and> list_all (\<lambda>(p, d). holds (memory s') d (segment_bytes (memory s) l p)) ps
    \<and> list_all (\<lambda>(p, d). holds (memory s') d (cleared_bytes (memory s) p)) ss
    \<and> (\<forall>a. outside bs a \<longrightarrow> memory s' a = memory s a)"
  using load_kernel_result [OF assms, of st] by blast

text \<open>
  A file at \<open>0x1000\<close> with one segment, of four bytes in the file and eight in memory, and one
  NOBITS section of four bytes; a firmware that reads this file, and hands out the page \<open>0x1000\<close>
  for it, then \<open>0x8000\<close> and \<open>0x9000\<close>. The list of events says how far the run has come.
\<close>

definition kernel_file :: mem where
  "kernel_file = mem_of_bytes 0x1000
     ([0x7F, 0x45, 0x4C, 0x46, 2, 1, 1] @ replicate 9 0 @ [2, 0, 0x3E, 0, 1, 0, 0, 0] @ replicate 8 0
      @ [64, 0, 0, 0, 0, 0, 0, 0] @ [120, 0, 0, 0, 0, 0, 0, 0]
      @ [0, 0, 0, 0, 64, 0, 56, 0, 1, 0, 64, 0, 1, 0, 0, 0]
      @ [1, 0, 0, 0, 5, 0, 0, 0] @ [184, 0, 0, 0, 0, 0, 0, 0] @ replicate 16 0
      @ [4, 0, 0, 0, 0, 0, 0, 0] @ [8, 0, 0, 0, 0, 0, 0, 0] @ replicate 8 0
      @ [0, 0, 0, 0, 8, 0, 0, 0] @ [3, 0, 0, 0, 0, 0, 0, 0] @ replicate 8 0
      @ [188, 0, 0, 0, 0, 0, 0, 0] @ [4, 0, 0, 0, 0, 0, 0, 0] @ replicate 24 0
      @ [11, 22, 33, 44])"

definition free_page :: "pool_event list \<Rightarrow> u64" where
  "free_page E = (if last E = ReadDone 0 then 0x8000 else if last E = Alloc 0 then 0x9000 else 0x1000)"

definition boot_pages :: "pool_event list firmware" where
  "boot_pages = (recording_firmware 0)\<lparr>
     AllocatePages := \<lambda>t m n p s. (0, free_page (env s), s\<lparr>env := env s @ [Alloc 0]\<rparr>),
     FileRead := \<lambda>h n p s. (0, n, s\<lparr>memory := kernel_file, env := env s @ [ReadDone 0]\<rparr>) \<rparr>"

abbreviation kernel_elf :: ElfLoader where
  "kernel_elf \<equiv> mk_ElfLoader 0x1000 4096"

abbreviation kernel_state :: "pool_event list \<Rightarrow> pool_event list machine" where
  "kernel_state E \<equiv> \<lparr> memory = kernel_file, env = E @ [ReadDone 0] \<rparr>"

lemma kernel_file_fields:
  "checkElf kernel_file kernel_elf = NoError"
  "ProgHeaderEntrySize (read_ElfHeader kernel_file 0x1000) = 56"
  "ProgHeaderTableEntriesNum (read_ElfHeader kernel_file 0x1000) = 1"
  "SectionHeaderEntrySize (read_ElfHeader kernel_file 0x1000) = 64"
  "SectionHeaderTableEntriesNum (read_ElfHeader kernel_file 0x1000) = 1"
  "ProgHeaderOffset (read_ElfHeader kernel_file 0x1000) = 64"
  "SectionHeaderOffset (read_ElfHeader kernel_file 0x1000) = 120"
  by (simp_all add: checkElf_bytes ld_bytes_mem_of_bytes read_ElfHeader_eq kernel_file_def ld_mem_of_bytes)
    (simp add: mem_of_bytes_def)

lemma kernel_file_headers:
  "read_ProgHeader kernel_file 0x1040 = \<lparr> SegmentType = 1, SegFlags = 5, Offset = 184,
     VirtAddress = 0, PhysAddress = 0, SizeInFile = 4, SizeInMemory = 8, Alignment = 0 \<rparr>"
  "read_SectionHeader kernel_file 0x1078 = \<lparr> SectionNameIndex = 0, SectionHeaderType = 8,
     SecFlags = 3, VirtualAddress = 0, OffsetInFile = 188, SectionSize = 4, LinkInfo = 0,
     Info = 0, AddressAlignment = 0, EntryFixedSize = 0 \<rparr>"
proof -
  have "le_val (replicate n 0) = 0" for n by (induction n) simp_all
  then show "read_ProgHeader kernel_file 0x1040 = \<lparr> SegmentType = 1, SegFlags = 5, Offset = 184,
      VirtAddress = 0, PhysAddress = 0, SizeInFile = 4, SizeInMemory = 8, Alignment = 0 \<rparr>"
    "read_SectionHeader kernel_file 0x1078 = \<lparr> SectionNameIndex = 0, SectionHeaderType = 8,
      SecFlags = 3, VirtualAddress = 0, OffsetInFile = 188, SectionSize = 4, LinkInfo = 0,
      Info = 0, AddressAlignment = 0, EntryFixedSize = 0 \<rparr>"
    by (simp_all add: read_ProgHeader_eq read_SectionHeader_eq kernel_file_def ld_mem_of_bytes)
qed

lemma kernel_file_good: "good_file kernel_file kernel_elf"
  by (simp add: good_file_def program_headers_def section_headers_def header_at_def good_header_def
      good_section_def kernel_file_fields kernel_file_headers)

lemma boot_pages_loader:
  "page_loader boot_pages n v f s =
     (free_page (env s), s\<lparr>env := env s @ [Alloc 0]\<rparr>)"
  by (simp add: page_loader_def boot_pages_def EFI_ERROR_def)

lemma boot_pages_supplies: "supplies_pages boot_pages"
  by (simp add: supplies_pages_def boot_pages_def free_page_def EFI_ERROR_def)

lemma kernel_segment_pages: "program_pages boot_pages kernel_elf (kernel_state E) = [(0x1040, 0x8000)]"
  by (simp add: program_pages_def kernel_file_fields kernel_file_headers header_at_def
      program_target_def boot_pages_loader free_page_def PT_LOAD_def)

lemma four_zeros: "replicate 4 (0 :: u8) = [0, 0, 0, 0]"
  by (simp add: numeral_eq_Suc)

lemma kernel_segment: "segment_bytes kernel_file kernel_elf 0x1040 = [11, 22, 33, 44, 0, 0, 0, 0]"
  by (simp add: segment_bytes_def kernel_file_headers PT_LOAD_def four_zeros)
    (simp add: kernel_file_def ld_bytes_mem_of_bytes)

lemma kernel_section_wanted: "allocated_nobits (read_SectionHeader kernel_file 0x1078)"
  by (simp add: allocated_nobits_def kernel_file_headers SHT_NOBITS_def bit_1_iff)

lemma kernel_section: "cleared_bytes kernel_file 0x1078 = [0, 0, 0, 0]"
  using kernel_section_wanted
  by (simp add: cleared_bytes_def) (simp add: kernel_file_headers four_zeros)

lemma kernel_after_programs:
  "same_file kernel_elf kernel_file (memory (after_programs boot_pages kernel_elf (kernel_state E)))"
  "last (env (after_programs boot_pages kernel_elf (kernel_state E))) = Alloc 0"
proof -
  have beside: "beside_file kernel_elf 0x8000 8" by (simp add: beside_file_def disj_blk_def)
  then have out: "\<not> in_blk 0x8000 8 a" "\<not> in_blk 0x8000 4 a" if "in_file kernel_elf a" for a
    using that disj_blkD unfolding beside_file_def in_file_def by (fastforce simp: in_blk_def)+
  have "loadExecutableProgram kernel_elf 0x1040 (page_loader boot_pages) (kernel_state E)
      = (NoError, kernel_state E\<lparr>env := E @ [ReadDone 0, Alloc 0], memory := \<lambda>a.
        if in_blk 0x8000 4 a then kernel_file (0x10B8 + (a - 0x8000))
        else if in_blk 0x8000 8 a then 0 else kernel_file a\<rparr>)"
    using load_one [where fw = boot_pages and l = kernel_elf and s = "kernel_state E" and p = "0x1040"
        and d = "0x8000" and s' = "kernel_state E\<lparr>env := E @ [ReadDone 0, Alloc 0]\<rparr>"
        and ph = "read_ProgHeader kernel_file 0x1040" and ?m0.0 = kernel_file]
      boot_pages_supplies kernel_file_good beside
    by (simp add: good_file_def program_headers_def header_at_def kernel_file_fields
        kernel_file_headers PT_LOAD_def boot_pages_loader free_page_def cong: if_cong)
  then show "last (env (after_programs boot_pages kernel_elf (kernel_state E))) = Alloc 0"
    "same_file kernel_elf kernel_file (memory (after_programs boot_pages kernel_elf (kernel_state E)))"
    by (simp_all add: after_programs_def kernel_file_fields load_failed_def same_file_def out)
qed

lemma kernel_section_pages:
  "section_pages boot_pages kernel_elf (after_programs boot_pages kernel_elf (kernel_state E)) = [(0x1078, 0x9000)]"
proof -
  let ?s = "after_programs boot_pages kernel_elf (kernel_state E)"
  have "read_ElfHeader (memory ?s) 0x1000 = read_ElfHeader kernel_file 0x1000"
    using tables_found(2) [OF kernel_file_good kernel_after_programs(1)] by simp
  moreover have "read_SectionHeader (memory ?s) 0x1078 = read_SectionHeader kernel_file 0x1078"
    by (rule same_file_section [OF kernel_after_programs(1)]) simp
  ultimately show ?thesis
    using kernel_section_wanted kernel_after_programs(2)
    by (simp add: section_pages_def kernel_file_fields header_at_def section_target_def boot_pages_loader free_page_def)
qed

abbreviation kernel_blocks :: "(u64 \<times> nat) list" where
  "kernel_blocks \<equiv> [(0x8000, 8), (0x9000, 4)]"

lemma kernel_blocks:
  "kernel_blocks = segment_blocks kernel_file kernel_elf [(0x1040, 0x8000)]
     @ section_blocks kernel_file [(0x1078, 0x9000)]"
  "separate kernel_elf kernel_blocks"
  by (simp_all add: segment_blocks_def section_blocks_def kernel_segment kernel_section separate_def
      beside_file_def disj_blk_def)

lemma kernel_bytes:
  assumes "list_all (\<lambda>(p, d). holds m d (segment_bytes kernel_file kernel_elf p)) [(0x1040, 0x8000)]"
    and "list_all (\<lambda>(p, d). holds m d (cleared_bytes kernel_file p)) [(0x1078, 0x9000)]"
    and "\<forall>a. outside kernel_blocks a \<longrightarrow> m a = kernel_file a"
  shows "ld_bytes m 0x8000 8 = [11, 22, 33, 44, 0, 0, 0, 0] \<and> ld_bytes m 0x9000 4 = [0, 0, 0, 0]
    \<and> m 0x1000 = 0x7F"
proof -
  have "outside kernel_blocks 0x1000" "kernel_file 0x1000 = 0x7F"
    by (simp_all add: in_blk_def kernel_file_def mem_of_bytes_def)
  with assms show ?thesis by (simp add: holds_def kernel_segment kernel_section eval_nat_numeral)
qed

theorem kernel_loaded_completely_witness:
  "\<exists>s'. load_kernel boot_pages initial_statics kernel_elf (kernel_state []) = (True, s')
    \<and> ld_bytes (memory s') 0x8000 8 = [11, 22, 33, 44, 0, 0, 0, 0]
    \<and> ld_bytes (memory s') 0x9000 4 = [0, 0, 0, 0] \<and> memory s' 0x1000 = 0x7F"
  using kernel_loaded_completely [OF boot_pages_supplies _ kernel_segment_pages [symmetric, of "[]"]
      kernel_section_pages [symmetric] _ kernel_blocks(2), of initial_statics]
    kernel_file_good kernel_blocks(1) kernel_bytes by auto

end
