(* ===== verification/Kernel_Read.thy ===== *)
theory Kernel_Read
  imports Kernel_Load
begin

text \<open>
  \<open>readKernel\<close> from end to end: the volume and the file are opened, the file is read into pages of
  its own, its segments and sections are loaded, the file is closed.
\<close>

section \<open>A run of readKernel\<close>

lemma readFile_with_buffer:
  "readFile fw junk fh s = (r, e, s') \<Longrightarrow> BufferSize r \<noteq> 0 \<Longrightarrow> e = FileReadUnknownError"
  by (auto simp: readFile_def Let_def INVALID_READ_FILE_INFO_def split: prod.splits sum.splits if_splits)

text \<open>
  C10: the volume and the kernel file can be opened and \<open>readFile\<close> returns a well-formed file. Then,
  while the firmware has pages left and none of them overlaps the file or another, \<open>readKernel\<close>
  loads all of it: just before the file is closed exactly the loadable segments and the allocated
  NOBITS sections are in their pages, in the order of their tables, and no other byte differs
  from what \<open>readFile\<close> left. Nevertheless the caller gets the invalid kernel
  information and the unknown error.
\<close>

theorem readKernel_loads_but_reports_failure:
  assumes "getVolume fw junk handle s = (vh, True, s1)"
    and "FileOpen fw vh (junk ''fileHandle'') kernel_path EFI_FILE_MODE_READ EFI_FILE_READ_ONLY s1
      = (status, fh, s2)" and "\<not> EFI_ERROR status"
    and "readFile fw junk fh s2 = (info, error, s3)" and "BufferSize info \<noteq> 0"
    and "l = mk_ElfLoader (Buffer info) (BufferSize info)"
    and "supplies_pages fw" and "good_file (memory s3) l"
    and "ps = program_pages fw l s3" and "ss = section_pages fw l (after_programs fw l s3)"
    and "bs = segment_blocks (memory s3) l ps @ section_blocks (memory s3) ss" and "separate l bs"
  shows "\<exists>s4. readKernel fw junk st handle s
      = (INVALID_KERNEL_ELF_INFO, FileReadUnknownError, snd (FileClose fw fh s4))
    \<and> map fst ps = filter (loadable (memory s3)) (program_headers (memory s3) l)
    \<and> map fst ss = filter (\<lambda>p. allocated_nobits (read_SectionHeader (memory s3) p))
        (section_headers (memory s3) l)
    \<and> list_all (\<lambda>(p, d). holds (memory s4) d (segment_bytes (memory s3) l p)) ps
    \<and> list_all (\<lambda>(p, d). holds (memory s4) d (cleared_bytes (memory s3) p)) ss
    \<and> (\<forall>a. outside bs a \<longrightarrow> memory s4 a = memory s3 a)"
proof -
  obtain s4 where s4: "load_kernel fw st l s3 = (True, s4)"
      "map fst ps = filter (loadable (memory s3)) (program_headers (memory s3) l)"
      "map fst ss = filter (\<lambda>p. allocated_nobits (read_SectionHeader (memory s3) p))
        (section_headers (memory s3) l)"
      "list_all (\<lambda>(p, d). holds (memory s4) d (segment_bytes (memory s3) l p)) ps"
      "list_all (\<lambda>(p, d). holds (memory s4) d (cleared_bytes (memory s3) p)) ss"
      "\<forall>a. outside bs a \<longrightarrow> memory s4 a = memory s3 a"
    using load_kernel_result [OF assms(7-12), of st] by blast
  have "readKernel fw junk st handle s
      = (INVALID_KERNEL_ELF_INFO, FileReadUnknownError, snd (FileClose fw fh s4))"
    using assms(1-6) readFile_with_buffer [OF assms(4,5)] s4(1)
    by (simp add: readKernel_def split: prod.split)
  with s4(2-6) show ?thesis by blast
qed

text \<open>A run with the firmware \<open>boot_pages\<close>: the file information at \<open>0x1000\<close> gives a size of 4096.\<close>

definition info_memory :: mem where
  "info_memory = mem_of_bytes 0x1000 [80, 0, 0, 0, 0, 0, 0, 0, 0, 16, 0, 0, 0, 0, 0, 0]"

abbreviation read_events :: "pool_event list" where
  "read_events \<equiv> [Alloc 0x1000, Free 0x1000, Alloc 0]"

lemma boot_pages_simps:
  "HandleProtocol boot_pages h g p s = (0, 0x2000, s)" "OpenVolume boot_pages v p s = (0, 0x3000, s)"
  "FileOpen boot_pages v p n mode a s = (0, 0x4000, s)" "FileGetInfo boot_pages h g sz p s = (0, sz, s)"
  "AllocatePool boot_pages t sz p s = (0, 0x1000, s\<lparr>env := env s @ [Alloc 0x1000]\<rparr>)"
  "FreePool boot_pages p s = (0, s\<lparr>env := env s @ [Free p]\<rparr>)"
  "AllocatePages boot_pages t mt k p s = (0, free_page (env s), s\<lparr>env := env s @ [Alloc 0]\<rparr>)"
  "FileRead boot_pages h sz p s = (0, sz, s\<lparr>memory := kernel_file, env := env s @ [ReadDone 0]\<rparr>)"
  "FileClose boot_pages h s = (0, s)"
  by (simp_all add: boot_pages_def recording_firmware_def)

lemma boot_volume: "getVolume boot_pages junk h s = (0x3000, True, s)"
  by (simp add: getVolume_def boot_pages_simps EFI_ERROR_def Let_def)

lemma boot_read:
  "readFile boot_pages junk 0x4000 \<lparr> memory = info_memory, env = [] \<rparr>
    = (\<lparr> Buffer = 0x1000, BufferSize = 4096 \<rparr>, FileReadUnknownError, kernel_state read_events)"
proof -
  have "ld64 info_memory 0x1008 = 4096"
    by (simp add: info_memory_def ld_mem_of_bytes)
  moreover have "info_loop boot_pages h NUM_RETRIES n p s = Inr (5, p, s)" for h n p s
    by (simp add: NUM_RETRIES_def numeral_eq_Suc boot_pages_simps EFI_ERROR_def)
  ultimately show ?thesis
    by (simp add: readFile_def boot_pages_simps fld_def file_info_offsets MAX_FILE_SIZE_def SIZE_MAX_def
        EFI_PAGE_SIZE_def EFI_ERROR_def free_page_def)
qed

theorem readKernel_loads_but_reports_failure_witness:
  "\<exists>s4. readKernel boot_pages (\<lambda>_. 0) initial_statics 0 \<lparr> memory = info_memory, env = [] \<rparr>
      = (INVALID_KERNEL_ELF_INFO, FileReadUnknownError, s4)
    \<and> ld_bytes (memory s4) 0x8000 8 = [11, 22, 33, 44, 0, 0, 0, 0]
    \<and> ld_bytes (memory s4) 0x9000 4 = [0, 0, 0, 0] \<and> memory s4 0x1000 = 0x7F"
proof -
  obtain s4 where "readKernel boot_pages (\<lambda>_. 0) initial_statics 0 \<lparr> memory = info_memory, env = [] \<rparr>
        = (INVALID_KERNEL_ELF_INFO, FileReadUnknownError, snd (FileClose boot_pages 0x4000 s4))"
      "list_all (\<lambda>(p, d). holds (memory s4) d (segment_bytes kernel_file kernel_elf p)) [(0x1040, 0x8000)]"
      "list_all (\<lambda>(p, d). holds (memory s4) d (cleared_bytes kernel_file p)) [(0x1078, 0x9000)]"
      "\<forall>a. outside kernel_blocks a \<longrightarrow> memory s4 a = kernel_file a"
    using readKernel_loads_but_reports_failure [OF boot_volume [of "\<lambda>_. 0" 0] boot_pages_simps(3) _ boot_read
        _ _ boot_pages_supplies _ kernel_segment_pages [symmetric] kernel_section_pages [symmetric]
        _ kernel_blocks(2), of initial_statics] kernel_file_good kernel_blocks(1)
    by (auto simp: EFI_ERROR_def)
  with kernel_bytes [of "memory s4"] show ?thesis by (auto simp: boot_pages_simps)
qed

end
