(* ===== verification/Boot_Main.thy ===== *)
theory Boot_Main
  imports Gop Kernel_Reader
begin

text \<open>
  \<open>bootloader/src/main.cpp\<close>: the entry point of the boot loader, the memory map and the panic
  loop. A function that does not return has the value \<open>None\<close>. The firmware's services are the
  parameter \<open>fw\<close>; \<open>junk x\<close> is the value an uninitialised local variable \<open>x\<close> happens to hold.
\<close>

section \<open>Definitions\<close>

text \<open>\<open>&systemTable->ConIn->WaitForKey\<close>.\<close>

definition key_event :: "statics \<Rightarrow> mem \<Rightarrow> u64" where
  "key_event st m = fld SIMPLE_INPUT_INTERFACE ''WaitForKey''
     (ld64 m (fld EFI_SYSTEM_TABLE ''ConIn'' (systemTable st)))"

partial_function (option) panic_loop :: "'e firmware \<Rightarrow> statics \<Rightarrow> 'e machine \<Rightarrow> 'r option" where
  "panic_loop fw st s = (let (status, s) = WaitForEvent fw 1 (key_event st (memory s)) s in
     panic_loop fw st s)"

definition panic_message :: string where
  "panic_message = ''Boot failed. You can turn off the device now.'' @ crlf"

definition panic :: "'e firmware \<Rightarrow> statics \<Rightarrow> 'e machine \<Rightarrow> 'r option" where
  "panic fw st s = (let (_, s) = Log_print fw st panic_message s in panic_loop fw st s)"

text \<open>The result of \<open>getMemoryMap\<close> comes with the out parameter \<open>isSuccessful\<close>.\<close>

definition mk_memory_map :: "u64 \<times> u64 \<times> u64 \<times> u32 \<Rightarrow> u64 \<Rightarrow> MemoryMap_t" where
  "mk_memory_map r memMapPtr = (let (mapSize, mapKey, descriptorSize, descriptorVersion) = r in
     \<lparr> mem_map_size = mapSize, entries = memMapPtr, mem_map_key = mapKey,
       entry_size = descriptorSize, entry_version = descriptorVersion \<rparr>)"

definition getMemoryMap :: "'e firmware \<Rightarrow> statics \<Rightarrow> 'e machine \<Rightarrow> MemoryMap_t \<times> bool \<times> 'e machine" where
  "getMemoryMap fw st s =
     (if systemTable st = 0 then (INVALID_MEMORY_MAP, False, s) else
      let (status, memMapPtr, s) = AllocatePages fw AllocateAnyPages EfiLoaderData 1 0 s in
      if EFI_ERROR status \<or> memMapPtr = 0 then (INVALID_MEMORY_MAP, False, s) else
      let (status, r, s) = GetMemoryMap fw (ucast boot_PAGE_SIZE) memMapPtr 0 0 0 s in
      if \<not> EFI_ERROR status then (mk_memory_map r memMapPtr, True, s) else
      if status \<noteq> EFI_BUFFER_TOO_SMALL then (INVALID_MEMORY_MAP, False, s) else
      let (status, s) = FreePages fw memMapPtr 1 s in
      if EFI_ERROR status then (INVALID_MEMORY_MAP, False, s) else
      let (mapSize, mapKey, descriptorSize, descriptorVersion) = r;
          (status, memMapPtr, s) = AllocatePages fw AllocateAnyPages EfiLoaderData
            ((mapSize + ucast boot_PAGE_SIZE - 1) div ucast boot_PAGE_SIZE) memMapPtr s in
      if EFI_ERROR status then (INVALID_MEMORY_MAP, False, s) else
      let (status, r, s) =
            GetMemoryMap fw mapSize memMapPtr mapKey descriptorSize descriptorVersion s in
      if EFI_ERROR status then (INVALID_MEMORY_MAP, False, s)
      else (mk_memory_map r memMapPtr, True, s))"

definition PREFERRED_WIDTH :: u32 where "PREFERRED_WIDTH = 1920"
definition PREFERRED_HEIGHT :: u32 where "PREFERRED_HEIGHT = 1080"

definition start_message :: string where
  "start_message = ''Start booting ChihuahuaOS.'' @ crlf"

definition gop_message :: string where
  "gop_message = ''Failed to locate graphics output protocol.'' @ crlf"

definition mode_message :: "bool \<Rightarrow> string" where
  "mode_message ok = (if ok then ''Set graphics mode successfully.''
     else ''WARN: Failed to set a graphics mode.'') @ crlf"

definition map_message :: "bool \<Rightarrow> string" where
  "map_message ok = (if ok then ''Memory map retrieved.'' else ''Memory map failed.'') @ crlf"

text \<open>
  The two halves of \<open>efi_main\<close>: up to the graphics protocol, and what follows when it is found. Once
  a graphics mode is set, \<open>cout\<close> is used without the check for null that \<open>Log::print\<close> makes: calling
  a service through the null pointer is undefined, which is an outcome of its own. The value of
  \<open>efi_main\<close> is \<open>None\<close> when it never returns, \<open>Inl\<close> for the undefined call, \<open>Inr\<close> when it returns.
\<close>

datatype boot_fault = Null_console

definition boot_with_gop :: "'e firmware \<Rightarrow> (string \<Rightarrow> u64) \<Rightarrow> statics \<Rightarrow> u64 \<Rightarrow> u64 \<Rightarrow> 'e machine
    \<Rightarrow> boot_fault + u64 \<times> statics \<times> 'e machine" where
  "boot_with_gop fw junk st handle gop s =
     (let (ok, fbInfo, s) = setAppropriateFramebuffer fw gop PREFERRED_WIDTH PREFERRED_HEIGHT
            (junk ''thisModeInfo'') s in
      if ok \<and> cout st = 0 then Inl Null_console else
      let s = (if ok then snd (SetCursorPosition fw (cout st) 0 0 (snd (ClearScreen fw (cout st) s)))
            else s);
          (_, s) = Log_print fw st (mode_message ok) s;
          (_, _, s) = readKernel fw junk st handle s;
          (_, isSuccessful, s) = getMemoryMap fw st s;
          (_, s) = Log_print fw st (map_message isSuccessful) s;
          (status, s) = WaitForEvent fw 1 (key_event st (memory s)) s in
      if EFI_ERROR status then Inr (status, st, s) else Inr (0, st, s))"

definition efi_main :: "'e firmware \<Rightarrow> (string \<Rightarrow> u64) \<Rightarrow> u64 \<Rightarrow> u64 \<Rightarrow> 'e machine
    \<Rightarrow> (boot_fault + u64 \<times> statics \<times> 'e machine) option" where
  "efi_main fw junk handle st s =
     (let st = \<lparr> systemTable = st, cout = ld64 (memory s) (fld EFI_SYSTEM_TABLE ''ConOut'' st) \<rparr>;
          (_, s) = Log_print fw st start_message s;
          (status, gop, s) = LocateProtocol fw EFI_GRAPHICS_OUTPUT_PROTOCOL_GUID 0 (junk ''gop'') s in
      if EFI_ERROR status then let (_, s) = Log_print fw st gop_message s in panic fw st s
      else Some (boot_with_gop fw junk st handle gop s))"

section \<open>Not returning\<close>

lemma panic_loop_None: "panic_loop fw st s = None"
proof -
  have "panic_loop fw st s = Some r \<Longrightarrow> False" for r
    by (erule panic_loop.raw_induct [where P = "\<lambda>_ _ _ _. False", rotated])
      (simp add: Let_def split: prod.splits)
  then show ?thesis by (metis not_None_eq)
qed

lemma panic_None: "panic fw st s = None"
  by (simp add: panic_def panic_loop_None split: prod.splits)

section \<open>Rounding up to pages\<close>

lemma pages_cover:
  assumes "unat (n :: u64) \<le> 2 ^ 64 - 4096"
  shows "unat n \<le> unat ((n + 4096 - 1) div 4096) * 4096"
proof -
  have "unat (n + 4095) = unat n + 4095"
    using assms unat_add_cases [of n 4095] by simp
  moreover have "unat (4096 :: u64) = 4096" "n + 4096 - 1 = n + 4095" by simp_all
  ultimately have "unat ((n + 4096 - 1) div 4096) = (unat n + 4095) div 4096"
    by (simp only: unat_div)
  then show ?thesis by simp
qed

section \<open>The second half of the entry point\<close>

text \<open>The state in which the kernel is read: the outcome of the mode setting has been printed.\<close>

definition announced :: "'e firmware \<Rightarrow> statics \<Rightarrow> bool \<Rightarrow> 'e machine \<Rightarrow> 'e machine" where
  "announced fw st ok s = snd (Log_print fw st (mode_message ok)
     (if ok then snd (SetCursorPosition fw (cout st) 0 0 (snd (ClearScreen fw (cout st) s))) else s))"

lemma boot_with_gop_steps:
  assumes "setAppropriateFramebuffer fw gop 1920 1080 (junk ''thisModeInfo'') s1 = (ok, fb, s2)"
    and "readKernel fw junk t handle (announced fw t ok s2) = (info, err, s4)"
    and "getMemoryMap fw t s4 = (mp, got, s5)"
    and "WaitForEvent fw 1 (key_event t (memory (snd (Log_print fw t (map_message got) s5))))
      (snd (Log_print fw t (map_message got) s5)) = (w, s7)"
  shows "boot_with_gop fw junk t handle gop s1 =
    (if ok \<and> cout t = 0 then Inl Null_console else Inr (if EFI_ERROR w then w else 0, t, s7))"
proof -
  obtain x s3 where l: "Log_print fw t (mode_message ok) (if ok then snd (SetCursorPosition fw (cout t) 0 0
      (snd (ClearScreen fw (cout t) s2))) else s2) = (x, s3)" by fastforce
  obtain y s6 where l2: "Log_print fw t (map_message got) s5 = (y, s6)" by fastforce
  have "announced fw t ok s2 = s3" by (simp add: announced_def l)
  then have rk: "readKernel fw junk t handle s3 = (info, err, s4)" using assms(2) by simp
  have we: "WaitForEvent fw 1 (key_event t (memory s6)) s6 = (w, s7)" using assms(4) by (simp add: l2)
  show ?thesis
    unfolding boot_with_gop_def PREFERRED_WIDTH_def PREFERRED_HEIGHT_def assms(1)
    by (simp only: Let_def prod.case l rk assms(3) l2 we split: if_split) simp
qed

section \<open>Properties\<close>

text \<open>
  C22: the boot loader has three outcomes. Without the graphics output protocol \<open>efi_main\<close> never
  returns (the panic loop). With the protocol, when the graphics mode is set (or kept) and the
  system table has no console (\<open>ConOut\<close> is null), it calls the console through the null pointer,
  which is undefined. In all other cases of this model (firmware services return, memory can be
  read) it returns the status of its last wait for a key when that is an error, else 0: whatever
  became of the memory map, and although \<open>readKernel\<close>, which it has called before, has never
  loaded a kernel without reporting an error.
\<close>

theorem efi_main_outcomes:
  assumes "t = \<lparr> systemTable = st, cout = ld64 (memory s) (fld EFI_SYSTEM_TABLE ''ConOut'' st) \<rparr>"
    and "LocateProtocol fw EFI_GRAPHICS_OUTPUT_PROTOCOL_GUID 0 (junk ''gop'')
      (snd (Log_print fw t start_message s)) = (status, gop, s1)"
    and "setAppropriateFramebuffer fw gop 1920 1080 (junk ''thisModeInfo'') s1 = (ok, fb, s2)"
  shows "(efi_main fw junk handle st s = None \<longleftrightarrow> EFI_ERROR status)
    \<and> (efi_main fw junk handle st s = Some (Inl Null_console) \<longleftrightarrow> \<not> EFI_ERROR status \<and> ok \<and> cout t = 0)
    \<and> (\<forall>r t' s'. efi_main fw junk handle st s = Some (Inr (r, t', s')) \<longrightarrow> t' = t
        \<and> (\<exists>s3 info err s4 mp got s5 s6 w. s3 = announced fw t ok s2
          \<and> readKernel fw junk t handle s3 = (info, err, s4)
          \<and> info = INVALID_KERNEL_ELF_INFO \<and> FileReadSuccess < err
          \<and> getMemoryMap fw t s4 = (mp, got, s5) \<and> s6 = snd (Log_print fw t (map_message got) s5)
          \<and> WaitForEvent fw 1 (key_event t (memory s6)) s6 = (w, s') \<and> r = (if EFI_ERROR w then w else 0)))"
proof -
  have main: "efi_main fw junk handle st s =
      (if EFI_ERROR status then None else Some (boot_with_gop fw junk t handle gop s1))"
    using assms(2) by (simp add: efi_main_def assms(1) [symmetric] panic_None Let_def split_def)
  obtain info err s4 where rk: "readKernel fw junk t handle (announced fw t ok s2) = (info, err, s4)"
    by (metis prod_cases3)
  obtain mp got s5 where mm: "getMemoryMap fw t s4 = (mp, got, s5)" by (metis prod_cases3)
  obtain w s7 where we: "WaitForEvent fw 1 (key_event t (memory (snd (Log_print fw t (map_message got) s5))))
      (snd (Log_print fw t (map_message got) s5)) = (w, s7)" by fastforce
  have boot: "boot_with_gop fw junk t handle gop s1 =
      (if ok \<and> cout t = 0 then Inl Null_console else Inr (if EFI_ERROR w then w else 0, t, s7))"
    by (rule boot_with_gop_steps [OF assms(3) rk mm we])
  have "info = INVALID_KERNEL_ELF_INFO" "FileReadSuccess < err"
    using readKernel_fails [of fw junk t handle "announced fw t ok s2"] rk by simp_all
  with rk mm we show ?thesis unfolding main boot by (auto split: if_splits)
qed

text \<open>
  Three runs. Without the protocol the entry point ends in the panic loop. On a machine whose
  memory is all zero the system table has no console, the current graphics mode is kept, and the
  null console is called. With a console the same firmware lets it return 0.
\<close>

definition no_gop_firmware :: "pool_event list firmware" where
  "no_gop_firmware = recording_firmware 0 \<lparr> LocateProtocol := \<lambda>g r p s. (EFI_NOT_FOUND, p, s) \<rparr>"

definition console_state :: "u8 \<Rightarrow> pool_event list machine" where
  "console_state b = \<lparr> memory = (\<lambda>_. 0)(fld EFI_SYSTEM_TABLE ''ConOut'' 0x5000 := b), env = [] \<rparr>"

lemma ld_nat_zero: "n \<le> unat (q - p) \<Longrightarrow> ld_nat ((\<lambda>_. 0)(q := b)) p n = 0"
proof -
  assume "n \<le> unat (q - p)"
  moreover have "ld_nat (\<lambda>_. 0) p n = 0" by (induction n arbitrary: p) simp_all
  ultimately show ?thesis
    using ld_nat_cong [of p n "(\<lambda>_. 0)(q := b)" "\<lambda>_. 0"] by (fastforce simp: in_blk_def)
qed

lemma ld64_byte: "ld64 ((\<lambda>_. 0)(q := b)) q = ucast b"
proof -
  have "ld_nat ((\<lambda>_. 0)(q := b)) q (Suc 7) = unat b"
    by (simp only: ld_nat.simps) (simp add: ld_nat_zero)
  moreover have "Suc 7 = 8" by simp
  ultimately show ?thesis by (simp only: ld64_def of_nat_unat)
qed

lemmas console_simps = console_state_def fld_def system_table_offsets graphics_offsets ld64_byte

lemma console_mode: "setAppropriateFramebuffer (recording_firmware 0) 0x2000 1920 1080 junk (console_state b)
    = (True, \<lparr> Width = 0, Height = 0, BytesPerRow = 0, isRgb = True \<rparr>, console_state b)"
  by (simp add: setAppropriateFramebuffer_def gop_Info_def gop_mode_def gop_Mode_index_def gop_MaxMode_def
      HorizontalResolution_def VerticalResolution_def PixelFormat_def PixelsPerScanLine_def
      PixelRedGreenBlueReserved8BitPerColor_def console_simps ld64_def ld32_def ld_nat_zero)

lemma recording_start: "snd (Log_print (recording_firmware rd) t str s) = s"
    "snd (Log_print no_gop_firmware t str s) = s"
  by (simp_all add: Log_print_def no_gop_firmware_def recording_firmware_def)

theorem efi_main_outcomes_witness:
  "\<forall>junk handle. efi_main no_gop_firmware junk handle 0x5000 (console_state 0) = None
   \<and> efi_main (recording_firmware 0) junk handle 0x5000 (console_state 0) = Some (Inl Null_console)
   \<and> (\<exists>t s'. efi_main (recording_firmware 0) junk handle 0x5000 (console_state 1) = Some (Inr (0, t, s')))"
proof (intro allI)
  fix junk :: "string \<Rightarrow> u64" and handle :: u64
  have fw: "LocateProtocol no_gop_firmware g r p s = (EFI_NOT_FOUND, p, s)"
      "LocateProtocol (recording_firmware 0) g r p s = (0, 0x2000, s)"
      "WaitForEvent (recording_firmware 0) n p s = (0, s)" for g r p s n
    by (simp_all add: no_gop_firmware_def recording_firmware_def)
  have ok: "EFI_ERROR EFI_NOT_FOUND" "\<not> EFI_ERROR 0" by (code_simp, code_simp)
  have c: "cout \<lparr> systemTable = 0x5000, cout = ld64 (memory (console_state b))
      (fld EFI_SYSTEM_TABLE ''ConOut'' 0x5000) \<rparr> = ucast b" for b
    by (simp add: console_simps)
  note run = efi_main_outcomes [where fw = "recording_firmware 0" and gop = "0x2000" and st = "0x5000"
      and junk = junk and handle = handle, OF refl, unfolded recording_start fw, OF refl console_mode]
  obtain ok' fb s2 where "setAppropriateFramebuffer no_gop_firmware (junk ''gop'') 1920 1080
      (junk ''thisModeInfo'') (console_state 0) = (ok', fb, s2)" by (metis prod_cases3)
  then have "efi_main no_gop_firmware junk handle 0x5000 (console_state 0) = None"
    using efi_main_outcomes [where fw = no_gop_firmware and gop = "junk ''gop''" and st = "0x5000" and junk = junk
        and handle = handle and s = "console_state 0", OF refl, unfolded recording_start fw, OF refl]
      ok(1) by blast
  moreover have "efi_main (recording_firmware 0) junk handle 0x5000 (console_state 0) = Some (Inl Null_console)"
    using run [of 0] ok(2) c [of 0] by simp
  moreover have "\<exists>t s'. efi_main (recording_firmware 0) junk handle 0x5000 (console_state 1) = Some (Inr (0, t, s'))"
  proof (cases "efi_main (recording_firmware 0) junk handle 0x5000 (console_state 1)")
    case None
    then show ?thesis using run [of 1] ok(2) by simp
  next
    case (Some r)
    show ?thesis
    proof (cases r)
      case (Inl f)
      then show ?thesis using run [of 1] c [of 1] ok(2) Some by (cases f) simp
    next
      case (Inr r)
      obtain w t s' where "r = (w, t, s')" by (metis prod_cases3)
      with Inr Some show ?thesis using run [of 1] ok(2) fw(3) by auto
    qed
  qed
  ultimately show "efi_main no_gop_firmware junk handle 0x5000 (console_state 0) = None
     \<and> efi_main (recording_firmware 0) junk handle 0x5000 (console_state 0) = Some (Inl Null_console)
     \<and> (\<exists>t s'. efi_main (recording_firmware 0) junk handle 0x5000 (console_state 1) = Some (Inr (0, t, s')))"
    by blast
qed

text \<open>The two calls that hand out a memory map, as the property below states them.\<close>

lemma map_written:
  assumes "AllocatePages fw AllocateAnyPages EfiLoaderData pages p0 t0 = (w, q, t1)" "\<not> EFI_ERROR w"
    and "unat sz \<le> unat pages * 4096" "GetMemoryMap fw sz q k d v t1 = (w', r, s')" "\<not> EFI_ERROR w'"
    and "mp = mk_memory_map r q"
  shows "\<exists>pages p0 s0 s1 size k d v status.
      AllocatePages fw AllocateAnyPages EfiLoaderData pages p0 s0 = (status, entries mp, s1)
      \<and> \<not> EFI_ERROR status \<and> unat size \<le> unat pages * 4096
      \<and> (\<exists>status. GetMemoryMap fw size (entries mp) k d v s1 = (status,
          (mem_map_size mp, mem_map_key mp, entry_size mp, entry_version mp), s')
        \<and> \<not> EFI_ERROR status)"
proof -
  have "entries mp = q \<and> r = (mem_map_size mp, mem_map_key mp, entry_size mp, entry_version mp)"
    using assms(6) by (cases r) (simp add: mk_memory_map_def)
  then have "AllocatePages fw AllocateAnyPages EfiLoaderData pages p0 t0 = (w, entries mp, t1)"
      "GetMemoryMap fw sz (entries mp) k d v t1 = (w', (mem_map_size mp, mem_map_key mp,
        entry_size mp, entry_version mp), s')"
    using assms(1,4) by simp_all
  with assms(2,3,5) show ?thesis by blast
qed

text \<open>
  C13: a memory map reported as retrieved has been written by a \<open>GetMemoryMap\<close> call that
  succeeded, directly after the allocation of the pages it points to, and these pages hold at
  least as many bytes as the call was told (for map sizes that leave room for rounding
  up); in every other case the invalid memory map is returned.
\<close>

theorem memory_map_fits_its_pages:
  assumes "\<And>n p k d v s. unat (fst (fst (snd (GetMemoryMap fw n p k d v s)))) \<le> 2 ^ 64 - 4096"
    and "getMemoryMap fw st s = (mp, ok, s')"
  shows "if ok then \<exists>pages p0 s0 s1 size k d v status.
      AllocatePages fw AllocateAnyPages EfiLoaderData pages p0 s0 = (status, entries mp, s1)
      \<and> \<not> EFI_ERROR status \<and> unat size \<le> unat pages * 4096
      \<and> (\<exists>status. GetMemoryMap fw size (entries mp) k d v s1 = (status,
          (mem_map_size mp, mem_map_key mp, entry_size mp, entry_version mp), s')
        \<and> \<not> EFI_ERROR status)
    else mp = INVALID_MEMORY_MAP"
proof -
  obtain st1 p1 s1 where a1: "AllocatePages fw AllocateAnyPages EfiLoaderData 1 0 s = (st1, p1, s1)"
    by (metis prod_cases3)
  obtain st2 n2 k2 d2 v2 s2 where g1: "GetMemoryMap fw (ucast boot_PAGE_SIZE) p1 0 0 0 s1
      = (st2, (n2, k2, d2, v2), s2)" by (metis prod.exhaust)
  obtain st3 s3 where f: "FreePages fw p1 1 s2 = (st3, s3)" by fastforce
  obtain st4 p4 s4 where a2: "AllocatePages fw AllocateAnyPages EfiLoaderData
      ((n2 + ucast boot_PAGE_SIZE - 1) div ucast boot_PAGE_SIZE) p1 s3 = (st4, p4, s4)"
    by (metis prod_cases3)
  obtain st5 n5 k5 d5 v5 s5 where g2: "GetMemoryMap fw n2 p4 k2 d2 v2 s4 = (st5, (n5, k5, d5, v5), s5)"
    by (metis prod.exhaust)
  note calls = a1 g1 f a2 g2
  have page: "ucast boot_PAGE_SIZE = (4096 :: u64)" by (simp add: boot_PAGE_SIZE_def)
  have fit: "unat n2 \<le> unat ((n2 + 4096 - 1) div 4096) * 4096"
    using pages_cover [of n2] assms(1) [of "ucast boot_PAGE_SIZE" p1 0 0 0 s1] g1 by simp
  consider (no) "\<not> ok" | (first) "ok" "s' = s2" "mp = mk_memory_map (n2, k2, d2, v2) p1"
      "\<not> EFI_ERROR st1" "\<not> EFI_ERROR st2"
    | (second) "ok" "s' = s5" "mp = mk_memory_map (n5, k5, d5, v5) p4" "\<not> EFI_ERROR st4" "\<not> EFI_ERROR st5"
    using assms(2) by (auto simp: getMemoryMap_def calls split: if_splits)
  then show ?thesis
  proof cases
    case no
    then show ?thesis using assms(2) by (auto simp: getMemoryMap_def calls split: if_splits)
  next
    case first
    then show ?thesis using map_written [OF a1 _ _ g1 [folded first(2)]] by (simp add: page)
  next
    case second
    then show ?thesis using fit map_written [OF a2 _ _ g2 [folded second(2)]] by (simp add: page)
  qed
qed

text \<open>A firmware whose memory map has 5000 bytes: the first page is too small for it.\<close>

definition two_page_firmware :: "pool_event list firmware" where
  "two_page_firmware = recording_firmware 0 \<lparr> GetMemoryMap := \<lambda>n p k d v s.
     (if n < 5000 then EFI_BUFFER_TOO_SMALL else 0, (5000, 7, 48, 1), s) \<rparr>"

lemma two_page_run:
  "getMemoryMap two_page_firmware \<lparr> systemTable = 0x5000, cout = 0 \<rparr> s =
    (\<lparr> mem_map_size = 5000, entries = 0x8000, mem_map_key = 7, entry_size = 48, entry_version = 1 \<rparr>,
     True, s)"
  by (simp add: getMemoryMap_def two_page_firmware_def recording_firmware_def mk_memory_map_def
      boot_PAGE_SIZE_def EFI_BUFFER_TOO_SMALL_def EFI_ERROR_def [of 0])

theorem memory_map_fits_its_pages_witness:
  "\<exists>pages p0 s0 s1 size k d v status.
     AllocatePages two_page_firmware AllocateAnyPages EfiLoaderData pages p0 s0 = (status, 0x8000, s1)
     \<and> \<not> EFI_ERROR status \<and> unat size \<le> unat pages * 4096
     \<and> (\<exists>status. GetMemoryMap two_page_firmware size 0x8000 k d v s1
         = (status, (5000, 7, 48, 1), edge_state) \<and> \<not> EFI_ERROR status)"
  using memory_map_fits_its_pages [of two_page_firmware, OF _ two_page_run [of edge_state]]
  by (simp add: two_page_firmware_def)

end
