(* ===== verification/Map_Pages.thy ===== *)
theory Map_Pages
  imports Boot_Main
begin

text \<open>
  The pages \<open>getMemoryMap\<close> (\<open>main.cpp\<close>) takes from the firmware and gives back: which of them it
  still holds when it returns.
\<close>

section \<open>Page events\<close>

text \<open>
  A firmware whose environment records the calls that concern pages: pages taken, pages given
  back, a \<open>FreePages\<close> that failed, and the status of every \<open>GetMemoryMap\<close>. An allocation that
  fails leaves no trace.
\<close>

datatype page_event = Took u64 u64 | Gave u64 u64 | Refused u64 u64 | MapRead u64

definition records_page_calls :: "page_event list firmware \<Rightarrow> bool" where
  "records_page_calls fw \<longleftrightarrow>
     (\<forall>t k n p s st q s'. AllocatePages fw t k n p s = (st, q, s') \<longrightarrow>
        env s' = env s @ (if EFI_ERROR st then [] else [Took q n]))
   \<and> (\<forall>p n s st s'. FreePages fw p n s = (st, s') \<longrightarrow>
        env s' = env s @ [if EFI_ERROR st then Refused p n else Gave p n])
   \<and> (\<forall>n p k d v s st r s'. GetMemoryMap fw n p k d v s = (st, r, s') \<longrightarrow> env s' = env s @ [MapRead st])"

lemma records_page_callsD:
  assumes "records_page_calls fw"
  shows "AllocatePages fw t k n p s = (st, q, s') \<Longrightarrow> env s' = env s @ (if EFI_ERROR st then [] else [Took q n])"
    and "FreePages fw p n s = (st, s') \<Longrightarrow> env s' = env s @ [if EFI_ERROR st then Refused p n else Gave p n]"
    and "GetMemoryMap fw n p k' d v s = (st, r, s') \<Longrightarrow> env s' = env s @ [MapRead st]"
  using assms unfolding records_page_calls_def by metis+

text \<open>The blocks of pages held after the events; \<open>None\<close> when a block is given back that is not held.\<close>

fun pages_held :: "page_event list \<Rightarrow> (u64 \<times> u64) list \<Rightarrow> (u64 \<times> u64) list option" where
  "pages_held [] hs = Some hs"
| "pages_held (Took p n # es) hs = pages_held es ((p, n) # hs)"
| "pages_held (Gave p n # es) hs =
     (if (p, n) \<in> set hs then pages_held es (remove1 (p, n) hs) else None)"
| "pages_held (Refused p n # es) hs = pages_held es hs"
| "pages_held (MapRead st # es) hs = pages_held es hs"

section \<open>The paths of getMemoryMap\<close>

lemma map_events:
  assumes "records_page_calls fw" and "getMemoryMap fw st s = (mp, ok, s')"
  obtains (none) "\<not> ok" "env s' = env s"
  | (null) "\<not> ok" "env s' = env s @ [Took 0 1]"
  | (first) p w where "ok \<longleftrightarrow> \<not> EFI_ERROR w" "ok \<longrightarrow> entries mp = p" "env s' = env s @ [Took p 1, MapRead w]"
  | (kept) p w where "\<not> ok" "env s' = env s @ [Took p 1, MapRead w, Refused p 1]"
  | (short) p w where "\<not> ok" "env s' = env s @ [Took p 1, MapRead w, Gave p 1]"
  | (second) p w q n w' where "ok \<longleftrightarrow> \<not> EFI_ERROR w'" "ok \<longrightarrow> entries mp = q"
      "env s' = env s @ [Took p 1, MapRead w, Gave p 1, Took q n, MapRead w']"
proof -
  note D = records_page_callsD [OF assms(1)]
  obtain w1 p s1 where a1: "AllocatePages fw AllocateAnyPages EfiLoaderData 1 0 s = (w1, p, s1)"
    by (metis prod_cases3)
  obtain w2 n2 k2 d2 v2 s2 where g1: "GetMemoryMap fw (ucast boot_PAGE_SIZE) p 0 0 0 s1
      = (w2, (n2, k2, d2, v2), s2)" by (metis prod.exhaust)
  obtain w3 s3 where f: "FreePages fw p 1 s2 = (w3, s3)" by fastforce
  obtain w4 q s4 where a2: "AllocatePages fw AllocateAnyPages EfiLoaderData
      ((n2 + ucast boot_PAGE_SIZE - 1) div ucast boot_PAGE_SIZE) p s3 = (w4, q, s4)"
    by (metis prod_cases3)
  obtain w5 r s5 where g2: "GetMemoryMap fw n2 q k2 d2 v2 s4 = (w5, r, s5)" by (metis prod_cases3)
  note calls = a1 g1 f a2 g2
  note E = D(1) [OF a1] D(3) [OF g1] D(2) [OF f] D(1) [OF a2] D(3) [OF g2]
  have mk: "entries (mk_memory_map r x) = x" for r x
    by (simp add: mk_memory_map_def split: prod.split)
  note run = assms(2) [unfolded getMemoryMap_def calls Let_def prod.case]
  consider (a) "systemTable st = 0 \<or> EFI_ERROR w1"
    | (b) "systemTable st \<noteq> 0" "\<not> EFI_ERROR w1" "p = 0"
    | (c) "systemTable st \<noteq> 0" "\<not> EFI_ERROR w1" "p \<noteq> 0" "\<not> EFI_ERROR w2 \<or> w2 \<noteq> EFI_BUFFER_TOO_SMALL"
    | (d) "systemTable st \<noteq> 0" "\<not> EFI_ERROR w1" "p \<noteq> 0" "EFI_ERROR w2" "w2 = EFI_BUFFER_TOO_SMALL"
    by blast
  then show thesis
  proof cases
    case a
    then show thesis using run E(1) by (intro none) (auto split: if_splits)
  next
    case b
    then show thesis using run E(1) by (intro null) auto
  next
    case c
    then show thesis using run E(1,2) by (intro first [of w2 p]) (auto simp: mk split: if_splits)
  next
    case d
    consider "EFI_ERROR w3" | "\<not> EFI_ERROR w3" "EFI_ERROR w4" | "\<not> EFI_ERROR w3" "\<not> EFI_ERROR w4" by blast
    then show thesis
    proof cases
      case 1
      with d show thesis using run E(1-3) by (intro kept [of p w2]) auto
    next
      case 2
      with d show thesis using run E(1-4) by (intro short [of p w2]) auto
    next
      case 3
      with d show thesis using run E by (intro second [of w5 q p w2]) (auto simp: mk split: if_splits)
    qed
  qed
qed

section \<open>Property\<close>

text \<open>
  C14: \<open>getMemoryMap\<close> gives back no pages it does not hold, and holds at most one block of pages when
  it returns. When it succeeds this is the block of the memory map it returns. When it fails, no
  pages are held exactly when none was taken or when only the second allocation failed: every other
  failure (the null address, an error of either \<open>GetMemoryMap\<close>, of \<open>FreePages\<close>) leaks a block.
\<close>

theorem memory_map_pages_accounted:
  assumes "records_page_calls fw" and "getMemoryMap fw st s = (mp, ok, s')"
  shows "\<exists>es hs. env s' = env s @ es \<and> pages_held es [] = Some hs
    \<and> (if ok then \<exists>n. hs = [(entries mp, n)]
       else length hs \<le> 1 \<and> (hs = [] \<longleftrightarrow> es = [] \<or> (\<exists>p n. last es = Gave p n)))"
  using assms
proof (cases rule: map_events)
  case (first p w)
  then show ?thesis by (intro exI [of _ "[Took p 1, MapRead w]"]) auto
next
  case (second p w q n w')
  then show ?thesis by (intro exI [of _ "[Took p 1, MapRead w, Gave p 1, Took q n, MapRead w']"]) auto
qed auto

text \<open>A firmware that fails to return the memory map: the page taken for it stays allocated.\<close>

definition no_map_firmware :: "page_event list firmware" where
  "no_map_firmware = \<lparr>
     AllocatePages = \<lambda>t m n p s. (0, 0x8000, s\<lparr>env := env s @ [Took 0x8000 n]\<rparr>),
     FreePages = \<lambda>p n s. (0, s\<lparr>env := env s @ [Gave p n]\<rparr>),
     GetMemoryMap = \<lambda>n p k d v s. (EFI_DEVICE_ERROR, (n, k, d, v), s\<lparr>env := env s @ [MapRead EFI_DEVICE_ERROR]\<rparr>),
     AllocatePool = \<lambda>t n p s. (0, p, s), FreePool = \<lambda>p s. (0, s), WaitForEvent = \<lambda>n p s. (0, s),
     HandleProtocol = \<lambda>h g p s. (0, p, s), LocateProtocol = \<lambda>g r p s. (0, p, s),
     OpenVolume = \<lambda>v p s. (0, p, s), FileOpen = \<lambda>v p n m a s. (0, p, s), FileClose = \<lambda>h s. (0, s),
     FileGetInfo = \<lambda>h g n p s. (0, n, s), FileRead = \<lambda>h n p s. (0, n, s), QueryMode = \<lambda>g i p s. (0, p, s),
     SetMode = \<lambda>g i s. (0, s), OutputString = \<lambda>c t s. (0, s), ClearScreen = \<lambda>c s. (0, s),
     SetCursorPosition = \<lambda>c x y s. (0, s) \<rparr>"

lemma no_map_records: "records_page_calls no_map_firmware"
  by (auto simp: records_page_calls_def no_map_firmware_def EFI_ERROR_def)

lemma no_map_run:
  "getMemoryMap no_map_firmware \<lparr> systemTable = 0x5000, cout = 0 \<rparr> \<lparr> memory = \<lambda>_. 0, env = [] \<rparr>
   = (INVALID_MEMORY_MAP, False, \<lparr> memory = \<lambda>_. 0, env = [Took 0x8000 1, MapRead EFI_DEVICE_ERROR] \<rparr>)"
proof -
  have "\<not> EFI_ERROR 0" "EFI_ERROR EFI_DEVICE_ERROR" "EFI_DEVICE_ERROR \<noteq> EFI_BUFFER_TOO_SMALL"
    by (simp_all add: EFI_ERROR_def EFI_DEVICE_ERROR_def EFI_BUFFER_TOO_SMALL_def EFIERR_def)
  then show ?thesis by (simp add: getMemoryMap_def no_map_firmware_def)
qed

theorem memory_map_pages_accounted_witness:
  "\<exists>s'. getMemoryMap no_map_firmware \<lparr> systemTable = 0x5000, cout = 0 \<rparr> \<lparr> memory = \<lambda>_. 0, env = [] \<rparr>
      = (INVALID_MEMORY_MAP, False, s')
    \<and> pages_held (env s') [] = Some [(0x8000, 1)] \<and> (\<exists>hs. pages_held (env s') [] = Some hs \<and> length hs \<le> 1)"
  using memory_map_pages_accounted [OF no_map_records no_map_run] no_map_run by fastforce

end
