(* ===== verification/Kernel_Runtime.thy ===== *)
theory Kernel_Runtime
  imports CMem
begin

text \<open>
  \<open>kernel/src/main.cpp\<close> and \<open>kernel/src/runtime_cpp_support.cpp\<close>: the kernel's entry point, and
  the support the compiler calls for the initialisation of local static variables. What the
  compiled code does with this support (the guard protocol of the C++ ABI) is the step
  relation below, for any number of threads.
\<close>

section \<open>Definitions\<close>

text \<open>
  The entry point: it disables interrupts and halts for ever; \<open>cli\<close> and \<open>hlt\<close> are the two
  instructions.
\<close>

partial_function (option) kernel_main ::
    "('e machine \<Rightarrow> 'e machine) \<Rightarrow> ('e machine \<Rightarrow> 'e machine) \<Rightarrow> 'e machine \<Rightarrow> 'r option" where
  "kernel_main cli hlt s = kernel_main cli hlt (hlt (cli s))"

definition cxa_pure_virtual :: "'e machine \<Rightarrow> 'e machine" where
  "cxa_pure_virtual s = s"

text \<open>Guard variables: only their first byte is used.\<close>

definition cxa_guard_acquire :: "mem \<Rightarrow> u64 \<Rightarrow> u32" where
  "cxa_guard_acquire m g = (if m g = 0 then 1 else 0)"

definition cxa_guard_release :: "mem \<Rightarrow> u64 \<Rightarrow> mem" where
  "cxa_guard_release m g = m(g := 1)"

definition cxa_guard_abort :: "mem \<Rightarrow> u64 \<Rightarrow> mem" where
  "cxa_guard_abort m g = m"

section \<open>The guard protocol\<close>

text \<open>
  A thread that reaches the declaration of a local static variable acquires the guard; when
  that succeeds it runs the initialiser and releases the guard, or aborts when the
  initialiser throws (and may come back to the declaration). \<open>runs\<close> counts how often the
  initialiser has finished. A step is a step of one thread.
\<close>

datatype phase = Entry | Initialising | Using

record guarded =
  gmem :: mem
  phase_of :: "nat \<Rightarrow> phase"
  runs :: nat

inductive guard_step :: "u64 \<Rightarrow> nat \<Rightarrow> guarded \<Rightarrow> guarded \<Rightarrow> bool" for g :: u64 and t :: nat where
  acquired: "phase_of c t = Entry \<Longrightarrow> cxa_guard_acquire (gmem c) g \<noteq> 0 \<Longrightarrow>
    guard_step g t c (c\<lparr>phase_of := (phase_of c)(t := Initialising)\<rparr>)"
| initialised: "phase_of c t = Entry \<Longrightarrow> cxa_guard_acquire (gmem c) g = 0 \<Longrightarrow>
    guard_step g t c (c\<lparr>phase_of := (phase_of c)(t := Using)\<rparr>)"
| released: "phase_of c t = Initialising \<Longrightarrow>
    guard_step g t c (c\<lparr>gmem := cxa_guard_release (gmem c) g,
      phase_of := (phase_of c)(t := Using), runs := Suc (runs c)\<rparr>)"
| aborted: "phase_of c t = Initialising \<Longrightarrow>
    guard_step g t c (c\<lparr>gmem := cxa_guard_abort (gmem c) g, phase_of := (phase_of c)(t := Entry)\<rparr>)"

inductive_cases guard_stepE: "guard_step g t c c'"

definition any_step :: "u64 \<Rightarrow> guarded \<Rightarrow> guarded \<Rightarrow> bool" where
  "any_step g c c' \<longleftrightarrow> (\<exists>t. guard_step g t c c')"

definition fresh :: "mem \<Rightarrow> guarded" where
  "fresh m = \<lparr> gmem = m, phase_of = (\<lambda>_. Entry), runs = 0 \<rparr>"

lemmas guard_defs = cxa_guard_acquire_def cxa_guard_release_def cxa_guard_abort_def

lemma kernel_main_None: "kernel_main cli hlt s = None"
proof -
  have "kernel_main cli hlt s = Some r \<Longrightarrow> False" for r
    by (erule kernel_main.raw_induct [where P = "\<lambda>_ _ _ _. False", rotated]) blast
  then show ?thesis by (metis not_None_eq)
qed

section \<open>Invariants\<close>

text \<open>
  The guard byte tells whether an initialiser has finished, no other byte changes, and a
  thread uses the variable only after one has.
\<close>

definition guard_inv :: "u64 \<Rightarrow> mem \<Rightarrow> guarded \<Rightarrow> bool" where
  "guard_inv g m c \<longleftrightarrow> gmem c g = (if runs c = 0 then 0 else 1)
     \<and> (\<forall>a. a \<noteq> g \<longrightarrow> gmem c a = m a) \<and> (runs c = 0 \<longrightarrow> (\<forall>t. phase_of c t \<noteq> Using))"

lemma guard_inv_step: "guard_step g t c c' \<Longrightarrow> guard_inv g m c \<Longrightarrow> guard_inv g m c'"
  by (erule guard_stepE) (auto simp: guard_inv_def guard_defs split: if_splits)

lemma guard_inv_fresh: "m g = 0 \<Longrightarrow> guard_inv g m (fresh m)"
  by (simp add: guard_inv_def fresh_def)

lemma guard_inv_reachable:
  assumes "(any_step g)\<^sup>*\<^sup>* (fresh m) c" and "m g = 0"
  shows "guard_inv g m c"
  using assms by (induction rule: rtranclp_induct)
    (auto simp: any_step_def guard_inv_fresh intro: guard_inv_step)

text \<open>With one thread only, the initialiser runs while no run has finished.\<close>

definition one_thread_inv :: "u64 \<Rightarrow> nat \<Rightarrow> guarded \<Rightarrow> bool" where
  "one_thread_inv g t c \<longleftrightarrow> gmem c g = (if runs c = 0 then 0 else 1) \<and> runs c \<le> 1
     \<and> (phase_of c t = Initialising \<longrightarrow> runs c = 0) \<and> (\<forall>u. u \<noteq> t \<longrightarrow> phase_of c u = Entry)"

lemma one_thread_step: "guard_step g t c c' \<Longrightarrow> one_thread_inv g t c \<Longrightarrow> one_thread_inv g t c'"
  by (erule guard_stepE) (auto simp: one_thread_inv_def guard_defs split: if_splits)

lemma one_thread_reachable:
  assumes "(guard_step g t)\<^sup>*\<^sup>* (fresh m) c" and "m g = 0"
  shows "one_thread_inv g t c"
  using assms
proof (induction rule: rtranclp_induct)
  case base
  then show ?case by (simp add: one_thread_inv_def fresh_def)
qed (auto intro: one_thread_step)

section \<open>The race\<close>

text \<open>The first \<open>n\<close> threads acquire the guard one after the other, then all of them release it.\<close>

definition all_inside :: "mem \<Rightarrow> nat \<Rightarrow> guarded" where
  "all_inside m n = \<lparr> gmem = m, phase_of = (\<lambda>t. if t < n then Initialising else Entry), runs = 0 \<rparr>"

lemma enter_all:
  assumes "m g = 0"
  shows "(any_step g)\<^sup>*\<^sup>* (fresh m) (all_inside m n)"
proof (induction n)
  case 0
  then show ?case by (simp add: all_inside_def fresh_def)
next
  case (Suc n)
  have "all_inside m (Suc n) = (all_inside m n)\<lparr>phase_of := (phase_of (all_inside m n))(n := Initialising)\<rparr>"
    by (auto simp: all_inside_def fun_eq_iff)
  moreover have "guard_step g n (all_inside m n)
      ((all_inside m n)\<lparr>phase_of := (phase_of (all_inside m n))(n := Initialising)\<rparr>)"
    using assms by (intro acquired) (simp_all add: all_inside_def guard_defs)
  ultimately have "any_step g (all_inside m n) (all_inside m (Suc n))"
    unfolding any_step_def by metis
  with Suc show ?case by (rule rtranclp.rtrancl_into_rtrancl)
qed

definition released_by :: "u64 \<Rightarrow> mem \<Rightarrow> nat \<Rightarrow> nat \<Rightarrow> guarded" where
  "released_by g m n k = \<lparr> gmem = (if k = 0 then m else m(g := 1)),
     phase_of = (\<lambda>t. if t < k then Using else if t < n then Initialising else Entry), runs = k \<rparr>"

lemma release_all:
  assumes "k \<le> n"
  shows "(any_step g)\<^sup>*\<^sup>* (all_inside m n) (released_by g m n k)"
  using assms
proof (induction k)
  case 0
  then show ?case by (simp add: all_inside_def released_by_def)
next
  case (Suc k)
  let ?c = "released_by g m n k"
  have "released_by g m n (Suc k) = ?c\<lparr>gmem := cxa_guard_release (gmem ?c) g,
      phase_of := (phase_of ?c)(k := Using), runs := Suc (runs ?c)\<rparr>"
    by (auto simp: released_by_def guard_defs fun_eq_iff)
  moreover have "guard_step g k ?c (?c\<lparr>gmem := cxa_guard_release (gmem ?c) g,
      phase_of := (phase_of ?c)(k := Using), runs := Suc (runs ?c)\<rparr>)"
    using Suc.prems by (intro released) (simp add: released_by_def)
  ultimately have "any_step g ?c (released_by g m n (Suc k))"
    unfolding any_step_def by metis
  with Suc show ?case by (simp add: rtranclp.rtrancl_into_rtrancl)
qed

section \<open>Properties\<close>

text \<open>
  C12: with a guard that starts at 0, in every state any number of threads can reach, the guard
  byte is 1 exactly when an initialiser has finished, the guard functions have changed no other
  byte, and no thread uses the variable before one has finished.
\<close>

theorem guard_tells_initialised:
  assumes "(any_step g)\<^sup>*\<^sup>* (fresh m) c" and "m g = 0"
  shows "gmem c = (if runs c = 0 then m else m(g := 1)) \<and> (runs c = 0 \<longrightarrow> (\<forall>t. phase_of c t \<noteq> Using))"
proof -
  have "gmem c a = (if runs c = 0 then m else m(g := 1)) a" for a
    using guard_inv_reachable [OF assms] assms(2) by (cases "a = g") (simp_all add: guard_inv_def)
  then show ?thesis
    using guard_inv_reachable [OF assms] by (auto simp: guard_inv_def)
qed

theorem guard_tells_initialised_witness:
  "gmem (released_by 0x1000 (\<lambda>_. 0) 2 2) = (\<lambda>_. 0)(0x1000 := 1)"
  using guard_tells_initialised [OF rtranclp_trans [OF enter_all release_all],
      of "\<lambda>_. 0" "0x1000" 2 2]
  by (simp add: released_by_def)

text \<open>
  C23: the initialiser finishes at most once as long as one thread runs the protocol, but the
  guard functions exclude nobody: with more threads it can finish any number of times, once
  for every thread that acquires the guard before the first release.
\<close>

theorem guard_once_for_one_thread:
  assumes "m g = 0"
  shows "((guard_step g t)\<^sup>*\<^sup>* (fresh m) c \<longrightarrow> runs c \<le> 1)
    \<and> (\<exists>c. (any_step g)\<^sup>*\<^sup>* (fresh m) c \<and> runs c = n)"
proof (intro conjI impI)
  assume "(guard_step g t)\<^sup>*\<^sup>* (fresh m) c"
  from one_thread_reachable [OF this assms] show "runs c \<le> 1" by (simp add: one_thread_inv_def)
next
  have "(any_step g)\<^sup>*\<^sup>* (fresh m) (released_by g m n n)"
    using enter_all [of m g n, OF assms] release_all [of n n g m] by (rule rtranclp_trans) simp
  then show "\<exists>c. (any_step g)\<^sup>*\<^sup>* (fresh m) c \<and> runs c = n"
    by (auto simp: released_by_def)
qed

theorem guard_once_for_one_thread_witness:
  "\<exists>c. (any_step 0x1000)\<^sup>*\<^sup>* (fresh (\<lambda>_. 0)) c \<and> runs c = 2"
  using guard_once_for_one_thread [of "\<lambda>_. 0" "0x1000" 0 undefined 2] by simp

end
