(* ===== verification/Efi_Link.thy ===== *)
theory Efi_Link
  imports Efi_Def
begin

text \<open>
  \<open>efi_headers/efilink.h\<close>: the macros of doubly linked lists, on the byte-addressed memory,
  and the refinement of lists they implement. The locale \<open>link_store\<close> states how the two links
  of separate entries behave under updates; the memory is an instance of it.
\<close>

section \<open>Definitions\<close>

definition EFI_LIST_ENTRY :: cty where
  "EFI_LIST_ENTRY = CStruct [(''Flink'', CPtr ''LIST_ENTRY''), (''Blink'', CPtr ''LIST_ENTRY'')]"

definition Flink :: "mem \<Rightarrow> u64 \<Rightarrow> u64" where
  "Flink m p = ld64 m (fld EFI_LIST_ENTRY ''Flink'' p)"

definition Blink :: "mem \<Rightarrow> u64 \<Rightarrow> u64" where
  "Blink m p = ld64 m (fld EFI_LIST_ENTRY ''Blink'' p)"

definition set_Flink :: "mem \<Rightarrow> u64 \<Rightarrow> u64 \<Rightarrow> mem" where
  "set_Flink m p v = st64 m (fld EFI_LIST_ENTRY ''Flink'' p) v"

definition set_Blink :: "mem \<Rightarrow> u64 \<Rightarrow> u64 \<Rightarrow> mem" where
  "set_Blink m p v = st64 m (fld EFI_LIST_ENTRY ''Blink'' p) v"

definition InitializeListHead :: "mem \<Rightarrow> u64 \<Rightarrow> mem" where
  "InitializeListHead m ListHead = (let m = set_Flink m ListHead ListHead in set_Blink m ListHead ListHead)"

definition IsListEmpty :: "mem \<Rightarrow> u64 \<Rightarrow> bool" where
  "IsListEmpty m ListHead \<longleftrightarrow> Flink m ListHead = ListHead"

text \<open>\<open>RemoveEntryList\<close>, without and with \<open>EFI_DEBUG\<close>.\<close>

definition RemoveEntryList :: "mem \<Rightarrow> u64 \<Rightarrow> mem" where
  "RemoveEntryList m Entry = (let F = Flink m Entry; B = Blink m Entry;
     m = set_Flink m B F in set_Blink m F B)"

definition RemoveEntryList_debug :: "mem \<Rightarrow> u64 \<Rightarrow> mem" where
  "RemoveEntryList_debug m Entry = (let m = RemoveEntryList m Entry;
     m = set_Flink m Entry BAD_POINTER in set_Blink m Entry BAD_POINTER)"

definition InsertTailList :: "mem \<Rightarrow> u64 \<Rightarrow> u64 \<Rightarrow> mem" where
  "InsertTailList m ListHead Entry = (let B = Blink m ListHead;
     m = set_Flink m Entry ListHead; m = set_Blink m Entry B;
     m = set_Flink m B Entry in set_Blink m ListHead Entry)"

definition InsertHeadList :: "mem \<Rightarrow> u64 \<Rightarrow> u64 \<Rightarrow> mem" where
  "InsertHeadList m ListHead Entry = (let F = Flink m ListHead;
     m = set_Flink m Entry F; m = set_Blink m Entry ListHead;
     m = set_Blink m F Entry in set_Flink m ListHead Entry)"

definition SwapListEntries :: "mem \<Rightarrow> u64 \<Rightarrow> u64 \<Rightarrow> mem" where
  "SwapListEntries m Entry1 Entry2 = (let Entry2Flink = Flink m Entry2; Entry2Blink = Blink m Entry2;
     Entry1Flink = Flink m Entry1; Entry1Blink = Blink m Entry1;
     m = set_Flink m Entry2Blink Entry2Flink; m = set_Blink m Entry2Flink Entry2Blink;
     m = set_Flink m Entry2 Entry1; m = set_Blink m Entry2 Entry1Blink;
     m = set_Flink m Entry1Blink Entry2 in set_Blink m Entry1 Entry2)"

definition EFI_FIELD_OFFSET :: "cty \<Rightarrow> string \<Rightarrow> u64" where
  "EFI_FIELD_OFFSET t f = fld t f 0"

definition CR :: "u64 \<Rightarrow> cty \<Rightarrow> string \<Rightarrow> u64" where
  "CR Record t f = Record - fld t f 0"

definition FLOCK :: cty where
  "FLOCK = CStruct [(''Tpl'', EFI_TPL), (''OwnerTpl'', EFI_TPL), (''Lock'', UINTN)]"

section \<open>Circular lists over link functions\<close>

text \<open>\<open>chain f b p xs q\<close>: the links lead from \<open>p\<close> through \<open>xs\<close> to \<open>q\<close> and back.\<close>

fun chain :: "('p \<Rightarrow> 'p) \<Rightarrow> ('p \<Rightarrow> 'p) \<Rightarrow> 'p \<Rightarrow> 'p list \<Rightarrow> 'p \<Rightarrow> bool" where
  "chain f b p [] q \<longleftrightarrow> f p = q \<and> b q = p"
| "chain f b p (x # xs) q \<longleftrightarrow> f p = x \<and> b x = p \<and> chain f b x xs q"

lemma chain_append [simp]:
  "chain f b p (xs @ y # ys) q \<longleftrightarrow> chain f b p xs y \<and> chain f b y ys q"
  by (induction xs arbitrary: p) auto

lemma chain_cong:
  "(\<And>x. x \<in> set (p # xs) \<Longrightarrow> f x = f' x) \<Longrightarrow> (\<And>x. x \<in> set (xs @ [q]) \<Longrightarrow> b x = b' x) \<Longrightarrow>
   chain f b p xs q = chain f' b' p xs q"
  by (induction xs arbitrary: p) auto

lemma chain_upd [simp]:
  "x \<notin> set (p # xs) \<Longrightarrow> chain (f(x := v)) b p xs q = chain f b p xs q"
  "x \<notin> set (xs @ [q]) \<Longrightarrow> chain f (b(x := v)) p xs q = chain f b p xs q"
  by (rule chain_cong; auto)+

lemma chain_insert_tail:
  assumes "chain f b h xs h" and "distinct (e # h # xs)"
  shows "chain (f(e := h, b h := e)) (b(e := b h, h := e)) h (xs @ [e]) h"
  using assms by (cases xs rule: rev_cases) auto

lemma chain_insert_head:
  assumes "chain f b h xs h" and "distinct (e # h # xs)"
  shows "chain (f(e := f h, h := e)) (b(e := h, f h := e)) h (e # xs) h"
  using assms by (cases xs) auto

lemma chain_remove:
  assumes "chain f b h (ys @ e # zs) h" and "distinct (h # ys @ e # zs)"
  shows "chain (f(b e := f e)) (b(f e := b e)) h (ys @ zs) h"
  using assms by (cases ys rule: rev_cases; cases zs) auto

lemma chain_insert_before:
  assumes "chain f b h (ys @ y # zs) h" and "distinct (e # h # ys @ y # zs)"
  shows "chain (f(e := y, b y := e)) (b(e := b y, y := e)) h (ys @ e # y # zs) h"
  using assms by (cases ys rule: rev_cases) auto

lemma chain_closed:
  "chain f b p xs q \<Longrightarrow> x \<in> set (p # xs) \<Longrightarrow> f x \<in> set (xs @ [q])"
  "chain f b p xs q \<Longrightarrow> x \<in> set (xs @ [q]) \<Longrightarrow> b x \<in> set (p # xs)"
  by (induction xs arbitrary: p) auto

text \<open>Moving the entry \<open>e\<close> before \<open>y\<close>, unless it is there already.\<close>

lemma chain_move:
  assumes "chain f b h (ys @ e # zs) h" and "distinct (h # ys @ e # zs)"
    and "ys @ zs = us @ y # vs" and "f e \<noteq> y"
  shows "chain (f(b e := f e, e := y, b y := e)) (b(f e := b e, e := b y, y := e))
    h (us @ e # y # vs) h"
proof -
  have "chain (f(b e := f e)) (b(f e := b e)) h (us @ y # vs) h"
    using chain_remove [OF assms(1,2)] assms(3) by simp
  moreover have "set (e # h # us @ y # vs) = set (h # ys @ e # zs)" 
    using assms(3) by (metis (no_types, lifting) insert_commute list.simps(15) set_append Un_insert_right)
  moreover have "distinct (e # h # us @ y # vs)"
    using assms(2) unfolding assms(3) [symmetric] by auto
  ultimately show ?thesis
    using chain_insert_before [of "f(b e := f e)" "b(f e := b e)" h us y vs e] assms(4) by simp
qed

text \<open>What the same updates do when \<open>e\<close> is already there: \<open>e\<close> points to itself.\<close>

lemma chain_move_adjacent:
  assumes "chain f b h (ys @ e # y # zs) h" and "distinct (h # ys @ e # y # zs)"
  shows "(f(b e := f e, e := y, b y := e)) e = e \<and> (b(f e := b e, e := b y, y := e)) e = e"
  using assms by auto

section \<open>Link stores\<close>

text \<open>
  The contract: updating a link of an entry changes this link of this entry, and no link of an
  entry that is the same or separate from it.
\<close>

locale link_store =
  fixes get_f :: "'m \<Rightarrow> 'p \<Rightarrow> 'p" and get_b :: "'m \<Rightarrow> 'p \<Rightarrow> 'p"
    and set_f :: "'m \<Rightarrow> 'p \<Rightarrow> 'p \<Rightarrow> 'm" and set_b :: "'m \<Rightarrow> 'p \<Rightarrow> 'p \<Rightarrow> 'm"
    and sep :: "'p \<Rightarrow> 'p \<Rightarrow> bool"
  assumes f_same: "get_f (set_f m p v) p = v"
    and f_other: "sep p q \<Longrightarrow> get_f (set_f m p v) q = get_f m q"
    and f_keep: "p = q \<or> sep p q \<Longrightarrow> get_f (set_b m p v) q = get_f m q"
    and b_same: "get_b (set_b m p v) p = v"
    and b_other: "sep p q \<Longrightarrow> get_b (set_b m p v) q = get_b m q"
    and b_keep: "p = q \<or> sep p q \<Longrightarrow> get_b (set_f m p v) q = get_b m q"
begin

text \<open>On a set of entries that are pairwise separate, updates are function updates.\<close>

lemma links_after:
  assumes "pairwise sep N" and "p \<in> N" and "q \<in> N"
  shows "get_f (set_f m p v) q = ((get_f m)(p := v)) q" "get_f (set_b m p v) q = get_f m q"
    "get_b (set_b m p v) q = ((get_b m)(p := v)) q" "get_b (set_f m p v) q = get_b m q"
proof -
  have "p = q \<or> sep p q" using assms by (auto simp: pairwise_def)
  then show "get_f (set_f m p v) q = ((get_f m)(p := v)) q" "get_f (set_b m p v) q = get_f m q"
      "get_b (set_b m p v) q = ((get_b m)(p := v)) q" "get_b (set_f m p v) q = get_b m q"
    by (auto simp: f_same f_other f_keep b_same b_other b_keep)
qed

lemma chain_after:
  assumes "chain f b h xs h" and "set (h # xs) \<subseteq> N"
    and "\<And>q. q \<in> N \<Longrightarrow> get_f m q = f q" "\<And>q. q \<in> N \<Longrightarrow> get_b m q = b q"
  shows "chain (get_f m) (get_b m) h xs h"
  using assms chain_cong [of h xs "get_f m" f h "get_b m" b] by auto

lemma insert_tail:
  assumes "chain (get_f m) (get_b m) h xs h" and "distinct (e # h # xs)"
    and "pairwise sep N" and "set (e # h # xs) \<subseteq> N"
  shows "let l = get_b m h;
      m' = set_b (set_f (set_b (set_f m e h) e l) l e) h e in chain (get_f m') (get_b m') h (xs @ [e]) h"
proof -
  have "get_b m h \<in> N" "e \<in> N" "h \<in> N"
    using chain_closed(2) [OF assms(1), of h] assms(4) by auto
  then show ?thesis
    unfolding Let_def using assms(4)
    by (intro chain_after [OF chain_insert_tail [OF assms(1,2)], where N = N])
      (simp_all add: links_after [OF assms(3)])
qed

lemma insert_head:
  assumes "chain (get_f m) (get_b m) h xs h" and "distinct (e # h # xs)"
    and "pairwise sep N" and "set (e # h # xs) \<subseteq> N"
  shows "let l = get_f m h;
      m' = set_f (set_b (set_b (set_f m e l) e h) l e) h e in chain (get_f m') (get_b m') h (e # xs) h"
proof -
  have "get_f m h \<in> N" "e \<in> N" "h \<in> N"
    using chain_closed(1) [OF assms(1), of h] assms(4) by auto
  then show ?thesis
    unfolding Let_def using assms(4)
    by (intro chain_after [OF chain_insert_head [OF assms(1,2)], where N = N])
      (simp_all add: links_after [OF assms(3)])
qed

lemma remove:
  assumes "chain (get_f m) (get_b m) h (ys @ e # zs) h" and "distinct (h # ys @ e # zs)"
    and "pairwise sep N" and "set (h # ys @ e # zs) \<subseteq> N"
  shows "let f = get_f m e; b = get_b m e; m' = set_b (set_f m b f) f b in
    chain (get_f m') (get_b m') h (ys @ zs) h"
proof -
  have "get_f m e \<in> N" "get_b m e \<in> N"
    using chain_closed [OF assms(1), of e] assms(4) by auto
  then show ?thesis
    unfolding Let_def using assms(4)
    by (intro chain_after [OF chain_remove [OF assms(1,2)], where N = N])
      (simp_all add: links_after [OF assms(3)])
qed

lemma move:
  assumes "chain (get_f m) (get_b m) h (ys @ e # zs) h" and "distinct (h # ys @ e # zs)"
    and "pairwise sep N" and "set (h # ys @ e # zs) \<subseteq> N" and "ys @ zs = us @ y # vs"
  shows "let f = get_f m e; b = get_b m e; b' = get_b m y;
      m' = set_b (set_f (set_b (set_f (set_b (set_f m b f) f b) e y) e b') b' e) y e in
    if f = y then get_f m' e = e \<and> get_b m' e = e
    else chain (get_f m') (get_b m') h (us @ e # y # vs) h"
proof -
  have y: "y \<in> set (ys @ zs)" unfolding assms(5) by simp
  have mem: "get_f m e \<in> N" "get_b m e \<in> N" "get_b m y \<in> N" "e \<in> N" "y \<in> N"
    using chain_closed [OF assms(1), of e] chain_closed(2) [OF assms(1), of y] y assms(4) by auto
  have ne: "e \<noteq> y" using y assms(2) by auto
  have sub: "set (h # us @ e # y # vs) \<subseteq> N"
    using assms(4) arg_cong [OF assms(5), of set] by auto
  show ?thesis
  proof (cases "get_f m e = y")
    case True
    then have "get_b m y = e" using assms(1) y ne by (cases zs) auto
    then show ?thesis
      using True mem ne by (simp add: Let_def links_after [OF assms(3)])
  next
    case False
    then show ?thesis
      unfolding Let_def if_not_P [OF False]
      using mem sub by (intro chain_after [OF chain_move [OF assms(1,2,5) False], where N = N])
        (simp_all add: links_after [OF assms(3)])
  qed
qed

end

section \<open>The entries in memory\<close>

definition apart :: "u64 \<Rightarrow> u64 \<Rightarrow> bool" where
  "apart p q \<longleftrightarrow> disj_blk p 16 q 16"

lemma link_offsets: "offset EFI_LIST_ENTRY ''Flink'' = Some 0 \<and> offset EFI_LIST_ENTRY ''Blink'' = Some 8"
  by code_simp

lemma link_addresses [simp]:
  "fld EFI_LIST_ENTRY ''Flink'' p = p" "fld EFI_LIST_ENTRY ''Blink'' p = p + 8"
  by (simp_all add: fld_def link_offsets)

lemmas link_defs = Flink_def Blink_def set_Flink_def set_Blink_def

lemma shifted_apart:
  assumes "16 \<le> unat (d :: u64)" "16 \<le> unat (- d)"
  shows "8 \<le> unat (d + 8)" "8 \<le> unat (d - 8)"
proof -
  have "unat (- d) = 18446744073709551616 - unat d"
    using assms(1) unat_sub_cases [of 0 d] by auto
  then have "unat d \<le> 18446744073709551600" using assms(2) by simp
  then show "8 \<le> unat (d + 8)" "8 \<le> unat (d - 8)"
    using assms(1) unat_add_cases [of d 8] unat_sub_cases [of d 8] by auto
qed

lemma halves_apart:
  "disj_blk p 8 (p + 8) 8" "disj_blk (p + 8) 8 p 8"
  "apart p q \<Longrightarrow> disj_blk p 8 q 8" "apart p q \<Longrightarrow> disj_blk (p + 8) 8 (q + 8) 8"
  "apart p q \<Longrightarrow> disj_blk p 8 (q + 8) 8" "apart p q \<Longrightarrow> disj_blk (p + 8) 8 q 8"
proof -
  have m8: "8 \<le> unat (- 8 :: u64)" using unat_sub_cases [of 0 8] by simp
  then show "disj_blk p 8 (p + 8) 8" "disj_blk (p + 8) 8 p 8"
    by (simp_all add: disj_blk_def)
  assume "apart p q"
  then have d: "16 \<le> unat (q - p)" "16 \<le> unat (p - q)" by (simp_all add: apart_def disj_blk_def)
  then show "disj_blk p 8 q 8" "disj_blk (p + 8) 8 (q + 8) 8" by (simp_all add: disj_blk_def)
  have w: "q + 8 - p = (q - p) + 8" "p - (q + 8) = (p - q) - 8" "p + 8 - q = (p - q) + 8"
      "q - (p + 8) = (q - p) - 8" by simp_all
  have e: "- (q - p) = p - q" "- (p - q) = q - p" by simp_all
  note l = shifted_apart [of "q - p", unfolded e, OF d] shifted_apart [of "p - q", unfolded e, OF d(2,1)]
  show "disj_blk p 8 (q + 8) 8" "disj_blk (p + 8) 8 q 8"
    unfolding disj_blk_def w using l by simp_all
qed

interpretation links: link_store Flink Blink set_Flink set_Blink apart
  by unfold_locales
    (auto simp: link_defs ld64_st64_same ld64_st64_other halves_apart)

text \<open>
  \<open>dlist m h xs\<close>: in memory \<open>m\<close>, the list with head \<open>h\<close> holds the entries \<open>xs\<close>, which do not
  overlap.
\<close>

definition dlist :: "mem \<Rightarrow> u64 \<Rightarrow> u64 list \<Rightarrow> bool" where
  "dlist m h xs \<longleftrightarrow> chain (Flink m) (Blink m) h xs h \<and> distinct (h # xs) \<and> pairwise apart (set (h # xs))"

lemma dlistD:
  assumes "dlist m h xs"
  shows "chain (Flink m) (Blink m) h xs h" "distinct (h # xs)" "pairwise apart (set (h # xs))"
  using assms by (simp_all add: dlist_def)

lemma dlistI:
  "chain (Flink m) (Blink m) h xs h \<Longrightarrow> distinct (h # xs) \<Longrightarrow> pairwise apart N \<Longrightarrow>
   set (h # xs) \<subseteq> N \<Longrightarrow> dlist m h xs"
  unfolding dlist_def by (blast intro: pairwise_subset)

lemma pairwise_new:
  assumes "dlist m h xs" and "list_all (apart e) (h # xs)"
  shows "distinct (e # h # xs)" "pairwise apart (set (e # h # xs))"
proof -
  have "\<not> apart e e" "apart p q = apart q p" for p q
    by (simp_all add: apart_def disj_blk_def conj_commute)
  then show "distinct (e # h # xs)" "pairwise apart (set (e # h # xs))"
    using assms dlistD [OF assms(1)] by (auto simp: list_all_iff pairwise_insert)
qed

lemma dlist_init: "dlist (InitializeListHead m h) h []"
  by (simp add: dlist_def InitializeListHead_def Let_def links.f_keep links.f_same links.b_same)

lemma dlist_empty: "dlist m h xs \<Longrightarrow> IsListEmpty m h = (xs = [])"
  by (cases xs) (auto simp: dlist_def IsListEmpty_def)

lemma dlist_insert:
  assumes "dlist m h xs" and "list_all (apart e) (h # xs)"
  shows "dlist (InsertTailList m h e) h (xs @ [e])" "dlist (InsertHeadList m h e) h (e # xs)"
proof -
  note new = pairwise_new [OF assms]
  show "dlist (InsertTailList m h e) h (xs @ [e])"
    using links.insert_tail [OF dlistD(1) [OF assms(1)] new order_refl] new
    by (intro dlistI [OF _ _ new(2)]) (auto simp: InsertTailList_def Let_def)
  show "dlist (InsertHeadList m h e) h (e # xs)"
    using links.insert_head [OF dlistD(1) [OF assms(1)] new order_refl] new
    by (intro dlistI [OF _ _ new(2)]) (auto simp: InsertHeadList_def Let_def)
qed

lemma dlist_remove:
  assumes "dlist m h (ys @ e # zs)"
  shows "dlist (RemoveEntryList m e) h (ys @ zs)"
  using links.remove [OF dlistD [OF assms] order_refl] dlistD(2) [OF assms]
  by (intro dlistI [OF _ _ dlistD(3) [OF assms]]) (auto simp: RemoveEntryList_def Let_def)

lemma CR_of_field [simp]: "CR (fld t f p) t f = p"
  by (simp add: CR_def fld_def)

section \<open>Properties\<close>

text \<open>
  C7: the macros implement a list: a fresh head is the empty list, the emptiness test is that of
  the list, and for a list \<open>xs\<close>, inserting an entry that overlaps none of it at the tail gives
  \<open>xs @ [e]\<close>, at the head \<open>e # xs\<close>, and removing an entry of the list takes this entry out.
\<close>

theorem list_macros_refine_lists:
  "dlist (InitializeListHead m h) h []
   \<and> (dlist m h xs \<longrightarrow> IsListEmpty m h = (xs = []))
   \<and> (dlist m h xs \<and> list_all (apart e) (h # xs) \<longrightarrow>
        dlist (InsertTailList m h e) h (xs @ [e]) \<and> dlist (InsertHeadList m h e) h (e # xs))
   \<and> (dlist m h (ys @ d # zs) \<longrightarrow> dlist (RemoveEntryList m d) h (ys @ zs))"
  using dlist_init dlist_empty dlist_insert dlist_remove by blast

text \<open>
  C39: \<open>SwapListEntries\<close> moves the second entry in front of the first, wherever both are in the
  list, unless it is there already: then its links are made to point to itself, and the list is
  broken.
\<close>

theorem swap_moves_before_unless_adjacent:
  assumes "dlist m h (ys @ e2 # zs)" and "ys @ zs = us @ e1 # vs"
  shows "if Flink m e2 = e1
    then Flink (SwapListEntries m e1 e2) e2 = e2 \<and> Blink (SwapListEntries m e1 e2) e2 = e2
    else dlist (SwapListEntries m e1 e2) h (us @ e2 # e1 # vs)"
proof -
  have "set us \<union> {e1} \<union> set vs = set ys \<union> set zs"
    using arg_cong [OF assms(2), of set] by auto
  moreover have "distinct (e2 # h # us @ e1 # vs)"
    unfolding assms(2) [symmetric] using dlistD(2) [OF assms(1)] by auto
  ultimately show ?thesis
    using links.move [OF dlistD [OF assms(1)] order_refl assms(2)]
    by (auto simp: SwapListEntries_def Let_def intro!: dlistI [OF _ _ dlistD(3) [OF assms(1)]])
qed

text \<open>Two entries at \<open>0x1010\<close> and \<open>0x1020\<close> behind a head at \<open>0x1000\<close>.\<close>

definition two_entries :: mem where
  "two_entries = InsertTailList (InsertTailList (InitializeListHead (\<lambda>_. 0) 0x1000) 0x1000 0x1010)
     0x1000 0x1020"

lemma two_entries_list: "dlist two_entries 0x1000 [0x1010, 0x1020]"
proof -
  have "dlist (InsertTailList (InitializeListHead (\<lambda>_. 0) 0x1000) 0x1000 0x1010) 0x1000 [0x1010]"
    using dlist_insert(1) [OF dlist_init, of "0x1010" "0x1000"] by (simp add: apart_def disj_blk_def)
  from dlist_insert(1) [OF this, of "0x1020"] show ?thesis
    by (simp add: two_entries_def apart_def disj_blk_def)
qed

theorem list_macros_refine_lists_witness:
  "dlist (InsertHeadList two_entries 0x1000 0x1030) 0x1000 [0x1030, 0x1010, 0x1020]
   \<and> dlist (RemoveEntryList two_entries 0x1010) 0x1000 [0x1020]"
  using list_macros_refine_lists [of two_entries "0x1000" "[0x1010, 0x1020]" "0x1030" "[]" "0x1010" "[0x1020]"]
    two_entries_list
  by (simp add: apart_def disj_blk_def)

theorem swap_moves_before_unless_adjacent_witness:
  "dlist (SwapListEntries two_entries 0x1010 0x1020) 0x1000 [0x1020, 0x1010]
   \<and> Flink (SwapListEntries two_entries 0x1020 0x1010) 0x1010 = 0x1010"
proof -
  have "Flink two_entries 0x1020 = 0x1000" "Flink two_entries 0x1010 = 0x1020"
    using dlistD(1) [OF two_entries_list] by simp_all
  then show ?thesis
    using swap_moves_before_unless_adjacent [of two_entries "0x1000" "[0x1010]" "0x1020" "[]" "[]" "0x1010" "[]"]
      swap_moves_before_unless_adjacent [of two_entries "0x1000" "[]" "0x1010" "[0x1020]" "[]" "0x1020" "[]"]
      two_entries_list
    by simp
qed

end
