(* ===== verification/Link_Session.thy ===== *)
theory Link_Session
  imports Efi_Link
begin

text \<open>
  Sequences of operations on a list of \<open>efilink.h\<close>: what a client that only uses the macros finds
  in memory. The abstract state is the list of entries, on which every operation is a function;
  the simulation is that of the single operations.
\<close>

section \<open>Operations\<close>

datatype link_op = AtHead u64 | AtTail u64 | Unlink u64

fun op_entry :: "link_op \<Rightarrow> u64" where
  "op_entry (AtHead e) = e"
| "op_entry (AtTail e) = e"
| "op_entry (Unlink e) = e"

fun run_op :: "u64 \<Rightarrow> link_op \<Rightarrow> mem \<Rightarrow> mem" where
  "run_op h (AtHead e) m = InsertHeadList m h e"
| "run_op h (AtTail e) m = InsertTailList m h e"
| "run_op h (Unlink e) m = RemoveEntryList m e"

fun list_op :: "link_op \<Rightarrow> u64 list \<Rightarrow> u64 list" where
  "list_op (AtHead e) xs = e # xs"
| "list_op (AtTail e) xs = xs @ [e]"
| "list_op (Unlink e) xs = remove1 e xs"

text \<open>An entry that is inserted overlaps neither the head nor an entry, one removed is listed.\<close>

fun allowed :: "u64 \<Rightarrow> link_op \<Rightarrow> u64 list \<Rightarrow> bool" where
  "allowed h (AtHead e) xs = list_all (apart e) (h # xs)"
| "allowed h (AtTail e) xs = list_all (apart e) (h # xs)"
| "allowed h (Unlink e) xs = (e \<in> set xs)"

fun run_ops :: "u64 \<Rightarrow> link_op list \<Rightarrow> mem \<Rightarrow> mem" where
  "run_ops h [] m = m"
| "run_ops h (op # ops) m = run_ops h ops (run_op h op m)"

fun list_after :: "u64 \<Rightarrow> link_op list \<Rightarrow> u64 list \<Rightarrow> u64 list option" where
  "list_after h [] xs = Some xs"
| "list_after h (op # ops) xs = (if allowed h op xs then list_after h ops (list_op op xs) else None)"

text \<open>The entries met when \<open>n\<close> links are followed.\<close>

fun follow :: "('p \<Rightarrow> 'p) \<Rightarrow> nat \<Rightarrow> 'p \<Rightarrow> 'p list" where
  "follow f 0 p = []"
| "follow f (Suc n) p = f p # follow f n (f p)"

section \<open>The simulation\<close>

lemma op_keeps_list:
  assumes "dlist m h xs" and "allowed h op xs"
  shows "dlist (run_op h op m) h (list_op op xs)"
proof (cases op)
  case (Unlink e)
  with assms(2) obtain ys zs where "xs = ys @ e # zs" "e \<notin> set ys"
    by (auto dest: split_list_first)
  then show ?thesis using assms(1) dlist_remove [of m h ys e zs] by (simp add: Unlink remove1_append)
qed (use assms dlist_insert in auto)

lemma list_op_entries: "set (list_op op xs) \<subseteq> insert (op_entry op) (set xs)"
  by (cases op) (auto dest: in_set_remove1 [THEN iffD1] notin_set_remove1 set_remove1_subset [THEN subsetD])

lemma link_store_frame:
  assumes "\<not> in_blk p 16 a"
  shows "set_Flink m p v a = m a" "set_Blink m p v a = m a"
proof -
  have "\<not> in_blk p 8 a" "\<not> in_blk (p + 8) 8 a"
    using assms in_blk_add [of 8 8 p a] by auto
  then show "set_Flink m p v a = m a" "set_Blink m p v a = m a"
    by (simp_all add: link_defs st64_other)
qed

lemma neighbours:
  assumes "dlist m h xs" and "p \<in> set (h # xs)"
  shows "Flink m p \<in> set (h # xs)" "Blink m p \<in> set (h # xs)"
  using chain_closed [OF dlistD(1) [OF assms(1)], of p] assms(2) by auto

lemma op_frame:
  assumes "dlist m h xs" and "allowed h op xs"
    and "\<And>p. p \<in> set (h # op_entry op # xs) \<Longrightarrow> \<not> in_blk p 16 a"
  shows "run_op h op m a = m a"
proof -
  have "\<not> in_blk (Flink m p) 16 a" "\<not> in_blk (Blink m p) 16 a" if "p \<in> set (h # xs)" for p
    using neighbours [OF assms(1) that] assms(3) by auto
  then show ?thesis
    using assms(2,3)
    by (cases op) (auto simp: InsertHeadList_def InsertTailList_def RemoveEntryList_def Let_def
        link_store_frame)
qed

lemma ops_simulate:
  assumes "dlist m h xs" and "list_after h ops xs = Some ys"
  shows "dlist (run_ops h ops m) h ys
    \<and> (\<forall>a. (\<forall>p \<in> set (h # map op_entry ops @ xs). \<not> in_blk p 16 a) \<longrightarrow> run_ops h ops m a = m a)"
  using assms
proof (induction ops arbitrary: m xs)
  case (Cons op ops)
  then have ok: "allowed h op xs" "list_after h ops (list_op op xs) = Some ys"
    by (auto split: if_splits)
  note IH = Cons.IH [OF op_keeps_list [OF Cons.prems(1) ok(1)] ok(2)]
  have "run_ops h ops (run_op h op m) a = m a"
    if "\<forall>p \<in> set (h # map op_entry (op # ops) @ xs). \<not> in_blk p 16 a" for a
  proof -
    have "run_ops h ops (run_op h op m) a = run_op h op m a"
    proof -
      have "\<forall>p \<in> set (h # map op_entry ops @ list_op op xs). \<not> in_blk p 16 a"
        using that list_op_entries [of op xs] by (simp add: subset_iff) blast
      with IH show ?thesis by blast
    qed
    also have "\<dots> = m a" using that by (intro op_frame [OF Cons.prems(1) ok(1)]) auto
    finally show ?thesis .
  qed
  with IH show ?case by simp
qed simp

lemma chain_follow: "chain f b p xs q \<Longrightarrow> follow f (Suc (length xs)) p = xs @ [q]"
  by (induction xs arbitrary: p) auto

lemma chain_follow_back: "chain f b p xs q \<Longrightarrow> follow b (Suc (length xs)) q = rev xs @ [p]"
proof (induction xs arbitrary: q rule: rev_induct)
  case (snoc x xs)
  then have "b q = x" "chain f b p xs x" by auto
  with snoc.IH [of x] show ?case by simp
qed simp

lemma head_frame: "\<not> in_blk h 16 a \<Longrightarrow> InitializeListHead m h a = m a"
  by (simp add: InitializeListHead_def Let_def link_store_frame)

section \<open>Property\<close>

text \<open>
  C6: a client that initialises a list head and then inserts and removes entries, inserting
  only entries that overlap neither the head nor a listed entry and removing only listed ones,
  always finds the list it would have in mind: following the forward links from the head
  visits exactly its entries, in order, and comes back to the head; following the backward
  links visits them in the opposite order; the emptiness test answers for this list; and no
  byte outside the head and the entries handed over has changed.
\<close>

theorem list_session_refines_list:
  assumes "list_after h ops [] = Some xs" and "m' = run_ops h ops (InitializeListHead m h)"
  shows "follow (Flink m') (Suc (length xs)) h = xs @ [h]
    \<and> follow (Blink m') (Suc (length xs)) h = rev xs @ [h]
    \<and> IsListEmpty m' h = (xs = [])
    \<and> (\<forall>a. (\<forall>p \<in> set (h # map op_entry ops). \<not> in_blk p 16 a) \<longrightarrow> m' a = m a)"
proof -
  note s = ops_simulate [OF dlist_init [of m h] assms(1), folded assms(2)]
  then have "dlist m' h xs" by blast
  note l = chain_follow [OF dlistD(1) [OF this]] chain_follow_back [OF dlistD(1) [OF this]] dlist_empty [OF this]
  have "m' a = m a" if "\<forall>p \<in> set (h # map op_entry ops). \<not> in_blk p 16 a" for a
    using s head_frame [of h a m] that by auto
  with l show ?thesis by blast
qed

theorem list_session_refines_list_witness:
  "\<exists>m'. m' = run_ops 0x1000 [AtTail 0x2000, AtHead 0x3000, AtTail 0x1010, Unlink 0x2000]
       (InitializeListHead (\<lambda>_. 7) 0x1000)
   \<and> follow (Flink m') 3 0x1000 = [0x3000, 0x1010, 0x1000]
   \<and> follow (Blink m') 3 0x1000 = [0x1010, 0x3000, 0x1000] \<and> \<not> IsListEmpty m' 0x1000 \<and> m' 0x4000 = 7"
proof -
  let ?ops = "[AtTail 0x2000, AtHead 0x3000, AtTail 0x1010, Unlink 0x2000]"
  have "list_after 0x1000 ?ops [] = Some [0x3000, 0x1010]"
    by (simp add: apart_def disj_blk_def)
  note r = list_session_refines_list [OF this]
  define m' where "m' = run_ops 0x1000 ?ops (InitializeListHead (\<lambda>_. 7) 0x1000)"
  have "follow (Flink m') 3 0x1000 = [0x3000, 0x1010, 0x1000]
      \<and> follow (Blink m') 3 0x1000 = [0x1010, 0x3000, 0x1000] \<and> \<not> IsListEmpty m' 0x1000 \<and> m' 0x4000 = 7"
    using r [OF m'_def] by (auto simp: numeral_3_eq_3 in_blk_def)
  with m'_def show ?thesis by blast
qed

end
