(* ===== verification/Efi_Image.thy ===== *)
theory Efi_Image
  imports Efi_Base
begin

text \<open>
  The image format of \<open>x86_64/pe.h\<close>: DOS, OS/2 and PE headers, sections, symbols, relocations, archives
  and the import and export tables.
\<close>

section \<open>pe.h\<close>

definition IMAGE_DOS_SIGNATURE :: u64 where "IMAGE_DOS_SIGNATURE = 0x5A4D"
definition IMAGE_OS2_SIGNATURE :: u64 where "IMAGE_OS2_SIGNATURE = 0x454E"
definition IMAGE_OS2_SIGNATURE_LE :: u64 where "IMAGE_OS2_SIGNATURE_LE = 0x454C"
definition IMAGE_NT_SIGNATURE :: u64 where "IMAGE_NT_SIGNATURE = 0x00004550"
definition IMAGE_EDOS_SIGNATURE :: u64 where "IMAGE_EDOS_SIGNATURE = 0x44454550"

definition IMAGE_DOS_HEADER :: cty where
  "IMAGE_DOS_HEADER = CStruct [(''e_magic'', UINT16), (''e_cblp'', UINT16), (''e_cp'', UINT16),
    (''e_crlc'', UINT16), (''e_cparhdr'', UINT16), (''e_minalloc'', UINT16),
    (''e_maxalloc'', UINT16), (''e_ss'', UINT16), (''e_sp'', UINT16), (''e_csum'', UINT16),
    (''e_ip'', UINT16), (''e_cs'', UINT16), (''e_lfarlc'', UINT16), (''e_ovno'', UINT16),
    (''e_res'', CArr UINT16 4), (''e_oemid'', UINT16), (''e_oeminfo'', UINT16),
    (''e_res2'', CArr UINT16 10), (''e_lfanew'', UINT32)]"

definition PIMAGE_DOS_HEADER :: cty where "PIMAGE_DOS_HEADER = CPtr ''IMAGE_DOS_HEADER''"

definition IMAGE_OS2_HEADER :: cty where
  "IMAGE_OS2_HEADER = CStruct [(''ne_magic'', UINT16), (''ne_ver'', UINT8), (''ne_rev'', UINT8),
    (''ne_enttab'', UINT16), (''ne_cbenttab'', UINT16), (''ne_crc'', UINT32),
    (''ne_flags'', UINT16), (''ne_autodata'', UINT16), (''ne_heap'', UINT16),
    (''ne_stack'', UINT16), (''ne_csip'', UINT32), (''ne_sssp'', UINT32), (''ne_cseg'', UINT16),
    (''ne_cmod'', UINT16), (''ne_cbnrestab'', UINT16), (''ne_segtab'', UINT16),
    (''ne_rsrctab'', UINT16), (''ne_restab'', UINT16), (''ne_modtab'', UINT16),
    (''ne_imptab'', UINT16), (''ne_nrestab'', UINT32), (''ne_cmovent'', UINT16),
    (''ne_align'', UINT16), (''ne_cres'', UINT16), (''ne_exetyp'', UINT8),
    (''ne_flagsothers'', UINT8), (''ne_pretthunks'', UINT16), (''ne_psegrefbytes'', UINT16),
    (''ne_swaparea'', UINT16), (''ne_expver'', UINT16)]"

definition PIMAGE_OS2_HEADER :: cty where "PIMAGE_OS2_HEADER = CPtr ''IMAGE_OS2_HEADER''"

definition IMAGE_FILE_HEADER :: cty where
  "IMAGE_FILE_HEADER = CStruct [(''Machine'', UINT16), (''NumberOfSections'', UINT16),
    (''TimeDateStamp'', UINT32), (''PointerToSymbolTable'', UINT32),
    (''NumberOfSymbols'', UINT32), (''SizeOfOptionalHeader'', UINT16),
    (''Characteristics'', UINT16)]"

definition PIMAGE_FILE_HEADER :: cty where "PIMAGE_FILE_HEADER = CPtr ''IMAGE_FILE_HEADER''"
definition IMAGE_SIZEOF_FILE_HEADER :: u64 where "IMAGE_SIZEOF_FILE_HEADER = 20"
definition IMAGE_FILE_RELOCS_STRIPPED :: u64 where "IMAGE_FILE_RELOCS_STRIPPED = 0x0001"
definition IMAGE_FILE_EXECUTABLE_IMAGE :: u64 where "IMAGE_FILE_EXECUTABLE_IMAGE = 0x0002"
definition IMAGE_FILE_LINE_NUMS_STRIPPED :: u64 where "IMAGE_FILE_LINE_NUMS_STRIPPED = 0x0004"
definition IMAGE_FILE_LOCAL_SYMS_STRIPPED :: u64 where "IMAGE_FILE_LOCAL_SYMS_STRIPPED = 0x0008"
definition IMAGE_FILE_BYTES_REVERSED_LO :: u64 where "IMAGE_FILE_BYTES_REVERSED_LO = 0x0080"
definition IMAGE_FILE_32BIT_MACHINE :: u64 where "IMAGE_FILE_32BIT_MACHINE = 0x0100"
definition IMAGE_FILE_DEBUG_STRIPPED :: u64 where "IMAGE_FILE_DEBUG_STRIPPED = 0x0200"
definition IMAGE_FILE_SYSTEM :: u64 where "IMAGE_FILE_SYSTEM = 0x1000"
definition IMAGE_FILE_DLL :: u64 where "IMAGE_FILE_DLL = 0x2000"
definition IMAGE_FILE_BYTES_REVERSED_HI :: u64 where "IMAGE_FILE_BYTES_REVERSED_HI = 0x8000"
definition IMAGE_FILE_MACHINE_UNKNOWN :: u64 where "IMAGE_FILE_MACHINE_UNKNOWN = 0"
definition IMAGE_FILE_MACHINE_I386 :: u64 where "IMAGE_FILE_MACHINE_I386 = 0x14c"
definition IMAGE_FILE_MACHINE_R3000 :: u64 where "IMAGE_FILE_MACHINE_R3000 = 0x162"
definition IMAGE_FILE_MACHINE_R4000 :: u64 where "IMAGE_FILE_MACHINE_R4000 = 0x166"
definition IMAGE_FILE_MACHINE_ALPHA :: u64 where "IMAGE_FILE_MACHINE_ALPHA = 0x184"
definition IMAGE_FILE_MACHINE_ARMTHUMB_MIXED :: u64 where
  "IMAGE_FILE_MACHINE_ARMTHUMB_MIXED = 0x1c2"

definition IMAGE_FILE_MACHINE_POWERPC :: u64 where "IMAGE_FILE_MACHINE_POWERPC = 0x1F0"
definition IMAGE_FILE_MACHINE_IA64 :: u64 where "IMAGE_FILE_MACHINE_IA64 = 0x200"
definition IMAGE_FILE_MACHINE_TAHOE :: u64 where "IMAGE_FILE_MACHINE_TAHOE = 0x7cc"
definition IMAGE_FILE_MACHINE_EBC :: u64 where "IMAGE_FILE_MACHINE_EBC = 0xebc"
definition IMAGE_FILE_MACHINE_X64 :: u64 where "IMAGE_FILE_MACHINE_X64 = 0x8664"

definition IMAGE_DATA_DIRECTORY :: cty where
  "IMAGE_DATA_DIRECTORY = CStruct [(''VirtualAddress'', UINT32), (''Size'', UINT32)]"

definition PIMAGE_DATA_DIRECTORY :: cty where
  "PIMAGE_DATA_DIRECTORY = CPtr ''IMAGE_DATA_DIRECTORY''"

definition IMAGE_NUMBEROF_DIRECTORY_ENTRIES :: u64 where "IMAGE_NUMBEROF_DIRECTORY_ENTRIES = 16"

definition IMAGE_OPTIONAL_HEADER :: cty where
  "IMAGE_OPTIONAL_HEADER = CStruct [(''Magic'', UINT16), (''MajorLinkerVersion'', UINT8),
    (''MinorLinkerVersion'', UINT8), (''SizeOfCode'', UINT32),
    (''SizeOfInitializedData'', UINT32), (''SizeOfUninitializedData'', UINT32),
    (''AddressOfEntryPoint'', UINT32), (''BaseOfCode'', UINT32), (''BaseOfData'', UINT32),
    (''ImageBase'', UINT32), (''SectionAlignment'', UINT32), (''FileAlignment'', UINT32),
    (''MajorOperatingSystemVersion'', UINT16), (''MinorOperatingSystemVersion'', UINT16),
    (''MajorImageVersion'', UINT16), (''MinorImageVersion'', UINT16),
    (''MajorSubsystemVersion'', UINT16), (''MinorSubsystemVersion'', UINT16),
    (''Reserved1'', UINT32), (''SizeOfImage'', UINT32), (''SizeOfHeaders'', UINT32),
    (''CheckSum'', UINT32), (''Subsystem'', UINT16), (''DllCharacteristics'', UINT16),
    (''SizeOfStackReserve'', UINT32), (''SizeOfStackCommit'', UINT32),
    (''SizeOfHeapReserve'', UINT32), (''SizeOfHeapCommit'', UINT32), (''LoaderFlags'', UINT32),
    (''NumberOfRvaAndSizes'', UINT32),
    (''DataDirectory'', CArr IMAGE_DATA_DIRECTORY (unat IMAGE_NUMBEROF_DIRECTORY_ENTRIES))]"

definition PIMAGE_OPTIONAL_HEADER :: cty where
  "PIMAGE_OPTIONAL_HEADER = CPtr ''IMAGE_OPTIONAL_HEADER''"

definition IMAGE_ROM_OPTIONAL_HEADER :: cty where
  "IMAGE_ROM_OPTIONAL_HEADER = CStruct [(''Magic'', UINT16), (''MajorLinkerVersion'', UINT8),
    (''MinorLinkerVersion'', UINT8), (''SizeOfCode'', UINT32),
    (''SizeOfInitializedData'', UINT32), (''SizeOfUninitializedData'', UINT32),
    (''AddressOfEntryPoint'', UINT32), (''BaseOfCode'', UINT32), (''BaseOfData'', UINT32),
    (''BaseOfBss'', UINT32), (''GprMask'', UINT32), (''CprMask'', CArr UINT32 4),
    (''GpValue'', UINT32)]"

definition PIMAGE_ROM_OPTIONAL_HEADER :: cty where
  "PIMAGE_ROM_OPTIONAL_HEADER = CPtr ''IMAGE_ROM_OPTIONAL_HEADER''"

definition IMAGE_SIZEOF_ROM_OPTIONAL_HEADER :: u64 where "IMAGE_SIZEOF_ROM_OPTIONAL_HEADER = 56"
definition IMAGE_SIZEOF_STD_OPTIONAL_HEADER :: u64 where "IMAGE_SIZEOF_STD_OPTIONAL_HEADER = 28"
definition IMAGE_SIZEOF_NT_OPTIONAL_HEADER :: u64 where "IMAGE_SIZEOF_NT_OPTIONAL_HEADER = 224"
definition IMAGE_NT_OPTIONAL_HDR_MAGIC :: u64 where "IMAGE_NT_OPTIONAL_HDR_MAGIC = 0x10b"
definition IMAGE_ROM_OPTIONAL_HDR_MAGIC :: u64 where "IMAGE_ROM_OPTIONAL_HDR_MAGIC = 0x107"

definition IMAGE_NT_HEADERS :: cty where
  "IMAGE_NT_HEADERS = CStruct [(''Signature'', UINT32), (''FileHeader'', IMAGE_FILE_HEADER),
    (''OptionalHeader'', IMAGE_OPTIONAL_HEADER)]"

definition PIMAGE_NT_HEADERS :: cty where "PIMAGE_NT_HEADERS = CPtr ''IMAGE_NT_HEADERS''"

definition IMAGE_ROM_HEADERS :: cty where
  "IMAGE_ROM_HEADERS = CStruct [(''FileHeader'', IMAGE_FILE_HEADER),
    (''OptionalHeader'', IMAGE_ROM_OPTIONAL_HEADER)]"

definition PIMAGE_ROM_HEADERS :: cty where "PIMAGE_ROM_HEADERS = CPtr ''IMAGE_ROM_HEADERS''"
definition IMAGE_SUBSYSTEM_UNKNOWN :: u64 where "IMAGE_SUBSYSTEM_UNKNOWN = 0"
definition IMAGE_SUBSYSTEM_NATIVE :: u64 where "IMAGE_SUBSYSTEM_NATIVE = 1"
definition IMAGE_SUBSYSTEM_WINDOWS_GUI :: u64 where "IMAGE_SUBSYSTEM_WINDOWS_GUI = 2"
definition IMAGE_SUBSYSTEM_WINDOWS_CUI :: u64 where "IMAGE_SUBSYSTEM_WINDOWS_CUI = 3"
definition IMAGE_SUBSYSTEM_OS2_CUI :: u64 where "IMAGE_SUBSYSTEM_OS2_CUI = 5"
definition IMAGE_SUBSYSTEM_POSIX_CUI :: u64 where "IMAGE_SUBSYSTEM_POSIX_CUI = 7"
definition IMAGE_DIRECTORY_ENTRY_EXPORT :: u64 where "IMAGE_DIRECTORY_ENTRY_EXPORT = 0"
definition IMAGE_DIRECTORY_ENTRY_IMPORT :: u64 where "IMAGE_DIRECTORY_ENTRY_IMPORT = 1"
definition IMAGE_DIRECTORY_ENTRY_RESOURCE :: u64 where "IMAGE_DIRECTORY_ENTRY_RESOURCE = 2"
definition IMAGE_DIRECTORY_ENTRY_EXCEPTION :: u64 where "IMAGE_DIRECTORY_ENTRY_EXCEPTION = 3"
definition IMAGE_DIRECTORY_ENTRY_SECURITY :: u64 where "IMAGE_DIRECTORY_ENTRY_SECURITY = 4"
definition IMAGE_DIRECTORY_ENTRY_BASERELOC :: u64 where "IMAGE_DIRECTORY_ENTRY_BASERELOC = 5"
definition IMAGE_DIRECTORY_ENTRY_DEBUG :: u64 where "IMAGE_DIRECTORY_ENTRY_DEBUG = 6"
definition IMAGE_DIRECTORY_ENTRY_COPYRIGHT :: u64 where "IMAGE_DIRECTORY_ENTRY_COPYRIGHT = 7"
definition IMAGE_DIRECTORY_ENTRY_GLOBALPTR :: u64 where "IMAGE_DIRECTORY_ENTRY_GLOBALPTR = 8"
definition IMAGE_DIRECTORY_ENTRY_TLS :: u64 where "IMAGE_DIRECTORY_ENTRY_TLS = 9"
definition IMAGE_DIRECTORY_ENTRY_LOAD_CONFIG :: u64 where
  "IMAGE_DIRECTORY_ENTRY_LOAD_CONFIG = 10"

definition IMAGE_SIZEOF_SHORT_NAME :: u64 where "IMAGE_SIZEOF_SHORT_NAME = 8"

definition IMAGE_SECTION_HEADER :: cty where
  "IMAGE_SECTION_HEADER = CStruct [(''Name'', CArr UINT8 (unat IMAGE_SIZEOF_SHORT_NAME)),
    (''Misc'', CUnion [(''PhysicalAddress'', UINT32), (''VirtualSize'', UINT32)]),
    (''VirtualAddress'', UINT32), (''SizeOfRawData'', UINT32), (''PointerToRawData'', UINT32),
    (''PointerToRelocations'', UINT32), (''PointerToLinenumbers'', UINT32),
    (''NumberOfRelocations'', UINT16), (''NumberOfLinenumbers'', UINT16),
    (''Characteristics'', UINT32)]"

definition PIMAGE_SECTION_HEADER :: cty where
  "PIMAGE_SECTION_HEADER = CPtr ''IMAGE_SECTION_HEADER''"

definition IMAGE_SIZEOF_SECTION_HEADER :: u64 where "IMAGE_SIZEOF_SECTION_HEADER = 40"
definition IMAGE_SCN_TYPE_NO_PAD :: u64 where "IMAGE_SCN_TYPE_NO_PAD = 0x00000008"
definition IMAGE_SCN_CNT_CODE :: u64 where "IMAGE_SCN_CNT_CODE = 0x00000020"
definition IMAGE_SCN_CNT_INITIALIZED_DATA :: u64 where
  "IMAGE_SCN_CNT_INITIALIZED_DATA = 0x00000040"

definition IMAGE_SCN_CNT_UNINITIALIZED_DATA :: u64 where
  "IMAGE_SCN_CNT_UNINITIALIZED_DATA = 0x00000080"

definition IMAGE_SCN_LNK_OTHER :: u64 where "IMAGE_SCN_LNK_OTHER = 0x00000100"
definition IMAGE_SCN_LNK_INFO :: u64 where "IMAGE_SCN_LNK_INFO = 0x00000200"
definition IMAGE_SCN_LNK_REMOVE :: u64 where "IMAGE_SCN_LNK_REMOVE = 0x00000800"
definition IMAGE_SCN_LNK_COMDAT :: u64 where "IMAGE_SCN_LNK_COMDAT = 0x00001000"
definition IMAGE_SCN_ALIGN_1BYTES :: u64 where "IMAGE_SCN_ALIGN_1BYTES = 0x00100000"
definition IMAGE_SCN_ALIGN_2BYTES :: u64 where "IMAGE_SCN_ALIGN_2BYTES = 0x00200000"
definition IMAGE_SCN_ALIGN_4BYTES :: u64 where "IMAGE_SCN_ALIGN_4BYTES = 0x00300000"
definition IMAGE_SCN_ALIGN_8BYTES :: u64 where "IMAGE_SCN_ALIGN_8BYTES = 0x00400000"
definition IMAGE_SCN_ALIGN_16BYTES :: u64 where "IMAGE_SCN_ALIGN_16BYTES = 0x00500000"
definition IMAGE_SCN_ALIGN_32BYTES :: u64 where "IMAGE_SCN_ALIGN_32BYTES = 0x00600000"
definition IMAGE_SCN_ALIGN_64BYTES :: u64 where "IMAGE_SCN_ALIGN_64BYTES = 0x00700000"
definition IMAGE_SCN_MEM_DISCARDABLE :: u64 where "IMAGE_SCN_MEM_DISCARDABLE = 0x02000000"
definition IMAGE_SCN_MEM_NOT_CACHED :: u64 where "IMAGE_SCN_MEM_NOT_CACHED = 0x04000000"
definition IMAGE_SCN_MEM_NOT_PAGED :: u64 where "IMAGE_SCN_MEM_NOT_PAGED = 0x08000000"
definition IMAGE_SCN_MEM_SHARED :: u64 where "IMAGE_SCN_MEM_SHARED = 0x10000000"
definition IMAGE_SCN_MEM_EXECUTE :: u64 where "IMAGE_SCN_MEM_EXECUTE = 0x20000000"
definition IMAGE_SCN_MEM_READ :: u64 where "IMAGE_SCN_MEM_READ = 0x40000000"
definition IMAGE_SCN_MEM_WRITE :: u64 where "IMAGE_SCN_MEM_WRITE = 0x80000000"
definition IMAGE_SIZEOF_SYMBOL :: u64 where "IMAGE_SIZEOF_SYMBOL = 18"
definition IMAGE_SYM_UNDEFINED :: u64 where "IMAGE_SYM_UNDEFINED = 0"
definition IMAGE_SYM_TYPE_NULL :: u64 where "IMAGE_SYM_TYPE_NULL = 0"
definition IMAGE_SYM_TYPE_VOID :: u64 where "IMAGE_SYM_TYPE_VOID = 1"
definition IMAGE_SYM_TYPE_CHAR :: u64 where "IMAGE_SYM_TYPE_CHAR = 2"
definition IMAGE_SYM_TYPE_SHORT :: u64 where "IMAGE_SYM_TYPE_SHORT = 3"
definition IMAGE_SYM_TYPE_INT :: u64 where "IMAGE_SYM_TYPE_INT = 4"
definition IMAGE_SYM_TYPE_LONG :: u64 where "IMAGE_SYM_TYPE_LONG = 5"
definition IMAGE_SYM_TYPE_FLOAT :: u64 where "IMAGE_SYM_TYPE_FLOAT = 6"
definition IMAGE_SYM_TYPE_DOUBLE :: u64 where "IMAGE_SYM_TYPE_DOUBLE = 7"
definition IMAGE_SYM_TYPE_STRUCT :: u64 where "IMAGE_SYM_TYPE_STRUCT = 8"
definition IMAGE_SYM_TYPE_UNION :: u64 where "IMAGE_SYM_TYPE_UNION = 9"
definition IMAGE_SYM_TYPE_ENUM :: u64 where "IMAGE_SYM_TYPE_ENUM = 10"
definition IMAGE_SYM_TYPE_MOE :: u64 where "IMAGE_SYM_TYPE_MOE = 11"
definition IMAGE_SYM_TYPE_BYTE :: u64 where "IMAGE_SYM_TYPE_BYTE = 12"
definition IMAGE_SYM_TYPE_WORD :: u64 where "IMAGE_SYM_TYPE_WORD = 13"
definition IMAGE_SYM_TYPE_UINT :: u64 where "IMAGE_SYM_TYPE_UINT = 14"
definition IMAGE_SYM_TYPE_DWORD :: u64 where "IMAGE_SYM_TYPE_DWORD = 15"
definition IMAGE_SYM_DTYPE_NULL :: u64 where "IMAGE_SYM_DTYPE_NULL = 0"
definition IMAGE_SYM_DTYPE_POINTER :: u64 where "IMAGE_SYM_DTYPE_POINTER = 1"
definition IMAGE_SYM_DTYPE_FUNCTION :: u64 where "IMAGE_SYM_DTYPE_FUNCTION = 2"
definition IMAGE_SYM_DTYPE_ARRAY :: u64 where "IMAGE_SYM_DTYPE_ARRAY = 3"
definition IMAGE_SYM_CLASS_NULL :: u64 where "IMAGE_SYM_CLASS_NULL = 0"
definition IMAGE_SYM_CLASS_AUTOMATIC :: u64 where "IMAGE_SYM_CLASS_AUTOMATIC = 1"
definition IMAGE_SYM_CLASS_EXTERNAL :: u64 where "IMAGE_SYM_CLASS_EXTERNAL = 2"
definition IMAGE_SYM_CLASS_STATIC :: u64 where "IMAGE_SYM_CLASS_STATIC = 3"
definition IMAGE_SYM_CLASS_REGISTER :: u64 where "IMAGE_SYM_CLASS_REGISTER = 4"
definition IMAGE_SYM_CLASS_EXTERNAL_DEF :: u64 where "IMAGE_SYM_CLASS_EXTERNAL_DEF = 5"
definition IMAGE_SYM_CLASS_LABEL :: u64 where "IMAGE_SYM_CLASS_LABEL = 6"
definition IMAGE_SYM_CLASS_UNDEFINED_LABEL :: u64 where "IMAGE_SYM_CLASS_UNDEFINED_LABEL = 7"
definition IMAGE_SYM_CLASS_MEMBER_OF_STRUCT :: u64 where "IMAGE_SYM_CLASS_MEMBER_OF_STRUCT = 8"
definition IMAGE_SYM_CLASS_ARGUMENT :: u64 where "IMAGE_SYM_CLASS_ARGUMENT = 9"
definition IMAGE_SYM_CLASS_STRUCT_TAG :: u64 where "IMAGE_SYM_CLASS_STRUCT_TAG = 10"
definition IMAGE_SYM_CLASS_MEMBER_OF_UNION :: u64 where "IMAGE_SYM_CLASS_MEMBER_OF_UNION = 11"
definition IMAGE_SYM_CLASS_UNION_TAG :: u64 where "IMAGE_SYM_CLASS_UNION_TAG = 12"
definition IMAGE_SYM_CLASS_TYPE_DEFINITION :: u64 where "IMAGE_SYM_CLASS_TYPE_DEFINITION = 13"
definition IMAGE_SYM_CLASS_UNDEFINED_STATIC :: u64 where "IMAGE_SYM_CLASS_UNDEFINED_STATIC = 14"
definition IMAGE_SYM_CLASS_ENUM_TAG :: u64 where "IMAGE_SYM_CLASS_ENUM_TAG = 15"
definition IMAGE_SYM_CLASS_MEMBER_OF_ENUM :: u64 where "IMAGE_SYM_CLASS_MEMBER_OF_ENUM = 16"
definition IMAGE_SYM_CLASS_REGISTER_PARAM :: u64 where "IMAGE_SYM_CLASS_REGISTER_PARAM = 17"
definition IMAGE_SYM_CLASS_BIT_FIELD :: u64 where "IMAGE_SYM_CLASS_BIT_FIELD = 18"
definition IMAGE_SYM_CLASS_BLOCK :: u64 where "IMAGE_SYM_CLASS_BLOCK = 100"
definition IMAGE_SYM_CLASS_FUNCTION :: u64 where "IMAGE_SYM_CLASS_FUNCTION = 101"
definition IMAGE_SYM_CLASS_END_OF_STRUCT :: u64 where "IMAGE_SYM_CLASS_END_OF_STRUCT = 102"
definition IMAGE_SYM_CLASS_FILE :: u64 where "IMAGE_SYM_CLASS_FILE = 103"
definition IMAGE_SYM_CLASS_SECTION :: u64 where "IMAGE_SYM_CLASS_SECTION = 104"
definition IMAGE_SYM_CLASS_WEAK_EXTERNAL :: u64 where "IMAGE_SYM_CLASS_WEAK_EXTERNAL = 105"
definition N_BTMASK :: u64 where "N_BTMASK = 15"
definition N_TMASK :: u64 where "N_TMASK = 48"
definition N_TMASK1 :: u64 where "N_TMASK1 = 192"
definition N_TMASK2 :: u64 where "N_TMASK2 = 240"
definition N_BTSHFT :: u64 where "N_BTSHFT = 4"
definition N_TSHIFT :: u64 where "N_TSHIFT = 2"
definition IMAGE_COMDAT_SELECT_NODUPLICATES :: u64 where "IMAGE_COMDAT_SELECT_NODUPLICATES = 1"
definition IMAGE_COMDAT_SELECT_ANY :: u64 where "IMAGE_COMDAT_SELECT_ANY = 2"
definition IMAGE_COMDAT_SELECT_SAME_SIZE :: u64 where "IMAGE_COMDAT_SELECT_SAME_SIZE = 3"
definition IMAGE_COMDAT_SELECT_EXACT_MATCH :: u64 where "IMAGE_COMDAT_SELECT_EXACT_MATCH = 4"
definition IMAGE_COMDAT_SELECT_ASSOCIATIVE :: u64 where "IMAGE_COMDAT_SELECT_ASSOCIATIVE = 5"
definition IMAGE_WEAK_EXTERN_SEARCH_NOLIBRARY :: u64 where
  "IMAGE_WEAK_EXTERN_SEARCH_NOLIBRARY = 1"

definition IMAGE_WEAK_EXTERN_SEARCH_LIBRARY :: u64 where "IMAGE_WEAK_EXTERN_SEARCH_LIBRARY = 2"
definition IMAGE_WEAK_EXTERN_SEARCH_ALIAS :: u64 where "IMAGE_WEAK_EXTERN_SEARCH_ALIAS = 3"

definition IMAGE_RELOCATION :: cty where
  "IMAGE_RELOCATION = CStruct [(''VirtualAddress'', UINT32), (''SymbolTableIndex'', UINT32),
    (''Type'', UINT16)]"

definition IMAGE_SIZEOF_RELOCATION :: u64 where "IMAGE_SIZEOF_RELOCATION = 10"
definition IMAGE_REL_I386_ABSOLUTE :: u64 where "IMAGE_REL_I386_ABSOLUTE = 0"
definition IMAGE_REL_I386_DIR16 :: u64 where "IMAGE_REL_I386_DIR16 = 1"
definition IMAGE_REL_I386_REL16 :: u64 where "IMAGE_REL_I386_REL16 = 2"
definition IMAGE_REL_I386_DIR32 :: u64 where "IMAGE_REL_I386_DIR32 = 6"
definition IMAGE_REL_I386_DIR32NB :: u64 where "IMAGE_REL_I386_DIR32NB = 7"
definition IMAGE_REL_I386_SEG12 :: u64 where "IMAGE_REL_I386_SEG12 = 9"
definition IMAGE_REL_I386_SECTION :: u64 where "IMAGE_REL_I386_SECTION = 10"
definition IMAGE_REL_I386_SECREL :: u64 where "IMAGE_REL_I386_SECREL = 11"
definition IMAGE_REL_I386_REL32 :: u64 where "IMAGE_REL_I386_REL32 = 20"
definition IMAGE_REL_MIPS_ABSOLUTE :: u64 where "IMAGE_REL_MIPS_ABSOLUTE = 0"
definition IMAGE_REL_MIPS_REFHALF :: u64 where "IMAGE_REL_MIPS_REFHALF = 1"
definition IMAGE_REL_MIPS_REFWORD :: u64 where "IMAGE_REL_MIPS_REFWORD = 2"
definition IMAGE_REL_MIPS_JMPADDR :: u64 where "IMAGE_REL_MIPS_JMPADDR = 3"
definition IMAGE_REL_MIPS_REFHI :: u64 where "IMAGE_REL_MIPS_REFHI = 4"
definition IMAGE_REL_MIPS_REFLO :: u64 where "IMAGE_REL_MIPS_REFLO = 5"
definition IMAGE_REL_MIPS_GPREL :: u64 where "IMAGE_REL_MIPS_GPREL = 6"
definition IMAGE_REL_MIPS_LITERAL :: u64 where "IMAGE_REL_MIPS_LITERAL = 7"
definition IMAGE_REL_MIPS_SECTION :: u64 where "IMAGE_REL_MIPS_SECTION = 10"
definition IMAGE_REL_MIPS_SECREL :: u64 where "IMAGE_REL_MIPS_SECREL = 11"
definition IMAGE_REL_MIPS_REFWORDNB :: u64 where "IMAGE_REL_MIPS_REFWORDNB = 34"
definition IMAGE_REL_MIPS_PAIR :: u64 where "IMAGE_REL_MIPS_PAIR = 37"
definition IMAGE_REL_ALPHA_ABSOLUTE :: u64 where "IMAGE_REL_ALPHA_ABSOLUTE = 0x0"
definition IMAGE_REL_ALPHA_REFLONG :: u64 where "IMAGE_REL_ALPHA_REFLONG = 0x1"
definition IMAGE_REL_ALPHA_REFQUAD :: u64 where "IMAGE_REL_ALPHA_REFQUAD = 0x2"
definition IMAGE_REL_ALPHA_GPREL32 :: u64 where "IMAGE_REL_ALPHA_GPREL32 = 0x3"
definition IMAGE_REL_ALPHA_LITERAL :: u64 where "IMAGE_REL_ALPHA_LITERAL = 0x4"
definition IMAGE_REL_ALPHA_LITUSE :: u64 where "IMAGE_REL_ALPHA_LITUSE = 0x5"
definition IMAGE_REL_ALPHA_GPDISP :: u64 where "IMAGE_REL_ALPHA_GPDISP = 0x6"
definition IMAGE_REL_ALPHA_BRADDR :: u64 where "IMAGE_REL_ALPHA_BRADDR = 0x7"
definition IMAGE_REL_ALPHA_HINT :: u64 where "IMAGE_REL_ALPHA_HINT = 0x8"
definition IMAGE_REL_ALPHA_INLINE_REFLONG :: u64 where "IMAGE_REL_ALPHA_INLINE_REFLONG = 0x9"
definition IMAGE_REL_ALPHA_REFHI :: u64 where "IMAGE_REL_ALPHA_REFHI = 0xA"
definition IMAGE_REL_ALPHA_REFLO :: u64 where "IMAGE_REL_ALPHA_REFLO = 0xB"
definition IMAGE_REL_ALPHA_PAIR :: u64 where "IMAGE_REL_ALPHA_PAIR = 0xC"
definition IMAGE_REL_ALPHA_MATCH :: u64 where "IMAGE_REL_ALPHA_MATCH = 0xD"
definition IMAGE_REL_ALPHA_SECTION :: u64 where "IMAGE_REL_ALPHA_SECTION = 0xE"
definition IMAGE_REL_ALPHA_SECREL :: u64 where "IMAGE_REL_ALPHA_SECREL = 0xF"
definition IMAGE_REL_ALPHA_REFLONGNB :: u64 where "IMAGE_REL_ALPHA_REFLONGNB = 0x10"
definition IMAGE_REL_PPC_ABSOLUTE :: u64 where "IMAGE_REL_PPC_ABSOLUTE = 0x0000"
definition IMAGE_REL_PPC_ADDR64 :: u64 where "IMAGE_REL_PPC_ADDR64 = 0x0001"
definition IMAGE_REL_PPC_ADDR32 :: u64 where "IMAGE_REL_PPC_ADDR32 = 0x0002"
definition IMAGE_REL_PPC_ADDR24 :: u64 where "IMAGE_REL_PPC_ADDR24 = 0x0003"
definition IMAGE_REL_PPC_ADDR16 :: u64 where "IMAGE_REL_PPC_ADDR16 = 0x0004"
definition IMAGE_REL_PPC_ADDR14 :: u64 where "IMAGE_REL_PPC_ADDR14 = 0x0005"
definition IMAGE_REL_PPC_REL24 :: u64 where "IMAGE_REL_PPC_REL24 = 0x0006"
definition IMAGE_REL_PPC_REL14 :: u64 where "IMAGE_REL_PPC_REL14 = 0x0007"
definition IMAGE_REL_PPC_TOCREL16 :: u64 where "IMAGE_REL_PPC_TOCREL16 = 0x0008"
definition IMAGE_REL_PPC_TOCREL14 :: u64 where "IMAGE_REL_PPC_TOCREL14 = 0x0009"
definition IMAGE_REL_PPC_ADDR32NB :: u64 where "IMAGE_REL_PPC_ADDR32NB = 0x000A"
definition IMAGE_REL_PPC_SECREL :: u64 where "IMAGE_REL_PPC_SECREL = 0x000B"
definition IMAGE_REL_PPC_SECTION :: u64 where "IMAGE_REL_PPC_SECTION = 0x000C"
definition IMAGE_REL_PPC_IFGLUE :: u64 where "IMAGE_REL_PPC_IFGLUE = 0x000D"
definition IMAGE_REL_PPC_IMGLUE :: u64 where "IMAGE_REL_PPC_IMGLUE = 0x000E"
definition IMAGE_REL_PPC_TYPEMASK :: u64 where "IMAGE_REL_PPC_TYPEMASK = 0x00FF"
definition IMAGE_REL_PPC_NEG :: u64 where "IMAGE_REL_PPC_NEG = 0x0100"
definition IMAGE_REL_PPC_BRTAKEN :: u64 where "IMAGE_REL_PPC_BRTAKEN = 0x0200"
definition IMAGE_REL_PPC_BRNTAKEN :: u64 where "IMAGE_REL_PPC_BRNTAKEN = 0x0400"
definition IMAGE_REL_PPC_TOCDEFN :: u64 where "IMAGE_REL_PPC_TOCDEFN = 0x0800"

definition IMAGE_BASE_RELOCATION :: cty where
  "IMAGE_BASE_RELOCATION = CStruct [(''VirtualAddress'', UINT32), (''SizeOfBlock'', UINT32)]"

definition PIMAGE_BASE_RELOCATION :: cty where
  "PIMAGE_BASE_RELOCATION = CPtr ''IMAGE_BASE_RELOCATION''"

definition IMAGE_SIZEOF_BASE_RELOCATION :: u64 where "IMAGE_SIZEOF_BASE_RELOCATION = 8"
definition IMAGE_REL_BASED_ABSOLUTE :: u64 where "IMAGE_REL_BASED_ABSOLUTE = 0"
definition IMAGE_REL_BASED_HIGH :: u64 where "IMAGE_REL_BASED_HIGH = 1"
definition IMAGE_REL_BASED_LOW :: u64 where "IMAGE_REL_BASED_LOW = 2"
definition IMAGE_REL_BASED_HIGHLOW :: u64 where "IMAGE_REL_BASED_HIGHLOW = 3"
definition IMAGE_REL_BASED_HIGHADJ :: u64 where "IMAGE_REL_BASED_HIGHADJ = 4"
definition IMAGE_REL_BASED_MIPS_JMPADDR :: u64 where "IMAGE_REL_BASED_MIPS_JMPADDR = 5"
definition IMAGE_REL_BASED_IA64_IMM64 :: u64 where "IMAGE_REL_BASED_IA64_IMM64 = 9"
definition IMAGE_REL_BASED_DIR64 :: u64 where "IMAGE_REL_BASED_DIR64 = 10"

definition IMAGE_LINENUMBER :: cty where
  "IMAGE_LINENUMBER = CStruct [
    (''Type'', CUnion [(''SymbolTableIndex'', UINT32), (''VirtualAddress'', UINT32)]),
    (''Linenumber'', UINT16)]"

definition IMAGE_SIZEOF_LINENUMBER :: u64 where "IMAGE_SIZEOF_LINENUMBER = 6"
definition IMAGE_ARCHIVE_START_SIZE :: u64 where "IMAGE_ARCHIVE_START_SIZE = 8"
definition IMAGE_ARCHIVE_START :: string where "IMAGE_ARCHIVE_START = ''!<arch>'' @ [CHR 0x0A]"
definition IMAGE_ARCHIVE_END :: string where "IMAGE_ARCHIVE_END = [CHR 0x60] @ [CHR 0x0A]"
definition IMAGE_ARCHIVE_PAD :: string where "IMAGE_ARCHIVE_PAD = [CHR 0x0A]"
definition IMAGE_ARCHIVE_LINKER_MEMBER :: string where
  "IMAGE_ARCHIVE_LINKER_MEMBER = ''/               ''"

definition IMAGE_ARCHIVE_LONGNAMES_MEMBER :: string where
  "IMAGE_ARCHIVE_LONGNAMES_MEMBER = ''//              ''"

definition IMAGE_ARCHIVE_MEMBER_HEADER :: cty where
  "IMAGE_ARCHIVE_MEMBER_HEADER = CStruct [(''Name'', CArr UINT8 16), (''Date'', CArr UINT8 12),
    (''UserID'', CArr UINT8 6), (''GroupID'', CArr UINT8 6), (''Mode'', CArr UINT8 8),
    (''Size'', CArr UINT8 10), (''EndHeader'', CArr UINT8 2)]"

definition PIMAGE_ARCHIVE_MEMBER_HEADER :: cty where
  "PIMAGE_ARCHIVE_MEMBER_HEADER = CPtr ''IMAGE_ARCHIVE_MEMBER_HEADER''"

definition IMAGE_SIZEOF_ARCHIVE_MEMBER_HDR :: u64 where "IMAGE_SIZEOF_ARCHIVE_MEMBER_HDR = 60"

definition IMAGE_EXPORT_DIRECTORY :: cty where
  "IMAGE_EXPORT_DIRECTORY = CStruct [(''Characteristics'', UINT32), (''TimeDateStamp'', UINT32),
    (''MajorVersion'', UINT16), (''MinorVersion'', UINT16), (''Name'', UINT32),
    (''Base'', UINT32), (''NumberOfFunctions'', UINT32), (''NumberOfNames'', UINT32),
    (''AddressOfFunctions'', CPtr ''UINT32''), (''AddressOfNames'', CPtr ''UINT32''),
    (''AddressOfNameOrdinals'', CPtr ''UINT32'')]"

definition PIMAGE_EXPORT_DIRECTORY :: cty where
  "PIMAGE_EXPORT_DIRECTORY = CPtr ''IMAGE_EXPORT_DIRECTORY''"

definition IMAGE_IMPORT_BY_NAME :: cty where
  "IMAGE_IMPORT_BY_NAME = CStruct [(''Hint'', UINT16), (''Name'', CArr UINT8 1)]"

definition PIMAGE_IMPORT_BY_NAME :: cty where
  "PIMAGE_IMPORT_BY_NAME = CPtr ''IMAGE_IMPORT_BY_NAME''"

definition IMAGE_THUNK_DATA :: cty where
  "IMAGE_THUNK_DATA = CStruct [
    (''u1'', CUnion [(''Function'', UINT32), (''Ordinal'', UINT32), (''AddressOfData'', PIMAGE_IMPORT_BY_NAME)])]"

definition PIMAGE_THUNK_DATA :: cty where "PIMAGE_THUNK_DATA = CPtr ''IMAGE_THUNK_DATA''"
definition IMAGE_ORDINAL_FLAG :: u64 where "IMAGE_ORDINAL_FLAG = 0x80000000"

definition IMAGE_IMPORT_DESCRIPTOR :: cty where
  "IMAGE_IMPORT_DESCRIPTOR = CStruct [(''Characteristics'', UINT32), (''TimeDateStamp'', UINT32),
    (''ForwarderChain'', UINT32), (''Name'', UINT32), (''FirstThunk'', PIMAGE_THUNK_DATA)]"

definition PIMAGE_IMPORT_DESCRIPTOR :: cty where
  "PIMAGE_IMPORT_DESCRIPTOR = CPtr ''IMAGE_IMPORT_DESCRIPTOR''"


end
