(* ===== verification/Efi_Macros.thy ===== *)
theory Efi_Macros
  imports Efi_Def Efi_Device_Path
begin

text \<open>
  The function-like macros of the UEFI headers: device path nodes (\<open>efidevp.h\<close>), pages
  (\<open>efidef.h\<close>), memory descriptors (\<open>efiapi.h\<close>), signatures and alignment
  (\<open>x86_64/efibind.h\<close>), byte order (\<open>efi_pxe.h\<close>, \<open>efipart.h\<close>), text attributes (\<open>eficon.h\<close>), PCI
  addresses (\<open>efiprot.h\<close>) and EISA identifiers. Bytes are promoted to \<open>int\<close> as in C.
\<close>

section \<open>Device path nodes\<close>

abbreviation "dp_fld \<equiv> fld EFI_DEVICE_PATH_PROTOCOL"

definition DevicePathType :: "mem \<Rightarrow> u64 \<Rightarrow> u8" where
  "DevicePathType m a = m (dp_fld ''Type'' a) AND ucast EFI_DP_TYPE_MASK"

definition DevicePathSubType :: "mem \<Rightarrow> u64 \<Rightarrow> u8" where
  "DevicePathSubType m a = m (dp_fld ''SubType'' a)"

definition DevicePathNodeLength :: "mem \<Rightarrow> u64 \<Rightarrow> u32" where
  "DevicePathNodeLength m a = ucast (m (dp_fld ''Length'' a)) OR push_bit 8 (ucast (m (dp_fld ''Length'' a + 1)))"

definition NextDevicePathNode :: "mem \<Rightarrow> u64 \<Rightarrow> u64" where
  "NextDevicePathNode m a = a + scast (DevicePathNodeLength m a)"

definition IsDevicePathEndType :: "mem \<Rightarrow> u64 \<Rightarrow> bool" where
  "IsDevicePathEndType m a \<longleftrightarrow> DevicePathType m a = ucast END_DEVICE_PATH_TYPE"

definition IsDevicePathEndSubType :: "mem \<Rightarrow> u64 \<Rightarrow> bool" where
  "IsDevicePathEndSubType m a \<longleftrightarrow> DevicePathSubType m a = ucast END_ENTIRE_DEVICE_PATH_SUBTYPE"

definition IsDevicePathEnd :: "mem \<Rightarrow> u64 \<Rightarrow> bool" where
  "IsDevicePathEnd m a \<longleftrightarrow> IsDevicePathEndType m a \<and> IsDevicePathEndSubType m a"

definition IsDevicePathUnpacked :: "mem \<Rightarrow> u64 \<Rightarrow> bool" where
  "IsDevicePathUnpacked m a \<longleftrightarrow> m (dp_fld ''Type'' a) AND ucast EFI_DP_TYPE_UNPACKED \<noteq> 0"

definition SetDevicePathNodeLength :: "mem \<Rightarrow> u64 \<Rightarrow> u32 \<Rightarrow> mem" where
  "SetDevicePathNodeLength m a l = (let m = m(dp_fld ''Length'' a := ucast l) in
     m(dp_fld ''Length'' a + 1 := ucast (drop_bit 8 l)))"

definition SetDevicePathEndNode :: "mem \<Rightarrow> u64 \<Rightarrow> mem" where
  "SetDevicePathEndNode m a = (let m = m(dp_fld ''Type'' a := ucast END_DEVICE_PATH_TYPE);
     m = m(dp_fld ''SubType'' a := ucast END_ENTIRE_DEVICE_PATH_SUBTYPE);
     m = m(dp_fld ''Length'' a := of_nat (csize EFI_DEVICE_PATH_PROTOCOL)) in
     m(dp_fld ''Length'' a + 1 := 0))"

section \<open>Pages, descriptors, alignment, signatures\<close>

definition EFI_SIZE_TO_PAGES :: "u64 \<Rightarrow> u64" where
  "EFI_SIZE_TO_PAGES a = drop_bit (unat EFI_PAGE_SHIFT) a + (if a AND EFI_PAGE_MASK \<noteq> 0 then 1 else 0)"

definition NextMemoryDescriptor :: "u64 \<Rightarrow> u64 \<Rightarrow> u64" where
  "NextMemoryDescriptor Ptr Size = Ptr + Size"

definition MIN_ALIGNMENT_SIZE :: u64 where "MIN_ALIGNMENT_SIZE = 4"

text \<open>The aligned value and the adjustment.\<close>

definition ALIGN_VARIABLE :: "u64 \<Rightarrow> u64 \<times> u64" where
  "ALIGN_VARIABLE v = (let Adjustment = (if v mod MIN_ALIGNMENT_SIZE \<noteq> 0
     then MIN_ALIGNMENT_SIZE - v mod MIN_ALIGNMENT_SIZE else 0) in (v + Adjustment, Adjustment))"

definition EFI_SIGNATURE_16 :: "u32 \<Rightarrow> u32 \<Rightarrow> u32" where
  "EFI_SIGNATURE_16 A B = A OR push_bit 8 B"

definition EFI_SIGNATURE_32 :: "u32 \<Rightarrow> u32 \<Rightarrow> u32 \<Rightarrow> u32 \<Rightarrow> u32" where
  "EFI_SIGNATURE_32 A B C D = EFI_SIGNATURE_16 A B OR push_bit 16 (EFI_SIGNATURE_16 C D)"

text \<open>The lower half is an \<open>int\<close>, so it is sign-extended; the upper half is shifted as \<open>UINT64\<close>.\<close>

definition EFI_SIGNATURE_64 :: "u32 \<Rightarrow> u32 \<Rightarrow> u32 \<Rightarrow> u32 \<Rightarrow> u32 \<Rightarrow> u32 \<Rightarrow> u32 \<Rightarrow> u32 \<Rightarrow> u64" where
  "EFI_SIGNATURE_64 A B C D E F G H =
     scast (EFI_SIGNATURE_32 A B C D) OR push_bit 32 (scast (EFI_SIGNATURE_32 E F G H))"

definition EFI_TEXT_ATTR :: "u32 \<Rightarrow> u32 \<Rightarrow> u32" where
  "EFI_TEXT_ATTR f b = f OR push_bit 4 b"

definition EFI_PCI_ADDRESS :: "u64 \<Rightarrow> u64 \<Rightarrow> u64 \<Rightarrow> u64" where
  "EFI_PCI_ADDRESS bus dev func = push_bit 24 bus + push_bit 16 dev + push_bit 8 func"

definition EISA_ID :: "u32 \<Rightarrow> u32 \<Rightarrow> u32" where
  "EISA_ID Name Num = Name OR push_bit 16 Num"

definition EISA_PNP_ID :: "u32 \<Rightarrow> u32" where
  "EISA_PNP_ID PNPId = EISA_ID (ucast PNP_EISA_ID_CONST) PNPId"

definition EISA_ID_TO_NUM :: "u32 \<Rightarrow> u32" where
  "EISA_ID_TO_NUM i = drop_bit 16 i"

definition EXTRACT_UINT32 :: "u8 list \<Rightarrow> u32" where
  "EXTRACT_UINT32 D = ucast (D ! 0) OR push_bit 8 (ucast (D ! 1)) OR push_bit 16 (ucast (D ! 2))
     OR push_bit 24 (ucast (D ! 3))"

definition PXE_SWAP_UINT16 :: "u16 \<Rightarrow> u16" where
  "PXE_SWAP_UINT16 n = push_bit 8 (n AND 0x00FF) OR drop_bit 8 (n AND 0xFF00)"

definition PXE_SWAP_UINT32 :: "u32 \<Rightarrow> u32" where
  "PXE_SWAP_UINT32 n = push_bit 24 (n AND 0x000000FF) OR push_bit 8 (n AND 0x0000FF00)
     OR drop_bit 8 (n AND 0x00FF0000) OR drop_bit 24 (n AND 0xFF000000)"

definition PXE_BUSTYPE :: "u32 \<Rightarrow> u32 \<Rightarrow> u32 \<Rightarrow> u32 \<Rightarrow> u32" where
  "PXE_BUSTYPE a b c d = push_bit 24 (d AND 0xFF) OR push_bit 16 (c AND 0xFF)
     OR push_bit 8 (b AND 0xFF) OR (a AND 0xFF)"

section \<open>Node lengths\<close>

lemma device_path_offsets:
  "offset EFI_DEVICE_PATH_PROTOCOL ''Type'' = Some 0 \<and> offset EFI_DEVICE_PATH_PROTOCOL ''SubType'' = Some 1
   \<and> offset EFI_DEVICE_PATH_PROTOCOL ''Length'' = Some 2 \<and> csize EFI_DEVICE_PATH_PROTOCOL = 4"
  by code_simp

lemma dp_addresses [simp]:
  "dp_fld ''Type'' a = a" "dp_fld ''SubType'' a = a + 1" "dp_fld ''Length'' a = a + 2"
  by (simp_all add: fld_def device_path_offsets)

lemmas device_path_defs = DevicePathType_def DevicePathSubType_def DevicePathNodeLength_def
  NextDevicePathNode_def IsDevicePathEndType_def IsDevicePathEndSubType_def IsDevicePathEnd_def
  SetDevicePathNodeLength_def SetDevicePathEndNode_def

lemma short_bits: "l < 65536 \<Longrightarrow> bit (l :: u32) i \<Longrightarrow> i < 16"
proof -
  assume "l < 65536"
  then have "take_bit 16 l = l"
    by (simp add: word_unat_eq_iff unsigned_take_bit_eq take_bit_nat_eq_self_iff word_less_nat_alt)
  then show "bit l i \<Longrightarrow> i < 16" by (metis bit_take_bit_iff)
qed

lemma two_bytes:
  assumes "l < 65536"
  shows "ucast (ucast l :: u8) OR push_bit 8 (ucast (ucast (drop_bit 8 l) :: u8)) = (l :: u32)"
proof (rule bit_word_eqI)
  fix i assume i: "i < LENGTH(32)"
  show "bit (ucast (ucast l :: u8) OR push_bit 8 (ucast (ucast (drop_bit 8 l) :: u8)) :: u32) i = bit l i"
    using i short_bits [OF assms, of i]
    by (cases "i < 8"; cases "i < 16") (auto simp: bit_simps)
qed

lemma short_scast: "l < 65536 \<Longrightarrow> (scast (l :: u32) :: u64) = ucast l"
  by (rule bit_word_eqI) (auto simp: bit_simps min_def dest: short_bits split: if_splits)

text \<open>
  C40: device path nodes: a length below 65536 that is stored in a node is read back, the next
  node is that many bytes further, no byte but the two of the length changes; and a node made
  an end node is recognised as the end of the path and has the length of a node header.
\<close>

theorem device_path_node_round_trip:
  assumes "l < 65536"
  shows "DevicePathNodeLength (SetDevicePathNodeLength m a l) a = l
    \<and> NextDevicePathNode (SetDevicePathNodeLength m a l) a = a + ucast l
    \<and> (\<forall>x. x \<noteq> a + 2 \<and> x \<noteq> a + 3 \<longrightarrow> SetDevicePathNodeLength m a l x = m x)
    \<and> IsDevicePathEnd (SetDevicePathEndNode m a) a
    \<and> DevicePathNodeLength (SetDevicePathEndNode m a) a = 4"
proof -
  have "DevicePathNodeLength (SetDevicePathNodeLength m a l) a = l"
    using two_bytes [OF assms] by (simp add: device_path_defs)
  then show ?thesis
    using short_scast [OF assms]
    by (auto simp: NextDevicePathNode_def SetDevicePathNodeLength_def device_path_defs
        device_path_offsets EFI_DP_TYPE_MASK_def END_DEVICE_PATH_TYPE_def
        END_ENTIRE_DEVICE_PATH_SUBTYPE_def)
qed

theorem device_path_node_round_trip_witness:
  "NextDevicePathNode (SetDevicePathNodeLength (\<lambda>_. 0) 0x1000 300) 0x1000 = 0x112C"
  using device_path_node_round_trip [of 300 "\<lambda>_. 0" "0x1000"] by simp

section \<open>Other macros\<close>

text \<open>The page count of the macro is the one the boot loader computes itself.\<close>

lemma size_to_pages:
  assumes "unat n \<le> 2 ^ 64 - 4096"
  shows "EFI_SIZE_TO_PAGES n = (n + 4096 - 1) div 4096"
proof -
  have m: "n AND 4095 = n mod 4096"
    using take_bit_eq_mask [of 12 n] take_bit_eq_mod [of 12 n] by (simp add: mask_eq_exp_minus_1)
  have d: "drop_bit 12 n = n div 4096" by (simp add: drop_bit_eq_div)
  have s: "unat (n + 4095) = unat n + 4095" using assms unat_add_cases [of n 4095] by simp
  have u: "unat (4096 :: u64) = 4096" "n + 4096 - 1 = n + 4095" by simp_all
  have "unat n div 4096 < 2 ^ 64 - 1"
    by (rule less_mult_imp_div_less) (rule less_le_trans [OF unat64_less]; simp)
  then have "unat (n div 4096) < 2 ^ 64 - 1" by (simp only: unat_div u(1))
  then have p: "unat (n div 4096 + 1) = unat (n div 4096) + 1"
    using unat_add_cases [of "n div 4096" 1] by simp
  have z: "n mod 4096 = 0 \<longleftrightarrow> unat n mod 4096 = 0"
    by (simp only: word_unat_eq_iff unat_mod u(1)) simp
  have q: "unat ((n + 4095) div 4096) = (unat n + 4095) div 4096" "unat (n div 4096) = unat n div 4096"
    by (simp_all only: unat_div u(1) s)
  have e: "EFI_SIZE_TO_PAGES n = n div 4096 + (if unat n mod 4096 \<noteq> 0 then 1 else 0)"
    using d m z by (simp add: EFI_SIZE_TO_PAGES_def EFI_PAGE_MASK_def EFI_PAGE_SHIFT_def)
  have "(4096 * k + r + 4095) div 4096 = k + (if r \<noteq> 0 then 1 else 0)" if "r < 4096" for k r :: nat
    by (rule div_nat_eqI) (use that in auto)
  from this [of "unat n mod 4096" "unat n div 4096"]
  have "(unat n + 4095) div 4096 = unat n div 4096 + (if unat n mod 4096 \<noteq> 0 then 1 else 0)"
    by simp
  then have "unat (n div 4096 + (if unat n mod 4096 \<noteq> 0 then 1 else 0)) = unat ((n + 4095) div 4096)"
    using p q by (cases "unat n mod 4096 = 0") simp_all
  then show ?thesis unfolding e u(2) by (simp only: word_unat_eq_iff)
qed

lemma align_variable:
  assumes "unat v \<le> 2 ^ 64 - 4"
  shows "4 dvd unat (fst (ALIGN_VARIABLE v)) \<and> unat v \<le> unat (fst (ALIGN_VARIABLE v))
    \<and> unat (snd (ALIGN_VARIABLE v)) < 4"
proof -
  have r: "unat (v mod 4) = unat v mod 4" by (simp add: unat_mod)
  show ?thesis
  proof (cases "unat v mod 4 = 0")
    case True
    then have "v mod 4 = 0" using r by (simp add: word_unat_eq_iff)
    then show ?thesis using True by (simp add: ALIGN_VARIABLE_def MIN_ALIGNMENT_SIZE_def dvd_eq_mod_eq_0)
  next
    case False
    then have "v mod 4 \<noteq> 0" using r by (metis unat_0)
    moreover have a: "unat (4 - v mod 4) = 4 - unat v mod 4"
      using r unat_sub_cases [of 4 "v mod 4"] by simp
    moreover have "unat (v + (4 - v mod 4)) = unat v + (4 - unat v mod 4)"
      using a assms False unat_add_cases [of v "4 - v mod 4"] by simp
    moreover have "4 dvd unat v + (4 - unat v mod 4)" using False by presburger
    ultimately show ?thesis
      using False by (simp add: ALIGN_VARIABLE_def MIN_ALIGNMENT_SIZE_def Let_def)
  qed
qed

lemma swap16_involution: "PXE_SWAP_UINT16 (PXE_SWAP_UINT16 n) = n"
proof (rule bit_word_eqI)
  fix i assume "i < LENGTH(16)"
  moreover have "list_all (\<lambda>j. bit (PXE_SWAP_UINT16 (PXE_SWAP_UINT16 n)) j = bit n j) [0..<16]"
    by (simp add: upt_rec PXE_SWAP_UINT16_def bit_simps) (simp add: numeral_eq_Suc)
  ultimately show "bit (PXE_SWAP_UINT16 (PXE_SWAP_UINT16 n)) i = bit n i"
    by (simp add: list_all_iff)
qed

end
