(* ===== verification/Efi_Pxe.thy ===== *)
theory Efi_Pxe
  imports Efi_Prot Efi_Macros
begin

text \<open>
  The PXE driver interface of \<open>efi_headers/efi_pxe.h\<close> (opcodes, flags, status codes, the packed
  command and data blocks), the network interface identifier (\<open>efi_nii.h\<close>) and the PXE base
  code protocol (\<open>efipxebc.h\<close>).
\<close>

section \<open>efi\_pxe.h\<close>

definition PXE_INTEL_ORDER :: u64 where "PXE_INTEL_ORDER = 1"
definition PXE_UINT64_SUPPORT :: u64 where "PXE_UINT64_SUPPORT = 1"
definition PXE_BUSTYPE_PXE :: u64 where "PXE_BUSTYPE_PXE = ucast (PXE_BUSTYPE 33 80 88 69)"
definition PXE_BUSTYPE_PCI :: u64 where "PXE_BUSTYPE_PCI = ucast (PXE_BUSTYPE 80 67 73 82)"
definition PXE_BUSTYPE_PC_CARD :: u64 where
  "PXE_BUSTYPE_PC_CARD = ucast (PXE_BUSTYPE 80 67 67 82)"

definition PXE_BUSTYPE_USB :: u64 where "PXE_BUSTYPE_USB = ucast (PXE_BUSTYPE 85 83 66 82)"
definition PXE_BUSTYPE_1394 :: u64 where "PXE_BUSTYPE_1394 = ucast (PXE_BUSTYPE 49 51 57 52)"
definition PXE_CPBSIZE_NOT_USED :: u64 where "PXE_CPBSIZE_NOT_USED = 0"
definition PXE_DBSIZE_NOT_USED :: u64 where "PXE_DBSIZE_NOT_USED = 0"
definition PXE_CPBADDR_NOT_USED :: u64 where "PXE_CPBADDR_NOT_USED = 0"
definition PXE_DBADDR_NOT_USED :: u64 where "PXE_DBADDR_NOT_USED = 0"
definition PXE_UINT8 :: cty where "PXE_UINT8 = C8"
definition PXE_UINT16 :: cty where "PXE_UINT16 = C16"
definition PXE_UINT32 :: cty where "PXE_UINT32 = C32"
definition PXE_UINT64 :: cty where "PXE_UINT64 = UINT64"
definition PXE_UINTN :: cty where "PXE_UINTN = C32"
definition PXE_BOOL :: cty where "PXE_BOOL = PXE_UINT8"
definition PXE_FALSE :: u64 where "PXE_FALSE = 0"
definition PXE_TRUE :: u64 where "PXE_TRUE = (if PXE_FALSE = 0 then 1 else 0)"
definition PXE_OPCODE :: cty where "PXE_OPCODE = PXE_UINT16"
definition PXE_OPCODE_GET_STATE :: u64 where "PXE_OPCODE_GET_STATE = 0x0000"
definition PXE_OPCODE_START :: u64 where "PXE_OPCODE_START = 0x0001"
definition PXE_OPCODE_STOP :: u64 where "PXE_OPCODE_STOP = 0x0002"
definition PXE_OPCODE_GET_INIT_INFO :: u64 where "PXE_OPCODE_GET_INIT_INFO = 0x0003"
definition PXE_OPCODE_GET_CONFIG_INFO :: u64 where "PXE_OPCODE_GET_CONFIG_INFO = 0x0004"
definition PXE_OPCODE_INITIALIZE :: u64 where "PXE_OPCODE_INITIALIZE = 0x0005"
definition PXE_OPCODE_RESET :: u64 where "PXE_OPCODE_RESET = 0x0006"
definition PXE_OPCODE_SHUTDOWN :: u64 where "PXE_OPCODE_SHUTDOWN = 0x0007"
definition PXE_OPCODE_INTERRUPT_ENABLES :: u64 where "PXE_OPCODE_INTERRUPT_ENABLES = 0x0008"
definition PXE_OPCODE_RECEIVE_FILTERS :: u64 where "PXE_OPCODE_RECEIVE_FILTERS = 0x0009"
definition PXE_OPCODE_STATION_ADDRESS :: u64 where "PXE_OPCODE_STATION_ADDRESS = 0x000A"
definition PXE_OPCODE_STATISTICS :: u64 where "PXE_OPCODE_STATISTICS = 0x000B"
definition PXE_OPCODE_MCAST_IP_TO_MAC :: u64 where "PXE_OPCODE_MCAST_IP_TO_MAC = 0x000C"
definition PXE_OPCODE_NVDATA :: u64 where "PXE_OPCODE_NVDATA = 0x000D"
definition PXE_OPCODE_GET_STATUS :: u64 where "PXE_OPCODE_GET_STATUS = 0x000E"
definition PXE_OPCODE_FILL_HEADER :: u64 where "PXE_OPCODE_FILL_HEADER = 0x000F"
definition PXE_OPCODE_TRANSMIT :: u64 where "PXE_OPCODE_TRANSMIT = 0x0010"
definition PXE_OPCODE_RECEIVE :: u64 where "PXE_OPCODE_RECEIVE = 0x0011"
definition PXE_OPCODE_VALID_MAX :: u64 where "PXE_OPCODE_VALID_MAX = 0x0011"
definition PXE_OPCODE_LAST_VALID :: u64 where "PXE_OPCODE_LAST_VALID = 0x0011"
definition PXE_OPFLAGS :: cty where "PXE_OPFLAGS = PXE_UINT16"
definition PXE_OPFLAGS_NOT_USED :: u64 where "PXE_OPFLAGS_NOT_USED = 0x0000"
definition PXE_OPFLAGS_INITIALIZE_CABLE_DETECT_MASK :: u64 where
  "PXE_OPFLAGS_INITIALIZE_CABLE_DETECT_MASK = 0x0001"

definition PXE_OPFLAGS_INITIALIZE_DETECT_CABLE :: u64 where
  "PXE_OPFLAGS_INITIALIZE_DETECT_CABLE = 0x0000"

definition PXE_OPFLAGS_INITIALIZE_DO_NOT_DETECT_CABLE :: u64 where
  "PXE_OPFLAGS_INITIALIZE_DO_NOT_DETECT_CABLE = 0x0001"

definition PXE_OPFLAGS_RESET_DISABLE_INTERRUPTS :: u64 where
  "PXE_OPFLAGS_RESET_DISABLE_INTERRUPTS = 0x0001"

definition PXE_OPFLAGS_RESET_DISABLE_FILTERS :: u64 where
  "PXE_OPFLAGS_RESET_DISABLE_FILTERS = 0x0002"

definition PXE_OPFLAGS_INTERRUPT_OPMASK :: u64 where "PXE_OPFLAGS_INTERRUPT_OPMASK = 0xC000"
definition PXE_OPFLAGS_INTERRUPT_ENABLE :: u64 where "PXE_OPFLAGS_INTERRUPT_ENABLE = 0x8000"
definition PXE_OPFLAGS_INTERRUPT_DISABLE :: u64 where "PXE_OPFLAGS_INTERRUPT_DISABLE = 0x4000"
definition PXE_OPFLAGS_INTERRUPT_READ :: u64 where "PXE_OPFLAGS_INTERRUPT_READ = 0x0000"
definition PXE_OPFLAGS_INTERRUPT_RECEIVE :: u64 where "PXE_OPFLAGS_INTERRUPT_RECEIVE = 0x0001"
definition PXE_OPFLAGS_INTERRUPT_TRANSMIT :: u64 where "PXE_OPFLAGS_INTERRUPT_TRANSMIT = 0x0002"
definition PXE_OPFLAGS_INTERRUPT_COMMAND :: u64 where "PXE_OPFLAGS_INTERRUPT_COMMAND = 0x0004"
definition PXE_OPFLAGS_INTERRUPT_SOFTWARE :: u64 where "PXE_OPFLAGS_INTERRUPT_SOFTWARE = 0x0008"
definition PXE_OPFLAGS_RECEIVE_FILTER_OPMASK :: u64 where
  "PXE_OPFLAGS_RECEIVE_FILTER_OPMASK = 0xC000"

definition PXE_OPFLAGS_RECEIVE_FILTER_ENABLE :: u64 where
  "PXE_OPFLAGS_RECEIVE_FILTER_ENABLE = 0x8000"

definition PXE_OPFLAGS_RECEIVE_FILTER_DISABLE :: u64 where
  "PXE_OPFLAGS_RECEIVE_FILTER_DISABLE = 0x4000"

definition PXE_OPFLAGS_RECEIVE_FILTER_READ :: u64 where
  "PXE_OPFLAGS_RECEIVE_FILTER_READ = 0x0000"

definition PXE_OPFLAGS_RECEIVE_FILTER_RESET_MCAST_LIST :: u64 where
  "PXE_OPFLAGS_RECEIVE_FILTER_RESET_MCAST_LIST = 0x2000"

definition PXE_OPFLAGS_RECEIVE_FILTER_UNICAST :: u64 where
  "PXE_OPFLAGS_RECEIVE_FILTER_UNICAST = 0x0001"

definition PXE_OPFLAGS_RECEIVE_FILTER_BROADCAST :: u64 where
  "PXE_OPFLAGS_RECEIVE_FILTER_BROADCAST = 0x0002"

definition PXE_OPFLAGS_RECEIVE_FILTER_FILTERED_MULTICAST :: u64 where
  "PXE_OPFLAGS_RECEIVE_FILTER_FILTERED_MULTICAST = 0x0004"

definition PXE_OPFLAGS_RECEIVE_FILTER_PROMISCUOUS :: u64 where
  "PXE_OPFLAGS_RECEIVE_FILTER_PROMISCUOUS = 0x0008"

definition PXE_OPFLAGS_RECEIVE_FILTER_ALL_MULTICAST :: u64 where
  "PXE_OPFLAGS_RECEIVE_FILTER_ALL_MULTICAST = 0x0010"

definition PXE_OPFLAGS_STATION_ADDRESS_READ :: u64 where
  "PXE_OPFLAGS_STATION_ADDRESS_READ = 0x0000"

definition PXE_OPFLAGS_STATION_ADDRESS_RESET :: u64 where
  "PXE_OPFLAGS_STATION_ADDRESS_RESET = 0x0001"

definition PXE_OPFLAGS_STATISTICS_READ :: u64 where "PXE_OPFLAGS_STATISTICS_READ = 0x0000"
definition PXE_OPFLAGS_STATISTICS_RESET :: u64 where "PXE_OPFLAGS_STATISTICS_RESET = 0x0001"
definition PXE_OPFLAGS_MCAST_IP_TO_MAC_OPMASK :: u64 where
  "PXE_OPFLAGS_MCAST_IP_TO_MAC_OPMASK = 0x0003"

definition PXE_OPFLAGS_MCAST_IPV4_TO_MAC :: u64 where "PXE_OPFLAGS_MCAST_IPV4_TO_MAC = 0x0000"
definition PXE_OPFLAGS_MCAST_IPV6_TO_MAC :: u64 where "PXE_OPFLAGS_MCAST_IPV6_TO_MAC = 0x0001"
definition PXE_OPFLAGS_NVDATA_OPMASK :: u64 where "PXE_OPFLAGS_NVDATA_OPMASK = 0x0001"
definition PXE_OPFLAGS_NVDATA_READ :: u64 where "PXE_OPFLAGS_NVDATA_READ = 0x0000"
definition PXE_OPFLAGS_NVDATA_WRITE :: u64 where "PXE_OPFLAGS_NVDATA_WRITE = 0x0001"
definition PXE_OPFLAGS_GET_INTERRUPT_STATUS :: u64 where
  "PXE_OPFLAGS_GET_INTERRUPT_STATUS = 0x0001"

definition PXE_OPFLAGS_GET_TRANSMITTED_BUFFERS :: u64 where
  "PXE_OPFLAGS_GET_TRANSMITTED_BUFFERS = 0x0002"

definition PXE_OPFLAGS_FILL_HEADER_OPMASK :: u64 where "PXE_OPFLAGS_FILL_HEADER_OPMASK = 0x0001"
definition PXE_OPFLAGS_FILL_HEADER_FRAGMENTED :: u64 where
  "PXE_OPFLAGS_FILL_HEADER_FRAGMENTED = 0x0001"

definition PXE_OPFLAGS_FILL_HEADER_WHOLE :: u64 where "PXE_OPFLAGS_FILL_HEADER_WHOLE = 0x0000"
definition PXE_OPFLAGS_SWUNDI_TRANSMIT_OPMASK :: u64 where
  "PXE_OPFLAGS_SWUNDI_TRANSMIT_OPMASK = 0x0001"

definition PXE_OPFLAGS_TRANSMIT_BLOCK :: u64 where "PXE_OPFLAGS_TRANSMIT_BLOCK = 0x0001"
definition PXE_OPFLAGS_TRANSMIT_DONT_BLOCK :: u64 where
  "PXE_OPFLAGS_TRANSMIT_DONT_BLOCK = 0x0000"

definition PXE_OPFLAGS_TRANSMIT_OPMASK :: u64 where "PXE_OPFLAGS_TRANSMIT_OPMASK = 0x0002"
definition PXE_OPFLAGS_TRANSMIT_FRAGMENTED :: u64 where
  "PXE_OPFLAGS_TRANSMIT_FRAGMENTED = 0x0002"

definition PXE_OPFLAGS_TRANSMIT_WHOLE :: u64 where "PXE_OPFLAGS_TRANSMIT_WHOLE = 0x0000"
definition PXE_STATFLAGS :: cty where "PXE_STATFLAGS = PXE_UINT16"
definition PXE_STATFLAGS_INITIALIZE :: u64 where "PXE_STATFLAGS_INITIALIZE = 0x0000"
definition PXE_STATFLAGS_STATUS_MASK :: u64 where "PXE_STATFLAGS_STATUS_MASK = 0xC000"
definition PXE_STATFLAGS_COMMAND_COMPLETE :: u64 where "PXE_STATFLAGS_COMMAND_COMPLETE = 0xC000"
definition PXE_STATFLAGS_COMMAND_FAILED :: u64 where "PXE_STATFLAGS_COMMAND_FAILED = 0x8000"
definition PXE_STATFLAGS_COMMAND_QUEUED :: u64 where "PXE_STATFLAGS_COMMAND_QUEUED = 0x4000"
definition PXE_STATFLAGS_DB_WRITE_TRUNCATED :: u64 where
  "PXE_STATFLAGS_DB_WRITE_TRUNCATED = 0x2000"

definition PXE_STATFLAGS_GET_STATE_MASK :: u64 where "PXE_STATFLAGS_GET_STATE_MASK = 0x0003"
definition PXE_STATFLAGS_GET_STATE_INITIALIZED :: u64 where
  "PXE_STATFLAGS_GET_STATE_INITIALIZED = 0x0002"

definition PXE_STATFLAGS_GET_STATE_STARTED :: u64 where
  "PXE_STATFLAGS_GET_STATE_STARTED = 0x0001"

definition PXE_STATFLAGS_GET_STATE_STOPPED :: u64 where
  "PXE_STATFLAGS_GET_STATE_STOPPED = 0x0000"

definition PXE_STATFLAGS_CABLE_DETECT_MASK :: u64 where
  "PXE_STATFLAGS_CABLE_DETECT_MASK = 0x0001"

definition PXE_STATFLAGS_CABLE_DETECT_NOT_SUPPORTED :: u64 where
  "PXE_STATFLAGS_CABLE_DETECT_NOT_SUPPORTED = 0x0000"

definition PXE_STATFLAGS_CABLE_DETECT_SUPPORTED :: u64 where
  "PXE_STATFLAGS_CABLE_DETECT_SUPPORTED = 0x0001"

definition PXE_STATFLAGS_INITIALIZED_NO_MEDIA :: u64 where
  "PXE_STATFLAGS_INITIALIZED_NO_MEDIA = 0x0001"

definition PXE_STATFLAGS_RESET_NO_MEDIA :: u64 where "PXE_STATFLAGS_RESET_NO_MEDIA = 0x0001"
definition PXE_STATFLAGS_INTERRUPT_RECEIVE :: u64 where
  "PXE_STATFLAGS_INTERRUPT_RECEIVE = 0x0001"

definition PXE_STATFLAGS_INTERRUPT_TRANSMIT :: u64 where
  "PXE_STATFLAGS_INTERRUPT_TRANSMIT = 0x0002"

definition PXE_STATFLAGS_INTERRUPT_COMMAND :: u64 where
  "PXE_STATFLAGS_INTERRUPT_COMMAND = 0x0004"

definition PXE_STATFLAGS_RECEIVE_FILTER_UNICAST :: u64 where
  "PXE_STATFLAGS_RECEIVE_FILTER_UNICAST = 0x0001"

definition PXE_STATFLAGS_RECEIVE_FILTER_BROADCAST :: u64 where
  "PXE_STATFLAGS_RECEIVE_FILTER_BROADCAST = 0x0002"

definition PXE_STATFLAGS_RECEIVE_FILTER_FILTERED_MULTICAST :: u64 where
  "PXE_STATFLAGS_RECEIVE_FILTER_FILTERED_MULTICAST = 0x0004"

definition PXE_STATFLAGS_RECEIVE_FILTER_PROMISCUOUS :: u64 where
  "PXE_STATFLAGS_RECEIVE_FILTER_PROMISCUOUS = 0x0008"

definition PXE_STATFLAGS_RECEIVE_FILTER_ALL_MULTICAST :: u64 where
  "PXE_STATFLAGS_RECEIVE_FILTER_ALL_MULTICAST = 0x0010"

definition PXE_STATFLAGS_GET_STATUS_INTERRUPT_MASK :: u64 where
  "PXE_STATFLAGS_GET_STATUS_INTERRUPT_MASK = 0x000F"

definition PXE_STATFLAGS_GET_STATUS_NO_INTERRUPTS :: u64 where
  "PXE_STATFLAGS_GET_STATUS_NO_INTERRUPTS = 0x0000"

definition PXE_STATFLAGS_GET_STATUS_RECEIVE :: u64 where
  "PXE_STATFLAGS_GET_STATUS_RECEIVE = 0x0001"

definition PXE_STATFLAGS_GET_STATUS_TRANSMIT :: u64 where
  "PXE_STATFLAGS_GET_STATUS_TRANSMIT = 0x0002"

definition PXE_STATFLAGS_GET_STATUS_COMMAND :: u64 where
  "PXE_STATFLAGS_GET_STATUS_COMMAND = 0x0004"

definition PXE_STATFLAGS_GET_STATUS_SOFTWARE :: u64 where
  "PXE_STATFLAGS_GET_STATUS_SOFTWARE = 0x0008"

definition PXE_STATFLAGS_GET_STATUS_TXBUF_QUEUE_EMPTY :: u64 where
  "PXE_STATFLAGS_GET_STATUS_TXBUF_QUEUE_EMPTY = 0x0010"

definition PXE_STATFLAGS_GET_STATUS_NO_TXBUFS_WRITTEN :: u64 where
  "PXE_STATFLAGS_GET_STATUS_NO_TXBUFS_WRITTEN = 0x0020"

definition PXE_STATCODE :: cty where "PXE_STATCODE = PXE_UINT16"
definition PXE_STATCODE_INITIALIZE :: u64 where "PXE_STATCODE_INITIALIZE = 0x0000"
definition PXE_STATCODE_SUCCESS :: u64 where "PXE_STATCODE_SUCCESS = 0x0000"
definition PXE_STATCODE_INVALID_CDB :: u64 where "PXE_STATCODE_INVALID_CDB = 0x0001"
definition PXE_STATCODE_INVALID_CPB :: u64 where "PXE_STATCODE_INVALID_CPB = 0x0002"
definition PXE_STATCODE_BUSY :: u64 where "PXE_STATCODE_BUSY = 0x0003"
definition PXE_STATCODE_QUEUE_FULL :: u64 where "PXE_STATCODE_QUEUE_FULL = 0x0004"
definition PXE_STATCODE_ALREADY_STARTED :: u64 where "PXE_STATCODE_ALREADY_STARTED = 0x0005"
definition PXE_STATCODE_NOT_STARTED :: u64 where "PXE_STATCODE_NOT_STARTED = 0x0006"
definition PXE_STATCODE_NOT_SHUTDOWN :: u64 where "PXE_STATCODE_NOT_SHUTDOWN = 0x0007"
definition PXE_STATCODE_ALREADY_INITIALIZED :: u64 where
  "PXE_STATCODE_ALREADY_INITIALIZED = 0x0008"

definition PXE_STATCODE_NOT_INITIALIZED :: u64 where "PXE_STATCODE_NOT_INITIALIZED = 0x0009"
definition PXE_STATCODE_DEVICE_FAILURE :: u64 where "PXE_STATCODE_DEVICE_FAILURE = 0x000A"
definition PXE_STATCODE_NVDATA_FAILURE :: u64 where "PXE_STATCODE_NVDATA_FAILURE = 0x000B"
definition PXE_STATCODE_UNSUPPORTED :: u64 where "PXE_STATCODE_UNSUPPORTED = 0x000C"
definition PXE_STATCODE_BUFFER_FULL :: u64 where "PXE_STATCODE_BUFFER_FULL = 0x000D"
definition PXE_STATCODE_INVALID_PARAMETER :: u64 where "PXE_STATCODE_INVALID_PARAMETER = 0x000E"
definition PXE_STATCODE_INVALID_UNDI :: u64 where "PXE_STATCODE_INVALID_UNDI = 0x000F"
definition PXE_STATCODE_IPV4_NOT_SUPPORTED :: u64 where
  "PXE_STATCODE_IPV4_NOT_SUPPORTED = 0x0010"

definition PXE_STATCODE_IPV6_NOT_SUPPORTED :: u64 where
  "PXE_STATCODE_IPV6_NOT_SUPPORTED = 0x0011"

definition PXE_STATCODE_NOT_ENOUGH_MEMORY :: u64 where "PXE_STATCODE_NOT_ENOUGH_MEMORY = 0x0012"
definition PXE_STATCODE_NO_DATA :: u64 where "PXE_STATCODE_NO_DATA = 0x0013"
definition PXE_IFNUM :: cty where "PXE_IFNUM = PXE_UINT16"
definition PXE_IFNUM_START :: u64 where "PXE_IFNUM_START = 0x0000"
definition PXE_IFNUM_INVALID :: u64 where "PXE_IFNUM_INVALID = 0x0000"
definition PXE_CONTROL :: cty where "PXE_CONTROL = PXE_UINT16"
definition PXE_CONTROL_QUEUE_IF_BUSY :: u64 where "PXE_CONTROL_QUEUE_IF_BUSY = 0x0002"
definition PXE_CONTROL_LINK :: u64 where "PXE_CONTROL_LINK = 0x0001"
definition PXE_CONTROL_LAST_CDB_IN_LIST :: u64 where "PXE_CONTROL_LAST_CDB_IN_LIST = 0x0000"
definition PXE_FRAME_TYPE :: cty where "PXE_FRAME_TYPE = PXE_UINT8"
definition PXE_FRAME_TYPE_NONE :: u64 where "PXE_FRAME_TYPE_NONE = 0x00"
definition PXE_FRAME_TYPE_UNICAST :: u64 where "PXE_FRAME_TYPE_UNICAST = 0x01"
definition PXE_FRAME_TYPE_BROADCAST :: u64 where "PXE_FRAME_TYPE_BROADCAST = 0x02"
definition PXE_FRAME_TYPE_MULTICAST :: u64 where "PXE_FRAME_TYPE_MULTICAST = 0x03"
definition PXE_FRAME_TYPE_PROMISCUOUS :: u64 where "PXE_FRAME_TYPE_PROMISCUOUS = 0x04"
definition PXE_IPV4 :: cty where "PXE_IPV4 = PXE_UINT32"
definition PXE_IPV6 :: cty where "PXE_IPV6 = CArr PXE_UINT32 4"
definition PXE_MAC_LENGTH :: u64 where "PXE_MAC_LENGTH = 32"
definition PXE_MAC_ADDR :: cty where "PXE_MAC_ADDR = CArr PXE_UINT8 (unat PXE_MAC_LENGTH)"
definition PXE_IFTYPE :: cty where "PXE_IFTYPE = PXE_UINT8"
definition PXE_MEDIA_PROTOCOL :: cty where "PXE_MEDIA_PROTOCOL = PXE_UINT16"
definition PXE_IFTYPE_ETHERNET :: u64 where "PXE_IFTYPE_ETHERNET = 0x01"
definition PXE_IFTYPE_TOKENRING :: u64 where "PXE_IFTYPE_TOKENRING = 0x04"
definition PXE_IFTYPE_FIBRE_CHANNEL :: u64 where "PXE_IFTYPE_FIBRE_CHANNEL = 0x12"

definition PXE_HW_UNDI :: cty where
  "PXE_HW_UNDI = CPacked [(''Signature'', PXE_UINT32), (''Len'', PXE_UINT8),
    (''Fudge'', PXE_UINT8), (''Rev'', PXE_UINT8), (''IFcnt'', PXE_UINT8),
    (''MajorVer'', PXE_UINT8), (''MinorVer'', PXE_UINT8), (''reserved'', PXE_UINT16),
    (''Implementation'', PXE_UINT32)]"

definition PXE_HWSTAT_STATE_MASK :: u64 where "PXE_HWSTAT_STATE_MASK = 0xC0000000"
definition PXE_HWSTAT_BUSY :: u64 where "PXE_HWSTAT_BUSY = 0xC0000000"
definition PXE_HWSTAT_INITIALIZED :: u64 where "PXE_HWSTAT_INITIALIZED = 0x80000000"
definition PXE_HWSTAT_STARTED :: u64 where "PXE_HWSTAT_STARTED = 0x40000000"
definition PXE_HWSTAT_STOPPED :: u64 where "PXE_HWSTAT_STOPPED = 0x00000000"
definition PXE_HWSTAT_COMMAND_FAILED :: u64 where "PXE_HWSTAT_COMMAND_FAILED = 0x20000000"
definition PXE_HWSTAT_PROMISCUOUS_MULTICAST_RX_ENABLED :: u64 where
  "PXE_HWSTAT_PROMISCUOUS_MULTICAST_RX_ENABLED = 0x00001000"

definition PXE_HWSTAT_PROMISCUOUS_RX_ENABLED :: u64 where
  "PXE_HWSTAT_PROMISCUOUS_RX_ENABLED = 0x00000800"

definition PXE_HWSTAT_BROADCAST_RX_ENABLED :: u64 where
  "PXE_HWSTAT_BROADCAST_RX_ENABLED = 0x00000400"

definition PXE_HWSTAT_MULTICAST_RX_ENABLED :: u64 where
  "PXE_HWSTAT_MULTICAST_RX_ENABLED = 0x00000200"

definition PXE_HWSTAT_UNICAST_RX_ENABLED :: u64 where
  "PXE_HWSTAT_UNICAST_RX_ENABLED = 0x00000100"

definition PXE_HWSTAT_SOFTWARE_INT_ENABLED :: u64 where
  "PXE_HWSTAT_SOFTWARE_INT_ENABLED = 0x00000080"

definition PXE_HWSTAT_TX_COMPLETE_INT_ENABLED :: u64 where
  "PXE_HWSTAT_TX_COMPLETE_INT_ENABLED = 0x00000040"

definition PXE_HWSTAT_PACKET_RX_INT_ENABLED :: u64 where
  "PXE_HWSTAT_PACKET_RX_INT_ENABLED = 0x00000020"

definition PXE_HWSTAT_CMD_COMPLETE_INT_ENABLED :: u64 where
  "PXE_HWSTAT_CMD_COMPLETE_INT_ENABLED = 0x00000010"

definition PXE_HWSTAT_SOFTWARE_INT_PENDING :: u64 where
  "PXE_HWSTAT_SOFTWARE_INT_PENDING = 0x00000008"

definition PXE_HWSTAT_TX_COMPLETE_INT_PENDING :: u64 where
  "PXE_HWSTAT_TX_COMPLETE_INT_PENDING = 0x00000004"

definition PXE_HWSTAT_PACKET_RX_INT_PENDING :: u64 where
  "PXE_HWSTAT_PACKET_RX_INT_PENDING = 0x00000002"

definition PXE_HWSTAT_CMD_COMPLETE_INT_PENDING :: u64 where
  "PXE_HWSTAT_CMD_COMPLETE_INT_PENDING = 0x00000001"

definition PXE_HWCMD_ISSUE_COMMAND :: u64 where "PXE_HWCMD_ISSUE_COMMAND = 0x80000000"
definition PXE_HWCMD_INTS_AND_FILTS :: u64 where "PXE_HWCMD_INTS_AND_FILTS = 0x00000000"
definition PXE_HWCMD_PROMISCUOUS_MULTICAST_RX_ENABLE :: u64 where
  "PXE_HWCMD_PROMISCUOUS_MULTICAST_RX_ENABLE = 0x00001000"

definition PXE_HWCMD_PROMISCUOUS_RX_ENABLE :: u64 where
  "PXE_HWCMD_PROMISCUOUS_RX_ENABLE = 0x00000800"

definition PXE_HWCMD_BROADCAST_RX_ENABLE :: u64 where
  "PXE_HWCMD_BROADCAST_RX_ENABLE = 0x00000400"

definition PXE_HWCMD_MULTICAST_RX_ENABLE :: u64 where
  "PXE_HWCMD_MULTICAST_RX_ENABLE = 0x00000200"

definition PXE_HWCMD_UNICAST_RX_ENABLE :: u64 where "PXE_HWCMD_UNICAST_RX_ENABLE = 0x00000100"
definition PXE_HWCMD_SOFTWARE_INT_ENABLE :: u64 where
  "PXE_HWCMD_SOFTWARE_INT_ENABLE = 0x00000080"

definition PXE_HWCMD_TX_COMPLETE_INT_ENABLE :: u64 where
  "PXE_HWCMD_TX_COMPLETE_INT_ENABLE = 0x00000040"

definition PXE_HWCMD_PACKET_RX_INT_ENABLE :: u64 where
  "PXE_HWCMD_PACKET_RX_INT_ENABLE = 0x00000020"

definition PXE_HWCMD_CMD_COMPLETE_INT_ENABLE :: u64 where
  "PXE_HWCMD_CMD_COMPLETE_INT_ENABLE = 0x00000010"

definition PXE_HWCMD_CLEAR_SOFTWARE_INT :: u64 where "PXE_HWCMD_CLEAR_SOFTWARE_INT = 0x00000008"
definition PXE_HWCMD_CLEAR_TX_COMPLETE_INT :: u64 where
  "PXE_HWCMD_CLEAR_TX_COMPLETE_INT = 0x00000004"

definition PXE_HWCMD_CLEAR_PACKET_RX_INT :: u64 where
  "PXE_HWCMD_CLEAR_PACKET_RX_INT = 0x00000002"

definition PXE_HWCMD_CLEAR_CMD_COMPLETE_INT :: u64 where
  "PXE_HWCMD_CLEAR_CMD_COMPLETE_INT = 0x00000001"

definition PXE_SW_UNDI :: cty where
  "PXE_SW_UNDI = CPacked [(''Signature'', PXE_UINT32), (''Len'', PXE_UINT8),
    (''Fudge'', PXE_UINT8), (''Rev'', PXE_UINT8), (''IFcnt'', PXE_UINT8),
    (''MajorVer'', PXE_UINT8), (''MinorVer'', PXE_UINT8), (''reserved1'', PXE_UINT16),
    (''Implementation'', PXE_UINT32), (''EntryPoint'', PXE_UINT64),
    (''reserved2'', CArr PXE_UINT8 3), (''BusCnt'', PXE_UINT8), (''BusType'', CArr PXE_UINT32 1)]"

definition PXE_UNDI :: cty where
  "PXE_UNDI = CUnion [(''hw'', PXE_HW_UNDI), (''sw'', PXE_SW_UNDI)]"

definition PXE_ROMID_SIGNATURE :: u64 where
  "PXE_ROMID_SIGNATURE = ucast (PXE_BUSTYPE 33 80 88 69)"

definition PXE_ROMID_REV :: u64 where "PXE_ROMID_REV = 0x02"
definition PXE_ROMID_MAJORVER :: u64 where "PXE_ROMID_MAJORVER = 0x03"
definition PXE_ROMID_MINORVER :: u64 where "PXE_ROMID_MINORVER = 0x00"
definition PXE_ROMID_IMP_HW_UNDI :: u64 where "PXE_ROMID_IMP_HW_UNDI = 0x80000000"
definition PXE_ROMID_IMP_SW_VIRT_ADDR :: u64 where "PXE_ROMID_IMP_SW_VIRT_ADDR = 0x40000000"
definition PXE_ROMID_IMP_64BIT_DEVICE :: u64 where "PXE_ROMID_IMP_64BIT_DEVICE = 0x00010000"
definition PXE_ROMID_IMP_FRAG_SUPPORTED :: u64 where "PXE_ROMID_IMP_FRAG_SUPPORTED = 0x00008000"
definition PXE_ROMID_IMP_CMD_LINK_SUPPORTED :: u64 where
  "PXE_ROMID_IMP_CMD_LINK_SUPPORTED = 0x00004000"

definition PXE_ROMID_IMP_CMD_QUEUE_SUPPORTED :: u64 where
  "PXE_ROMID_IMP_CMD_QUEUE_SUPPORTED = 0x00002000"

definition PXE_ROMID_IMP_MULTI_FRAME_SUPPORTED :: u64 where
  "PXE_ROMID_IMP_MULTI_FRAME_SUPPORTED = 0x00001000"

definition PXE_ROMID_IMP_NVDATA_SUPPORT_MASK :: u64 where
  "PXE_ROMID_IMP_NVDATA_SUPPORT_MASK = 0x00000C00"

definition PXE_ROMID_IMP_NVDATA_BULK_WRITABLE :: u64 where
  "PXE_ROMID_IMP_NVDATA_BULK_WRITABLE = 0x00000C00"

definition PXE_ROMID_IMP_NVDATA_SPARSE_WRITABLE :: u64 where
  "PXE_ROMID_IMP_NVDATA_SPARSE_WRITABLE = 0x00000800"

definition PXE_ROMID_IMP_NVDATA_READ_ONLY :: u64 where
  "PXE_ROMID_IMP_NVDATA_READ_ONLY = 0x00000400"

definition PXE_ROMID_IMP_NVDATA_NOT_AVAILABLE :: u64 where
  "PXE_ROMID_IMP_NVDATA_NOT_AVAILABLE = 0x00000000"

definition PXE_ROMID_IMP_STATISTICS_SUPPORTED :: u64 where
  "PXE_ROMID_IMP_STATISTICS_SUPPORTED = 0x00000200"

definition PXE_ROMID_IMP_STATION_ADDR_SETTABLE :: u64 where
  "PXE_ROMID_IMP_STATION_ADDR_SETTABLE = 0x00000100"

definition PXE_ROMID_IMP_PROMISCUOUS_MULTICAST_RX_SUPPORTED :: u64 where
  "PXE_ROMID_IMP_PROMISCUOUS_MULTICAST_RX_SUPPORTED = 0x00000080"

definition PXE_ROMID_IMP_PROMISCUOUS_RX_SUPPORTED :: u64 where
  "PXE_ROMID_IMP_PROMISCUOUS_RX_SUPPORTED = 0x00000040"

definition PXE_ROMID_IMP_BROADCAST_RX_SUPPORTED :: u64 where
  "PXE_ROMID_IMP_BROADCAST_RX_SUPPORTED = 0x00000020"

definition PXE_ROMID_IMP_FILTERED_MULTICAST_RX_SUPPORTED :: u64 where
  "PXE_ROMID_IMP_FILTERED_MULTICAST_RX_SUPPORTED = 0x00000010"

definition PXE_ROMID_IMP_SOFTWARE_INT_SUPPORTED :: u64 where
  "PXE_ROMID_IMP_SOFTWARE_INT_SUPPORTED = 0x00000008"

definition PXE_ROMID_IMP_TX_COMPLETE_INT_SUPPORTED :: u64 where
  "PXE_ROMID_IMP_TX_COMPLETE_INT_SUPPORTED = 0x00000004"

definition PXE_ROMID_IMP_PACKET_RX_INT_SUPPORTED :: u64 where
  "PXE_ROMID_IMP_PACKET_RX_INT_SUPPORTED = 0x00000002"

definition PXE_ROMID_IMP_CMD_COMPLETE_INT_SUPPORTED :: u64 where
  "PXE_ROMID_IMP_CMD_COMPLETE_INT_SUPPORTED = 0x00000001"

definition PXE_CDB :: cty where
  "PXE_CDB = CPacked [(''OpCode'', PXE_OPCODE), (''OpFlags'', PXE_OPFLAGS),
    (''CPBsize'', PXE_UINT16), (''DBsize'', PXE_UINT16), (''CPBaddr'', UINT64),
    (''DBaddr'', UINT64), (''StatCode'', PXE_STATCODE), (''StatFlags'', PXE_STATFLAGS),
    (''IFnum'', PXE_UINT16), (''Control'', PXE_CONTROL)]"

definition PXE_IP_ADDR :: cty where
  "PXE_IP_ADDR = CUnion [(''IPv6'', PXE_IPV6), (''IPv4'', PXE_IPV4)]"

definition PXE_DEVICE :: cty where
  "PXE_DEVICE = CUnion [
    (''PCI'', CPacked [(''BusType'', PXE_UINT32), (''Bus'', PXE_UINT16), (''Device'', PXE_UINT8), (''Function'', PXE_UINT8)]),
    (''PCC'', CPacked [(''BusType'', PXE_UINT32), (''Bus'', PXE_UINT16), (''Device'', PXE_UINT8), (''Function'', PXE_UINT8)]),
    (''USB'', CPacked [(''BusType'', PXE_UINT32), (''tdb'', PXE_UINT32)]),
    (''_1394'', CPacked [(''BusType'', PXE_UINT32), (''tdb'', PXE_UINT32)])]"

definition MAX_PCI_CONFIG_LEN :: u64 where "MAX_PCI_CONFIG_LEN = 64"
definition MAX_EEPROM_LEN :: u64 where "MAX_EEPROM_LEN = 128"
definition MAX_XMIT_BUFFERS :: u64 where "MAX_XMIT_BUFFERS = 32"
definition MAX_MCAST_ADDRESS_CNT :: u64 where "MAX_MCAST_ADDRESS_CNT = 8"

definition PXE_CPB_START :: cty where
  "PXE_CPB_START = CPacked [(''Delay'', PXE_UINT64), (''Block'', PXE_UINT64),
    (''Virt2Phys'', PXE_UINT64), (''Mem_IO'', PXE_UINT64)]"

definition PXE_DELAY_MILLISECOND :: u64 where "PXE_DELAY_MILLISECOND = 1000"
definition PXE_DELAY_SECOND :: u64 where "PXE_DELAY_SECOND = 1000000"
definition PXE_IO_READ :: u64 where "PXE_IO_READ = 0"
definition PXE_IO_WRITE :: u64 where "PXE_IO_WRITE = 1"
definition PXE_MEM_READ :: u64 where "PXE_MEM_READ = 2"
definition PXE_MEM_WRITE :: u64 where "PXE_MEM_WRITE = 4"

definition PXE_DB_GET_INIT_INFO :: cty where
  "PXE_DB_GET_INIT_INFO = CPacked [(''MemoryRequired'', PXE_UINT32),
    (''FrameDataLen'', PXE_UINT32), (''LinkSpeeds'', CArr PXE_UINT32 4),
    (''NvCount'', PXE_UINT32), (''NvWidth'', PXE_UINT16), (''MediaHeaderLen'', PXE_UINT16),
    (''HWaddrLen'', PXE_UINT16), (''MCastFilterCnt'', PXE_UINT16), (''TxBufCnt'', PXE_UINT16),
    (''TxBufSize'', PXE_UINT16), (''RxBufCnt'', PXE_UINT16), (''RxBufSize'', PXE_UINT16),
    (''IFtype'', PXE_UINT8), (''Duplex'', PXE_UINT8), (''LoopBack'', PXE_UINT8)]"

definition PXE_MAX_TXRX_UNIT_ETHER :: u64 where "PXE_MAX_TXRX_UNIT_ETHER = 1500"
definition PXE_HWADDR_LEN_ETHER :: u64 where "PXE_HWADDR_LEN_ETHER = 0x0006"
definition PXE_MAC_HEADER_LEN_ETHER :: u64 where "PXE_MAC_HEADER_LEN_ETHER = 0x000E"
definition PXE_DUPLEX_ENABLE_FULL_SUPPORTED :: u64 where "PXE_DUPLEX_ENABLE_FULL_SUPPORTED = 1"
definition PXE_DUPLEX_FORCE_FULL_SUPPORTED :: u64 where "PXE_DUPLEX_FORCE_FULL_SUPPORTED = 2"
definition PXE_LOOPBACK_INTERNAL_SUPPORTED :: u64 where "PXE_LOOPBACK_INTERNAL_SUPPORTED = 1"
definition PXE_LOOPBACK_EXTERNAL_SUPPORTED :: u64 where "PXE_LOOPBACK_EXTERNAL_SUPPORTED = 2"

definition PXE_PCI_CONFIG_INFO :: cty where
  "PXE_PCI_CONFIG_INFO = CPacked [(''BusType'', PXE_UINT32), (''Bus'', PXE_UINT16),
    (''Device'', PXE_UINT8), (''Function'', PXE_UINT8),
    (''Config'', CUnion [(''Byte'', CArr PXE_UINT8 256), (''Word'', CArr PXE_UINT16 128), (''Dword'', CArr PXE_UINT32 64)])]"

definition PXE_PCC_CONFIG_INFO :: cty where
  "PXE_PCC_CONFIG_INFO = CPacked [(''BusType'', PXE_UINT32), (''Bus'', PXE_UINT16),
    (''Device'', PXE_UINT8), (''Function'', PXE_UINT8),
    (''Config'', CUnion [(''Byte'', CArr PXE_UINT8 256), (''Word'', CArr PXE_UINT16 128), (''Dword'', CArr PXE_UINT32 64)])]"

definition PXE_USB_CONFIG_INFO :: cty where
  "PXE_USB_CONFIG_INFO = CPacked [(''BusType'', PXE_UINT32)]"

definition PXE_1394_CONFIG_INFO :: cty where
  "PXE_1394_CONFIG_INFO = CPacked [(''BusType'', PXE_UINT32)]"

definition PXE_DB_GET_CONFIG_INFO :: cty where
  "PXE_DB_GET_CONFIG_INFO = CUnion [(''pci'', PXE_PCI_CONFIG_INFO),
    (''pcc'', PXE_PCC_CONFIG_INFO), (''usb'', PXE_USB_CONFIG_INFO),
    (''_1394'', PXE_1394_CONFIG_INFO)]"

definition PXE_CPB_INITIALIZE :: cty where
  "PXE_CPB_INITIALIZE = CPacked [(''MemoryAddr'', PXE_UINT64), (''MemoryLength'', PXE_UINT32),
    (''LinkSpeed'', PXE_UINT32), (''TxBufCnt'', PXE_UINT16), (''TxBufSize'', PXE_UINT16),
    (''RxBufCnt'', PXE_UINT16), (''RxBufSize'', PXE_UINT16), (''Duplex'', PXE_UINT8),
    (''LoopBack'', PXE_UINT8)]"

definition PXE_DUPLEX_DEFAULT :: u64 where "PXE_DUPLEX_DEFAULT = 0x00"
definition PXE_FORCE_FULL_DUPLEX :: u64 where "PXE_FORCE_FULL_DUPLEX = 0x01"
definition PXE_ENABLE_FULL_DUPLEX :: u64 where "PXE_ENABLE_FULL_DUPLEX = 0x02"
definition LOOPBACK_NORMAL :: u64 where "LOOPBACK_NORMAL = 0"
definition LOOPBACK_INTERNAL :: u64 where "LOOPBACK_INTERNAL = 1"
definition LOOPBACK_EXTERNAL :: u64 where "LOOPBACK_EXTERNAL = 2"

definition PXE_DB_INITIALIZE :: cty where
  "PXE_DB_INITIALIZE = CPacked [(''MemoryUsed'', PXE_UINT32), (''TxBufCnt'', PXE_UINT16),
    (''TxBufSize'', PXE_UINT16), (''RxBufCnt'', PXE_UINT16), (''RxBufSize'', PXE_UINT16)]"

definition PXE_CPB_RECEIVE_FILTERS :: cty where
  "PXE_CPB_RECEIVE_FILTERS = CPacked [
    (''MCastList'', CArr PXE_MAC_ADDR (unat MAX_MCAST_ADDRESS_CNT))]"

definition PXE_DB_RECEIVE_FILTERS :: cty where
  "PXE_DB_RECEIVE_FILTERS = CPacked [
    (''MCastList'', CArr PXE_MAC_ADDR (unat MAX_MCAST_ADDRESS_CNT))]"

definition PXE_CPB_STATION_ADDRESS :: cty where
  "PXE_CPB_STATION_ADDRESS = CPacked [(''StationAddr'', PXE_MAC_ADDR)]"

definition PXE_DB_STATION_ADDRESS :: cty where
  "PXE_DB_STATION_ADDRESS = CPacked [(''StationAddr'', PXE_MAC_ADDR),
    (''BroadcastAddr'', PXE_MAC_ADDR), (''PermanentAddr'', PXE_MAC_ADDR)]"

definition PXE_DB_STATISTICS :: cty where
  "PXE_DB_STATISTICS = CPacked [(''Supported'', PXE_UINT64), (''Data'', CArr PXE_UINT64 64)]"

definition PXE_STATISTICS_RX_TOTAL_FRAMES :: u64 where "PXE_STATISTICS_RX_TOTAL_FRAMES = 0x00"
definition PXE_STATISTICS_RX_GOOD_FRAMES :: u64 where "PXE_STATISTICS_RX_GOOD_FRAMES = 0x01"
definition PXE_STATISTICS_RX_UNDERSIZE_FRAMES :: u64 where
  "PXE_STATISTICS_RX_UNDERSIZE_FRAMES = 0x02"

definition PXE_STATISTICS_RX_OVERSIZE_FRAMES :: u64 where
  "PXE_STATISTICS_RX_OVERSIZE_FRAMES = 0x03"

definition PXE_STATISTICS_RX_DROPPED_FRAMES :: u64 where
  "PXE_STATISTICS_RX_DROPPED_FRAMES = 0x04"

definition PXE_STATISTICS_RX_UNICAST_FRAMES :: u64 where
  "PXE_STATISTICS_RX_UNICAST_FRAMES = 0x05"

definition PXE_STATISTICS_RX_BROADCAST_FRAMES :: u64 where
  "PXE_STATISTICS_RX_BROADCAST_FRAMES = 0x06"

definition PXE_STATISTICS_RX_MULTICAST_FRAMES :: u64 where
  "PXE_STATISTICS_RX_MULTICAST_FRAMES = 0x07"

definition PXE_STATISTICS_RX_CRC_ERROR_FRAMES :: u64 where
  "PXE_STATISTICS_RX_CRC_ERROR_FRAMES = 0x08"

definition PXE_STATISTICS_RX_TOTAL_BYTES :: u64 where "PXE_STATISTICS_RX_TOTAL_BYTES = 0x09"
definition PXE_STATISTICS_TX_TOTAL_FRAMES :: u64 where "PXE_STATISTICS_TX_TOTAL_FRAMES = 0x0A"
definition PXE_STATISTICS_TX_GOOD_FRAMES :: u64 where "PXE_STATISTICS_TX_GOOD_FRAMES = 0x0B"
definition PXE_STATISTICS_TX_UNDERSIZE_FRAMES :: u64 where
  "PXE_STATISTICS_TX_UNDERSIZE_FRAMES = 0x0C"

definition PXE_STATISTICS_TX_OVERSIZE_FRAMES :: u64 where
  "PXE_STATISTICS_TX_OVERSIZE_FRAMES = 0x0D"

definition PXE_STATISTICS_TX_DROPPED_FRAMES :: u64 where
  "PXE_STATISTICS_TX_DROPPED_FRAMES = 0x0E"

definition PXE_STATISTICS_TX_UNICAST_FRAMES :: u64 where
  "PXE_STATISTICS_TX_UNICAST_FRAMES = 0x0F"

definition PXE_STATISTICS_TX_BROADCAST_FRAMES :: u64 where
  "PXE_STATISTICS_TX_BROADCAST_FRAMES = 0x10"

definition PXE_STATISTICS_TX_MULTICAST_FRAMES :: u64 where
  "PXE_STATISTICS_TX_MULTICAST_FRAMES = 0x11"

definition PXE_STATISTICS_TX_CRC_ERROR_FRAMES :: u64 where
  "PXE_STATISTICS_TX_CRC_ERROR_FRAMES = 0x12"

definition PXE_STATISTICS_TX_TOTAL_BYTES :: u64 where "PXE_STATISTICS_TX_TOTAL_BYTES = 0x13"
definition PXE_STATISTICS_COLLISIONS :: u64 where "PXE_STATISTICS_COLLISIONS = 0x14"
definition PXE_STATISTICS_UNSUPPORTED_PROTOCOL :: u64 where
  "PXE_STATISTICS_UNSUPPORTED_PROTOCOL = 0x15"

definition PXE_CPB_MCAST_IP_TO_MAC :: cty where
  "PXE_CPB_MCAST_IP_TO_MAC = CPacked [(''IP'', PXE_IP_ADDR)]"

definition PXE_DB_MCAST_IP_TO_MAC :: cty where
  "PXE_DB_MCAST_IP_TO_MAC = CPacked [(''MAC'', PXE_MAC_ADDR)]"

definition PXE_CPB_NVDATA_SPARSE :: cty where
  "PXE_CPB_NVDATA_SPARSE = CPacked [
    (''Item'', CArr (CPacked [(''Addr'', PXE_UINT32), (''Data'', CUnion [(''Byte'', PXE_UINT8), (''Word'', PXE_UINT16), (''Dword'', PXE_UINT32)])]) (unat MAX_EEPROM_LEN))]"

definition PXE_CPB_NVDATA_BULK :: cty where
  "PXE_CPB_NVDATA_BULK = CUnion [(''Byte'', CArr PXE_UINT8 (unat (push_bit 2 MAX_EEPROM_LEN))),
    (''Word'', CArr PXE_UINT16 (unat (push_bit 1 MAX_EEPROM_LEN))),
    (''Dword'', CArr PXE_UINT32 (unat MAX_EEPROM_LEN))]"

definition PXE_DB_NVDATA :: cty where
  "PXE_DB_NVDATA = CPacked [
    (''Data'', CUnion [(''Byte'', CArr PXE_UINT8 (unat (push_bit 2 MAX_EEPROM_LEN))), (''Word'', CArr PXE_UINT16 (unat (push_bit 1 MAX_EEPROM_LEN))), (''Dword'', CArr PXE_UINT32 (unat MAX_EEPROM_LEN))])]"

definition PXE_DB_GET_STATUS :: cty where
  "PXE_DB_GET_STATUS = CPacked [(''RxFrameLen'', PXE_UINT32), (''reserved'', PXE_UINT32),
    (''TxBuffer'', CArr PXE_UINT64 (unat MAX_XMIT_BUFFERS))]"

definition PXE_CPB_FILL_HEADER :: cty where
  "PXE_CPB_FILL_HEADER = CPacked [(''SrcAddr'', PXE_MAC_ADDR), (''DestAddr'', PXE_MAC_ADDR),
    (''MediaHeader'', PXE_UINT64), (''PacketLen'', PXE_UINT32), (''Protocol'', PXE_UINT16),
    (''MediaHeaderLen'', PXE_UINT16)]"

definition PXE_PROTOCOL_ETHERNET_IP :: u64 where "PXE_PROTOCOL_ETHERNET_IP = 0x0800"
definition PXE_PROTOCOL_ETHERNET_ARP :: u64 where "PXE_PROTOCOL_ETHERNET_ARP = 0x0806"
definition MAX_XMIT_FRAGMENTS :: u64 where "MAX_XMIT_FRAGMENTS = 16"

definition PXE_CPB_FILL_HEADER_FRAGMENTED :: cty where
  "PXE_CPB_FILL_HEADER_FRAGMENTED = CPacked [(''SrcAddr'', PXE_MAC_ADDR),
    (''DestAddr'', PXE_MAC_ADDR), (''PacketLen'', PXE_UINT32),
    (''Protocol'', PXE_MEDIA_PROTOCOL), (''MediaHeaderLen'', PXE_UINT16),
    (''FragCnt'', PXE_UINT16), (''reserved'', PXE_UINT16),
    (''FragDesc'', CArr (CPacked [(''FragAddr'', PXE_UINT64), (''FragLen'', PXE_UINT32), (''reserved'', PXE_UINT32)]) (unat MAX_XMIT_FRAGMENTS))]"

definition PXE_CPB_TRANSMIT :: cty where
  "PXE_CPB_TRANSMIT = CPacked [(''FrameAddr'', PXE_UINT64), (''DataLen'', PXE_UINT32),
    (''MediaheaderLen'', PXE_UINT16), (''reserved'', PXE_UINT16)]"

definition PXE_CPB_TRANSMIT_FRAGMENTS :: cty where
  "PXE_CPB_TRANSMIT_FRAGMENTS = CPacked [(''FrameLen'', PXE_UINT32),
    (''MediaheaderLen'', PXE_UINT16), (''FragCnt'', PXE_UINT16),
    (''FragDesc'', CArr (CPacked [(''FragAddr'', PXE_UINT64), (''FragLen'', PXE_UINT32), (''reserved'', PXE_UINT32)]) (unat MAX_XMIT_FRAGMENTS))]"

definition PXE_CPB_RECEIVE :: cty where
  "PXE_CPB_RECEIVE = CPacked [(''BufferAddr'', PXE_UINT64), (''BufferLen'', PXE_UINT32),
    (''reserved'', PXE_UINT32)]"

definition PXE_DB_RECEIVE :: cty where
  "PXE_DB_RECEIVE = CPacked [(''SrcAddr'', PXE_MAC_ADDR), (''DestAddr'', PXE_MAC_ADDR),
    (''FrameLen'', PXE_UINT32), (''Protocol'', PXE_MEDIA_PROTOCOL),
    (''MediaHeaderLen'', PXE_UINT16), (''Type'', PXE_FRAME_TYPE), (''reserved'', CArr PXE_UINT8 7)]"

section \<open>efi\_nii.h\<close>

definition EFI_NETWORK_INTERFACE_IDENTIFIER_PROTOCOL_GUID :: guid where
  "EFI_NETWORK_INTERFACE_IDENTIFIER_PROTOCOL_GUID = GUID 0xE18541CD 0xF755 0x4F73 [0x92, 0x8D, 0x64, 0x3C, 0x8A, 0x79, 0xB2, 0x29]"

definition EFI_NETWORK_INTERFACE_IDENTIFIER_PROTOCOL_REVISION :: u64 where
  "EFI_NETWORK_INTERFACE_IDENTIFIER_PROTOCOL_REVISION = 0x00010000"

definition EFI_NETWORK_INTERFACE_IDENTIFIER_INTERFACE_REVISION :: u64 where
  "EFI_NETWORK_INTERFACE_IDENTIFIER_INTERFACE_REVISION = EFI_NETWORK_INTERFACE_IDENTIFIER_PROTOCOL_REVISION"

definition EFI_NETWORK_INTERFACE_TYPE :: cty where "EFI_NETWORK_INTERFACE_TYPE = C32"
definition EfiNetworkInterfaceUndi :: u32 where "EfiNetworkInterfaceUndi = 1"

definition EFI_NETWORK_INTERFACE_IDENTIFIER_PROTOCOL :: cty where
  "EFI_NETWORK_INTERFACE_IDENTIFIER_PROTOCOL = CStruct [(''Revision'', UINT64), (''ID'', UINT64),
    (''ImageAddr'', UINT64), (''ImageSize'', UINT32), (''StringId'', CArr CHAR8 4),
    (''Type'', UINT8), (''MajorVer'', UINT8), (''MinorVer'', UINT8),
    (''Ipv6Supported'', BOOLEAN), (''IfNum'', UINT8)]"

definition EFI_NETWORK_INTERFACE_IDENTIFIER_INTERFACE :: cty where
  "EFI_NETWORK_INTERFACE_IDENTIFIER_INTERFACE = EFI_NETWORK_INTERFACE_IDENTIFIER_PROTOCOL"

section \<open>efipxebc.h\<close>

definition EFI_PXE_BASE_CODE_PROTOCOL_GUID :: guid where
  "EFI_PXE_BASE_CODE_PROTOCOL_GUID = GUID 0x03C4E603 0xAC28 0x11D3 [0x9A, 0x2D, 0x00, 0x90, 0x27, 0x3F, 0xC1, 0x4D]"

definition DEFAULT_TTL :: u64 where "DEFAULT_TTL = 4"
definition DEFAULT_ToS :: u64 where "DEFAULT_ToS = 0"

definition EFI_IP_ADDRESS :: cty where
  "EFI_IP_ADDRESS = CUnion [(''Addr'', CArr UINT32 4), (''v4'', EFI_IPv4_ADDRESS),
    (''v6'', EFI_IPv6_ADDRESS)]"

definition EFI_PXE_BASE_CODE_UDP_PORT :: cty where "EFI_PXE_BASE_CODE_UDP_PORT = UINT16"

definition EFI_PXE_BASE_CODE_DHCPV4_PACKET :: cty where
  "EFI_PXE_BASE_CODE_DHCPV4_PACKET = CStruct [(''BootpOpcode'', UINT8), (''BootpHwType'', UINT8),
    (''BootpHwAddrLen'', UINT8), (''BootpGateHops'', UINT8), (''BootpIdent'', UINT32),
    (''BootpSeconds'', UINT16), (''BootpFlags'', UINT16), (''BootpCiAddr'', CArr UINT8 4),
    (''BootpYiAddr'', CArr UINT8 4), (''BootpSiAddr'', CArr UINT8 4),
    (''BootpGiAddr'', CArr UINT8 4), (''BootpHwAddr'', CArr UINT8 16),
    (''BootpSrvName'', CArr UINT8 64), (''BootpBootFile'', CArr UINT8 128),
    (''DhcpMagik'', UINT32), (''DhcpOptions'', CArr UINT8 56)]"

definition EFI_PXE_BASE_CODE_DHCPV6_PACKET :: cty where
  "EFI_PXE_BASE_CODE_DHCPV6_PACKET = CStruct [(''MessageType:8 TransactionId:24'', UINT32),
    (''DhcpOptions'', CArr UINT8 1024)]"

definition EFI_PXE_BASE_CODE_PACKET :: cty where
  "EFI_PXE_BASE_CODE_PACKET = CUnion [(''Raw'', CArr UINT8 1472),
    (''Dhcpv4'', EFI_PXE_BASE_CODE_DHCPV4_PACKET), (''Dhcpv6'', EFI_PXE_BASE_CODE_DHCPV6_PACKET)]"

definition EFI_PXE_BASE_CODE_ICMP_ERROR :: cty where
  "EFI_PXE_BASE_CODE_ICMP_ERROR = CStruct [(''Type'', UINT8), (''Code'', UINT8),
    (''Checksum'', UINT16),
    (''u'', CUnion [(''reserved'', UINT32), (''Mtu'', UINT32), (''Pointer'', UINT32), (''Echo'', CStruct [(''Identifier'', UINT16), (''Sequence'', UINT16)])]),
    (''Data'', CArr UINT8 494)]"

definition EFI_PXE_BASE_CODE_TFTP_ERROR :: cty where
  "EFI_PXE_BASE_CODE_TFTP_ERROR = CStruct [(''ErrorCode'', UINT8),
    (''ErrorString'', CArr CHAR8 127)]"

definition EFI_PXE_BASE_CODE_MAX_IPCNT :: u64 where "EFI_PXE_BASE_CODE_MAX_IPCNT = 8"

definition EFI_PXE_BASE_CODE_IP_FILTER :: cty where
  "EFI_PXE_BASE_CODE_IP_FILTER = CStruct [(''Filters'', UINT8), (''IpCnt'', UINT8),
    (''reserved'', UINT16), (''IpList'', CArr EFI_IP_ADDRESS (unat EFI_PXE_BASE_CODE_MAX_IPCNT))]"

definition EFI_PXE_BASE_CODE_IP_FILTER_STATION_IP :: u64 where
  "EFI_PXE_BASE_CODE_IP_FILTER_STATION_IP = 0x0001"

definition EFI_PXE_BASE_CODE_IP_FILTER_BROADCAST :: u64 where
  "EFI_PXE_BASE_CODE_IP_FILTER_BROADCAST = 0x0002"

definition EFI_PXE_BASE_CODE_IP_FILTER_PROMISCUOUS :: u64 where
  "EFI_PXE_BASE_CODE_IP_FILTER_PROMISCUOUS = 0x0004"

definition EFI_PXE_BASE_CODE_IP_FILTER_PROMISCUOUS_MULTICAST :: u64 where
  "EFI_PXE_BASE_CODE_IP_FILTER_PROMISCUOUS_MULTICAST = 0x0008"

definition EFI_PXE_BASE_CODE_ARP_ENTRY :: cty where
  "EFI_PXE_BASE_CODE_ARP_ENTRY = CStruct [(''IpAddr'', EFI_IP_ADDRESS),
    (''MacAddr'', EFI_MAC_ADDRESS)]"

definition EFI_PXE_BASE_CODE_ROUTE_ENTRY :: cty where
  "EFI_PXE_BASE_CODE_ROUTE_ENTRY = CStruct [(''IpAddr'', EFI_IP_ADDRESS),
    (''SubnetMask'', EFI_IP_ADDRESS), (''GwAddr'', EFI_IP_ADDRESS)]"

definition EFI_PXE_BASE_CODE_UDP_OPFLAGS_ANY_SRC_IP :: u64 where
  "EFI_PXE_BASE_CODE_UDP_OPFLAGS_ANY_SRC_IP = 0x0001"

definition EFI_PXE_BASE_CODE_UDP_OPFLAGS_ANY_SRC_PORT :: u64 where
  "EFI_PXE_BASE_CODE_UDP_OPFLAGS_ANY_SRC_PORT = 0x0002"

definition EFI_PXE_BASE_CODE_UDP_OPFLAGS_ANY_DEST_IP :: u64 where
  "EFI_PXE_BASE_CODE_UDP_OPFLAGS_ANY_DEST_IP = 0x0004"

definition EFI_PXE_BASE_CODE_UDP_OPFLAGS_ANY_DEST_PORT :: u64 where
  "EFI_PXE_BASE_CODE_UDP_OPFLAGS_ANY_DEST_PORT = 0x0008"

definition EFI_PXE_BASE_CODE_UDP_OPFLAGS_USE_FILTER :: u64 where
  "EFI_PXE_BASE_CODE_UDP_OPFLAGS_USE_FILTER = 0x0010"

definition EFI_PXE_BASE_CODE_UDP_OPFLAGS_MAY_FRAGMENT :: u64 where
  "EFI_PXE_BASE_CODE_UDP_OPFLAGS_MAY_FRAGMENT = 0x0020"

definition EFI_PXE_BASE_CODE_BOOT_TYPE_BOOTSTRAP :: u64 where
  "EFI_PXE_BASE_CODE_BOOT_TYPE_BOOTSTRAP = 0"

definition EFI_PXE_BASE_CODE_BOOT_TYPE_MS_WINNT_RIS :: u64 where
  "EFI_PXE_BASE_CODE_BOOT_TYPE_MS_WINNT_RIS = 1"

definition EFI_PXE_BASE_CODE_BOOT_TYPE_INTEL_LCM :: u64 where
  "EFI_PXE_BASE_CODE_BOOT_TYPE_INTEL_LCM = 2"

definition EFI_PXE_BASE_CODE_BOOT_TYPE_DOSUNDI :: u64 where
  "EFI_PXE_BASE_CODE_BOOT_TYPE_DOSUNDI = 3"

definition EFI_PXE_BASE_CODE_BOOT_TYPE_NEC_ESMPRO :: u64 where
  "EFI_PXE_BASE_CODE_BOOT_TYPE_NEC_ESMPRO = 4"

definition EFI_PXE_BASE_CODE_BOOT_TYPE_IBM_WSoD :: u64 where
  "EFI_PXE_BASE_CODE_BOOT_TYPE_IBM_WSoD = 5"

definition EFI_PXE_BASE_CODE_BOOT_TYPE_IBM_LCCM :: u64 where
  "EFI_PXE_BASE_CODE_BOOT_TYPE_IBM_LCCM = 6"

definition EFI_PXE_BASE_CODE_BOOT_TYPE_CA_UNICENTER_TNG :: u64 where
  "EFI_PXE_BASE_CODE_BOOT_TYPE_CA_UNICENTER_TNG = 7"

definition EFI_PXE_BASE_CODE_BOOT_TYPE_HP_OPENVIEW :: u64 where
  "EFI_PXE_BASE_CODE_BOOT_TYPE_HP_OPENVIEW = 8"

definition EFI_PXE_BASE_CODE_BOOT_TYPE_ALTIRIS_9 :: u64 where
  "EFI_PXE_BASE_CODE_BOOT_TYPE_ALTIRIS_9 = 9"

definition EFI_PXE_BASE_CODE_BOOT_TYPE_ALTIRIS_10 :: u64 where
  "EFI_PXE_BASE_CODE_BOOT_TYPE_ALTIRIS_10 = 10"

definition EFI_PXE_BASE_CODE_BOOT_TYPE_ALTIRIS_11 :: u64 where
  "EFI_PXE_BASE_CODE_BOOT_TYPE_ALTIRIS_11 = 11"

definition EFI_PXE_BASE_CODE_BOOT_TYPE_NOT_USED_12 :: u64 where
  "EFI_PXE_BASE_CODE_BOOT_TYPE_NOT_USED_12 = 12"

definition EFI_PXE_BASE_CODE_BOOT_TYPE_REDHAT_INSTALL :: u64 where
  "EFI_PXE_BASE_CODE_BOOT_TYPE_REDHAT_INSTALL = 13"

definition EFI_PXE_BASE_CODE_BOOT_TYPE_REDHAT_BOOT :: u64 where
  "EFI_PXE_BASE_CODE_BOOT_TYPE_REDHAT_BOOT = 14"

definition EFI_PXE_BASE_CODE_BOOT_TYPE_REMBO :: u64 where
  "EFI_PXE_BASE_CODE_BOOT_TYPE_REMBO = 15"

definition EFI_PXE_BASE_CODE_BOOT_TYPE_BEOBOOT :: u64 where
  "EFI_PXE_BASE_CODE_BOOT_TYPE_BEOBOOT = 16"

definition EFI_PXE_BASE_CODE_BOOT_TYPE_PXETEST :: u64 where
  "EFI_PXE_BASE_CODE_BOOT_TYPE_PXETEST = 65535"

definition EFI_PXE_BASE_CODE_BOOT_LAYER_MASK :: u64 where
  "EFI_PXE_BASE_CODE_BOOT_LAYER_MASK = 0x7FFF"

definition EFI_PXE_BASE_CODE_BOOT_LAYER_INITIAL :: u64 where
  "EFI_PXE_BASE_CODE_BOOT_LAYER_INITIAL = 0x0000"

definition EFI_PXE_BASE_CODE_SRVLIST :: cty where
  "EFI_PXE_BASE_CODE_SRVLIST = CStruct [(''Type'', UINT16), (''AcceptAnyResponse'', BOOLEAN),
    (''Reserved'', UINT8), (''IpAddr'', EFI_IP_ADDRESS)]"

definition EFI_PXE_BASE_CODE_DISCOVER_INFO :: cty where
  "EFI_PXE_BASE_CODE_DISCOVER_INFO = CStruct [(''UseMCast'', BOOLEAN), (''UseBCast'', BOOLEAN),
    (''UseUCast'', BOOLEAN), (''MustUseList'', BOOLEAN), (''ServerMCastIp'', EFI_IP_ADDRESS),
    (''IpCnt'', UINT16), (''SrvList'', CArr EFI_PXE_BASE_CODE_SRVLIST 1)]"

definition EFI_PXE_BASE_CODE_TFTP_OPCODE :: cty where "EFI_PXE_BASE_CODE_TFTP_OPCODE = C32"
definition EFI_PXE_BASE_CODE_TFTP_FIRST :: u32 where "EFI_PXE_BASE_CODE_TFTP_FIRST = 0"
definition EFI_PXE_BASE_CODE_TFTP_GET_FILE_SIZE :: u32 where
  "EFI_PXE_BASE_CODE_TFTP_GET_FILE_SIZE = 1"

definition EFI_PXE_BASE_CODE_TFTP_READ_FILE :: u32 where "EFI_PXE_BASE_CODE_TFTP_READ_FILE = 2"
definition EFI_PXE_BASE_CODE_TFTP_WRITE_FILE :: u32 where "EFI_PXE_BASE_CODE_TFTP_WRITE_FILE = 3"
definition EFI_PXE_BASE_CODE_TFTP_READ_DIRECTORY :: u32 where
  "EFI_PXE_BASE_CODE_TFTP_READ_DIRECTORY = 4"

definition EFI_PXE_BASE_CODE_MTFTP_GET_FILE_SIZE :: u32 where
  "EFI_PXE_BASE_CODE_MTFTP_GET_FILE_SIZE = 5"

definition EFI_PXE_BASE_CODE_MTFTP_READ_FILE :: u32 where "EFI_PXE_BASE_CODE_MTFTP_READ_FILE = 6"
definition EFI_PXE_BASE_CODE_MTFTP_READ_DIRECTORY :: u32 where
  "EFI_PXE_BASE_CODE_MTFTP_READ_DIRECTORY = 7"

definition EFI_PXE_BASE_CODE_MTFTP_LAST :: u32 where "EFI_PXE_BASE_CODE_MTFTP_LAST = 8"

definition EFI_PXE_BASE_CODE_MTFTP_INFO :: cty where
  "EFI_PXE_BASE_CODE_MTFTP_INFO = CStruct [(''MCastIp'', EFI_IP_ADDRESS),
    (''CPort'', EFI_PXE_BASE_CODE_UDP_PORT), (''SPort'', EFI_PXE_BASE_CODE_UDP_PORT),
    (''ListenTimeout'', UINT16), (''TransmitTimeout'', UINT16)]"

definition EFI_PXE_BASE_CODE_MAX_ARP_ENTRIES :: u64 where "EFI_PXE_BASE_CODE_MAX_ARP_ENTRIES = 8"
definition EFI_PXE_BASE_CODE_MAX_ROUTE_ENTRIES :: u64 where
  "EFI_PXE_BASE_CODE_MAX_ROUTE_ENTRIES = 8"

definition EFI_PXE_BASE_CODE_MODE :: cty where
  "EFI_PXE_BASE_CODE_MODE = CStruct [(''Started'', BOOLEAN), (''Ipv6Available'', BOOLEAN),
    (''Ipv6Supported'', BOOLEAN), (''UsingIpv6'', BOOLEAN), (''BisSupported'', BOOLEAN),
    (''BisDetected'', BOOLEAN), (''AutoArp'', BOOLEAN), (''SendGUID'', BOOLEAN),
    (''DhcpDiscoverValid'', BOOLEAN), (''DhcpAckReceived'', BOOLEAN),
    (''ProxyOfferReceived'', BOOLEAN), (''PxeDiscoverValid'', BOOLEAN),
    (''PxeReplyReceived'', BOOLEAN), (''PxeBisReplyReceived'', BOOLEAN),
    (''IcmpErrorReceived'', BOOLEAN), (''TftpErrorReceived'', BOOLEAN),
    (''MakeCallbacks'', BOOLEAN), (''TTL'', UINT8), (''ToS'', UINT8),
    (''StationIp'', EFI_IP_ADDRESS), (''SubnetMask'', EFI_IP_ADDRESS),
    (''DhcpDiscover'', EFI_PXE_BASE_CODE_PACKET), (''DhcpAck'', EFI_PXE_BASE_CODE_PACKET),
    (''ProxyOffer'', EFI_PXE_BASE_CODE_PACKET), (''PxeDiscover'', EFI_PXE_BASE_CODE_PACKET),
    (''PxeReply'', EFI_PXE_BASE_CODE_PACKET), (''PxeBisReply'', EFI_PXE_BASE_CODE_PACKET),
    (''IpFilter'', EFI_PXE_BASE_CODE_IP_FILTER), (''ArpCacheEntries'', UINT32),
    (''ArpCache'', CArr EFI_PXE_BASE_CODE_ARP_ENTRY (unat EFI_PXE_BASE_CODE_MAX_ARP_ENTRIES)),
    (''RouteTableEntries'', UINT32),
    (''RouteTable'', CArr EFI_PXE_BASE_CODE_ROUTE_ENTRY (unat EFI_PXE_BASE_CODE_MAX_ROUTE_ENTRIES)),
    (''IcmpError'', EFI_PXE_BASE_CODE_ICMP_ERROR), (''TftpError'', EFI_PXE_BASE_CODE_TFTP_ERROR)]"

definition EFI_PXE_BASE_CODE_START :: csig where
  "EFI_PXE_BASE_CODE_START = Fn (Some EFI_STATUS) [
    Arg In ''This'' (CPtr ''_EFI_PXE_BASE_CODE_PROTOCOL''), Arg In ''UseIpv6'' BOOLEAN]"

definition EFI_PXE_BASE_CODE_STOP :: csig where
  "EFI_PXE_BASE_CODE_STOP = Fn (Some EFI_STATUS) [
    Arg In ''This'' (CPtr ''_EFI_PXE_BASE_CODE_PROTOCOL'')]"

definition EFI_PXE_BASE_CODE_DHCP :: csig where
  "EFI_PXE_BASE_CODE_DHCP = Fn (Some EFI_STATUS) [
    Arg In ''This'' (CPtr ''_EFI_PXE_BASE_CODE_PROTOCOL''), Arg In ''SortOffers'' BOOLEAN]"

definition EFI_PXE_BASE_CODE_DISCOVER :: csig where
  "EFI_PXE_BASE_CODE_DISCOVER = Fn (Some EFI_STATUS) [
    Arg In ''This'' (CPtr ''_EFI_PXE_BASE_CODE_PROTOCOL''), Arg In ''Type'' UINT16,
    Arg In ''Layer'' (CPtr ''UINT16''), Arg In ''UseBis'' BOOLEAN,
    OptArg InOut ''Info'' (CPtr ''EFI_PXE_BASE_CODE_DISCOVER_INFO'')]"

definition EFI_PXE_BASE_CODE_MTFTP :: csig where
  "EFI_PXE_BASE_CODE_MTFTP = Fn (Some EFI_STATUS) [
    Arg In ''This'' (CPtr ''_EFI_PXE_BASE_CODE_PROTOCOL''),
    Arg In ''Operation'' EFI_PXE_BASE_CODE_TFTP_OPCODE,
    OptArg InOut ''BufferPtr'' (CPtr ''VOID''), Arg In ''Overwrite'' BOOLEAN,
    Arg InOut ''BufferSize'' (CPtr ''UINT64''), OptArg In ''BlockSize'' (CPtr ''UINTN''),
    Arg In ''ServerIp'' (CPtr ''EFI_IP_ADDRESS''), Arg In ''Filename'' (CPtr ''UINT8''),
    OptArg In ''Info'' (CPtr ''EFI_PXE_BASE_CODE_MTFTP_INFO''), Arg In ''DontUseBuffer'' BOOLEAN]"

definition EFI_PXE_BASE_CODE_UDP_WRITE :: csig where
  "EFI_PXE_BASE_CODE_UDP_WRITE = Fn (Some EFI_STATUS) [
    Arg In ''This'' (CPtr ''_EFI_PXE_BASE_CODE_PROTOCOL''), Arg In ''OpFlags'' UINT16,
    Arg In ''DestIp'' (CPtr ''EFI_IP_ADDRESS''),
    Arg In ''DestPort'' (CPtr ''EFI_PXE_BASE_CODE_UDP_PORT''),
    OptArg In ''GatewayIp'' (CPtr ''EFI_IP_ADDRESS''),
    OptArg In ''SrcIp'' (CPtr ''EFI_IP_ADDRESS''),
    OptArg InOut ''SrcPort'' (CPtr ''EFI_PXE_BASE_CODE_UDP_PORT''),
    OptArg In ''HeaderSize'' (CPtr ''UINTN''), OptArg In ''HeaderPtr'' (CPtr ''VOID''),
    Arg In ''BufferSize'' (CPtr ''UINTN''), Arg In ''BufferPtr'' (CPtr ''VOID'')]"

definition EFI_PXE_BASE_CODE_UDP_READ :: csig where
  "EFI_PXE_BASE_CODE_UDP_READ = Fn (Some EFI_STATUS) [
    Arg In ''This'' (CPtr ''_EFI_PXE_BASE_CODE_PROTOCOL''), Arg In ''OpFlags'' UINT16,
    OptArg InOut ''DestIp'' (CPtr ''EFI_IP_ADDRESS''),
    OptArg InOut ''DestPort'' (CPtr ''EFI_PXE_BASE_CODE_UDP_PORT''),
    OptArg InOut ''SrcIp'' (CPtr ''EFI_IP_ADDRESS''),
    OptArg InOut ''SrcPort'' (CPtr ''EFI_PXE_BASE_CODE_UDP_PORT''),
    OptArg In ''HeaderSize'' (CPtr ''UINTN''), OptArg In ''HeaderPtr'' (CPtr ''VOID''),
    Arg InOut ''BufferSize'' (CPtr ''UINTN''), Arg In ''BufferPtr'' (CPtr ''VOID'')]"

definition EFI_PXE_BASE_CODE_SET_IP_FILTER :: csig where
  "EFI_PXE_BASE_CODE_SET_IP_FILTER = Fn (Some EFI_STATUS) [
    Arg In ''This'' (CPtr ''_EFI_PXE_BASE_CODE_PROTOCOL''),
    Arg In ''NewFilter'' (CPtr ''EFI_PXE_BASE_CODE_IP_FILTER'')]"

definition EFI_PXE_BASE_CODE_ARP :: csig where
  "EFI_PXE_BASE_CODE_ARP = Fn (Some EFI_STATUS) [
    Arg In ''This'' (CPtr ''_EFI_PXE_BASE_CODE_PROTOCOL''),
    Arg In ''IpAddr'' (CPtr ''EFI_IP_ADDRESS''), OptArg In ''MacAddr'' (CPtr ''EFI_MAC_ADDRESS'')]"

definition EFI_PXE_BASE_CODE_SET_PARAMETERS :: csig where
  "EFI_PXE_BASE_CODE_SET_PARAMETERS = Fn (Some EFI_STATUS) [
    Arg In ''This'' (CPtr ''_EFI_PXE_BASE_CODE_PROTOCOL''),
    OptArg In ''NewAutoArp'' (CPtr ''BOOLEAN''), OptArg In ''NewSendGUID'' (CPtr ''BOOLEAN''),
    OptArg In ''NewTTL'' (CPtr ''UINT8''), OptArg In ''NewToS'' (CPtr ''UINT8''),
    OptArg In ''NewMakeCallback'' (CPtr ''BOOLEAN'')]"

definition EFI_PXE_BASE_CODE_SET_STATION_IP :: csig where
  "EFI_PXE_BASE_CODE_SET_STATION_IP = Fn (Some EFI_STATUS) [
    Arg In ''This'' (CPtr ''_EFI_PXE_BASE_CODE_PROTOCOL''),
    OptArg In ''NewStationIp'' (CPtr ''EFI_IP_ADDRESS''),
    OptArg In ''NewSubnetMask'' (CPtr ''EFI_IP_ADDRESS'')]"

definition EFI_PXE_BASE_CODE_SET_PACKETS :: csig where
  "EFI_PXE_BASE_CODE_SET_PACKETS = Fn (Some EFI_STATUS) [
    Arg In ''This'' (CPtr ''_EFI_PXE_BASE_CODE_PROTOCOL''),
    OptArg NoDir ''NewDhcpDiscoverValid'' (CPtr ''BOOLEAN''),
    OptArg NoDir ''NewDhcpAckReceived'' (CPtr ''BOOLEAN''),
    OptArg NoDir ''NewProxyOfferReceived'' (CPtr ''BOOLEAN''),
    OptArg NoDir ''NewPxeDiscoverValid'' (CPtr ''BOOLEAN''),
    OptArg NoDir ''NewPxeReplyReceived'' (CPtr ''BOOLEAN''),
    OptArg NoDir ''NewPxeBisReplyReceived'' (CPtr ''BOOLEAN''),
    OptArg In ''NewDhcpDiscover'' (CPtr ''EFI_PXE_BASE_CODE_PACKET''),
    OptArg In ''NewDhcpAck'' (CPtr ''EFI_PXE_BASE_CODE_PACKET''),
    OptArg In ''NewProxyOffer'' (CPtr ''EFI_PXE_BASE_CODE_PACKET''),
    OptArg In ''NewPxeDiscover'' (CPtr ''EFI_PXE_BASE_CODE_PACKET''),
    OptArg In ''NewPxeReply'' (CPtr ''EFI_PXE_BASE_CODE_PACKET''),
    OptArg In ''NewPxeBisReply'' (CPtr ''EFI_PXE_BASE_CODE_PACKET'')]"

definition EFI_PXE_BASE_CODE_PROTOCOL_REVISION :: u64 where
  "EFI_PXE_BASE_CODE_PROTOCOL_REVISION = 0x00010000"

definition EFI_PXE_BASE_CODE_INTERFACE_REVISION :: u64 where
  "EFI_PXE_BASE_CODE_INTERFACE_REVISION = EFI_PXE_BASE_CODE_PROTOCOL_REVISION"

definition EFI_PXE_BASE_CODE_PROTOCOL :: cty where
  "EFI_PXE_BASE_CODE_PROTOCOL = CStruct [(''Revision'', UINT64),
    (''Start'', CPtr ''EFI_PXE_BASE_CODE_START''), (''Stop'', CPtr ''EFI_PXE_BASE_CODE_STOP''),
    (''Dhcp'', CPtr ''EFI_PXE_BASE_CODE_DHCP''),
    (''Discover'', CPtr ''EFI_PXE_BASE_CODE_DISCOVER''),
    (''Mtftp'', CPtr ''EFI_PXE_BASE_CODE_MTFTP''),
    (''UdpWrite'', CPtr ''EFI_PXE_BASE_CODE_UDP_WRITE''),
    (''UdpRead'', CPtr ''EFI_PXE_BASE_CODE_UDP_READ''),
    (''SetIpFilter'', CPtr ''EFI_PXE_BASE_CODE_SET_IP_FILTER''),
    (''Arp'', CPtr ''EFI_PXE_BASE_CODE_ARP''),
    (''SetParameters'', CPtr ''EFI_PXE_BASE_CODE_SET_PARAMETERS''),
    (''SetStationIp'', CPtr ''EFI_PXE_BASE_CODE_SET_STATION_IP''),
    (''SetPackets'', CPtr ''EFI_PXE_BASE_CODE_SET_PACKETS''),
    (''Mode'', CPtr ''EFI_PXE_BASE_CODE_MODE'')]"

definition EFI_PXE_BASE_CODE_CALLBACK_PROTOCOL_GUID :: guid where
  "EFI_PXE_BASE_CODE_CALLBACK_PROTOCOL_GUID = GUID 0x245DCA21 0xFB7B 0x11D3 [0x8F, 0x01, 0x00, 0xA0, 0xC9, 0x69, 0x72, 0x3B]"

definition EFI_PXE_BASE_CODE_CALLBACK_PROTOCOL_REVISION :: u64 where
  "EFI_PXE_BASE_CODE_CALLBACK_PROTOCOL_REVISION = 0x00010000"

definition EFI_PXE_BASE_CODE_CALLBACK_INTERFACE_REVISION :: u64 where
  "EFI_PXE_BASE_CODE_CALLBACK_INTERFACE_REVISION = EFI_PXE_BASE_CODE_CALLBACK_PROTOCOL_REVISION"

definition EFI_PXE_BASE_CODE_FUNCTION :: cty where "EFI_PXE_BASE_CODE_FUNCTION = C32"
definition EFI_PXE_BASE_CODE_FUNCTION_FIRST :: u32 where "EFI_PXE_BASE_CODE_FUNCTION_FIRST = 0"
definition EFI_PXE_BASE_CODE_FUNCTION_DHCP :: u32 where "EFI_PXE_BASE_CODE_FUNCTION_DHCP = 1"
definition EFI_PXE_BASE_CODE_FUNCTION_DISCOVER :: u32 where
  "EFI_PXE_BASE_CODE_FUNCTION_DISCOVER = 2"

definition EFI_PXE_BASE_CODE_FUNCTION_MTFTP :: u32 where "EFI_PXE_BASE_CODE_FUNCTION_MTFTP = 3"
definition EFI_PXE_BASE_CODE_FUNCTION_UDP_WRITE :: u32 where
  "EFI_PXE_BASE_CODE_FUNCTION_UDP_WRITE = 4"

definition EFI_PXE_BASE_CODE_FUNCTION_UDP_READ :: u32 where
  "EFI_PXE_BASE_CODE_FUNCTION_UDP_READ = 5"

definition EFI_PXE_BASE_CODE_FUNCTION_ARP :: u32 where "EFI_PXE_BASE_CODE_FUNCTION_ARP = 6"
definition EFI_PXE_BASE_CODE_FUNCTION_IGMP :: u32 where "EFI_PXE_BASE_CODE_FUNCTION_IGMP = 7"
definition EFI_PXE_BASE_CODE_PXE_FUNCTION_LAST :: u32 where
  "EFI_PXE_BASE_CODE_PXE_FUNCTION_LAST = 8"

definition EFI_PXE_BASE_CODE_CALLBACK_STATUS :: cty where
  "EFI_PXE_BASE_CODE_CALLBACK_STATUS = C32"

definition EFI_PXE_BASE_CODE_CALLBACK_STATUS_FIRST :: u32 where
  "EFI_PXE_BASE_CODE_CALLBACK_STATUS_FIRST = 0"

definition EFI_PXE_BASE_CODE_CALLBACK_STATUS_CONTINUE :: u32 where
  "EFI_PXE_BASE_CODE_CALLBACK_STATUS_CONTINUE = 1"

definition EFI_PXE_BASE_CODE_CALLBACK_STATUS_ABORT :: u32 where
  "EFI_PXE_BASE_CODE_CALLBACK_STATUS_ABORT = 2"

definition EFI_PXE_BASE_CODE_CALLBACK_STATUS_LAST :: u32 where
  "EFI_PXE_BASE_CODE_CALLBACK_STATUS_LAST = 3"

definition EFI_PXE_CALLBACK :: csig where
  "EFI_PXE_CALLBACK = Fn (Some EFI_PXE_BASE_CODE_CALLBACK_STATUS) [
    Arg In ''This'' (CPtr ''_EFI_PXE_BASE_CODE_CALLBACK_PROTOCOL''),
    Arg In ''Function'' EFI_PXE_BASE_CODE_FUNCTION, Arg In ''Received'' BOOLEAN,
    Arg In ''PacketLen'' UINT32, OptArg In ''Packet'' (CPtr ''EFI_PXE_BASE_CODE_PACKET'')]"

definition EFI_PXE_BASE_CODE_CALLBACK_PROTOCOL :: cty where
  "EFI_PXE_BASE_CODE_CALLBACK_PROTOCOL = CStruct [(''Revision'', UINT64),
    (''Callback'', CPtr ''EFI_PXE_CALLBACK'')]"

definition EFI_PXE_BASE_CODE_CALLBACK :: cty where
  "EFI_PXE_BASE_CODE_CALLBACK = EFI_PXE_BASE_CODE_CALLBACK_PROTOCOL"


end
