(* ===== verification/Efi_Devices.thy ===== *)
theory Efi_Devices
  imports Efi_Api Efi_Macros Efi_Link
begin

text \<open>
  Devices, tables and boot services of the UEFI headers: PCI (\<open>efipciio.h\<close>, \<open>pci22.h\<close>), serial
  lines, partitions, extended text input, pointers, user interface strings, option ROMs, SMBIOS
  and the headers of \<open>protocol\<close>.
\<close>

section \<open>efipciio.h\<close>

definition EFI_PCI_IO_PROTOCOL_GUID :: guid where
  "EFI_PCI_IO_PROTOCOL_GUID = GUID 0x4CF5B200 0x68B8 0x4CA5 [0x9E, 0xEC, 0xB2, 0x3E, 0x3F, 0x50, 0x02, 0x9A]"

definition EFI_PCI_ROOT_BRIDGE_IO_PROTOCOL_GUID :: guid where
  "EFI_PCI_ROOT_BRIDGE_IO_PROTOCOL_GUID = GUID 0x2F707EBB 0x4A1A 0x11D4 [0x9A, 0x38, 0x00, 0x90, 0x27, 0x3F, 0xC1, 0x4D]"

definition EFI_PCI_IO_PROTOCOL_WIDTH :: cty where "EFI_PCI_IO_PROTOCOL_WIDTH = C32"
definition EFI_PCI_ROOT_BRIDGE_IO_PROTOCOL_WIDTH :: cty where
  "EFI_PCI_ROOT_BRIDGE_IO_PROTOCOL_WIDTH = EFI_PCI_IO_PROTOCOL_WIDTH"

definition EfiPciIoWidthUint8 :: u32 where "EfiPciIoWidthUint8 = 0"
definition EfiPciIoWidthUint16 :: u32 where "EfiPciIoWidthUint16 = 1"
definition EfiPciIoWidthUint32 :: u32 where "EfiPciIoWidthUint32 = 2"
definition EfiPciIoWidthUint64 :: u32 where "EfiPciIoWidthUint64 = 3"
definition EfiPciIoWidthFifoUint8 :: u32 where "EfiPciIoWidthFifoUint8 = 4"
definition EfiPciIoWidthFifoUint16 :: u32 where "EfiPciIoWidthFifoUint16 = 5"
definition EfiPciIoWidthFifoUint32 :: u32 where "EfiPciIoWidthFifoUint32 = 6"
definition EfiPciIoWidthFifoUint64 :: u32 where "EfiPciIoWidthFifoUint64 = 7"
definition EfiPciIoWidthFillUint8 :: u32 where "EfiPciIoWidthFillUint8 = 8"
definition EfiPciIoWidthFillUint16 :: u32 where "EfiPciIoWidthFillUint16 = 9"
definition EfiPciIoWidthFillUint32 :: u32 where "EfiPciIoWidthFillUint32 = 10"
definition EfiPciIoWidthFillUint64 :: u32 where "EfiPciIoWidthFillUint64 = 11"
definition EfiPciIoWidthMaximum :: u32 where "EfiPciIoWidthMaximum = 12"
definition EFI_PCI_IO_PASS_THROUGH_BAR :: u64 where "EFI_PCI_IO_PASS_THROUGH_BAR = 0xff"

definition EFI_PCI_IO_PROTOCOL_POLL_IO_MEM :: csig where
  "EFI_PCI_IO_PROTOCOL_POLL_IO_MEM = Fn (Some EFI_STATUS) [
    Arg In ''This'' (CPtr ''_EFI_PCI_IO_PROTOCOL''), Arg In ''Width'' EFI_PCI_IO_PROTOCOL_WIDTH,
    Arg In ''BarIndex'' UINT8, Arg In ''Offset'' UINT64, Arg In ''Mask'' UINT64,
    Arg In ''Value'' UINT64, Arg In ''Delay'' UINT64, Arg Out ''Result'' (CPtr ''UINT64'')]"

definition EFI_PCI_ROOT_BRIDGE_IO_PROTOCOL_POLL_IO_MEM :: csig where
  "EFI_PCI_ROOT_BRIDGE_IO_PROTOCOL_POLL_IO_MEM = Fn (Some EFI_STATUS) [
    Arg In ''This'' (CPtr ''_EFI_PCI_ROOT_BRIDGE_IO_PROTOCOL''),
    Arg In ''Width'' EFI_PCI_ROOT_BRIDGE_IO_PROTOCOL_WIDTH, Arg In ''Address'' UINT64,
    Arg In ''Mask'' UINT64, Arg In ''Value'' UINT64, Arg In ''Delay'' UINT64,
    Arg Out ''Result'' (CPtr ''UINT64'')]"

definition EFI_PCI_IO_PROTOCOL_IO_MEM :: csig where
  "EFI_PCI_IO_PROTOCOL_IO_MEM = Fn (Some EFI_STATUS) [
    Arg In ''This'' (CPtr ''_EFI_PCI_IO_PROTOCOL''), Arg In ''Width'' EFI_PCI_IO_PROTOCOL_WIDTH,
    Arg In ''BarIndex'' UINT8, Arg In ''Offset'' UINT64, Arg In ''Count'' UINTN,
    Arg InOut ''Buffer'' (CPtr ''VOID'')]"

definition EFI_PCI_ROOT_BRIDGE_IO_PROTOCOL_IO_MEM :: csig where
  "EFI_PCI_ROOT_BRIDGE_IO_PROTOCOL_IO_MEM = Fn (Some EFI_STATUS) [
    Arg In ''This'' (CPtr ''_EFI_PCI_ROOT_BRIDGE_IO_PROTOCOL''),
    Arg In ''Width'' EFI_PCI_ROOT_BRIDGE_IO_PROTOCOL_WIDTH, Arg In ''Address'' UINT64,
    Arg In ''Count'' UINTN, Arg InOut ''Buffer'' (CPtr ''VOID'')]"

definition EFI_PCI_IO_PROTOCOL_ACCESS :: cty where
  "EFI_PCI_IO_PROTOCOL_ACCESS = CStruct [(''Read'', CPtr ''EFI_PCI_IO_PROTOCOL_IO_MEM''),
    (''Write'', CPtr ''EFI_PCI_IO_PROTOCOL_IO_MEM'')]"

definition EFI_PCI_ROOT_BRIDGE_IO_PROTOCOL_ACCESS :: cty where
  "EFI_PCI_ROOT_BRIDGE_IO_PROTOCOL_ACCESS = CStruct [
    (''Read'', CPtr ''EFI_PCI_ROOT_BRIDGE_IO_PROTOCOL_IO_MEM''),
    (''Write'', CPtr ''EFI_PCI_ROOT_BRIDGE_IO_PROTOCOL_IO_MEM'')]"

definition EFI_PCI_IO_PROTOCOL_CONFIG :: csig where
  "EFI_PCI_IO_PROTOCOL_CONFIG = Fn (Some EFI_STATUS) [
    Arg In ''This'' (CPtr ''_EFI_PCI_IO_PROTOCOL''), Arg In ''Width'' EFI_PCI_IO_PROTOCOL_WIDTH,
    Arg In ''Offset'' UINT32, Arg In ''Count'' UINTN, Arg InOut ''Buffer'' (CPtr ''VOID'')]"

definition EFI_PCI_ROOT_BRIDGE_IO_PROTOCOL_CONFIGURATION :: csig where
  "EFI_PCI_ROOT_BRIDGE_IO_PROTOCOL_CONFIGURATION = Fn (Some EFI_STATUS) [
    Arg In ''This'' (CPtr ''_EFI_PCI_ROOT_BRIDGE_IO_PROTOCOL''),
    Arg Out ''Resources'' (CPtr ''VOID *'')]"

definition EFI_PCI_IO_PROTOCOL_CONFIG_ACCESS :: cty where
  "EFI_PCI_IO_PROTOCOL_CONFIG_ACCESS = CStruct [(''Read'', CPtr ''EFI_PCI_IO_PROTOCOL_CONFIG''),
    (''Write'', CPtr ''EFI_PCI_IO_PROTOCOL_CONFIG'')]"

definition EFI_PCI_IO_PROTOCOL_COPY_MEM :: csig where
  "EFI_PCI_IO_PROTOCOL_COPY_MEM = Fn (Some EFI_STATUS) [
    Arg In ''This'' (CPtr ''_EFI_PCI_IO_PROTOCOL''), Arg In ''Width'' EFI_PCI_IO_PROTOCOL_WIDTH,
    Arg In ''DestBarIndex'' UINT8, Arg In ''DestOffset'' UINT64, Arg In ''SrcBarIndex'' UINT8,
    Arg In ''SrcOffset'' UINT64, Arg In ''Count'' UINTN]"

definition EFI_PCI_ROOT_BRIDGE_IO_PROTOCOL_COPY_MEM :: csig where
  "EFI_PCI_ROOT_BRIDGE_IO_PROTOCOL_COPY_MEM = Fn (Some EFI_STATUS) [
    Arg In ''This'' (CPtr ''_EFI_PCI_ROOT_BRIDGE_IO_PROTOCOL''),
    Arg In ''Width'' EFI_PCI_ROOT_BRIDGE_IO_PROTOCOL_WIDTH, Arg In ''DestAddress'' UINT64,
    Arg In ''SrcAddress'' UINT64, Arg In ''Count'' UINTN]"

definition EFI_PCI_IO_PROTOCOL_OPERATION :: cty where "EFI_PCI_IO_PROTOCOL_OPERATION = C32"
definition EfiPciIoOperationBusMasterRead :: u32 where "EfiPciIoOperationBusMasterRead = 0"
definition EfiPciIoOperationBusMasterWrite :: u32 where "EfiPciIoOperationBusMasterWrite = 1"
definition EfiPciIoOperationBusMasterCommonBuffer :: u32 where
  "EfiPciIoOperationBusMasterCommonBuffer = 2"

definition EfiPciIoOperationMaximum :: u32 where "EfiPciIoOperationMaximum = 3"
definition EFI_PCI_ROOT_BRIDGE_IO_PROTOCOL_OPERATION :: cty where
  "EFI_PCI_ROOT_BRIDGE_IO_PROTOCOL_OPERATION = C32"

definition EfiPciOperationBusMasterRead :: u32 where "EfiPciOperationBusMasterRead = 0"
definition EfiPciOperationBusMasterWrite :: u32 where "EfiPciOperationBusMasterWrite = 1"
definition EfiPciOperationBusMasterCommonBuffer :: u32 where
  "EfiPciOperationBusMasterCommonBuffer = 2"

definition EfiPciOperationBusMasterRead64 :: u32 where "EfiPciOperationBusMasterRead64 = 3"
definition EfiPciOperationBusMasterWrite64 :: u32 where "EfiPciOperationBusMasterWrite64 = 4"
definition EfiPciOperationBusMasterCommonBuffer64 :: u32 where
  "EfiPciOperationBusMasterCommonBuffer64 = 5"

definition EfiPciOperationMaximum :: u32 where "EfiPciOperationMaximum = 6"

definition EFI_PCI_IO_PROTOCOL_MAP :: csig where
  "EFI_PCI_IO_PROTOCOL_MAP = Fn (Some EFI_STATUS) [Arg In ''This'' (CPtr ''_EFI_PCI_IO_PROTOCOL''),
    Arg In ''Operation'' EFI_PCI_IO_PROTOCOL_OPERATION, Arg In ''HostAddress'' (CPtr ''VOID''),
    Arg InOut ''NumberOfBytes'' (CPtr ''UINTN''),
    Arg Out ''DeviceAddress'' (CPtr ''EFI_PHYSICAL_ADDRESS''),
    Arg Out ''Mapping'' (CPtr ''VOID *'')]"

definition EFI_PCI_ROOT_BRIDGE_IO_PROTOCOL_MAP :: csig where
  "EFI_PCI_ROOT_BRIDGE_IO_PROTOCOL_MAP = Fn (Some EFI_STATUS) [
    Arg In ''This'' (CPtr ''_EFI_PCI_ROOT_BRIDGE_IO_PROTOCOL''),
    Arg In ''Operation'' EFI_PCI_ROOT_BRIDGE_IO_PROTOCOL_OPERATION,
    Arg In ''HostAddress'' (CPtr ''VOID''), Arg InOut ''NumberOfBytes'' (CPtr ''UINTN''),
    Arg Out ''DeviceAddress'' (CPtr ''EFI_PHYSICAL_ADDRESS''),
    Arg Out ''Mapping'' (CPtr ''VOID *'')]"

definition EFI_PCI_IO_PROTOCOL_UNMAP :: csig where
  "EFI_PCI_IO_PROTOCOL_UNMAP = Fn (Some EFI_STATUS) [
    Arg In ''This'' (CPtr ''_EFI_PCI_IO_PROTOCOL''), Arg In ''Mapping'' (CPtr ''VOID'')]"

definition EFI_PCI_ROOT_BRIDGE_IO_PROTOCOL_UNMAP :: csig where
  "EFI_PCI_ROOT_BRIDGE_IO_PROTOCOL_UNMAP = Fn (Some EFI_STATUS) [
    Arg In ''This'' (CPtr ''_EFI_PCI_ROOT_BRIDGE_IO_PROTOCOL''),
    Arg In ''Mapping'' (CPtr ''VOID'')]"

definition EFI_PCI_IO_PROTOCOL_ALLOCATE_BUFFER :: csig where
  "EFI_PCI_IO_PROTOCOL_ALLOCATE_BUFFER = Fn (Some EFI_STATUS) [
    Arg In ''This'' (CPtr ''_EFI_PCI_IO_PROTOCOL''), Arg In ''Type'' EFI_ALLOCATE_TYPE,
    Arg In ''MemoryType'' EFI_MEMORY_TYPE, Arg In ''Pages'' UINTN,
    Arg Out ''HostAddress'' (CPtr ''VOID *''), Arg In ''Attributes'' UINT64]"

definition EFI_PCI_ROOT_BRIDGE_IO_PROTOCOL_ALLOCATE_BUFFER :: csig where
  "EFI_PCI_ROOT_BRIDGE_IO_PROTOCOL_ALLOCATE_BUFFER = Fn (Some EFI_STATUS) [
    Arg In ''This'' (CPtr ''_EFI_PCI_ROOT_BRIDGE_IO_PROTOCOL''),
    Arg In ''Type'' EFI_ALLOCATE_TYPE, Arg In ''MemoryType'' EFI_MEMORY_TYPE,
    Arg In ''Pages'' UINTN, Arg InOut ''HostAddress'' (CPtr ''VOID *''),
    Arg In ''Attributes'' UINT64]"

definition EFI_PCI_IO_PROTOCOL_FREE_BUFFER :: csig where
  "EFI_PCI_IO_PROTOCOL_FREE_BUFFER = Fn (Some EFI_STATUS) [
    Arg In ''This'' (CPtr ''_EFI_PCI_IO_PROTOCOL''), Arg In ''Pages'' UINTN,
    Arg In ''HostAddress'' (CPtr ''VOID'')]"

definition EFI_PCI_ROOT_BRIDGE_IO_PROTOCOL_FREE_BUFFER :: csig where
  "EFI_PCI_ROOT_BRIDGE_IO_PROTOCOL_FREE_BUFFER = Fn (Some EFI_STATUS) [
    Arg In ''This'' (CPtr ''_EFI_PCI_ROOT_BRIDGE_IO_PROTOCOL''), Arg In ''Pages'' UINTN,
    Arg In ''HostAddress'' (CPtr ''VOID'')]"

definition EFI_PCI_IO_PROTOCOL_FLUSH :: csig where
  "EFI_PCI_IO_PROTOCOL_FLUSH = Fn (Some EFI_STATUS) [
    Arg In ''This'' (CPtr ''_EFI_PCI_IO_PROTOCOL'')]"

definition EFI_PCI_ROOT_BRIDGE_IO_PROTOCOL_FLUSH :: csig where
  "EFI_PCI_ROOT_BRIDGE_IO_PROTOCOL_FLUSH = Fn (Some EFI_STATUS) [
    Arg In ''This'' (CPtr ''_EFI_PCI_ROOT_BRIDGE_IO_PROTOCOL'')]"

definition EFI_PCI_IO_PROTOCOL_GET_LOCATION :: csig where
  "EFI_PCI_IO_PROTOCOL_GET_LOCATION = Fn (Some EFI_STATUS) [
    Arg In ''This'' (CPtr ''_EFI_PCI_IO_PROTOCOL''), Arg Out ''SegmentNumber'' (CPtr ''UINTN''),
    Arg Out ''BusNumber'' (CPtr ''UINTN''), Arg Out ''DeviceNumber'' (CPtr ''UINTN''),
    Arg Out ''FunctionNumber'' (CPtr ''UINTN'')]"

definition EFI_PCI_ATTRIBUTE_ISA_MOTHERBOARD_IO :: u64 where
  "EFI_PCI_ATTRIBUTE_ISA_MOTHERBOARD_IO = 0x0001"

definition EFI_PCI_ATTRIBUTE_ISA_IO :: u64 where "EFI_PCI_ATTRIBUTE_ISA_IO = 0x0002"
definition EFI_PCI_ATTRIBUTE_VGA_PALETTE_IO :: u64 where
  "EFI_PCI_ATTRIBUTE_VGA_PALETTE_IO = 0x0004"

definition EFI_PCI_ATTRIBUTE_VGA_MEMORY :: u64 where "EFI_PCI_ATTRIBUTE_VGA_MEMORY = 0x0008"
definition EFI_PCI_ATTRIBUTE_VGA_IO :: u64 where "EFI_PCI_ATTRIBUTE_VGA_IO = 0x0010"
definition EFI_PCI_ATTRIBUTE_IDE_PRIMARY_IO :: u64 where
  "EFI_PCI_ATTRIBUTE_IDE_PRIMARY_IO = 0x0020"

definition EFI_PCI_ATTRIBUTE_IDE_SECONDARY_IO :: u64 where
  "EFI_PCI_ATTRIBUTE_IDE_SECONDARY_IO = 0x0040"

definition EFI_PCI_ATTRIBUTE_MEMORY_WRITE_COMBINE :: u64 where
  "EFI_PCI_ATTRIBUTE_MEMORY_WRITE_COMBINE = 0x0080"

definition EFI_PCI_ATTRIBUTE_IO :: u64 where "EFI_PCI_ATTRIBUTE_IO = 0x0100"
definition EFI_PCI_ATTRIBUTE_MEMORY :: u64 where "EFI_PCI_ATTRIBUTE_MEMORY = 0x0200"
definition EFI_PCI_ATTRIBUTE_BUS_MASTER :: u64 where "EFI_PCI_ATTRIBUTE_BUS_MASTER = 0x0400"
definition EFI_PCI_ATTRIBUTE_MEMORY_CACHED :: u64 where
  "EFI_PCI_ATTRIBUTE_MEMORY_CACHED = 0x0800"

definition EFI_PCI_ATTRIBUTE_MEMORY_DISABLE :: u64 where
  "EFI_PCI_ATTRIBUTE_MEMORY_DISABLE = 0x1000"

definition EFI_PCI_ATTRIBUTE_EMBEDDED_DEVICE :: u64 where
  "EFI_PCI_ATTRIBUTE_EMBEDDED_DEVICE = 0x2000"

definition EFI_PCI_ATTRIBUTE_EMBEDDED_ROM :: u64 where "EFI_PCI_ATTRIBUTE_EMBEDDED_ROM = 0x4000"
definition EFI_PCI_ATTRIBUTE_DUAL_ADDRESS_CYCLE :: u64 where
  "EFI_PCI_ATTRIBUTE_DUAL_ADDRESS_CYCLE = 0x8000"

definition EFI_PCI_ATTRIBUTE_ISA_IO_16 :: u64 where "EFI_PCI_ATTRIBUTE_ISA_IO_16 = 0x10000"
definition EFI_PCI_ATTRIBUTE_VGA_PALETTE_IO_16 :: u64 where
  "EFI_PCI_ATTRIBUTE_VGA_PALETTE_IO_16 = 0x20000"

definition EFI_PCI_ATTRIBUTE_VGA_IO_16 :: u64 where "EFI_PCI_ATTRIBUTE_VGA_IO_16 = 0x40000"
definition EFI_PCI_IO_ATTRIBUTE_ISA_MOTHERBOARD_IO :: u64 where
  "EFI_PCI_IO_ATTRIBUTE_ISA_MOTHERBOARD_IO = EFI_PCI_ATTRIBUTE_ISA_MOTHERBOARD_IO"

definition EFI_PCI_IO_ATTRIBUTE_ISA_IO :: u64 where
  "EFI_PCI_IO_ATTRIBUTE_ISA_IO = EFI_PCI_ATTRIBUTE_ISA_IO"

definition EFI_PCI_IO_ATTRIBUTE_VGA_PALETTE_IO :: u64 where
  "EFI_PCI_IO_ATTRIBUTE_VGA_PALETTE_IO = EFI_PCI_ATTRIBUTE_VGA_PALETTE_IO"

definition EFI_PCI_IO_ATTRIBUTE_VGA_MEMORY :: u64 where
  "EFI_PCI_IO_ATTRIBUTE_VGA_MEMORY = EFI_PCI_ATTRIBUTE_VGA_MEMORY"

definition EFI_PCI_IO_ATTRIBUTE_VGA_IO :: u64 where
  "EFI_PCI_IO_ATTRIBUTE_VGA_IO = EFI_PCI_ATTRIBUTE_VGA_IO"

definition EFI_PCI_IO_ATTRIBUTE_IDE_PRIMARY_IO :: u64 where
  "EFI_PCI_IO_ATTRIBUTE_IDE_PRIMARY_IO = EFI_PCI_ATTRIBUTE_IDE_PRIMARY_IO"

definition EFI_PCI_IO_ATTRIBUTE_IDE_SECONDARY_IO :: u64 where
  "EFI_PCI_IO_ATTRIBUTE_IDE_SECONDARY_IO = EFI_PCI_ATTRIBUTE_IDE_SECONDARY_IO"

definition EFI_PCI_IO_ATTRIBUTE_MEMORY_WRITE_COMBINE :: u64 where
  "EFI_PCI_IO_ATTRIBUTE_MEMORY_WRITE_COMBINE = EFI_PCI_ATTRIBUTE_MEMORY_WRITE_COMBINE"

definition EFI_PCI_IO_ATTRIBUTE_IO :: u64 where "EFI_PCI_IO_ATTRIBUTE_IO = EFI_PCI_ATTRIBUTE_IO"
definition EFI_PCI_IO_ATTRIBUTE_MEMORY :: u64 where
  "EFI_PCI_IO_ATTRIBUTE_MEMORY = EFI_PCI_ATTRIBUTE_MEMORY"

definition EFI_PCI_IO_ATTRIBUTE_BUS_MASTER :: u64 where
  "EFI_PCI_IO_ATTRIBUTE_BUS_MASTER = EFI_PCI_ATTRIBUTE_BUS_MASTER"

definition EFI_PCI_IO_ATTRIBUTE_MEMORY_CACHED :: u64 where
  "EFI_PCI_IO_ATTRIBUTE_MEMORY_CACHED = EFI_PCI_ATTRIBUTE_MEMORY_CACHED"

definition EFI_PCI_IO_ATTRIBUTE_MEMORY_DISABLE :: u64 where
  "EFI_PCI_IO_ATTRIBUTE_MEMORY_DISABLE = EFI_PCI_ATTRIBUTE_MEMORY_DISABLE"

definition EFI_PCI_IO_ATTRIBUTE_EMBEDDED_DEVICE :: u64 where
  "EFI_PCI_IO_ATTRIBUTE_EMBEDDED_DEVICE = EFI_PCI_ATTRIBUTE_EMBEDDED_DEVICE"

definition EFI_PCI_IO_ATTRIBUTE_EMBEDDED_ROM :: u64 where
  "EFI_PCI_IO_ATTRIBUTE_EMBEDDED_ROM = EFI_PCI_ATTRIBUTE_EMBEDDED_ROM"

definition EFI_PCI_IO_ATTRIBUTE_DUAL_ADDRESS_CYCLE :: u64 where
  "EFI_PCI_IO_ATTRIBUTE_DUAL_ADDRESS_CYCLE = EFI_PCI_ATTRIBUTE_DUAL_ADDRESS_CYCLE"

definition EFI_PCI_IO_ATTRIBUTE_ISA_IO_16 :: u64 where
  "EFI_PCI_IO_ATTRIBUTE_ISA_IO_16 = EFI_PCI_ATTRIBUTE_ISA_IO_16"

definition EFI_PCI_IO_ATTRIBUTE_VGA_PALETTE_IO_16 :: u64 where
  "EFI_PCI_IO_ATTRIBUTE_VGA_PALETTE_IO_16 = EFI_PCI_ATTRIBUTE_VGA_PALETTE_IO_16"

definition EFI_PCI_IO_ATTRIBUTE_VGA_IO_16 :: u64 where
  "EFI_PCI_IO_ATTRIBUTE_VGA_IO_16 = EFI_PCI_ATTRIBUTE_VGA_IO_16"

definition EFI_PCI_ATTRIBUTE_VALID_FOR_ALLOCATE_BUFFER :: u64 where
  "EFI_PCI_ATTRIBUTE_VALID_FOR_ALLOCATE_BUFFER = EFI_PCI_ATTRIBUTE_MEMORY_WRITE_COMBINE OR EFI_PCI_ATTRIBUTE_MEMORY_CACHED OR EFI_PCI_ATTRIBUTE_DUAL_ADDRESS_CYCLE"

definition EFI_PCI_ATTRIBUTE_INVALID_FOR_ALLOCATE_BUFFER :: u64 where
  "EFI_PCI_ATTRIBUTE_INVALID_FOR_ALLOCATE_BUFFER = NOT EFI_PCI_ATTRIBUTE_VALID_FOR_ALLOCATE_BUFFER"

definition EFI_PCI_ROOT_BRIDGE_IO_PROTOCOL_PCI_ADDRESS :: cty where
  "EFI_PCI_ROOT_BRIDGE_IO_PROTOCOL_PCI_ADDRESS = CStruct [(''Register'', UINT8),
    (''Function'', UINT8), (''Device'', UINT8), (''Bus'', UINT8), (''ExtendedRegister'', UINT32)]"

definition EFI_PCI_IO_PROTOCOL_ATTRIBUTE_OPERATION :: cty where
  "EFI_PCI_IO_PROTOCOL_ATTRIBUTE_OPERATION = C32"

definition EfiPciIoAttributeOperationGet :: u32 where "EfiPciIoAttributeOperationGet = 0"
definition EfiPciIoAttributeOperationSet :: u32 where "EfiPciIoAttributeOperationSet = 1"
definition EfiPciIoAttributeOperationEnable :: u32 where "EfiPciIoAttributeOperationEnable = 2"
definition EfiPciIoAttributeOperationDisable :: u32 where "EfiPciIoAttributeOperationDisable = 3"
definition EfiPciIoAttributeOperationSupported :: u32 where
  "EfiPciIoAttributeOperationSupported = 4"

definition EfiPciIoAttributeOperationMaximum :: u32 where "EfiPciIoAttributeOperationMaximum = 5"

definition EFI_PCI_IO_PROTOCOL_ATTRIBUTES :: csig where
  "EFI_PCI_IO_PROTOCOL_ATTRIBUTES = Fn (Some EFI_STATUS) [
    Arg In ''This'' (CPtr ''_EFI_PCI_IO_PROTOCOL''),
    Arg In ''Operation'' EFI_PCI_IO_PROTOCOL_ATTRIBUTE_OPERATION, Arg In ''Attributes'' UINT64,
    OptArg Out ''Result'' (CPtr ''UINT64'')]"

definition EFI_PCI_IO_PROTOCOL_GET_BAR_ATTRIBUTES :: csig where
  "EFI_PCI_IO_PROTOCOL_GET_BAR_ATTRIBUTES = Fn (Some EFI_STATUS) [
    Arg In ''This'' (CPtr ''_EFI_PCI_IO_PROTOCOL''), Arg In ''BarIndex'' UINT8,
    OptArg Out ''Supports'' (CPtr ''UINT64''), OptArg Out ''Resources'' (CPtr ''VOID *'')]"

definition EFI_PCI_ROOT_BRIDGE_IO_PROTOCOL_GET_ATTRIBUTES :: csig where
  "EFI_PCI_ROOT_BRIDGE_IO_PROTOCOL_GET_ATTRIBUTES = Fn (Some EFI_STATUS) [
    Arg In ''This'' (CPtr ''_EFI_PCI_ROOT_BRIDGE_IO_PROTOCOL''),
    Arg Out ''Supports'' (CPtr ''UINT64''), Arg Out ''Attributes'' (CPtr ''UINT64'')]"

definition EFI_PCI_IO_PROTOCOL_SET_BAR_ATTRIBUTES :: csig where
  "EFI_PCI_IO_PROTOCOL_SET_BAR_ATTRIBUTES = Fn (Some EFI_STATUS) [
    Arg In ''This'' (CPtr ''_EFI_PCI_IO_PROTOCOL''), Arg In ''Attributes'' UINT64,
    Arg In ''BarIndex'' UINT8, Arg InOut ''Offset'' (CPtr ''UINT64''),
    Arg InOut ''Length'' (CPtr ''UINT64'')]"

definition EFI_PCI_ROOT_BRIDGE_IO_PROTOCOL_SET_ATTRIBUTES :: csig where
  "EFI_PCI_ROOT_BRIDGE_IO_PROTOCOL_SET_ATTRIBUTES = Fn (Some EFI_STATUS) [
    Arg In ''This'' (CPtr ''_EFI_PCI_ROOT_BRIDGE_IO_PROTOCOL''), Arg In ''Attributes'' UINT64,
    Arg InOut ''ResourceBase'' (CPtr ''UINT64''), Arg InOut ''ResourceLength'' (CPtr ''UINT64'')]"

definition EFI_PCI_IO_PROTOCOL :: cty where
  "EFI_PCI_IO_PROTOCOL = CStruct [(''PollMem'', CPtr ''EFI_PCI_IO_PROTOCOL_POLL_IO_MEM''),
    (''PollIo'', CPtr ''EFI_PCI_IO_PROTOCOL_POLL_IO_MEM''),
    (''Mem'', EFI_PCI_IO_PROTOCOL_ACCESS), (''Io'', EFI_PCI_IO_PROTOCOL_ACCESS),
    (''Pci'', EFI_PCI_IO_PROTOCOL_CONFIG_ACCESS),
    (''CopyMem'', CPtr ''EFI_PCI_IO_PROTOCOL_COPY_MEM''),
    (''Map'', CPtr ''EFI_PCI_IO_PROTOCOL_MAP''), (''Unmap'', CPtr ''EFI_PCI_IO_PROTOCOL_UNMAP''),
    (''AllocateBuffer'', CPtr ''EFI_PCI_IO_PROTOCOL_ALLOCATE_BUFFER''),
    (''FreeBuffer'', CPtr ''EFI_PCI_IO_PROTOCOL_FREE_BUFFER''),
    (''Flush'', CPtr ''EFI_PCI_IO_PROTOCOL_FLUSH''),
    (''GetLocation'', CPtr ''EFI_PCI_IO_PROTOCOL_GET_LOCATION''),
    (''Attributes'', CPtr ''EFI_PCI_IO_PROTOCOL_ATTRIBUTES''),
    (''GetBarAttributes'', CPtr ''EFI_PCI_IO_PROTOCOL_GET_BAR_ATTRIBUTES''),
    (''SetBarAttributes'', CPtr ''EFI_PCI_IO_PROTOCOL_SET_BAR_ATTRIBUTES''),
    (''RomSize'', UINT64), (''RomImage'', CPtr ''VOID'')]"

definition EFI_PCI_IO :: cty where "EFI_PCI_IO = EFI_PCI_IO_PROTOCOL"

definition EFI_PCI_ROOT_BRIDGE_IO_PROTOCOL :: cty where
  "EFI_PCI_ROOT_BRIDGE_IO_PROTOCOL = CStruct [(''ParentHandle'', EFI_HANDLE),
    (''PollMem'', CPtr ''EFI_PCI_ROOT_BRIDGE_IO_PROTOCOL_POLL_IO_MEM''),
    (''PollIo'', CPtr ''EFI_PCI_ROOT_BRIDGE_IO_PROTOCOL_POLL_IO_MEM''),
    (''Mem'', EFI_PCI_ROOT_BRIDGE_IO_PROTOCOL_ACCESS),
    (''Io'', EFI_PCI_ROOT_BRIDGE_IO_PROTOCOL_ACCESS),
    (''Pci'', EFI_PCI_ROOT_BRIDGE_IO_PROTOCOL_ACCESS),
    (''CopyMem'', CPtr ''EFI_PCI_ROOT_BRIDGE_IO_PROTOCOL_COPY_MEM''),
    (''Map'', CPtr ''EFI_PCI_ROOT_BRIDGE_IO_PROTOCOL_MAP''),
    (''Unmap'', CPtr ''EFI_PCI_ROOT_BRIDGE_IO_PROTOCOL_UNMAP''),
    (''AllocateBuffer'', CPtr ''EFI_PCI_ROOT_BRIDGE_IO_PROTOCOL_ALLOCATE_BUFFER''),
    (''FreeBuffer'', CPtr ''EFI_PCI_ROOT_BRIDGE_IO_PROTOCOL_FREE_BUFFER''),
    (''Flush'', CPtr ''EFI_PCI_ROOT_BRIDGE_IO_PROTOCOL_FLUSH''),
    (''GetAttributes'', CPtr ''EFI_PCI_ROOT_BRIDGE_IO_PROTOCOL_GET_ATTRIBUTES''),
    (''SetAttributes'', CPtr ''EFI_PCI_ROOT_BRIDGE_IO_PROTOCOL_SET_ATTRIBUTES''),
    (''Configuration'', CPtr ''EFI_PCI_ROOT_BRIDGE_IO_PROTOCOL_CONFIGURATION''),
    (''SegmentNumber'', UINT32)]"

section \<open>pci22.h\<close>

definition PCI_MAX_BUS :: u64 where "PCI_MAX_BUS = 255"
definition PCI_MAX_DEVICE :: u64 where "PCI_MAX_DEVICE = 31"
definition PCI_MAX_FUNC :: u64 where "PCI_MAX_FUNC = 7"
definition PCI_VGA_PALETTE_SNOOP_DISABLED :: u64 where "PCI_VGA_PALETTE_SNOOP_DISABLED = 0x20"

definition PCI_DEVICE_INDEPENDENT_REGION :: cty where
  "PCI_DEVICE_INDEPENDENT_REGION = CPacked [(''VendorId'', UINT16), (''DeviceId'', UINT16),
    (''Command'', UINT16), (''Status'', UINT16), (''RevisionID'', UINT8),
    (''ClassCode'', CArr UINT8 3), (''CacheLineSize'', UINT8), (''LaytencyTimer'', UINT8),
    (''HeaderType'', UINT8), (''BIST'', UINT8)]"

definition PCI_DEVICE_HEADER_TYPE_REGION :: cty where
  "PCI_DEVICE_HEADER_TYPE_REGION = CPacked [(''Bar'', CArr UINT32 6), (''CISPtr'', UINT32),
    (''SubsystemVendorID'', UINT16), (''SubsystemID'', UINT16), (''ExpansionRomBar'', UINT32),
    (''Reserved'', CArr UINT32 2), (''InterruptLine'', UINT8), (''InterruptPin'', UINT8),
    (''MinGnt'', UINT8), (''MaxLat'', UINT8)]"

definition PCI_TYPE00 :: cty where
  "PCI_TYPE00 = CPacked [(''Hdr'', PCI_DEVICE_INDEPENDENT_REGION),
    (''Device'', PCI_DEVICE_HEADER_TYPE_REGION)]"

definition PCI_BRIDGE_CONTROL_REGISTER :: cty where
  "PCI_BRIDGE_CONTROL_REGISTER = CPacked [(''Bar'', CArr UINT32 2), (''PrimaryBus'', UINT8),
    (''SecondaryBus'', UINT8), (''SubordinateBus'', UINT8), (''SecondaryLatencyTimer'', UINT8),
    (''IoBase'', UINT8), (''IoLimit'', UINT8), (''SecondaryStatus'', UINT16),
    (''MemoryBase'', UINT16), (''MemoryLimit'', UINT16), (''PrefetchableMemoryBase'', UINT16),
    (''PrefetchableMemoryLimit'', UINT16), (''PrefetchableBaseUpper32'', UINT32),
    (''PrefetchableLimitUpper32'', UINT32), (''IoBaseUpper16'', UINT16),
    (''IoLimitUpper16'', UINT16), (''Reserved'', UINT32), (''ExpansionRomBAR'', UINT32),
    (''InterruptLine'', UINT8), (''InterruptPin'', UINT8), (''BridgeControl'', UINT16)]"

definition PCI_CLASS_DISPLAY_CTRL :: u64 where "PCI_CLASS_DISPLAY_CTRL = 0x03"
definition PCI_CLASS_VGA :: u64 where "PCI_CLASS_VGA = 0x00"
definition PCI_CLASS_BRIDGE :: u64 where "PCI_CLASS_BRIDGE = 0x06"
definition PCI_CLASS_ISA :: u64 where "PCI_CLASS_ISA = 0x01"
definition PCI_CLASS_ISA_POSITIVE_DECODE :: u64 where "PCI_CLASS_ISA_POSITIVE_DECODE = 0x80"
definition PCI_CLASS_NETWORK :: u64 where "PCI_CLASS_NETWORK = 0x02"
definition PCI_CLASS_ETHERNET :: u64 where "PCI_CLASS_ETHERNET = 0x00"
definition HEADER_TYPE_DEVICE :: u64 where "HEADER_TYPE_DEVICE = 0x00"
definition HEADER_TYPE_PCI_TO_PCI_BRIDGE :: u64 where "HEADER_TYPE_PCI_TO_PCI_BRIDGE = 0x01"
definition HEADER_TYPE_MULTI_FUNCTION :: u64 where "HEADER_TYPE_MULTI_FUNCTION = 0x80"
definition HEADER_LAYOUT_CODE :: u64 where "HEADER_LAYOUT_CODE = 0x7f"

definition PCI_TYPE01 :: cty where
  "PCI_TYPE01 = CPacked [(''Hdr'', PCI_DEVICE_INDEPENDENT_REGION),
    (''Bridge'', PCI_BRIDGE_CONTROL_REGISTER)]"

definition DEFIO_PCI_ADDR :: cty where
  "DEFIO_PCI_ADDR = CPacked [(''Register'', UINT8), (''Function'', UINT8), (''Device'', UINT8),
    (''Bus'', UINT8), (''Reserved'', CArr UINT8 4)]"

definition PCI_CONFIG_ACCESS_CF8 :: cty where
  "PCI_CONFIG_ACCESS_CF8 = CPacked [(''Reg:8 Func:3 Dev:5 Bus:8 Reserved:7 Enable:1'', UINT32)]"

definition PCI_ROOT_BRIDGE_ENTRY :: cty where
  "PCI_ROOT_BRIDGE_ENTRY = CStruct [(''Signature'', UINTN), (''BridgeNumber'', UINT16),
    (''PrimaryBus'', UINT16), (''SubordinateBus'', UINT16),
    (''DevicePath'', CPtr ''EFI_DEVICE_PATH''), (''Link'', EFI_LIST_ENTRY)]"

definition PCI_EXPANSION_ROM_HEADER_SIGNATURE :: u64 where
  "PCI_EXPANSION_ROM_HEADER_SIGNATURE = 0xaa55"

definition EFI_PCI_EXPANSION_ROM_HEADER_EFISIGNATURE :: u64 where
  "EFI_PCI_EXPANSION_ROM_HEADER_EFISIGNATURE = 0x0EF1"

definition PCI_DATA_STRUCTURE_SIGNATURE :: u64 where
  "PCI_DATA_STRUCTURE_SIGNATURE = ucast (EFI_SIGNATURE_32 80 67 73 82)"

definition PCI_EXPANSION_ROM_HEADER :: cty where
  "PCI_EXPANSION_ROM_HEADER = CPacked [(''Signature'', UINT16), (''Reserved'', CArr UINT8 0x16),
    (''PcirOffset'', UINT16)]"

definition EFI_PCI_EXPANSION_ROM_HEADER :: cty where
  "EFI_PCI_EXPANSION_ROM_HEADER = CPacked [(''Signature'', UINT16),
    (''InitializationSize'', UINT16), (''EfiSignature'', UINT16), (''EfiSubsystem'', UINT16),
    (''EfiMachineType'', UINT16), (''Reserved'', CArr UINT8 0x0A),
    (''EfiImageHeaderOffset'', UINT16), (''PcirOffset'', UINT16)]"

definition PCI_DATA_STRUCTURE :: cty where
  "PCI_DATA_STRUCTURE = CPacked [(''Signature'', UINT32), (''VendorId'', UINT16),
    (''DeviceId'', UINT16), (''Reserved0'', UINT16), (''Length'', UINT16), (''Revision'', UINT8),
    (''ClassCode'', CArr UINT8 3), (''ImageLength'', UINT16), (''CodeRevision'', UINT16),
    (''CodeType'', UINT8), (''Indicator'', UINT8), (''Reserved1'', UINT16)]"

section \<open>efiser.h\<close>

definition EFI_SERIAL_IO_PROTOCOL_GUID :: guid where
  "EFI_SERIAL_IO_PROTOCOL_GUID = GUID 0xBB25CF6F 0xF1D4 0x11D2 [0x9A, 0x0C, 0x00, 0x90, 0x27, 0x3F, 0xC1, 0xFD]"

definition SERIAL_IO_PROTOCOL :: guid where "SERIAL_IO_PROTOCOL = EFI_SERIAL_IO_PROTOCOL_GUID"
definition EFI_PARITY_TYPE :: cty where "EFI_PARITY_TYPE = C32"
definition DefaultParity :: u32 where "DefaultParity = 0"
definition NoParity :: u32 where "NoParity = 1"
definition EvenParity :: u32 where "EvenParity = 2"
definition OddParity :: u32 where "OddParity = 3"
definition MarkParity :: u32 where "MarkParity = 4"
definition SpaceParity :: u32 where "SpaceParity = 5"
definition EFI_STOP_BITS_TYPE :: cty where "EFI_STOP_BITS_TYPE = C32"
definition DefaultStopBits :: u32 where "DefaultStopBits = 0"
definition OneStopBit :: u32 where "OneStopBit = 1"
definition OneFiveStopBits :: u32 where "OneFiveStopBits = 2"
definition TwoStopBits :: u32 where "TwoStopBits = 3"
definition EFI_SERIAL_CLEAR_TO_SEND :: u64 where "EFI_SERIAL_CLEAR_TO_SEND = 0x0010"
definition EFI_SERIAL_DATA_SET_READY :: u64 where "EFI_SERIAL_DATA_SET_READY = 0x0020"
definition EFI_SERIAL_RING_INDICATE :: u64 where "EFI_SERIAL_RING_INDICATE = 0x0040"
definition EFI_SERIAL_CARRIER_DETECT :: u64 where "EFI_SERIAL_CARRIER_DETECT = 0x0080"
definition EFI_SERIAL_REQUEST_TO_SEND :: u64 where "EFI_SERIAL_REQUEST_TO_SEND = 0x0002"
definition EFI_SERIAL_DATA_TERMINAL_READY :: u64 where "EFI_SERIAL_DATA_TERMINAL_READY = 0x0001"
definition EFI_SERIAL_INPUT_BUFFER_EMPTY :: u64 where "EFI_SERIAL_INPUT_BUFFER_EMPTY = 0x0100"
definition EFI_SERIAL_OUTPUT_BUFFER_EMPTY :: u64 where "EFI_SERIAL_OUTPUT_BUFFER_EMPTY = 0x0200"
definition EFI_SERIAL_HARDWARE_LOOPBACK_ENABLE :: u64 where
  "EFI_SERIAL_HARDWARE_LOOPBACK_ENABLE = 0x1000"

definition EFI_SERIAL_SOFTWARE_LOOPBACK_ENABLE :: u64 where
  "EFI_SERIAL_SOFTWARE_LOOPBACK_ENABLE = 0x2000"

definition EFI_SERIAL_HARDWARE_FLOW_CONTROL_ENABLE :: u64 where
  "EFI_SERIAL_HARDWARE_FLOW_CONTROL_ENABLE = 0x4000"

definition EFI_SERIAL_RESET :: csig where
  "EFI_SERIAL_RESET = Fn (Some EFI_STATUS) [Arg In ''This'' (CPtr ''_EFI_SERIAL_IO_PROTOCOL'')]"

definition EFI_SERIAL_SET_ATTRIBUTES :: csig where
  "EFI_SERIAL_SET_ATTRIBUTES = Fn (Some EFI_STATUS) [
    Arg In ''This'' (CPtr ''_EFI_SERIAL_IO_PROTOCOL''), Arg In ''BaudRate'' UINT64,
    Arg In ''ReceiveFifoDepth'' UINT32, Arg In ''Timeout'' UINT32,
    Arg In ''Parity'' EFI_PARITY_TYPE, Arg In ''DataBits'' UINT8,
    Arg In ''StopBits'' EFI_STOP_BITS_TYPE]"

definition EFI_SERIAL_SET_CONTROL_BITS :: csig where
  "EFI_SERIAL_SET_CONTROL_BITS = Fn (Some EFI_STATUS) [
    Arg In ''This'' (CPtr ''_EFI_SERIAL_IO_PROTOCOL''), Arg In ''Control'' UINT32]"

definition EFI_SERIAL_GET_CONTROL_BITS :: csig where
  "EFI_SERIAL_GET_CONTROL_BITS = Fn (Some EFI_STATUS) [
    Arg In ''This'' (CPtr ''_EFI_SERIAL_IO_PROTOCOL''), Arg Out ''Control'' (CPtr ''UINT32'')]"

definition EFI_SERIAL_WRITE :: csig where
  "EFI_SERIAL_WRITE = Fn (Some EFI_STATUS) [Arg In ''This'' (CPtr ''_EFI_SERIAL_IO_PROTOCOL''),
    Arg InOut ''BufferSize'' (CPtr ''UINTN''), Arg In ''Buffer'' (CPtr ''VOID'')]"

definition EFI_SERIAL_READ :: csig where
  "EFI_SERIAL_READ = Fn (Some EFI_STATUS) [Arg In ''This'' (CPtr ''_EFI_SERIAL_IO_PROTOCOL''),
    Arg InOut ''BufferSize'' (CPtr ''UINTN''), Arg Out ''Buffer'' (CPtr ''VOID'')]"

definition SERIAL_IO_MODE :: cty where
  "SERIAL_IO_MODE = CStruct [(''ControlMask'', UINT32), (''Timeout'', UINT32),
    (''BaudRate'', UINT64), (''ReceiveFifoDepth'', UINT32), (''DataBits'', UINT32),
    (''Parity'', UINT32), (''StopBits'', UINT32)]"

definition SERIAL_IO_INTERFACE_REVISION :: u64 where "SERIAL_IO_INTERFACE_REVISION = 0x00010000"

definition EFI_SERIAL_IO_PROTOCOL :: cty where
  "EFI_SERIAL_IO_PROTOCOL = CStruct [(''Revision'', UINT32),
    (''Reset'', CPtr ''EFI_SERIAL_RESET''),
    (''SetAttributes'', CPtr ''EFI_SERIAL_SET_ATTRIBUTES''),
    (''SetControl'', CPtr ''EFI_SERIAL_SET_CONTROL_BITS''),
    (''GetControl'', CPtr ''EFI_SERIAL_GET_CONTROL_BITS''),
    (''Write'', CPtr ''EFI_SERIAL_WRITE''), (''Read'', CPtr ''EFI_SERIAL_READ''),
    (''Mode'', CPtr ''SERIAL_IO_MODE'')]"

definition SERIAL_IO_INTERFACE :: cty where "SERIAL_IO_INTERFACE = EFI_SERIAL_IO_PROTOCOL"

section \<open>efipart.h\<close>

definition EFI_PARTITION :: u64 where "EFI_PARTITION = 0xef"
definition MBR_SIZE :: u64 where "MBR_SIZE = 512"

definition MBR_PARTITION_RECORD :: cty where
  "MBR_PARTITION_RECORD = CPacked [(''BootIndicator'', UINT8), (''StartHead'', UINT8),
    (''StartSector'', UINT8), (''StartTrack'', UINT8), (''OSIndicator'', UINT8),
    (''EndHead'', UINT8), (''EndSector'', UINT8), (''EndTrack'', UINT8),
    (''StartingLBA'', CArr UINT8 4), (''SizeInLBA'', CArr UINT8 4)]"

definition MBR_SIGNATURE :: u64 where "MBR_SIGNATURE = 0xaa55"
definition MIN_MBR_DEVICE_SIZE :: u64 where "MIN_MBR_DEVICE_SIZE = 0x80000"
definition MBR_ERRATA_PAD :: u64 where "MBR_ERRATA_PAD = 0x40000"
definition MAX_MBR_PARTITIONS :: u64 where "MAX_MBR_PARTITIONS = 4"

definition MASTER_BOOT_RECORD :: cty where
  "MASTER_BOOT_RECORD = CPacked [(''BootStrapCode'', CArr UINT8 440),
    (''UniqueMbrSignature'', CArr UINT8 4), (''Unknown'', CArr UINT8 2),
    (''Partition'', CArr MBR_PARTITION_RECORD (unat MAX_MBR_PARTITIONS)), (''Signature'', UINT16)]"

section \<open>efigpt.h\<close>

definition PRIMARY_PART_HEADER_LBA :: u64 where "PRIMARY_PART_HEADER_LBA = 1"

definition EFI_PARTITION_TABLE_HEADER :: cty where
  "EFI_PARTITION_TABLE_HEADER = CStruct [(''Header'', EFI_TABLE_HEADER), (''MyLBA'', EFI_LBA),
    (''AlternateLBA'', EFI_LBA), (''FirstUsableLBA'', EFI_LBA), (''LastUsableLBA'', EFI_LBA),
    (''DiskGUID'', EFI_GUID), (''PartitionEntryLBA'', EFI_LBA),
    (''NumberOfPartitionEntries'', UINT32), (''SizeOfPartitionEntry'', UINT32),
    (''PartitionEntryArrayCRC32'', UINT32)]"

definition EFI_PTAB_HEADER_ID :: string where "EFI_PTAB_HEADER_ID = ''EFI PART''"

definition EFI_PARTITION_ENTRY :: cty where
  "EFI_PARTITION_ENTRY = CStruct [(''PartitionTypeGUID'', EFI_GUID),
    (''UniquePartitionGUID'', EFI_GUID), (''StartingLBA'', EFI_LBA), (''EndingLBA'', EFI_LBA),
    (''Attributes'', UINT64), (''PartitionName'', CArr CHAR16 36)]"

definition EFI_PART_USED_BY_EFI :: u64 where "EFI_PART_USED_BY_EFI = 0x0000000000000001"
definition EFI_PART_REQUIRED_TO_FUNCTION :: u64 where
  "EFI_PART_REQUIRED_TO_FUNCTION = 0x0000000000000002"

definition EFI_PART_USED_BY_OS :: u64 where "EFI_PART_USED_BY_OS = 0x0000000000000004"
definition EFI_PART_REQUIRED_BY_OS :: u64 where "EFI_PART_REQUIRED_BY_OS = 0x0000000000000008"
definition EFI_PART_BACKUP_REQUIRED :: u64 where "EFI_PART_BACKUP_REQUIRED = 0x0000000000000010"
definition EFI_PART_USER_DATA :: u64 where "EFI_PART_USER_DATA = 0x0000000000000020"
definition EFI_PART_CRITICAL_USER_DATA :: u64 where
  "EFI_PART_CRITICAL_USER_DATA = 0x0000000000000040"

definition EFI_PART_REDUNDANT_PARTITION :: u64 where
  "EFI_PART_REDUNDANT_PARTITION = 0x0000000000000080"

definition EFI_PART_TYPE_UNUSED_GUID :: guid where
  "EFI_PART_TYPE_UNUSED_GUID = GUID 0x00000000 0x0000 0x0000 [0x00, 0x00, 0x00, 0x00, 0x00, 0x00, 0x00, 0x00]"

definition EFI_PART_TYPE_EFI_SYSTEM_PART_GUID :: guid where
  "EFI_PART_TYPE_EFI_SYSTEM_PART_GUID = GUID 0xC12A7328 0xF81F 0x11D2 [0xBA, 0x4B, 0x00, 0xA0, 0xC9, 0x3E, 0xC9, 0x3B]"

definition EFI_PART_TYPE_LEGACY_MBR_GUID :: guid where
  "EFI_PART_TYPE_LEGACY_MBR_GUID = GUID 0x024DEE41 0x33E7 0x11D3 [0x9D, 0x69, 0x00, 0x08, 0xC7, 0x81, 0xF3, 0x9F]"

section \<open>eficonex.h\<close>

definition EFI_SIMPLE_TEXT_INPUT_EX_PROTOCOL_GUID :: guid where
  "EFI_SIMPLE_TEXT_INPUT_EX_PROTOCOL_GUID = GUID 0xDD9E7534 0x7762 0x4698 [0x8C, 0x14, 0xF5, 0x85, 0x17, 0xA6, 0x25, 0xAA]"

definition EFI_KEY_TOGGLE_STATE :: cty where "EFI_KEY_TOGGLE_STATE = UINT8"

definition EFI_KEY_STATE :: cty where
  "EFI_KEY_STATE = CStruct [(''KeyShiftState'', UINT32),
    (''KeyToggleState'', EFI_KEY_TOGGLE_STATE)]"

definition EFI_KEY_DATA :: cty where
  "EFI_KEY_DATA = CStruct [(''Key'', EFI_INPUT_KEY), (''KeyState'', EFI_KEY_STATE)]"

definition EFI_SHIFT_STATE_VALID :: u64 where "EFI_SHIFT_STATE_VALID = 0x80000000"
definition EFI_RIGHT_SHIFT_PRESSED :: u64 where "EFI_RIGHT_SHIFT_PRESSED = 0x00000001"
definition EFI_LEFT_SHIFT_PRESSED :: u64 where "EFI_LEFT_SHIFT_PRESSED = 0x00000002"
definition EFI_RIGHT_CONTROL_PRESSED :: u64 where "EFI_RIGHT_CONTROL_PRESSED = 0x00000004"
definition EFI_LEFT_CONTROL_PRESSED :: u64 where "EFI_LEFT_CONTROL_PRESSED = 0x00000008"
definition EFI_RIGHT_ALT_PRESSED :: u64 where "EFI_RIGHT_ALT_PRESSED = 0x00000010"
definition EFI_LEFT_ALT_PRESSED :: u64 where "EFI_LEFT_ALT_PRESSED = 0x00000020"
definition EFI_RIGHT_LOGO_PRESSED :: u64 where "EFI_RIGHT_LOGO_PRESSED = 0x00000040"
definition EFI_LEFT_LOGO_PRESSED :: u64 where "EFI_LEFT_LOGO_PRESSED = 0x00000080"
definition EFI_MENU_KEY_PRESSED :: u64 where "EFI_MENU_KEY_PRESSED = 0x00000100"
definition EFI_SYS_REQ_PRESSED :: u64 where "EFI_SYS_REQ_PRESSED = 0x00000200"
definition EFI_TOGGLE_STATE_VALID :: u64 where "EFI_TOGGLE_STATE_VALID = 0x80"
definition EFI_KEY_STATE_EXPOSED :: u64 where "EFI_KEY_STATE_EXPOSED = 0x40"
definition EFI_SCROLL_LOCK_ACTIVE :: u64 where "EFI_SCROLL_LOCK_ACTIVE = 0x01"
definition EFI_NUM_LOCK_ACTIVE :: u64 where "EFI_NUM_LOCK_ACTIVE = 0x02"
definition EFI_CAPS_LOCK_ACTIVE :: u64 where "EFI_CAPS_LOCK_ACTIVE = 0x04"

definition EFI_INPUT_RESET_EX :: csig where
  "EFI_INPUT_RESET_EX = Fn (Some EFI_STATUS) [
    Arg In ''This'' (CPtr ''_EFI_SIMPLE_TEXT_INPUT_EX_PROTOCOL''),
    Arg In ''ExtendedVerification'' BOOLEAN]"

definition EFI_INPUT_READ_KEY_EX :: csig where
  "EFI_INPUT_READ_KEY_EX = Fn (Some EFI_STATUS) [
    Arg In ''This'' (CPtr ''_EFI_SIMPLE_TEXT_INPUT_EX_PROTOCOL''),
    Arg Out ''KeyData'' (CPtr ''EFI_KEY_DATA'')]"

definition EFI_SET_STATE :: csig where
  "EFI_SET_STATE = Fn (Some EFI_STATUS) [
    Arg In ''This'' (CPtr ''_EFI_SIMPLE_TEXT_INPUT_EX_PROTOCOL''),
    Arg In ''KeyToggleState'' (CPtr ''EFI_KEY_TOGGLE_STATE'')]"

definition EFI_KEY_NOTIFY_FUNCTION :: csig where
  "EFI_KEY_NOTIFY_FUNCTION = Fn (Some EFI_STATUS) [Arg In ''KeyData'' (CPtr ''EFI_KEY_DATA'')]"

definition EFI_REGISTER_KEYSTROKE_NOTIFY :: csig where
  "EFI_REGISTER_KEYSTROKE_NOTIFY = Fn (Some EFI_STATUS) [
    Arg In ''This'' (CPtr ''_EFI_SIMPLE_TEXT_INPUT_EX_PROTOCOL''),
    Arg In ''KeyData'' (CPtr ''EFI_KEY_DATA''),
    Arg In ''KeyNotificationFunction'' (CPtr ''EFI_KEY_NOTIFY_FUNCTION''),
    Arg Out ''NotifyHandle'' (CPtr ''VOID *'')]"

definition EFI_UNREGISTER_KEYSTROKE_NOTIFY :: csig where
  "EFI_UNREGISTER_KEYSTROKE_NOTIFY = Fn (Some EFI_STATUS) [
    Arg In ''This'' (CPtr ''_EFI_SIMPLE_TEXT_INPUT_EX_PROTOCOL''),
    Arg In ''NotificationHandle'' (CPtr ''VOID'')]"

definition EFI_SIMPLE_TEXT_INPUT_EX_PROTOCOL :: cty where
  "EFI_SIMPLE_TEXT_INPUT_EX_PROTOCOL = CStruct [(''Reset'', CPtr ''EFI_INPUT_RESET_EX''),
    (''ReadKeyStrokeEx'', CPtr ''EFI_INPUT_READ_KEY_EX''), (''WaitForKeyEx'', EFI_EVENT),
    (''SetState'', CPtr ''EFI_SET_STATE''),
    (''RegisterKeyNotify'', CPtr ''EFI_REGISTER_KEYSTROKE_NOTIFY''),
    (''UnregisterKeyNotify'', CPtr ''EFI_UNREGISTER_KEYSTROKE_NOTIFY'')]"

section \<open>efipoint.h\<close>

definition EFI_SIMPLE_POINTER_PROTOCOL_GUID :: guid where
  "EFI_SIMPLE_POINTER_PROTOCOL_GUID = GUID 0x31878C87 0xB75 0x11D5 [0x9A, 0x4F, 0x0, 0x90, 0x27, 0x3F, 0xC1, 0x4D]"

definition EFI_SIMPLE_POINTER_STATE :: cty where
  "EFI_SIMPLE_POINTER_STATE = CStruct [(''RelativeMovementX'', INT32),
    (''RelativeMovementY'', INT32), (''RelativeMovementZ'', INT32), (''LeftButton'', BOOLEAN),
    (''RightButton'', BOOLEAN)]"

definition EFI_SIMPLE_POINTER_MODE :: cty where
  "EFI_SIMPLE_POINTER_MODE = CStruct [(''ResolutionX'', UINT64), (''ResolutionY'', UINT64),
    (''ResolutionZ'', UINT64), (''LeftButton'', BOOLEAN), (''RightButton'', BOOLEAN)]"

definition EFI_SIMPLE_POINTER_RESET :: csig where
  "EFI_SIMPLE_POINTER_RESET = Fn (Some EFI_STATUS) [Arg In ''This'' (CPtr ''_EFI_SIMPLE_POINTER''),
    Arg In ''ExtendedVerification'' BOOLEAN]"

definition EFI_SIMPLE_POINTER_GET_STATE :: csig where
  "EFI_SIMPLE_POINTER_GET_STATE = Fn (Some EFI_STATUS) [
    Arg In ''This'' (CPtr ''_EFI_SIMPLE_POINTER''),
    Arg InOut ''State'' (CPtr ''EFI_SIMPLE_POINTER_STATE'')]"

definition EFI_SIMPLE_POINTER_PROTOCOL :: cty where
  "EFI_SIMPLE_POINTER_PROTOCOL = CStruct [(''Reset'', CPtr ''EFI_SIMPLE_POINTER_RESET''),
    (''GetState'', CPtr ''EFI_SIMPLE_POINTER_GET_STATE''), (''WaitForInput'', EFI_EVENT),
    (''Mode'', CPtr ''EFI_SIMPLE_POINTER_MODE'')]"

definition EFI_ABSOLUTE_POINTER_PROTOCOL_GUID :: guid where
  "EFI_ABSOLUTE_POINTER_PROTOCOL_GUID = GUID 0x8D59D32B 0xC655 0x4AE9 [0x9B, 0x15, 0xF2, 0x59, 0x04, 0x99, 0x2A, 0x43]"

definition EFI_ABSOLUTE_POINTER_MODE :: cty where
  "EFI_ABSOLUTE_POINTER_MODE = CStruct [(''AbsoluteMinX'', UINT64), (''AbsoluteMinY'', UINT64),
    (''AbsoluteMinZ'', UINT64), (''AbsoluteMaxX'', UINT64), (''AbsoluteMaxY'', UINT64),
    (''AbsoluteMaxZ'', UINT64), (''Attributes'', UINT32)]"

definition EFI_ABSOLUTE_POINTER_STATE :: cty where
  "EFI_ABSOLUTE_POINTER_STATE = CStruct [(''CurrentX'', UINT64), (''CurrentY'', UINT64),
    (''CurrentZ'', UINT64), (''ActiveButtons'', UINT32)]"

definition EFI_ABSP_SupportsAltActive :: u64 where "EFI_ABSP_SupportsAltActive = 0x00000001"
definition EFI_ABSP_SupportsPressureAsZ :: u64 where "EFI_ABSP_SupportsPressureAsZ = 0x00000002"
definition EFI_ABSP_TouchActive :: u64 where "EFI_ABSP_TouchActive = 0x00000001"
definition EFI_ABS_AltActive :: u64 where "EFI_ABS_AltActive = 0x00000002"

definition EFI_ABSOLUTE_POINTER_RESET :: csig where
  "EFI_ABSOLUTE_POINTER_RESET = Fn (Some EFI_STATUS) [
    Arg In ''This'' (CPtr ''_EFI_ABSOLUTE_POINTER_PROTOCOL''),
    Arg In ''ExtendedVerification'' BOOLEAN]"

definition EFI_ABSOLUTE_POINTER_GET_STATE :: csig where
  "EFI_ABSOLUTE_POINTER_GET_STATE = Fn (Some EFI_STATUS) [
    Arg In ''This'' (CPtr ''_EFI_ABSOLUTE_POINTER_PROTOCOL''),
    Arg InOut ''State'' (CPtr ''EFI_ABSOLUTE_POINTER_STATE'')]"

definition EFI_ABSOLUTE_POINTER_PROTOCOL :: cty where
  "EFI_ABSOLUTE_POINTER_PROTOCOL = CStruct [(''Reset'', CPtr ''EFI_ABSOLUTE_POINTER_RESET''),
    (''GetState'', CPtr ''EFI_ABSOLUTE_POINTER_GET_STATE''), (''WaitForInput'', EFI_EVENT),
    (''Mode'', CPtr ''EFI_ABSOLUTE_POINTER_MODE'')]"

section \<open>efiui.h\<close>

definition EFI_UI_INTERFACE_PROTOCOL_GUID :: guid where
  "EFI_UI_INTERFACE_PROTOCOL_GUID = GUID 0x32DD7981 0x2D27 0x11D4 [0xBC, 0x8B, 0x0, 0x80, 0xC7, 0x3C, 0x88, 0x81]"

definition EFI_UI_PROTOCOL :: guid where "EFI_UI_PROTOCOL = EFI_UI_INTERFACE_PROTOCOL_GUID"
definition UI_STRING_TYPE :: cty where "UI_STRING_TYPE = C32"
definition UiDeviceString :: u32 where "UiDeviceString = 0"
definition UiVendorString :: u32 where "UiVendorString = 1"
definition UiMaxString :: u32 where "UiMaxString = 2"

definition UI_STRING_ENTRY :: cty where
  "UI_STRING_ENTRY = CStruct [(''LangCode'', CPtr ''ISO_639_2''), (''UiString'', CPtr ''CHAR16'')]"

definition EFI_UI_INTERFACE_PROTOCOL_VERSION :: u64 where
  "EFI_UI_INTERFACE_PROTOCOL_VERSION = 0x00010000"

definition EFI_UI_VERSION :: u64 where "EFI_UI_VERSION = EFI_UI_INTERFACE_PROTOCOL_VERSION"

definition EFI_UI_INTERFACE_PROTOCOL :: cty where
  "EFI_UI_INTERFACE_PROTOCOL = CStruct [(''Version'', UINT32),
    (''Entry'', CPtr ''UI_STRING_ENTRY'')]"

definition UI_INTERFACE :: cty where "UI_INTERFACE = EFI_UI_INTERFACE_PROTOCOL"

section \<open>romload.h\<close>

definition ROM_SIGNATURE :: u64 where "ROM_SIGNATURE = 0xaa55"
definition PCIDS_SIGNATURE :: string where "PCIDS_SIGNATURE = ''PCIR''"

definition PciDataStructure :: cty where
  "PciDataStructure = CPacked [(''Pcids_Sig'', CArr UINT8 4), (''VendId'', UINT16),
    (''DevId'', UINT16), (''Vpd_Off'', UINT16), (''Size'', UINT16), (''Rev'', UINT8),
    (''Class_Code'', CArr UINT8 3), (''Image_Len'', UINT16), (''Rev_Lvl'', UINT16),
    (''Code_Type'', UINT8), (''Indi'', UINT8), (''Rsvd'', UINT16)]"

definition ArchData :: cty where
  "ArchData = CPacked [(''Size'', UINT16), (''Header_Sig'', UINT32), (''SubSystem'', UINT16),
    (''MachineType'', UINT16), (''Resvd'', CArr UINT8 10), (''EfiOffset'', UINT16)]"

definition RomHeader :: cty where
  "RomHeader = CPacked [(''Rom_Sig'', UINT16), (''Arch_Data'', ArchData),
    (''Pcids_Off'', UINT16), (''resvd'', CArr UINT8 38)]"

section \<open>libsmbios.h\<close>

definition SMBIOS_STRUCTURE_TABLE :: cty where
  "SMBIOS_STRUCTURE_TABLE = CPacked [(''AnchorString'', CArr UINT8 4),
    (''EntryPointStructureChecksum'', UINT8), (''EntryPointLength'', UINT8),
    (''MajorVersion'', UINT8), (''MinorVersion'', UINT8), (''MaxStructureSize'', UINT16),
    (''EntryPointRevision'', UINT8), (''FormattedArea'', CArr UINT8 5),
    (''IntermediateAnchorString'', CArr UINT8 5), (''IntermediateChecksum'', UINT8),
    (''TableLength'', UINT16), (''TableAddress'', UINT32),
    (''NumberOfSmbiosStructures'', UINT16), (''SmbiosBcdRevision'', UINT8)]"

definition SMBIOS3_STRUCTURE_TABLE :: cty where
  "SMBIOS3_STRUCTURE_TABLE = CPacked [(''AnchorString'', CArr UINT8 5),
    (''EntryPointStructureChecksum'', UINT8), (''EntryPointLength'', UINT8),
    (''MajorVersion'', UINT8), (''MinorVersion'', UINT8), (''DocRev'', UINT8),
    (''EntryPointRevision'', UINT8), (''Reserved'', UINT8), (''TableMaximumSize'', UINT32),
    (''TableAddress'', UINT64)]"

definition SMBIOS_HEADER :: cty where
  "SMBIOS_HEADER = CPacked [(''Type'', UINT8), (''Length'', UINT8), (''Handle'', CArr UINT8 2)]"

definition SMBIOS_STRING :: cty where "SMBIOS_STRING = UINT8"

definition SMBIOS_TYPE0 :: cty where
  "SMBIOS_TYPE0 = CPacked [(''Hdr'', SMBIOS_HEADER), (''Vendor'', SMBIOS_STRING),
    (''BiosVersion'', SMBIOS_STRING), (''BiosSegment'', CArr UINT8 2),
    (''BiosReleaseDate'', SMBIOS_STRING), (''BiosSize'', UINT8),
    (''BiosCharacteristics'', CArr UINT8 8)]"

definition SMBIOS_TYPE1 :: cty where
  "SMBIOS_TYPE1 = CPacked [(''Hdr'', SMBIOS_HEADER), (''Manufacturer'', SMBIOS_STRING),
    (''ProductName'', SMBIOS_STRING), (''Version'', SMBIOS_STRING),
    (''SerialNumber'', SMBIOS_STRING), (''Uuid'', EFI_GUID), (''WakeUpType'', UINT8)]"

definition SMBIOS_TYPE2 :: cty where
  "SMBIOS_TYPE2 = CPacked [(''Hdr'', SMBIOS_HEADER), (''Manufacturer'', SMBIOS_STRING),
    (''ProductName'', SMBIOS_STRING), (''Version'', SMBIOS_STRING),
    (''SerialNumber'', SMBIOS_STRING)]"

definition SMBIOS_TYPE3 :: cty where
  "SMBIOS_TYPE3 = CPacked [(''Hdr'', SMBIOS_HEADER), (''Manufacturer'', SMBIOS_STRING),
    (''Type'', UINT8), (''Version'', SMBIOS_STRING), (''SerialNumber'', SMBIOS_STRING),
    (''AssetTag'', SMBIOS_STRING), (''BootupState'', UINT8), (''PowerSupplyState'', UINT8),
    (''ThermalState'', UINT8), (''SecurityStatus'', UINT8), (''OemDefined'', CArr UINT8 4)]"

definition SMBIOS_TYPE4 :: cty where
  "SMBIOS_TYPE4 = CPacked [(''Hdr'', SMBIOS_HEADER), (''Socket'', UINT8),
    (''ProcessorType'', UINT8), (''ProcessorFamily'', UINT8),
    (''ProcessorManufacture'', SMBIOS_STRING), (''ProcessorId'', CArr UINT8 8),
    (''ProcessorVersion'', SMBIOS_STRING), (''Voltage'', UINT8),
    (''ExternalClock'', CArr UINT8 2), (''MaxSpeed'', CArr UINT8 2),
    (''CurrentSpeed'', CArr UINT8 2), (''Status'', UINT8), (''ProcessorUpgrade'', UINT8),
    (''L1CacheHandle'', CArr UINT8 2), (''L2CacheHandle'', CArr UINT8 2),
    (''L3CacheHandle'', CArr UINT8 2)]"

definition SMBIOS_STRUCTURE_POINTER :: cty where
  "SMBIOS_STRUCTURE_POINTER = CUnion [(''Hdr'', CPtr ''SMBIOS_HEADER''),
    (''Type0'', CPtr ''SMBIOS_TYPE0''), (''Type1'', CPtr ''SMBIOS_TYPE1''),
    (''Type2'', CPtr ''SMBIOS_TYPE2''), (''Type3'', CPtr ''SMBIOS_TYPE3''),
    (''Type4'', CPtr ''SMBIOS_TYPE4''), (''Raw'', CPtr ''UINT8'')]"

section \<open>intload.h\<close>

definition INTERNAL_SHELL_GUID :: guid where
  "INTERNAL_SHELL_GUID = GUID 0xD65A6B8C 0x71E5 0x4DF0 [0xA9, 0x09, 0xF0, 0xD2, 0x99, 0x2B, 0x5A, 0xA9]"

section \<open>adapterdebug.h\<close>

definition ADAPTER_DEBUG_PROTOCOL :: guid where
  "ADAPTER_DEBUG_PROTOCOL = GUID 0x82F86881 0x282B 0x11D4 [0xBC, 0x7D, 0x0, 0x80, 0xC7, 0x3C, 0x88, 0x81]"

section \<open>eficonsplit.h\<close>

definition TEXT_OUT_SPLITER_PROTOCOL :: guid where
  "TEXT_OUT_SPLITER_PROTOCOL = GUID 0x56D830A0 0x7E7A 0x11D3 [0xBB, 0xA0, 0x0, 0xA0, 0xC9, 0x69, 0x72, 0x3B]"

definition ERROR_OUT_SPLITER_PROTOCOL :: guid where
  "ERROR_OUT_SPLITER_PROTOCOL = GUID 0xF0BA9039 0x68F1 0x425E [0xAA, 0x7F, 0xD9, 0xAA, 0xF9, 0x1B, 0x82, 0xA1]"

definition TEXT_IN_SPLITER_PROTOCOL :: guid where
  "TEXT_IN_SPLITER_PROTOCOL = GUID 0xF9A3C550 0x7FB5 0x11D3 [0xBB, 0xA0, 0x0, 0xA0, 0xC9, 0x69, 0x72, 0x3B]"

section \<open>legacyboot.h\<close>

definition LEGACY_BOOT_PROTOCOL :: guid where
  "LEGACY_BOOT_PROTOCOL = GUID 0x376E5EB2 0x30E4 0x11D3 [0xBA, 0xE5, 0x0, 0x80, 0xC7, 0x3C, 0x88, 0x81]"

definition BBS_TABLE_ENTRY :: cty where
  "BBS_TABLE_ENTRY = CPacked [(''DeviceType'', UINT16), (''StatusFlag'', UINT16),
    (''Reserved'', UINT32), (''BootHandler'', CPtr ''VOID''), (''DescString'', CPtr ''CHAR8'')]"

definition LEGACY_BOOT_CALL :: csig where
  "LEGACY_BOOT_CALL = Fn (Some EFI_STATUS) [Arg In ''DevicePath'' (CPtr ''EFI_DEVICE_PATH'')]"

definition BBS_TYPE :: cty where "BBS_TYPE = C32"
definition IplRelative :: u32 where "IplRelative = 0"
definition BcvRelative :: u32 where "BcvRelative = 1"

definition GET_DEVICE_COUNT :: csig where
  "GET_DEVICE_COUNT = Fn (Some EFI_STATUS) [Arg In ''This'' (CPtr ''_LEGACY_BOOT_INTERFACE''),
    Arg In ''TableType'' (CPtr ''BBS_TYPE''), Arg Out ''DeviceCount'' (CPtr ''UINTN''),
    Arg Out ''MaxCount'' (CPtr ''UINTN'')]"

definition GET_PRIORITY_AND_TABLE :: csig where
  "GET_PRIORITY_AND_TABLE = Fn (Some EFI_STATUS) [
    Arg In ''This'' (CPtr ''_LEGACY_BOOT_INTERFACE''), Arg In ''TableType'' (CPtr ''BBS_TYPE''),
    Arg InOut ''PrioritySize'' (CPtr ''UINTN''), Arg Out ''Priority'' (CPtr ''UINTN''),
    Arg InOut ''TableSize'' (CPtr ''UINTN''),
    Arg Out ''TableEntrySize'' (CPtr ''BBS_TABLE_ENTRY'')]"

definition SET_PRIORITY :: csig where
  "SET_PRIORITY = Fn (Some EFI_STATUS) [Arg In ''This'' (CPtr ''_LEGACY_BOOT_INTERFACE''),
    Arg In ''TableType'' (CPtr ''BBS_TYPE''), Arg InOut ''PrioritySize'' (CPtr ''UINTN''),
    Arg Out ''Priority'' (CPtr ''UINTN'')]"

definition LEGACY_BOOT_INTERFACE :: cty where
  "LEGACY_BOOT_INTERFACE = CStruct [(''BootIt'', CPtr ''LEGACY_BOOT_CALL''),
    (''BbsVersion'', UINTN), (''GetDeviceCount'', CPtr ''GET_DEVICE_COUNT''),
    (''GetPriorityAndTable'', CPtr ''GET_PRIORITY_AND_TABLE''),
    (''SetPriority'', CPtr ''SET_PRIORITY'')]"

definition PlInitializeLegacyBoot_sig :: csig where
  "PlInitializeLegacyBoot_sig = Fn (Some EFI_STATUS) []"

section \<open>piflash64.h\<close>

definition IFLASH64_PROTOCOL_PROTOCOL :: guid where
  "IFLASH64_PROTOCOL_PROTOCOL = GUID 0x65CBA110 0x74AB 0x11D3 [0xBB, 0x89, 0x0, 0x80, 0xC7, 0x3C, 0x88, 0x81]"

definition UNLOCK_FLASH_API :: csig where
  "UNLOCK_FLASH_API = Fn (Some EFI_STATUS) [
    Arg In ''This'' (CPtr ''_IFLASH64_PROTOCOL_INTERFACE'')]"

definition LOCK_FLASH_API :: csig where
  "LOCK_FLASH_API = Fn (Some EFI_STATUS) [Arg In ''This'' (CPtr ''_IFLASH64_PROTOCOL_INTERFACE'')]"

definition UTILITY_PROGRESS_API :: csig where
  "UTILITY_PROGRESS_API = Fn (Some EFI_STATUS) [
    Arg In ''This'' (CPtr ''_IFLASH64_PROTOCOL_INTERFACE''), Arg In ''Token'' UINTN,
    Arg In ''ErrorStatus'' EFI_STATUS, OptArg In ''String'' (CPtr ''CHAR16''),
    OptArg In ''Attributes'' (CPtr ''UINTN'')]"

definition IFLASH_TOKEN_IFLASHSTART :: u64 where "IFLASH_TOKEN_IFLASHSTART = 0xB0"
definition IFLASH_TOKEN_READINGFILE :: u64 where "IFLASH_TOKEN_READINGFILE = 0xB1"
definition IFLASH_TOKEN_INITVPP :: u64 where "IFLASH_TOKEN_INITVPP = 0xB2"
definition IFLASH_TOKEN_DISABLEVPP :: u64 where "IFLASH_TOKEN_DISABLEVPP = 0x10"
definition IFLASH_TOKEN_FLASHUNLOCK :: u64 where "IFLASH_TOKEN_FLASHUNLOCK = 0xB3"
definition IFLASH_TOKEN_FLASHERASE :: u64 where "IFLASH_TOKEN_FLASHERASE = 0xB4"
definition IFLASH_TOKEN_FLASHPROGRAM :: u64 where "IFLASH_TOKEN_FLASHPROGRAM = 0xB5"
definition IFLASH_TOKEN_FLASHVERIFY :: u64 where "IFLASH_TOKEN_FLASHVERIFY = 0xB6"
definition IFLASH_TOKEN_UPDATESUCCES :: u64 where "IFLASH_TOKEN_UPDATESUCCES = 0xB7"
definition IFLASH_TOKEN_PROGRESS_READINGFILE :: u64 where
  "IFLASH_TOKEN_PROGRESS_READINGFILE = 0x11"

definition IFLASH_TOKEN_PROGRESS_FLASHUNLOCK :: u64 where
  "IFLASH_TOKEN_PROGRESS_FLASHUNLOCK = 0x13"

definition IFLASH_TOKEN_PROGRESS_FLASHERASE :: u64 where
  "IFLASH_TOKEN_PROGRESS_FLASHERASE = 0x14"

definition IFLASH_TOKEN_PROGRESS_FLASHPROGRAM :: u64 where
  "IFLASH_TOKEN_PROGRESS_FLASHPROGRAM = 0x15"

definition IFLASH_TOKEN_PROGRESS_FLASHVERIFY :: u64 where
  "IFLASH_TOKEN_PROGRESS_FLASHVERIFY = 0x16"

definition IFLASH_TOKEN_READINGFILE_ER :: u64 where "IFLASH_TOKEN_READINGFILE_ER = 0xB8"
definition IFLASH_TOKEN_INITVPP_ER :: u64 where "IFLASH_TOKEN_INITVPP_ER = 0xB9"
definition IFLASH_TOKEN_FLASHUNLOCK_ER :: u64 where "IFLASH_TOKEN_FLASHUNLOCK_ER = 0xBA"
definition IFLASH_TOKEN_FLASHERASE_ER :: u64 where "IFLASH_TOKEN_FLASHERASE_ER = 0xBB"
definition IFLASH_TOKEN_FLASHVERIFY_ER :: u64 where "IFLASH_TOKEN_FLASHVERIFY_ER = 0xBC"
definition IFLASH_TOKEN_FLASHPROG_ER :: u64 where "IFLASH_TOKEN_FLASHPROG_ER = 0xBD"
definition IFLASH_TABLE_END :: u64 where "IFLASH_TABLE_END = 0x00"
definition IFLASH_PI_MAJOR_VERSION :: u64 where "IFLASH_PI_MAJOR_VERSION = 0x01"
definition IFLASH_PI_MINOR_VERSION :: u64 where "IFLASH_PI_MINOR_VERSION = 0x01"

definition IFLASH64_PROTOCOL_INTERFACE :: cty where
  "IFLASH64_PROTOCOL_INTERFACE = CStruct [(''MajorVersion'', UINT32), (''MinorVersion'', UINT32),
    (''UnlockFlash'', CPtr ''UNLOCK_FLASH_API''), (''LockFlash'', CPtr ''LOCK_FLASH_API''),
    (''Progress'', CPtr ''UTILITY_PROGRESS_API'')]"

section \<open>efivar.h\<close>

definition VARIABLE_STORE_PROTOCOL :: guid where
  "VARIABLE_STORE_PROTOCOL = GUID 0xF088CD91 0xA046 0x11D2 [0x8E, 0x42, 0x0, 0xA0, 0xC9, 0x69, 0x72, 0x3B]"

definition EFI_STORE_CLEAR :: csig where
  "EFI_STORE_CLEAR = Fn (Some EFI_STATUS) [Arg In ''This'' (CPtr ''_EFI_VARIABLE_STORE''),
    Arg In ''BankNo'' UINTN, Arg InOut ''Scratch'' (CPtr ''VOID'')]"

definition EFI_STORE_READ :: csig where
  "EFI_STORE_READ = Fn (Some EFI_STATUS) [Arg In ''This'' (CPtr ''_EFI_VARIABLE_STORE''),
    Arg In ''BankNo'' UINTN, Arg In ''Offset'' UINTN, Arg In ''BufferSize'' UINTN,
    Arg Out ''Buffer'' (CPtr ''VOID'')]"

definition EFI_STORE_UPDATE :: csig where
  "EFI_STORE_UPDATE = Fn (Some EFI_STATUS) [Arg In ''This'' (CPtr ''_EFI_VARIABLE_STORE''),
    Arg In ''BankNo'' UINTN, Arg In ''Offset'' UINTN, Arg In ''BufferSize'' UINTN,
    Arg In ''Buffer'' (CPtr ''VOID'')]"

definition EFI_STORE_SIZE :: csig where
  "EFI_STORE_SIZE = Fn (Some EFI_STATUS) [Arg In ''This'' (CPtr ''_EFI_VARIABLE_STORE''),
    Arg In ''NoBanks'' UINTN]"

definition EFI_TRANSACTION_UPDATE :: csig where
  "EFI_TRANSACTION_UPDATE = Fn (Some EFI_STATUS) [Arg In ''This'' (CPtr ''_EFI_VARIABLE_STORE''),
    Arg In ''BankNo'' UINTN, Arg In ''NewContents'' (CPtr ''VOID'')]"

definition EFI_VARIABLE_STORE :: cty where
  "EFI_VARIABLE_STORE = CStruct [(''Attributes'', UINT32), (''BankSize'', UINT32),
    (''NoBanks'', UINT32), (''ClearStore'', CPtr ''EFI_STORE_CLEAR''),
    (''ReadStore'', CPtr ''EFI_STORE_READ''), (''UpdateStore'', CPtr ''EFI_STORE_UPDATE''),
    (''SizeStore'', CPtr ''EFI_STORE_SIZE''),
    (''TransactionUpdate'', CPtr ''EFI_TRANSACTION_UPDATE'')]"


end
