(* ===== verification/Efi_Debug.thy ===== *)
theory Efi_Debug
  imports Efi_Devices
begin

text \<open>
  Debugger support: the exception codes and saved processor states of \<open>efidebug.h\<close>, the debug
  port and debug support protocols of \<open>protocol/efidbg.h\<close>.
\<close>

section \<open>efidebug.h\<close>

definition D_INIT :: u64 where "D_INIT = 0x00000001"
definition D_WARN :: u64 where "D_WARN = 0x00000002"
definition D_LOAD :: u64 where "D_LOAD = 0x00000004"
definition D_FS :: u64 where "D_FS = 0x00000008"
definition D_POOL :: u64 where "D_POOL = 0x00000010"
definition D_PAGE :: u64 where "D_PAGE = 0x00000020"
definition D_INFO :: u64 where "D_INFO = 0x00000040"
definition D_VAR :: u64 where "D_VAR = 0x00000100"
definition D_PARSE :: u64 where "D_PARSE = 0x00000200"
definition D_BM :: u64 where "D_BM = 0x00000400"
definition D_BLKIO :: u64 where "D_BLKIO = 0x00001000"
definition D_BLKIO_ULTRA :: u64 where "D_BLKIO_ULTRA = 0x00002000"
definition D_NET :: u64 where "D_NET = 0x00004000"
definition D_NET_ULTRA :: u64 where "D_NET_ULTRA = 0x00008000"
definition D_TXTIN :: u64 where "D_TXTIN = 0x00010000"
definition D_TXTOUT :: u64 where "D_TXTOUT = 0x00020000"
definition D_ERROR_ATA :: u64 where "D_ERROR_ATA = 0x00040000"
definition D_ERROR :: u64 where "D_ERROR = 0x80000000"
definition D_RESERVED :: u64 where "D_RESERVED = 0x7fffC880"
definition EFI_DBUG_MASK :: u64 where "EFI_DBUG_MASK = D_ERROR"

definition DbgAssert_sig :: csig where
  "DbgAssert_sig = Fn (Some INTN) [Arg NoDir ''file'' (CPtr ''CHAR8''),
    Arg NoDir ''lineno'' INTN, Arg NoDir ''string'' (CPtr ''CHAR8'')]"

definition DbgPrint_sig :: csig where
  "DbgPrint_sig = FnVar (Some INTN) [Arg NoDir ''mask'' INTN,
    Arg NoDir ''format'' (CPtr ''CHAR8'')]"

definition EFI_EXCEPTION_TYPE :: cty where "EFI_EXCEPTION_TYPE = INTN"
definition EXCEPT_IA32_DIVIDE_ERROR :: u64 where "EXCEPT_IA32_DIVIDE_ERROR = 0"
definition EXCEPT_IA32_DEBUG :: u64 where "EXCEPT_IA32_DEBUG = 1"
definition EXCEPT_IA32_NMI :: u64 where "EXCEPT_IA32_NMI = 2"
definition EXCEPT_IA32_BREAKPOINT :: u64 where "EXCEPT_IA32_BREAKPOINT = 3"
definition EXCEPT_IA32_OVERFLOW :: u64 where "EXCEPT_IA32_OVERFLOW = 4"
definition EXCEPT_IA32_BOUND :: u64 where "EXCEPT_IA32_BOUND = 5"
definition EXCEPT_IA32_INVALID_OPCODE :: u64 where "EXCEPT_IA32_INVALID_OPCODE = 6"
definition EXCEPT_IA32_DOUBLE_FAULT :: u64 where "EXCEPT_IA32_DOUBLE_FAULT = 8"
definition EXCEPT_IA32_INVALID_TSS :: u64 where "EXCEPT_IA32_INVALID_TSS = 10"
definition EXCEPT_IA32_SEG_NOT_PRESENT :: u64 where "EXCEPT_IA32_SEG_NOT_PRESENT = 11"
definition EXCEPT_IA32_STACK_FAULT :: u64 where "EXCEPT_IA32_STACK_FAULT = 12"
definition EXCEPT_IA32_GP_FAULT :: u64 where "EXCEPT_IA32_GP_FAULT = 13"
definition EXCEPT_IA32_PAGE_FAULT :: u64 where "EXCEPT_IA32_PAGE_FAULT = 14"
definition EXCEPT_IA32_FP_ERROR :: u64 where "EXCEPT_IA32_FP_ERROR = 16"
definition EXCEPT_IA32_ALIGNMENT_CHECK :: u64 where "EXCEPT_IA32_ALIGNMENT_CHECK = 17"
definition EXCEPT_IA32_MACHINE_CHECK :: u64 where "EXCEPT_IA32_MACHINE_CHECK = 18"
definition EXCEPT_IA32_SIMD :: u64 where "EXCEPT_IA32_SIMD = 19"

definition EFI_FX_SAVE_STATE_IA32 :: cty where
  "EFI_FX_SAVE_STATE_IA32 = CStruct [(''Fcw'', UINT16), (''Fsw'', UINT16), (''Ftw'', UINT16),
    (''Opcode'', UINT16), (''Eip'', UINT32), (''Cs'', UINT16), (''Reserved1'', UINT16),
    (''DataOffset'', UINT32), (''Ds'', UINT16), (''Reserved2'', CArr UINT8 10),
    (''St0Mm0'', CArr UINT8 10), (''Reserved3'', CArr UINT8 6), (''St1Mm1'', CArr UINT8 10),
    (''Reserved4'', CArr UINT8 6), (''St2Mm2'', CArr UINT8 10), (''Reserved5'', CArr UINT8 6),
    (''St3Mm3'', CArr UINT8 10), (''Reserved6'', CArr UINT8 6), (''St4Mm4'', CArr UINT8 10),
    (''Reserved7'', CArr UINT8 6), (''St5Mm5'', CArr UINT8 10), (''Reserved8'', CArr UINT8 6),
    (''St6Mm6'', CArr UINT8 10), (''Reserved9'', CArr UINT8 6), (''St7Mm7'', CArr UINT8 10),
    (''Reserved10'', CArr UINT8 6), (''Xmm0'', CArr UINT8 16), (''Xmm1'', CArr UINT8 16),
    (''Xmm2'', CArr UINT8 16), (''Xmm3'', CArr UINT8 16), (''Xmm4'', CArr UINT8 16),
    (''Xmm5'', CArr UINT8 16), (''Xmm6'', CArr UINT8 16), (''Xmm7'', CArr UINT8 16),
    (''Reserved11'', CArr UINT8 (14 * 16))]"

definition EFI_SYSTEM_CONTEXT_IA32 :: cty where
  "EFI_SYSTEM_CONTEXT_IA32 = CStruct [(''ExceptionData'', UINT32),
    (''FxSaveState'', EFI_FX_SAVE_STATE_IA32), (''Dr0'', UINT32), (''Dr1'', UINT32),
    (''Dr2'', UINT32), (''Dr3'', UINT32), (''Dr6'', UINT32), (''Dr7'', UINT32),
    (''Cr0'', UINT32), (''Cr1'', UINT32), (''Cr2'', UINT32), (''Cr3'', UINT32),
    (''Cr4'', UINT32), (''Eflags'', UINT32), (''Ldtr'', UINT32), (''Tr'', UINT32),
    (''Gdtr'', CArr UINT32 2), (''Idtr'', CArr UINT32 2), (''Eip'', UINT32), (''Gs'', UINT32),
    (''Fs'', UINT32), (''Es'', UINT32), (''Ds'', UINT32), (''Cs'', UINT32), (''Ss'', UINT32),
    (''Edi'', UINT32), (''Esi'', UINT32), (''Ebp'', UINT32), (''Esp'', UINT32),
    (''Ebx'', UINT32), (''Edx'', UINT32), (''Ecx'', UINT32), (''Eax'', UINT32)]"

definition EXCEPT_X64_DIVIDE_ERROR :: u64 where "EXCEPT_X64_DIVIDE_ERROR = 0"
definition EXCEPT_X64_DEBUG :: u64 where "EXCEPT_X64_DEBUG = 1"
definition EXCEPT_X64_NMI :: u64 where "EXCEPT_X64_NMI = 2"
definition EXCEPT_X64_BREAKPOINT :: u64 where "EXCEPT_X64_BREAKPOINT = 3"
definition EXCEPT_X64_OVERFLOW :: u64 where "EXCEPT_X64_OVERFLOW = 4"
definition EXCEPT_X64_BOUND :: u64 where "EXCEPT_X64_BOUND = 5"
definition EXCEPT_X64_INVALID_OPCODE :: u64 where "EXCEPT_X64_INVALID_OPCODE = 6"
definition EXCEPT_X64_DOUBLE_FAULT :: u64 where "EXCEPT_X64_DOUBLE_FAULT = 8"
definition EXCEPT_X64_INVALID_TSS :: u64 where "EXCEPT_X64_INVALID_TSS = 10"
definition EXCEPT_X64_SEG_NOT_PRESENT :: u64 where "EXCEPT_X64_SEG_NOT_PRESENT = 11"
definition EXCEPT_X64_STACK_FAULT :: u64 where "EXCEPT_X64_STACK_FAULT = 12"
definition EXCEPT_X64_GP_FAULT :: u64 where "EXCEPT_X64_GP_FAULT = 13"
definition EXCEPT_X64_PAGE_FAULT :: u64 where "EXCEPT_X64_PAGE_FAULT = 14"
definition EXCEPT_X64_FP_ERROR :: u64 where "EXCEPT_X64_FP_ERROR = 16"
definition EXCEPT_X64_ALIGNMENT_CHECK :: u64 where "EXCEPT_X64_ALIGNMENT_CHECK = 17"
definition EXCEPT_X64_MACHINE_CHECK :: u64 where "EXCEPT_X64_MACHINE_CHECK = 18"
definition EXCEPT_X64_SIMD :: u64 where "EXCEPT_X64_SIMD = 19"

definition EFI_FX_SAVE_STATE_X64 :: cty where
  "EFI_FX_SAVE_STATE_X64 = CStruct [(''Fcw'', UINT16), (''Fsw'', UINT16), (''Ftw'', UINT16),
    (''Opcode'', UINT16), (''Rip'', UINT64), (''DataOffset'', UINT64),
    (''Reserved1'', CArr UINT8 8), (''St0Mm0'', CArr UINT8 10), (''Reserved2'', CArr UINT8 6),
    (''St1Mm1'', CArr UINT8 10), (''Reserved3'', CArr UINT8 6), (''St2Mm2'', CArr UINT8 10),
    (''Reserved4'', CArr UINT8 6), (''St3Mm3'', CArr UINT8 10), (''Reserved5'', CArr UINT8 6),
    (''St4Mm4'', CArr UINT8 10), (''Reserved6'', CArr UINT8 6), (''St5Mm5'', CArr UINT8 10),
    (''Reserved7'', CArr UINT8 6), (''St6Mm6'', CArr UINT8 10), (''Reserved8'', CArr UINT8 6),
    (''St7Mm7'', CArr UINT8 10), (''Reserved9'', CArr UINT8 6), (''Xmm0'', CArr UINT8 16),
    (''Xmm1'', CArr UINT8 16), (''Xmm2'', CArr UINT8 16), (''Xmm3'', CArr UINT8 16),
    (''Xmm4'', CArr UINT8 16), (''Xmm5'', CArr UINT8 16), (''Xmm6'', CArr UINT8 16),
    (''Xmm7'', CArr UINT8 16), (''Reserved11'', CArr UINT8 (14 * 16))]"

definition EFI_SYSTEM_CONTEXT_X64 :: cty where
  "EFI_SYSTEM_CONTEXT_X64 = CStruct [(''ExceptionData'', UINT64),
    (''FxSaveState'', EFI_FX_SAVE_STATE_X64), (''Dr0'', UINT64), (''Dr1'', UINT64),
    (''Dr2'', UINT64), (''Dr3'', UINT64), (''Dr6'', UINT64), (''Dr7'', UINT64),
    (''Cr0'', UINT64), (''Cr1'', UINT64), (''Cr2'', UINT64), (''Cr3'', UINT64),
    (''Cr4'', UINT64), (''Cr8'', UINT64), (''Rflags'', UINT64), (''Ldtr'', UINT64),
    (''Tr'', UINT64), (''Gdtr'', CArr UINT64 2), (''Idtr'', CArr UINT64 2), (''Rip'', UINT64),
    (''Gs'', UINT64), (''Fs'', UINT64), (''Es'', UINT64), (''Ds'', UINT64), (''Cs'', UINT64),
    (''Ss'', UINT64), (''Rdi'', UINT64), (''Rsi'', UINT64), (''Rbp'', UINT64), (''Rsp'', UINT64),
    (''Rbx'', UINT64), (''Rdx'', UINT64), (''Rcx'', UINT64), (''Rax'', UINT64), (''R8'', UINT64),
    (''R9'', UINT64), (''R10'', UINT64), (''R11'', UINT64), (''R12'', UINT64), (''R13'', UINT64),
    (''R14'', UINT64), (''R15'', UINT64)]"

definition EXCEPT_IPF_VHTP_TRANSLATION :: u64 where "EXCEPT_IPF_VHTP_TRANSLATION = 0"
definition EXCEPT_IPF_INSTRUCTION_TLB :: u64 where "EXCEPT_IPF_INSTRUCTION_TLB = 1"
definition EXCEPT_IPF_DATA_TLB :: u64 where "EXCEPT_IPF_DATA_TLB = 2"
definition EXCEPT_IPF_ALT_INSTRUCTION_TLB :: u64 where "EXCEPT_IPF_ALT_INSTRUCTION_TLB = 3"
definition EXCEPT_IPF_ALT_DATA_TLB :: u64 where "EXCEPT_IPF_ALT_DATA_TLB = 4"
definition EXCEPT_IPF_DATA_NESTED_TLB :: u64 where "EXCEPT_IPF_DATA_NESTED_TLB = 5"
definition EXCEPT_IPF_INSTRUCTION_KEY_MISSED :: u64 where "EXCEPT_IPF_INSTRUCTION_KEY_MISSED = 6"
definition EXCEPT_IPF_DATA_KEY_MISSED :: u64 where "EXCEPT_IPF_DATA_KEY_MISSED = 7"
definition EXCEPT_IPF_DIRTY_BIT :: u64 where "EXCEPT_IPF_DIRTY_BIT = 8"
definition EXCEPT_IPF_INSTRUCTION_ACCESS_BIT :: u64 where "EXCEPT_IPF_INSTRUCTION_ACCESS_BIT = 9"
definition EXCEPT_IPF_DATA_ACCESS_BIT :: u64 where "EXCEPT_IPF_DATA_ACCESS_BIT = 10"
definition EXCEPT_IPF_BREAKPOINT :: u64 where "EXCEPT_IPF_BREAKPOINT = 11"
definition EXCEPT_IPF_EXTERNAL_INTERRUPT :: u64 where "EXCEPT_IPF_EXTERNAL_INTERRUPT = 12"
definition EXCEPT_IPF_PAGE_NOT_PRESENT :: u64 where "EXCEPT_IPF_PAGE_NOT_PRESENT = 20"
definition EXCEPT_IPF_KEY_PERMISSION :: u64 where "EXCEPT_IPF_KEY_PERMISSION = 21"
definition EXCEPT_IPF_INSTRUCTION_ACCESS_RIGHTS :: u64 where
  "EXCEPT_IPF_INSTRUCTION_ACCESS_RIGHTS = 22"

definition EXCEPT_IPF_DATA_ACCESS_RIGHTS :: u64 where "EXCEPT_IPF_DATA_ACCESS_RIGHTS = 23"
definition EXCEPT_IPF_GENERAL_EXCEPTION :: u64 where "EXCEPT_IPF_GENERAL_EXCEPTION = 24"
definition EXCEPT_IPF_DISABLED_FP_REGISTER :: u64 where "EXCEPT_IPF_DISABLED_FP_REGISTER = 25"
definition EXCEPT_IPF_NAT_CONSUMPTION :: u64 where "EXCEPT_IPF_NAT_CONSUMPTION = 26"
definition EXCEPT_IPF_SPECULATION :: u64 where "EXCEPT_IPF_SPECULATION = 27"
definition EXCEPT_IPF_DEBUG :: u64 where "EXCEPT_IPF_DEBUG = 29"
definition EXCEPT_IPF_UNALIGNED_REFERENCE :: u64 where "EXCEPT_IPF_UNALIGNED_REFERENCE = 30"
definition EXCEPT_IPF_UNSUPPORTED_DATA_REFERENCE :: u64 where
  "EXCEPT_IPF_UNSUPPORTED_DATA_REFERENCE = 31"

definition EXCEPT_IPF_FP_FAULT :: u64 where "EXCEPT_IPF_FP_FAULT = 32"
definition EXCEPT_IPF_FP_TRAP :: u64 where "EXCEPT_IPF_FP_TRAP = 33"
definition EXCEPT_IPF_LOWER_PRIVILEGE_TRANSFER_TRAP :: u64 where
  "EXCEPT_IPF_LOWER_PRIVILEGE_TRANSFER_TRAP = 34"

definition EXCEPT_IPF_TAKEN_BRANCH :: u64 where "EXCEPT_IPF_TAKEN_BRANCH = 35"
definition EXCEPT_IPF_SINGLE_STEP :: u64 where "EXCEPT_IPF_SINGLE_STEP = 36"
definition EXCEPT_IPF_IA32_EXCEPTION :: u64 where "EXCEPT_IPF_IA32_EXCEPTION = 45"
definition EXCEPT_IPF_IA32_INTERCEPT :: u64 where "EXCEPT_IPF_IA32_INTERCEPT = 46"
definition EXCEPT_IPF_IA32_INTERRUPT :: u64 where "EXCEPT_IPF_IA32_INTERRUPT = 47"

definition EFI_SYSTEM_CONTEXT_IPF :: cty where
  "EFI_SYSTEM_CONTEXT_IPF = CStruct [(''Reserved'', UINT64), (''R1'', UINT64), (''R2'', UINT64),
    (''R3'', UINT64), (''R4'', UINT64), (''R5'', UINT64), (''R6'', UINT64), (''R7'', UINT64),
    (''R8'', UINT64), (''R9'', UINT64), (''R10'', UINT64), (''R11'', UINT64), (''R12'', UINT64),
    (''R13'', UINT64), (''R14'', UINT64), (''R15'', UINT64), (''R16'', UINT64),
    (''R17'', UINT64), (''R18'', UINT64), (''R19'', UINT64), (''R20'', UINT64),
    (''R21'', UINT64), (''R22'', UINT64), (''R23'', UINT64), (''R24'', UINT64),
    (''R25'', UINT64), (''R26'', UINT64), (''R27'', UINT64), (''R28'', UINT64),
    (''R29'', UINT64), (''R30'', UINT64), (''R31'', UINT64), (''F2'', CArr UINT64 2),
    (''F3'', CArr UINT64 2), (''F4'', CArr UINT64 2), (''F5'', CArr UINT64 2),
    (''F6'', CArr UINT64 2), (''F7'', CArr UINT64 2), (''F8'', CArr UINT64 2),
    (''F9'', CArr UINT64 2), (''F10'', CArr UINT64 2), (''F11'', CArr UINT64 2),
    (''F12'', CArr UINT64 2), (''F13'', CArr UINT64 2), (''F14'', CArr UINT64 2),
    (''F15'', CArr UINT64 2), (''F16'', CArr UINT64 2), (''F17'', CArr UINT64 2),
    (''F18'', CArr UINT64 2), (''F19'', CArr UINT64 2), (''F20'', CArr UINT64 2),
    (''F21'', CArr UINT64 2), (''F22'', CArr UINT64 2), (''F23'', CArr UINT64 2),
    (''F24'', CArr UINT64 2), (''F25'', CArr UINT64 2), (''F26'', CArr UINT64 2),
    (''F27'', CArr UINT64 2), (''F28'', CArr UINT64 2), (''F29'', CArr UINT64 2),
    (''F30'', CArr UINT64 2), (''F31'', CArr UINT64 2), (''Pr'', UINT64), (''B0'', UINT64),
    (''B1'', UINT64), (''B2'', UINT64), (''B3'', UINT64), (''B4'', UINT64), (''B5'', UINT64),
    (''B6'', UINT64), (''B7'', UINT64), (''ArRsc'', UINT64), (''ArBsp'', UINT64),
    (''ArBspstore'', UINT64), (''ArRnat'', UINT64), (''ArFcr'', UINT64), (''ArEflag'', UINT64),
    (''ArCsd'', UINT64), (''ArSsd'', UINT64), (''ArCflg'', UINT64), (''ArFsr'', UINT64),
    (''ArFir'', UINT64), (''ArFdr'', UINT64), (''ArCcv'', UINT64), (''ArUnat'', UINT64),
    (''ArFpsr'', UINT64), (''ArPfs'', UINT64), (''ArLc'', UINT64), (''ArEc'', UINT64),
    (''CrDcr'', UINT64), (''CrItm'', UINT64), (''CrIva'', UINT64), (''CrPta'', UINT64),
    (''CrIpsr'', UINT64), (''CrIsr'', UINT64), (''CrIip'', UINT64), (''CrIfa'', UINT64),
    (''CrItir'', UINT64), (''CrIipa'', UINT64), (''CrIfs'', UINT64), (''CrIim'', UINT64),
    (''CrIha'', UINT64), (''Dbr0'', UINT64), (''Dbr1'', UINT64), (''Dbr2'', UINT64),
    (''Dbr3'', UINT64), (''Dbr4'', UINT64), (''Dbr5'', UINT64), (''Dbr6'', UINT64),
    (''Dbr7'', UINT64), (''Ibr0'', UINT64), (''Ibr1'', UINT64), (''Ibr2'', UINT64),
    (''Ibr3'', UINT64), (''Ibr4'', UINT64), (''Ibr5'', UINT64), (''Ibr6'', UINT64),
    (''Ibr7'', UINT64), (''IntNat'', UINT64)]"

definition EXCEPT_EBC_UNDEFINED :: u64 where "EXCEPT_EBC_UNDEFINED = 0"
definition EXCEPT_EBC_DIVIDE_ERROR :: u64 where "EXCEPT_EBC_DIVIDE_ERROR = 1"
definition EXCEPT_EBC_DEBUG :: u64 where "EXCEPT_EBC_DEBUG = 2"
definition EXCEPT_EBC_BREAKPOINT :: u64 where "EXCEPT_EBC_BREAKPOINT = 3"
definition EXCEPT_EBC_OVERFLOW :: u64 where "EXCEPT_EBC_OVERFLOW = 4"
definition EXCEPT_EBC_INVALID_OPCODE :: u64 where "EXCEPT_EBC_INVALID_OPCODE = 5"
definition EXCEPT_EBC_STACK_FAULT :: u64 where "EXCEPT_EBC_STACK_FAULT = 6"
definition EXCEPT_EBC_ALIGNMENT_CHECK :: u64 where "EXCEPT_EBC_ALIGNMENT_CHECK = 7"
definition EXCEPT_EBC_INSTRUCTION_ENCODING :: u64 where "EXCEPT_EBC_INSTRUCTION_ENCODING = 8"
definition EXCEPT_EBC_BAD_BREAK :: u64 where "EXCEPT_EBC_BAD_BREAK = 9"
definition EXCEPT_EBC_STEP :: u64 where "EXCEPT_EBC_STEP = 10"
definition MAX_EBC_EXCEPTION :: u64 where "MAX_EBC_EXCEPTION = EXCEPT_EBC_STEP"

definition EFI_SYSTEM_CONTEXT_EBC :: cty where
  "EFI_SYSTEM_CONTEXT_EBC = CStruct [(''R0'', UINT64), (''R1'', UINT64), (''R2'', UINT64),
    (''R3'', UINT64), (''R4'', UINT64), (''R5'', UINT64), (''R6'', UINT64), (''R7'', UINT64),
    (''Flags'', UINT64), (''ControlFlags'', UINT64), (''Ip'', UINT64)]"

definition EXCEPT_ARM_RESET :: u64 where "EXCEPT_ARM_RESET = 0"
definition EXCEPT_ARM_UNDEFINED_INSTRUCTION :: u64 where "EXCEPT_ARM_UNDEFINED_INSTRUCTION = 1"
definition EXCEPT_ARM_SOFTWARE_INTERRUPT :: u64 where "EXCEPT_ARM_SOFTWARE_INTERRUPT = 2"
definition EXCEPT_ARM_PREFETCH_ABORT :: u64 where "EXCEPT_ARM_PREFETCH_ABORT = 3"
definition EXCEPT_ARM_DATA_ABORT :: u64 where "EXCEPT_ARM_DATA_ABORT = 4"
definition EXCEPT_ARM_RESERVED :: u64 where "EXCEPT_ARM_RESERVED = 5"
definition EXCEPT_ARM_IRQ :: u64 where "EXCEPT_ARM_IRQ = 6"
definition EXCEPT_ARM_FIQ :: u64 where "EXCEPT_ARM_FIQ = 7"
definition MAX_ARM_EXCEPTION :: u64 where "MAX_ARM_EXCEPTION = EXCEPT_ARM_FIQ"

definition EFI_SYSTEM_CONTEXT_ARM :: cty where
  "EFI_SYSTEM_CONTEXT_ARM = CStruct [(''R0'', UINT32), (''R1'', UINT32), (''R2'', UINT32),
    (''R3'', UINT32), (''R4'', UINT32), (''R5'', UINT32), (''R6'', UINT32), (''R7'', UINT32),
    (''R8'', UINT32), (''R9'', UINT32), (''R10'', UINT32), (''R11'', UINT32), (''R12'', UINT32),
    (''SP'', UINT32), (''LR'', UINT32), (''PC'', UINT32), (''CPSR'', UINT32), (''DFSR'', UINT32),
    (''DFAR'', UINT32), (''IFSR'', UINT32), (''IFAR'', UINT32)]"

definition EFI_SYSTEM_CONTEXT :: cty where
  "EFI_SYSTEM_CONTEXT = CUnion [(''SystemContextEbc'', CPtr ''EFI_SYSTEM_CONTEXT_EBC''),
    (''SystemContextIa32'', CPtr ''EFI_SYSTEM_CONTEXT_IA32''),
    (''SystemContextX64'', CPtr ''EFI_SYSTEM_CONTEXT_X64''),
    (''SystemContextIpf'', CPtr ''EFI_SYSTEM_CONTEXT_IPF''),
    (''SystemContextArm'', CPtr ''EFI_SYSTEM_CONTEXT_ARM'')]"

definition EFI_EXCEPTION_CALLBACK :: csig where
  "EFI_EXCEPTION_CALLBACK = Fn None [Arg In ''ExceptionType'' EFI_EXCEPTION_TYPE,
    Arg InOut ''SystemContext'' EFI_SYSTEM_CONTEXT]"

definition EFI_PERIODIC_CALLBACK :: csig where
  "EFI_PERIODIC_CALLBACK = Fn None [Arg InOut ''SystemContext'' EFI_SYSTEM_CONTEXT]"

definition EFI_INSTRUCTION_SET_ARCHITECTURE :: cty where "EFI_INSTRUCTION_SET_ARCHITECTURE = C32"
definition IsaIa32 :: u32 where "IsaIa32 = ucast EFI_IMAGE_MACHINE_IA32"
definition IsaX64 :: u32 where "IsaX64 = ucast EFI_IMAGE_MACHINE_X64"
definition IsaIpf :: u32 where "IsaIpf = ucast EFI_IMAGE_MACHINE_IA64"
definition IsaEbc :: u32 where "IsaEbc = ucast EFI_IMAGE_MACHINE_EBC"
definition IsaArm :: u32 where "IsaArm = ucast EFI_IMAGE_MACHINE_ARMTHUMB_MIXED"
definition EFI_DEBUG_IMAGE_INFO_TABLE_GUID :: guid where
  "EFI_DEBUG_IMAGE_INFO_TABLE_GUID = GUID 0x49152E77 0x1ADA 0x4764 [0xB7, 0xA2, 0x7A, 0xFE, 0xFE, 0xD9, 0x5E, 0x8B]"

definition EFI_DEBUG_IMAGE_INFO_UPDATE_IN_PROGRESS :: u64 where
  "EFI_DEBUG_IMAGE_INFO_UPDATE_IN_PROGRESS = 0x01"

definition EFI_DEBUG_IMAGE_INFO_TABLE_MODIFIED :: u64 where
  "EFI_DEBUG_IMAGE_INFO_TABLE_MODIFIED = 0x02"

definition EFI_DEBUG_IMAGE_INFO_TYPE_NORMAL :: u64 where
  "EFI_DEBUG_IMAGE_INFO_TYPE_NORMAL = 0x01"

definition EFI_SYSTEM_TABLE_POINTER :: cty where
  "EFI_SYSTEM_TABLE_POINTER = CStruct [(''Signature'', UINT64),
    (''EfiSystemTableBase'', EFI_PHYSICAL_ADDRESS), (''Crc32'', UINT32)]"

definition EFI_DEBUG_IMAGE_INFO_NORMAL :: cty where
  "EFI_DEBUG_IMAGE_INFO_NORMAL = CStruct [(''ImageInfoType'', UINT32),
    (''LoadedImageProtocolInstance'', CPtr ''EFI_LOADED_IMAGE_PROTOCOL''),
    (''ImageHandle'', CPtr ''EFI_HANDLE'')]"

definition EFI_DEBUG_IMAGE_INFO :: cty where
  "EFI_DEBUG_IMAGE_INFO = CUnion [(''ImageInfoType'', CPtr ''UINT32''),
    (''NormalImage'', CPtr ''EFI_DEBUG_IMAGE_INFO_NORMAL'')]"

definition EFI_DEBUG_IMAGE_INFO_TABLE_HEADER :: cty where
  "EFI_DEBUG_IMAGE_INFO_TABLE_HEADER = CStruct [(''UpdateStatus'', UINT32),
    (''TableSize'', UINT32), (''EfiDebugImageInfoTable'', CPtr ''EFI_DEBUG_IMAGE_INFO'')]"

definition EFI_DEBUG_SUPPORT_PROTOCOL_GUID :: guid where
  "EFI_DEBUG_SUPPORT_PROTOCOL_GUID = GUID 0x2755590C 0x6F3C 0x42FA [0x9E, 0xA4, 0xA3, 0xBA, 0x54, 0x3C, 0xDA, 0x25]"

definition EFI_GET_MAXIMUM_PROCESSOR_INDEX :: csig where
  "EFI_GET_MAXIMUM_PROCESSOR_INDEX = Fn (Some EFI_STATUS) [
    Arg In ''This'' (CPtr ''_EFI_DEBUG_SUPPORT_PROTOCOL''),
    Arg Out ''MaxProcessorIndex'' (CPtr ''UINTN'')]"

definition EFI_REGISTER_PERIODIC_CALLBACK :: csig where
  "EFI_REGISTER_PERIODIC_CALLBACK = Fn (Some EFI_STATUS) [
    Arg In ''This'' (CPtr ''_EFI_DEBUG_SUPPORT_PROTOCOL''), Arg In ''ProcessorIndex'' UINTN,
    Arg In ''PeriodicCallback'' (CPtr ''EFI_PERIODIC_CALLBACK'')]"

definition EFI_REGISTER_EXCEPTION_CALLBACK :: csig where
  "EFI_REGISTER_EXCEPTION_CALLBACK = Fn (Some EFI_STATUS) [
    Arg In ''This'' (CPtr ''_EFI_DEBUG_SUPPORT_PROTOCOL''), Arg In ''ProcessorIndex'' UINTN,
    Arg In ''ExceptionCallback'' (CPtr ''EFI_EXCEPTION_CALLBACK''),
    Arg In ''ExceptionType'' EFI_EXCEPTION_TYPE]"

definition EFI_INVALIDATE_INSTRUCTION_CACHE :: csig where
  "EFI_INVALIDATE_INSTRUCTION_CACHE = Fn (Some EFI_STATUS) [
    Arg In ''This'' (CPtr ''_EFI_DEBUG_SUPPORT_PROTOCOL''), Arg In ''ProcessorIndex'' UINTN,
    Arg In ''Start'' (CPtr ''VOID''), Arg In ''Length'' UINT64]"

definition EFI_DEBUG_SUPPORT_PROTOCOL :: cty where
  "EFI_DEBUG_SUPPORT_PROTOCOL = CStruct [(''Isa'', EFI_INSTRUCTION_SET_ARCHITECTURE),
    (''GetMaximumProcessorIndex'', CPtr ''EFI_GET_MAXIMUM_PROCESSOR_INDEX''),
    (''RegisterPeriodicCallback'', CPtr ''EFI_REGISTER_PERIODIC_CALLBACK''),
    (''RegisterExceptionCallback'', CPtr ''EFI_REGISTER_EXCEPTION_CALLBACK''),
    (''InvalidateInstructionCache'', CPtr ''EFI_INVALIDATE_INSTRUCTION_CACHE'')]"

section \<open>efidbg.h\<close>

definition DEBUGPORT_16550_CONFIG_DATA :: cty where
  "DEBUGPORT_16550_CONFIG_DATA = CStruct [(''PortAddress'', UINT32), (''BaudRate'', UINT64),
    (''ReceiveFifoDepth'', UINT32), (''Timeout'', UINT32), (''Parity'', UINT8),
    (''DataBits'', UINT8), (''StopBits'', UINT8), (''ControlMask'', UINT32),
    (''RtsCtsEnable'', BOOLEAN)]"

definition DEBUGPORT_16550_DEVICE_PATH :: cty where
  "DEBUGPORT_16550_DEVICE_PATH = CStruct [(''Header'', EFI_DEVICE_PATH),
    (''ConfigData'', DEBUGPORT_16550_CONFIG_DATA)]"

definition DEBUGPORT_DEV_PATH :: cty where
  "DEBUGPORT_DEV_PATH = CUnion [(''DevPath'', EFI_DEVICE_PATH),
    (''Uart'', DEBUGPORT_16550_DEVICE_PATH)]"

definition DEBUG_SUPPORT_PROTOCOL :: guid where
  "DEBUG_SUPPORT_PROTOCOL = GUID 0x2755590C 0x6F3C 0x42FA [0x9E, 0xA4, 0xA3, 0xBA, 0x54, 0x3C, 0xDA, 0x25]"

definition EXCEPTION_TYPE :: cty where "EXCEPTION_TYPE = UINTN"

definition EXCEPTION_HANDLER :: csig where
  "EXCEPTION_HANDLER = Fn None [Arg In ''ExceptionType'' EXCEPTION_TYPE,
    Arg In ''SystemContext'' (CPtr ''SYSTEM_CONTEXT'')]"

definition EFI_REGISTER_TIMER_TICK_CALLBACK :: csig where
  "EFI_REGISTER_TIMER_TICK_CALLBACK = Fn (Some EFI_STATUS) [
    Arg In ''This'' (CPtr ''_EFI_DEBUG_SUPPORT_INTERFACE''),
    Arg In ''TimerTickCallback'' (CPtr ''EXCEPTION_HANDLER'')]"

definition EFI_REGISTER_EXCEPTION_HANDLER :: csig where
  "EFI_REGISTER_EXCEPTION_HANDLER = Fn (Some EFI_STATUS) [
    Arg In ''This'' (CPtr ''_EFI_DEBUG_SUPPORT_INTERFACE''),
    Arg In ''ExceptionHandler'' (CPtr ''EXCEPTION_HANDLER''),
    Arg In ''ExceptionType'' EXCEPTION_TYPE]"

definition EFI_IP_CALL_TRACE :: csig where
  "EFI_IP_CALL_TRACE = Fn (Some EFI_STATUS) [
    Arg In ''This'' (CPtr ''_EFI_DEBUG_SUPPORT_INTERFACE'')]"

definition EFI_DEBUG_SUPPORT_INTERFACE_REVISION :: u64 where
  "EFI_DEBUG_SUPPORT_INTERFACE_REVISION = 0x00010000"

definition EFI_DEBUG_SUPPORT_INTERFACE :: cty where
  "EFI_DEBUG_SUPPORT_INTERFACE = CStruct [(''Revision'', UINT32),
    (''RegisterTimerTickCallback'', CPtr ''EFI_REGISTER_TIMER_TICK_CALLBACK''),
    (''RegisterExceptionHandler'', CPtr ''EFI_REGISTER_EXCEPTION_HANDLER''),
    (''IpCallTrace'', CPtr ''EFI_IP_CALL_TRACE'')]"

definition EFI_DEBUGPORT_IO_RESET :: csig where
  "EFI_DEBUGPORT_IO_RESET = Fn (Some EFI_STATUS) [
    Arg In ''This'' (CPtr ''_EFI_DEBUGPORT_IO_INTERFACE'')]"

definition EFI_DEBUGPORT_IO_READ :: csig where
  "EFI_DEBUGPORT_IO_READ = Fn (Some EFI_STATUS) [
    Arg In ''This'' (CPtr ''_EFI_DEBUGPORT_IO_INTERFACE''),
    Arg InOut ''BufferSize'' (CPtr ''UINTN''), Arg Out ''Buffer'' (CPtr ''VOID'')]"

definition EFI_DEBUGPORT_IO_WRITE :: csig where
  "EFI_DEBUGPORT_IO_WRITE = Fn (Some EFI_STATUS) [
    Arg In ''This'' (CPtr ''_EFI_DEBUGPORT_IO_INTERFACE''),
    Arg InOut ''BufferSize'' (CPtr ''UINTN''), Arg In ''Buffer'' (CPtr ''VOID'')]"

definition EFI_DEBUGPORT_IO_INTERFACE_REVISION :: u64 where
  "EFI_DEBUGPORT_IO_INTERFACE_REVISION = 0x00010000"

definition EFI_DEBUGPORT_IO_INTERFACE :: cty where
  "EFI_DEBUGPORT_IO_INTERFACE = CStruct [(''Revision'', UINT32),
    (''Read'', CPtr ''EFI_DEBUGPORT_IO_READ''), (''Write'', CPtr ''EFI_DEBUGPORT_IO_WRITE''),
    (''Reset'', CPtr ''EFI_DEBUGPORT_IO_RESET'')]"

definition EFI_UART16550_SET_ATTRIBUTES :: csig where
  "EFI_UART16550_SET_ATTRIBUTES = Fn (Some EFI_STATUS) [
    Arg In ''This'' (CPtr ''_EFI_DEBUGPORT_UART16550_CONTROL_INTERFACE''),
    Arg In ''BaudRate'' UINT64, Arg In ''ReceiveFifoDepth'' UINT32, Arg In ''Timeout'' UINT32,
    Arg In ''Parity'' EFI_PARITY_TYPE, Arg In ''DataBits'' UINT8,
    Arg In ''StopBits'' EFI_STOP_BITS_TYPE]"

definition EFI_UART16550_SET_CONTROL_BITS :: csig where
  "EFI_UART16550_SET_CONTROL_BITS = Fn (Some EFI_STATUS) [
    Arg In ''This'' (CPtr ''_EFI_DEBUGPORT_UART16550_CONTROL_INTERFACE''),
    Arg In ''Control'' UINT32]"

definition EFI_UART16550_GET_CONTROL_BITS :: csig where
  "EFI_UART16550_GET_CONTROL_BITS = Fn (Some EFI_STATUS) [
    Arg In ''This'' (CPtr ''_EFI_DEBUGPORT_UART16550_CONTROL_INTERFACE''),
    Arg Out ''Control'' (CPtr ''UINT32'')]"

definition EFI_DEBUGPORT_UART16550_CONTROL_INTERFACE_REVISION :: u64 where
  "EFI_DEBUGPORT_UART16550_CONTROL_INTERFACE_REVISION = 0x00010000"

definition EFI_DEBUGPORT_UART16550_CONTROL_INTERFACE :: cty where
  "EFI_DEBUGPORT_UART16550_CONTROL_INTERFACE = CStruct [(''Revision'', UINT32),
    (''SetAttributes'', CPtr ''EFI_UART16550_SET_ATTRIBUTES''),
    (''SetControl'', CPtr ''EFI_UART16550_SET_CONTROL_BITS''),
    (''GetControl'', CPtr ''EFI_UART16550_GET_CONTROL_BITS''),
    (''Mode'', CPtr ''DEBUGPORT_16550_CONFIG_DATA'')]"


end
