(* ===== verification/Efi_Net.thy ===== *)
theory Efi_Net
  imports Efi_Api
begin

text \<open>
  The network protocols: \<open>efinet.h\<close>, \<open>efiip.h\<close>, \<open>efitcp.h\<close> and \<open>efiudp.h\<close>.
\<close>

section \<open>efinet.h\<close>

definition EFI_SIMPLE_NETWORK_PROTOCOL_GUID :: guid where
  "EFI_SIMPLE_NETWORK_PROTOCOL_GUID = GUID 0xA19832B9 0xAC25 0x11D3 [0x9A, 0x2D, 0x00, 0x90, 0x27, 0x3F, 0xC1, 0x4D]"

definition EFI_NETWORK_STATISTICS :: cty where
  "EFI_NETWORK_STATISTICS = CStruct [(''RxTotalFrames'', UINT64), (''RxGoodFrames'', UINT64),
    (''RxUndersizeFrames'', UINT64), (''RxOversizeFrames'', UINT64),
    (''RxDroppedFrames'', UINT64), (''RxUnicastFrames'', UINT64),
    (''RxBroadcastFrames'', UINT64), (''RxMulticastFrames'', UINT64),
    (''RxCrcErrorFrames'', UINT64), (''RxTotalBytes'', UINT64), (''TxTotalFrames'', UINT64),
    (''TxGoodFrames'', UINT64), (''TxUndersizeFrames'', UINT64), (''TxOversizeFrames'', UINT64),
    (''TxDroppedFrames'', UINT64), (''TxUnicastFrames'', UINT64),
    (''TxBroadcastFrames'', UINT64), (''TxMulticastFrames'', UINT64),
    (''TxCrcErrorFrames'', UINT64), (''TxTotalBytes'', UINT64), (''Collisions'', UINT64),
    (''UnsupportedProtocol'', UINT64)]"

definition EFI_SIMPLE_NETWORK_STATE :: cty where "EFI_SIMPLE_NETWORK_STATE = C32"
definition EfiSimpleNetworkStopped :: u32 where "EfiSimpleNetworkStopped = 0"
definition EfiSimpleNetworkStarted :: u32 where "EfiSimpleNetworkStarted = 1"
definition EfiSimpleNetworkInitialized :: u32 where "EfiSimpleNetworkInitialized = 2"
definition EfiSimpleNetworkMaxState :: u32 where "EfiSimpleNetworkMaxState = 3"
definition EFI_SIMPLE_NETWORK_RECEIVE_UNICAST :: u64 where
  "EFI_SIMPLE_NETWORK_RECEIVE_UNICAST = 0x01"

definition EFI_SIMPLE_NETWORK_RECEIVE_MULTICAST :: u64 where
  "EFI_SIMPLE_NETWORK_RECEIVE_MULTICAST = 0x02"

definition EFI_SIMPLE_NETWORK_RECEIVE_BROADCAST :: u64 where
  "EFI_SIMPLE_NETWORK_RECEIVE_BROADCAST = 0x04"

definition EFI_SIMPLE_NETWORK_RECEIVE_PROMISCUOUS :: u64 where
  "EFI_SIMPLE_NETWORK_RECEIVE_PROMISCUOUS = 0x08"

definition EFI_SIMPLE_NETWORK_RECEIVE_PROMISCUOUS_MULTICAST :: u64 where
  "EFI_SIMPLE_NETWORK_RECEIVE_PROMISCUOUS_MULTICAST = 0x10"

definition EFI_SIMPLE_NETWORK_RECEIVE_INTERRUPT :: u64 where
  "EFI_SIMPLE_NETWORK_RECEIVE_INTERRUPT = 0x01"

definition EFI_SIMPLE_NETWORK_TRANSMIT_INTERRUPT :: u64 where
  "EFI_SIMPLE_NETWORK_TRANSMIT_INTERRUPT = 0x02"

definition EFI_SIMPLE_NETWORK_COMMAND_INTERRUPT :: u64 where
  "EFI_SIMPLE_NETWORK_COMMAND_INTERRUPT = 0x04"

definition EFI_SIMPLE_NETWORK_SOFTWARE_INTERRUPT :: u64 where
  "EFI_SIMPLE_NETWORK_SOFTWARE_INTERRUPT = 0x08"

definition MAX_MCAST_FILTER_CNT :: u64 where "MAX_MCAST_FILTER_CNT = 16"

definition EFI_SIMPLE_NETWORK_MODE :: cty where
  "EFI_SIMPLE_NETWORK_MODE = CStruct [(''State'', UINT32), (''HwAddressSize'', UINT32),
    (''MediaHeaderSize'', UINT32), (''MaxPacketSize'', UINT32), (''NvRamSize'', UINT32),
    (''NvRamAccessSize'', UINT32), (''ReceiveFilterMask'', UINT32),
    (''ReceiveFilterSetting'', UINT32), (''MaxMCastFilterCount'', UINT32),
    (''MCastFilterCount'', UINT32),
    (''MCastFilter'', CArr EFI_MAC_ADDRESS (unat MAX_MCAST_FILTER_CNT)),
    (''CurrentAddress'', EFI_MAC_ADDRESS), (''BroadcastAddress'', EFI_MAC_ADDRESS),
    (''PermanentAddress'', EFI_MAC_ADDRESS), (''IfType'', UINT8),
    (''MacAddressChangeable'', BOOLEAN), (''MultipleTxSupported'', BOOLEAN),
    (''MediaPresentSupported'', BOOLEAN), (''MediaPresent'', BOOLEAN)]"

definition EFI_SIMPLE_NETWORK_START :: csig where
  "EFI_SIMPLE_NETWORK_START = Fn (Some EFI_STATUS) [
    Arg In ''This'' (CPtr ''_EFI_SIMPLE_NETWORK_PROTOCOL'')]"

definition EFI_SIMPLE_NETWORK_STOP :: csig where
  "EFI_SIMPLE_NETWORK_STOP = Fn (Some EFI_STATUS) [
    Arg In ''This'' (CPtr ''_EFI_SIMPLE_NETWORK_PROTOCOL'')]"

definition EFI_SIMPLE_NETWORK_INITIALIZE :: csig where
  "EFI_SIMPLE_NETWORK_INITIALIZE = Fn (Some EFI_STATUS) [
    Arg In ''This'' (CPtr ''_EFI_SIMPLE_NETWORK_PROTOCOL''),
    OptArg In ''ExtraRxBufferSize'' UINTN, OptArg In ''ExtraTxBufferSize'' UINTN]"

definition EFI_SIMPLE_NETWORK_RESET :: csig where
  "EFI_SIMPLE_NETWORK_RESET = Fn (Some EFI_STATUS) [
    Arg In ''This'' (CPtr ''_EFI_SIMPLE_NETWORK_PROTOCOL''),
    Arg In ''ExtendedVerification'' BOOLEAN]"

definition EFI_SIMPLE_NETWORK_SHUTDOWN :: csig where
  "EFI_SIMPLE_NETWORK_SHUTDOWN = Fn (Some EFI_STATUS) [
    Arg In ''This'' (CPtr ''_EFI_SIMPLE_NETWORK_PROTOCOL'')]"

definition EFI_SIMPLE_NETWORK_RECEIVE_FILTERS :: csig where
  "EFI_SIMPLE_NETWORK_RECEIVE_FILTERS = Fn (Some EFI_STATUS) [
    Arg In ''This'' (CPtr ''_EFI_SIMPLE_NETWORK_PROTOCOL''), Arg In ''Enable'' UINT32,
    Arg In ''Disable'' UINT32, Arg In ''ResetMCastFilter'' BOOLEAN,
    OptArg In ''MCastFilterCnt'' UINTN, OptArg In ''MCastFilter'' (CPtr ''EFI_MAC_ADDRESS'')]"

definition EFI_SIMPLE_NETWORK_STATION_ADDRESS :: csig where
  "EFI_SIMPLE_NETWORK_STATION_ADDRESS = Fn (Some EFI_STATUS) [
    Arg In ''This'' (CPtr ''_EFI_SIMPLE_NETWORK_PROTOCOL''), Arg In ''Reset'' BOOLEAN,
    OptArg In ''New'' (CPtr ''EFI_MAC_ADDRESS'')]"

definition EFI_SIMPLE_NETWORK_STATISTICS :: csig where
  "EFI_SIMPLE_NETWORK_STATISTICS = Fn (Some EFI_STATUS) [
    Arg In ''This'' (CPtr ''_EFI_SIMPLE_NETWORK_PROTOCOL''), Arg In ''Reset'' BOOLEAN,
    OptArg InOut ''StatisticsSize'' (CPtr ''UINTN''),
    OptArg Out ''StatisticsTable'' (CPtr ''EFI_NETWORK_STATISTICS'')]"

definition EFI_SIMPLE_NETWORK_MCAST_IP_TO_MAC :: csig where
  "EFI_SIMPLE_NETWORK_MCAST_IP_TO_MAC = Fn (Some EFI_STATUS) [
    Arg In ''This'' (CPtr ''_EFI_SIMPLE_NETWORK_PROTOCOL''), Arg In ''IPv6'' BOOLEAN,
    Arg In ''IP'' (CPtr ''EFI_IP_ADDRESS''), Arg Out ''MAC'' (CPtr ''EFI_MAC_ADDRESS'')]"

definition EFI_SIMPLE_NETWORK_NVDATA :: csig where
  "EFI_SIMPLE_NETWORK_NVDATA = Fn (Some EFI_STATUS) [
    Arg In ''This'' (CPtr ''_EFI_SIMPLE_NETWORK_PROTOCOL''), Arg In ''ReadWrite'' BOOLEAN,
    Arg In ''Offset'' UINTN, Arg In ''BufferSize'' UINTN, Arg InOut ''Buffer'' (CPtr ''VOID'')]"

definition EFI_SIMPLE_NETWORK_GET_STATUS :: csig where
  "EFI_SIMPLE_NETWORK_GET_STATUS = Fn (Some EFI_STATUS) [
    Arg In ''This'' (CPtr ''_EFI_SIMPLE_NETWORK_PROTOCOL''),
    OptArg Out ''InterruptStatus'' (CPtr ''UINT32''), OptArg Out ''TxBuf'' (CPtr ''VOID *'')]"

definition EFI_SIMPLE_NETWORK_TRANSMIT :: csig where
  "EFI_SIMPLE_NETWORK_TRANSMIT = Fn (Some EFI_STATUS) [
    Arg In ''This'' (CPtr ''_EFI_SIMPLE_NETWORK_PROTOCOL''), Arg In ''HeaderSize'' UINTN,
    Arg In ''BufferSize'' UINTN, Arg In ''Buffer'' (CPtr ''VOID''),
    OptArg In ''SrcAddr'' (CPtr ''EFI_MAC_ADDRESS''),
    OptArg In ''DestAddr'' (CPtr ''EFI_MAC_ADDRESS''), OptArg In ''Protocol'' (CPtr ''UINT16'')]"

definition EFI_SIMPLE_NETWORK_RECEIVE :: csig where
  "EFI_SIMPLE_NETWORK_RECEIVE = Fn (Some EFI_STATUS) [
    Arg In ''This'' (CPtr ''_EFI_SIMPLE_NETWORK_PROTOCOL''),
    OptArg Out ''HeaderSize'' (CPtr ''UINTN''), Arg InOut ''BufferSize'' (CPtr ''UINTN''),
    Arg Out ''Buffer'' (CPtr ''VOID''), OptArg Out ''SrcAddr'' (CPtr ''EFI_MAC_ADDRESS''),
    OptArg Out ''DestAddr'' (CPtr ''EFI_MAC_ADDRESS''), OptArg Out ''Protocol'' (CPtr ''UINT16'')]"

definition EFI_SIMPLE_NETWORK_PROTOCOL_REVISION :: u64 where
  "EFI_SIMPLE_NETWORK_PROTOCOL_REVISION = 0x00010000"

definition EFI_SIMPLE_NETWORK_INTERFACE_REVISION :: u64 where
  "EFI_SIMPLE_NETWORK_INTERFACE_REVISION = EFI_SIMPLE_NETWORK_PROTOCOL_REVISION"

definition EFI_SIMPLE_NETWORK_PROTOCOL :: cty where
  "EFI_SIMPLE_NETWORK_PROTOCOL = CStruct [(''Revision'', UINT64),
    (''Start'', CPtr ''EFI_SIMPLE_NETWORK_START''), (''Stop'', CPtr ''EFI_SIMPLE_NETWORK_STOP''),
    (''Initialize'', CPtr ''EFI_SIMPLE_NETWORK_INITIALIZE''),
    (''Reset'', CPtr ''EFI_SIMPLE_NETWORK_RESET''),
    (''Shutdown'', CPtr ''EFI_SIMPLE_NETWORK_SHUTDOWN''),
    (''ReceiveFilters'', CPtr ''EFI_SIMPLE_NETWORK_RECEIVE_FILTERS''),
    (''StationAddress'', CPtr ''EFI_SIMPLE_NETWORK_STATION_ADDRESS''),
    (''Statistics'', CPtr ''EFI_SIMPLE_NETWORK_STATISTICS''),
    (''MCastIpToMac'', CPtr ''EFI_SIMPLE_NETWORK_MCAST_IP_TO_MAC''),
    (''NvData'', CPtr ''EFI_SIMPLE_NETWORK_NVDATA''),
    (''GetStatus'', CPtr ''EFI_SIMPLE_NETWORK_GET_STATUS''),
    (''Transmit'', CPtr ''EFI_SIMPLE_NETWORK_TRANSMIT''),
    (''Receive'', CPtr ''EFI_SIMPLE_NETWORK_RECEIVE''), (''WaitForPacket'', EFI_EVENT),
    (''Mode'', CPtr ''EFI_SIMPLE_NETWORK_MODE'')]"

definition EFI_SIMPLE_NETWORK :: cty where "EFI_SIMPLE_NETWORK = EFI_SIMPLE_NETWORK_PROTOCOL"

section \<open>efiip.h\<close>

definition EFI_IP4_SERVICE_BINDING_PROTOCOL :: guid where
  "EFI_IP4_SERVICE_BINDING_PROTOCOL = GUID 0xC51711E7 0xB4BF 0x404A [0xBF, 0xB8, 0x0A, 0x04, 0x8E, 0xF1, 0xFF, 0xE4]"

definition EFI_IP4_PROTOCOL :: guid where
  "EFI_IP4_PROTOCOL = GUID 0x41D94CD2 0x35B6 0x455A [0x82, 0x58, 0xD4, 0xE5, 0x13, 0x34, 0xAA, 0xDD]"

definition EFI_IP6_SERVICE_BINDING_PROTOCOL :: guid where
  "EFI_IP6_SERVICE_BINDING_PROTOCOL = GUID 0xEC835DD3 0xFE0F 0x617B [0xA6, 0x21, 0xB3, 0x50, 0xC3, 0xE1, 0x33, 0x88]"

definition EFI_IP6_PROTOCOL :: guid where
  "EFI_IP6_PROTOCOL = GUID 0x2C8759D5 0x5C2D 0x66EF [0x92, 0x5F, 0xB6, 0x6C, 0x10, 0x19, 0x57, 0xE2]"

definition EFI_IP4_ADDRESS_PAIR :: cty where
  "EFI_IP4_ADDRESS_PAIR = CStruct [(''InstanceHandle'', EFI_HANDLE),
    (''Ip4Address'', EFI_IPv4_ADDRESS), (''SubnetMask'', EFI_IPv4_ADDRESS)]"

definition EFI_IP4_VARIABLE_DATA :: cty where
  "EFI_IP4_VARIABLE_DATA = CStruct [(''DriverHandle'', EFI_HANDLE), (''AddressCount'', UINT32),
    (''AddressPairs'', CArr EFI_IP4_ADDRESS_PAIR 1)]"

definition EFI_IP4_CONFIG_DATA :: cty where
  "EFI_IP4_CONFIG_DATA = CStruct [(''DefaultProtocol'', UINT8), (''AcceptAnyProtocol'', BOOLEAN),
    (''AcceptIcmpErrors'', BOOLEAN), (''AcceptBroadcast'', BOOLEAN),
    (''AcceptPromiscuous'', BOOLEAN), (''UseDefaultAddress'', BOOLEAN),
    (''StationAddress'', EFI_IPv4_ADDRESS), (''SubnetMask'', EFI_IPv4_ADDRESS),
    (''TypeOfService'', UINT8), (''TimeToLive'', UINT8), (''DoNotFragment'', BOOLEAN),
    (''RawData'', BOOLEAN), (''ReceiveTimeout'', UINT32), (''TransmitTimeout'', UINT32)]"

definition EFI_IP4_ROUTE_TABLE :: cty where
  "EFI_IP4_ROUTE_TABLE = CStruct [(''SubnetAddress'', EFI_IPv4_ADDRESS),
    (''SubnetMask'', EFI_IPv4_ADDRESS), (''GatewayAddress'', EFI_IPv4_ADDRESS)]"

definition EFI_IP4_ICMP_TYPE :: cty where
  "EFI_IP4_ICMP_TYPE = CStruct [(''Type'', UINT8), (''Code'', UINT8)]"

definition EFI_IP4_MODE_DATA :: cty where
  "EFI_IP4_MODE_DATA = CStruct [(''IsStarted'', BOOLEAN), (''MaxPacketSize'', UINT32),
    (''ConfigData'', EFI_IP4_CONFIG_DATA), (''IsConfigured'', BOOLEAN), (''GroupCount'', UINT32),
    (''GroupTable'', CPtr ''EFI_IPv4_ADDRESS''), (''RouteCount'', UINT32),
    (''RouteTable'', CPtr ''EFI_IP4_ROUTE_TABLE''), (''IcmpTypeCount'', UINT32),
    (''IcmpTypeList'', CPtr ''EFI_IP4_ICMP_TYPE'')]"

definition EFI_IP4_GET_MODE_DATA :: csig where
  "EFI_IP4_GET_MODE_DATA = Fn (Some EFI_STATUS) [Arg In ''This'' (CPtr ''_EFI_IP4''),
    OptArg Out ''Ip4ModeData'' (CPtr ''EFI_IP4_MODE_DATA''),
    OptArg Out ''MnpConfigData'' (CPtr ''EFI_MANAGED_NETWORK_CONFIG_DATA''),
    OptArg Out ''SnpModeData'' (CPtr ''EFI_SIMPLE_NETWORK_MODE'')]"

definition EFI_IP4_CONFIGURE :: csig where
  "EFI_IP4_CONFIGURE = Fn (Some EFI_STATUS) [Arg In ''This'' (CPtr ''_EFI_IP4''),
    OptArg In ''IpConfigData'' (CPtr ''EFI_IP4_CONFIG_DATA'')]"

definition EFI_IP4_GROUPS :: csig where
  "EFI_IP4_GROUPS = Fn (Some EFI_STATUS) [Arg In ''This'' (CPtr ''_EFI_IP4''),
    Arg In ''JoinFlag'' BOOLEAN, OptArg In ''GroupAddress'' (CPtr ''EFI_IPv4_ADDRESS'')]"

definition EFI_IP4_ROUTES :: csig where
  "EFI_IP4_ROUTES = Fn (Some EFI_STATUS) [Arg In ''This'' (CPtr ''_EFI_IP4''),
    Arg In ''DeleteRoute'' BOOLEAN, Arg In ''SubnetAddress'' (CPtr ''EFI_IPv4_ADDRESS''),
    Arg In ''SubnetMask'' (CPtr ''EFI_IPv4_ADDRESS''),
    Arg In ''GatewayAddress'' (CPtr ''EFI_IPv4_ADDRESS'')]"

definition EFI_IP4_HEADER :: cty where
  "EFI_IP4_HEADER = CPacked [(''HeaderLength:4 Version:4'', UINT8), (''TypeOfService'', UINT8),
    (''TotalLength'', UINT16), (''Identification'', UINT16), (''Fragmentation'', UINT16),
    (''TimeToLive'', UINT8), (''Protocol'', UINT8), (''Checksum'', UINT16),
    (''SourceAddress'', EFI_IPv4_ADDRESS), (''DestinationAddress'', EFI_IPv4_ADDRESS)]"

definition EFI_IP4_FRAGMENT_DATA :: cty where
  "EFI_IP4_FRAGMENT_DATA = CStruct [(''FragmentLength'', UINT32),
    (''FragmentBuffer'', CPtr ''VOID'')]"

definition EFI_IP4_RECEIVE_DATA :: cty where
  "EFI_IP4_RECEIVE_DATA = CStruct [(''TimeStamp'', EFI_TIME), (''RecycleSignal'', EFI_EVENT),
    (''HeaderLength'', UINT32), (''Header'', CPtr ''EFI_IP4_HEADER''),
    (''OptionsLength'', UINT32), (''Options'', CPtr ''VOID''), (''DataLength'', UINT32),
    (''FragmentCount'', UINT32), (''FragmentTable'', CArr EFI_IP4_FRAGMENT_DATA 1)]"

definition EFI_IP4_OVERRIDE_DATA :: cty where
  "EFI_IP4_OVERRIDE_DATA = CStruct [(''SourceAddress'', EFI_IPv4_ADDRESS),
    (''GatewayAddress'', EFI_IPv4_ADDRESS), (''Protocol'', UINT8), (''TypeOfService'', UINT8),
    (''TimeToLive'', UINT8), (''DoNotFragment'', BOOLEAN)]"

definition EFI_IP4_TRANSMIT_DATA :: cty where
  "EFI_IP4_TRANSMIT_DATA = CStruct [(''DestinationAddress'', EFI_IPv4_ADDRESS),
    (''OverrideData'', CPtr ''EFI_IP4_OVERRIDE_DATA''), (''OptionsLength'', UINT32),
    (''OptionsBuffer'', CPtr ''VOID''), (''TotalDataLength'', UINT32),
    (''FragmentCount'', UINT32), (''FragmentTable'', CArr EFI_IP4_FRAGMENT_DATA 1)]"

definition EFI_IP4_COMPLETION_TOKEN :: cty where
  "EFI_IP4_COMPLETION_TOKEN = CStruct [(''Event'', EFI_EVENT), (''Status'', EFI_STATUS),
    (''Packet'', CUnion [(''RxData'', CPtr ''EFI_IP4_RECEIVE_DATA''), (''TxData'', CPtr ''EFI_IP4_TRANSMIT_DATA'')])]"

definition EFI_IP4_TRANSMIT :: csig where
  "EFI_IP4_TRANSMIT = Fn (Some EFI_STATUS) [Arg In ''This'' (CPtr ''_EFI_IP4''),
    Arg In ''Token'' (CPtr ''EFI_IP4_COMPLETION_TOKEN'')]"

definition EFI_IP4_RECEIVE :: csig where
  "EFI_IP4_RECEIVE = Fn (Some EFI_STATUS) [Arg In ''This'' (CPtr ''_EFI_IP4''),
    Arg In ''Token'' (CPtr ''EFI_IP4_COMPLETION_TOKEN'')]"

definition EFI_IP4_CANCEL :: csig where
  "EFI_IP4_CANCEL = Fn (Some EFI_STATUS) [Arg In ''This'' (CPtr ''_EFI_IP4''),
    OptArg In ''Token'' (CPtr ''EFI_IP4_COMPLETION_TOKEN'')]"

definition EFI_IP4_POLL :: csig where
  "EFI_IP4_POLL = Fn (Some EFI_STATUS) [Arg In ''This'' (CPtr ''_EFI_IP4'')]"

definition EFI_IP4 :: cty where
  "EFI_IP4 = CStruct [(''GetModeData'', CPtr ''EFI_IP4_GET_MODE_DATA''),
    (''Configure'', CPtr ''EFI_IP4_CONFIGURE''), (''Groups'', CPtr ''EFI_IP4_GROUPS''),
    (''Routes'', CPtr ''EFI_IP4_ROUTES''), (''Transmit'', CPtr ''EFI_IP4_TRANSMIT''),
    (''Receive'', CPtr ''EFI_IP4_RECEIVE''), (''Cancel'', CPtr ''EFI_IP4_CANCEL''),
    (''Poll'', CPtr ''EFI_IP4_POLL'')]"

definition EFI_IP6_CONFIG_DATA :: cty where
  "EFI_IP6_CONFIG_DATA = CStruct [(''DefaultProtocol'', UINT8), (''AcceptAnyProtocol'', BOOLEAN),
    (''AcceptIcmpErrors'', BOOLEAN), (''AcceptPromiscuous'', BOOLEAN),
    (''DestinationAddress'', EFI_IPv6_ADDRESS), (''StationAddress'', EFI_IPv6_ADDRESS),
    (''TrafficClass'', UINT8), (''HopLimit'', UINT8), (''FlowLabel'', UINT32),
    (''ReceiveTimeout'', UINT32), (''TransmitTimeout'', UINT32)]"

definition EFI_IP6_ADDRESS_INFO :: cty where
  "EFI_IP6_ADDRESS_INFO = CStruct [(''Address'', EFI_IPv6_ADDRESS), (''PrefixLength'', UINT8)]"

definition EFI_IP6_ROUTE_TABLE :: cty where
  "EFI_IP6_ROUTE_TABLE = CStruct [(''Gateway'', EFI_IPv6_ADDRESS),
    (''Destination'', EFI_IPv6_ADDRESS), (''PrefixLength'', UINT8)]"

definition EFI_IP6_NEIGHBOR_STATE :: cty where "EFI_IP6_NEIGHBOR_STATE = C32"
definition EfiNeighborInComplete :: u32 where "EfiNeighborInComplete = 0"
definition EfiNeighborReachable :: u32 where "EfiNeighborReachable = 1"
definition EfiNeighborStale :: u32 where "EfiNeighborStale = 2"
definition EfiNeighborDelay :: u32 where "EfiNeighborDelay = 3"
definition EfiNeighborProbe :: u32 where "EfiNeighborProbe = 4"

definition EFI_IP6_NEIGHBOR_CACHE :: cty where
  "EFI_IP6_NEIGHBOR_CACHE = CStruct [(''Neighbor'', EFI_IPv6_ADDRESS),
    (''LinkAddress'', EFI_MAC_ADDRESS), (''State'', EFI_IP6_NEIGHBOR_STATE)]"

definition EFI_IP6_ICMP_TYPE :: cty where
  "EFI_IP6_ICMP_TYPE = CStruct [(''Type'', UINT8), (''Code'', UINT8)]"

definition ICMP_V6_DEST_UNREACHABLE :: u64 where "ICMP_V6_DEST_UNREACHABLE = 0x1"
definition ICMP_V6_PACKET_TOO_BIG :: u64 where "ICMP_V6_PACKET_TOO_BIG = 0x2"
definition ICMP_V6_TIME_EXCEEDED :: u64 where "ICMP_V6_TIME_EXCEEDED = 0x3"
definition ICMP_V6_PARAMETER_PROBLEM :: u64 where "ICMP_V6_PARAMETER_PROBLEM = 0x4"
definition ICMP_V6_ECHO_REQUEST :: u64 where "ICMP_V6_ECHO_REQUEST = 0x80"
definition ICMP_V6_ECHO_REPLY :: u64 where "ICMP_V6_ECHO_REPLY = 0x81"
definition ICMP_V6_LISTENER_QUERY :: u64 where "ICMP_V6_LISTENER_QUERY = 0x82"
definition ICMP_V6_LISTENER_REPORT :: u64 where "ICMP_V6_LISTENER_REPORT = 0x83"
definition ICMP_V6_LISTENER_DONE :: u64 where "ICMP_V6_LISTENER_DONE = 0x84"
definition ICMP_V6_ROUTER_SOLICIT :: u64 where "ICMP_V6_ROUTER_SOLICIT = 0x85"
definition ICMP_V6_ROUTER_ADVERTISE :: u64 where "ICMP_V6_ROUTER_ADVERTISE = 0x86"
definition ICMP_V6_NEIGHBOR_SOLICIT :: u64 where "ICMP_V6_NEIGHBOR_SOLICIT = 0x87"
definition ICMP_V6_NEIGHBOR_ADVERTISE :: u64 where "ICMP_V6_NEIGHBOR_ADVERTISE = 0x88"
definition ICMP_V6_REDIRECT :: u64 where "ICMP_V6_REDIRECT = 0x89"
definition ICMP_V6_LISTENER_REPORT_2 :: u64 where "ICMP_V6_LISTENER_REPORT_2 = 0x8F"
definition ICMP_V6_NO_ROUTE_TO_DEST :: u64 where "ICMP_V6_NO_ROUTE_TO_DEST = 0x0"
definition ICMP_V6_COMM_PROHIBITED :: u64 where "ICMP_V6_COMM_PROHIBITED = 0x1"
definition ICMP_V6_BEYOND_SCOPE :: u64 where "ICMP_V6_BEYOND_SCOPE = 0x2"
definition ICMP_V6_ADDR_UNREACHABLE :: u64 where "ICMP_V6_ADDR_UNREACHABLE = 0x3"
definition ICMP_V6_PORT_UNREACHABLE :: u64 where "ICMP_V6_PORT_UNREACHABLE = 0x4"
definition ICMP_V6_SOURCE_ADDR_FAILED :: u64 where "ICMP_V6_SOURCE_ADDR_FAILED = 0x5"
definition ICMP_V6_ROUTE_REJECTED :: u64 where "ICMP_V6_ROUTE_REJECTED = 0x6"
definition ICMP_V6_TIMEOUT_HOP_LIMIT :: u64 where "ICMP_V6_TIMEOUT_HOP_LIMIT = 0x0"
definition ICMP_V6_TIMEOUT_REASSEMBLE :: u64 where "ICMP_V6_TIMEOUT_REASSEMBLE = 0x1"
definition ICMP_V6_ERRONEOUS_HEADER :: u64 where "ICMP_V6_ERRONEOUS_HEADER = 0x0"
definition ICMP_V6_UNRECOGNIZE_NEXT_HDR :: u64 where "ICMP_V6_UNRECOGNIZE_NEXT_HDR = 0x1"
definition ICMP_V6_UNRECOGNIZE_OPTION :: u64 where "ICMP_V6_UNRECOGNIZE_OPTION = 0x2"

definition EFI_IP6_MODE_DATA :: cty where
  "EFI_IP6_MODE_DATA = CStruct [(''IsStarted'', BOOLEAN), (''MaxPacketSize'', UINT32),
    (''ConfigData'', EFI_IP6_CONFIG_DATA), (''IsConfigured'', BOOLEAN),
    (''AddressCount'', UINT32), (''AddressList'', CPtr ''EFI_IP6_ADDRESS_INFO''),
    (''GroupCount'', UINT32), (''GroupTable'', CPtr ''EFI_IPv6_ADDRESS''),
    (''RouteCount'', UINT32), (''RouteTable'', CPtr ''EFI_IP6_ROUTE_TABLE''),
    (''NeighborCount'', UINT32), (''NeighborCache'', CPtr ''EFI_IP6_NEIGHBOR_CACHE''),
    (''PrefixCount'', UINT32), (''PrefixTable'', CPtr ''EFI_IP6_ADDRESS_INFO''),
    (''IcmpTypeCount'', UINT32), (''IcmpTypeList'', CPtr ''EFI_IP6_ICMP_TYPE'')]"

definition EFI_IP6_GET_MODE_DATA :: csig where
  "EFI_IP6_GET_MODE_DATA = Fn (Some EFI_STATUS) [Arg In ''This'' (CPtr ''_EFI_IP6''),
    OptArg Out ''Ip6ModeData'' (CPtr ''EFI_IP6_MODE_DATA''),
    OptArg Out ''MnpConfigData'' (CPtr ''EFI_MANAGED_NETWORK_CONFIG_DATA''),
    OptArg Out ''SnpModeData'' (CPtr ''EFI_SIMPLE_NETWORK_MODE'')]"

definition EFI_IP6_CONFIGURE :: csig where
  "EFI_IP6_CONFIGURE = Fn (Some EFI_STATUS) [Arg In ''This'' (CPtr ''_EFI_IP6''),
    OptArg In ''Ip6ConfigData'' (CPtr ''EFI_IP6_CONFIG_DATA'')]"

definition EFI_IP6_GROUPS :: csig where
  "EFI_IP6_GROUPS = Fn (Some EFI_STATUS) [Arg In ''This'' (CPtr ''_EFI_IP6''),
    Arg In ''JoinFlag'' BOOLEAN, OptArg In ''GroupAddress'' (CPtr ''EFI_IPv6_ADDRESS'')]"

definition EFI_IP6_ROUTES :: csig where
  "EFI_IP6_ROUTES = Fn (Some EFI_STATUS) [Arg In ''This'' (CPtr ''_EFI_IP6''),
    Arg In ''DeleteRoute'' BOOLEAN, OptArg In ''Destination'' (CPtr ''EFI_IPv6_ADDRESS''),
    Arg In ''PrefixLength'' UINT8, OptArg In ''GatewayAddress'' (CPtr ''EFI_IPv6_ADDRESS'')]"

definition EFI_IP6_NEIGHBORS :: csig where
  "EFI_IP6_NEIGHBORS = Fn (Some EFI_STATUS) [Arg In ''This'' (CPtr ''_EFI_IP6''),
    Arg In ''DeleteFlag'' BOOLEAN, Arg In ''TargetIp6Address'' (CPtr ''EFI_IPv6_ADDRESS''),
    OptArg In ''TargetLinkAddress'' (CPtr ''EFI_MAC_ADDRESS''), Arg In ''Timeout'' UINT32,
    Arg In ''Override'' BOOLEAN]"

definition EFI_IP6_FRAGMENT_DATA :: cty where
  "EFI_IP6_FRAGMENT_DATA = CStruct [(''FragmentLength'', UINT32),
    (''FragmentBuffer'', CPtr ''VOID'')]"

definition EFI_IP6_OVERRIDE_DATA :: cty where
  "EFI_IP6_OVERRIDE_DATA = CStruct [(''Protocol'', UINT8), (''HopLimit'', UINT8),
    (''FlowLabel'', UINT32)]"

definition EFI_IP6_TRANSMIT_DATA :: cty where
  "EFI_IP6_TRANSMIT_DATA = CStruct [(''DestinationAddress'', EFI_IPv6_ADDRESS),
    (''OverrideData'', CPtr ''EFI_IP6_OVERRIDE_DATA''), (''ExtHdrsLength'', UINT32),
    (''ExtHdrs'', CPtr ''VOID''), (''NextHeader'', UINT8), (''DataLength'', UINT32),
    (''FragmentCount'', UINT32), (''FragmentTable'', CArr EFI_IP6_FRAGMENT_DATA 1)]"

definition EFI_IP6_HEADER :: cty where
  "EFI_IP6_HEADER = CPacked [(''TrafficClassH:4 Version:4'', UINT8),
    (''FlowLabelH:4 TrafficClassL:4'', UINT8), (''FlowLabelL'', UINT16),
    (''PayloadLength'', UINT16), (''NextHeader'', UINT8), (''HopLimit'', UINT8),
    (''SourceAddress'', EFI_IPv6_ADDRESS), (''DestinationAddress'', EFI_IPv6_ADDRESS)]"

definition EFI_IP6_RECEIVE_DATA :: cty where
  "EFI_IP6_RECEIVE_DATA = CStruct [(''TimeStamp'', EFI_TIME), (''RecycleSignal'', EFI_EVENT),
    (''HeaderLength'', UINT32), (''Header'', CPtr ''EFI_IP6_HEADER''), (''DataLength'', UINT32),
    (''FragmentCount'', UINT32), (''FragmentTable'', CArr EFI_IP6_FRAGMENT_DATA 1)]"

definition EFI_IP6_COMPLETION_TOKEN :: cty where
  "EFI_IP6_COMPLETION_TOKEN = CStruct [(''Event'', EFI_EVENT), (''Status'', EFI_STATUS),
    (''Packet'', CUnion [(''RxData'', CPtr ''EFI_IP6_RECEIVE_DATA''), (''TxData'', CPtr ''EFI_IP6_TRANSMIT_DATA'')])]"

definition EFI_IP6_TRANSMIT :: csig where
  "EFI_IP6_TRANSMIT = Fn (Some EFI_STATUS) [Arg In ''This'' (CPtr ''_EFI_IP6''),
    Arg In ''Token'' (CPtr ''EFI_IP6_COMPLETION_TOKEN'')]"

definition EFI_IP6_RECEIVE :: csig where
  "EFI_IP6_RECEIVE = Fn (Some EFI_STATUS) [Arg In ''This'' (CPtr ''_EFI_IP6''),
    Arg In ''Token'' (CPtr ''EFI_IP6_COMPLETION_TOKEN'')]"

definition EFI_IP6_CANCEL :: csig where
  "EFI_IP6_CANCEL = Fn (Some EFI_STATUS) [Arg In ''This'' (CPtr ''_EFI_IP6''),
    OptArg In ''Token'' (CPtr ''EFI_IP6_COMPLETION_TOKEN'')]"

definition EFI_IP6_POLL :: csig where
  "EFI_IP6_POLL = Fn (Some EFI_STATUS) [Arg In ''This'' (CPtr ''_EFI_IP6'')]"

definition EFI_IP6 :: cty where
  "EFI_IP6 = CStruct [(''GetModeData'', CPtr ''EFI_IP6_GET_MODE_DATA''),
    (''Configure'', CPtr ''EFI_IP6_CONFIGURE''), (''Groups'', CPtr ''EFI_IP6_GROUPS''),
    (''Routes'', CPtr ''EFI_IP6_ROUTES''), (''Neighbors'', CPtr ''EFI_IP6_NEIGHBORS''),
    (''Transmit'', CPtr ''EFI_IP6_TRANSMIT''), (''Receive'', CPtr ''EFI_IP6_RECEIVE''),
    (''Cancel'', CPtr ''EFI_IP6_CANCEL''), (''Poll'', CPtr ''EFI_IP6_POLL'')]"

section \<open>efitcp.h\<close>

definition EFI_TCP4_SERVICE_BINDING_PROTOCOL :: guid where
  "EFI_TCP4_SERVICE_BINDING_PROTOCOL = GUID 0x00720665 0x67EB 0x4A99 [0xBA, 0xF7, 0xD3, 0xC3, 0x3A, 0x1C, 0x7C, 0xC9]"

definition EFI_TCP4_PROTOCOL :: guid where
  "EFI_TCP4_PROTOCOL = GUID 0x65530BC7 0xA359 0x410F [0xB0, 0x10, 0x5A, 0xAD, 0xC7, 0xEC, 0x2B, 0x62]"

definition EFI_TCP6_SERVICE_BINDING_PROTOCOL :: guid where
  "EFI_TCP6_SERVICE_BINDING_PROTOCOL = GUID 0xEC20EB79 0x6C1A 0x4664 [0x9A, 0xD, 0xD2, 0xE4, 0xCC, 0x16, 0xD6, 0x64]"

definition EFI_TCP6_PROTOCOL :: guid where
  "EFI_TCP6_PROTOCOL = GUID 0x46E44855 0xBD60 0x4AB7 [0xAB, 0xD, 0xA6, 0x79, 0xB9, 0x44, 0x7D, 0x77]"

definition EFI_TCP4_ACCESS_POINT :: cty where
  "EFI_TCP4_ACCESS_POINT = CStruct [(''UseDefaultAddress'', BOOLEAN),
    (''StationAddress'', EFI_IPv4_ADDRESS), (''SubnetMask'', EFI_IPv4_ADDRESS),
    (''StationPort'', UINT16), (''RemoteAddress'', EFI_IPv4_ADDRESS), (''RemotePort'', UINT16),
    (''ActiveFlag'', BOOLEAN)]"

definition EFI_TCP4_OPTION :: cty where
  "EFI_TCP4_OPTION = CStruct [(''ReceiveBufferSize'', UINT32), (''SendBufferSize'', UINT32),
    (''MaxSynBackLog'', UINT32), (''ConnectionTimeout'', UINT32), (''DataRetries'', UINT32),
    (''FinTimeout'', UINT32), (''TimeWaitTimeout'', UINT32), (''KeepAliveProbes'', UINT32),
    (''KeepAliveTime'', UINT32), (''KeepAliveInterval'', UINT32), (''EnableNagle'', BOOLEAN),
    (''EnableTimeStamp'', BOOLEAN), (''EnableWindowScaling'', BOOLEAN),
    (''EnableSelectiveAck'', BOOLEAN), (''EnablePAthMtuDiscovery'', BOOLEAN)]"

definition EFI_TCP4_CONFIG_DATA :: cty where
  "EFI_TCP4_CONFIG_DATA = CStruct [(''TypeOfService'', UINT8), (''TimeToLive'', UINT8),
    (''AccessPoint'', EFI_TCP4_ACCESS_POINT), (''ControlOption'', CPtr ''EFI_TCP4_OPTION'')]"

definition EFI_TCP4_CONNECTION_STATE :: cty where "EFI_TCP4_CONNECTION_STATE = C32"
definition Tcp4StateClosed :: u32 where "Tcp4StateClosed = 0"
definition Tcp4StateListen :: u32 where "Tcp4StateListen = 1"
definition Tcp4StateSynSent :: u32 where "Tcp4StateSynSent = 2"
definition Tcp4StateSynReceived :: u32 where "Tcp4StateSynReceived = 3"
definition Tcp4StateEstablished :: u32 where "Tcp4StateEstablished = 4"
definition Tcp4StateFinWait1 :: u32 where "Tcp4StateFinWait1 = 5"
definition Tcp4StateFinWait2 :: u32 where "Tcp4StateFinWait2 = 6"
definition Tcp4StateClosing :: u32 where "Tcp4StateClosing = 7"
definition Tcp4StateTimeWait :: u32 where "Tcp4StateTimeWait = 8"
definition Tcp4StateCloseWait :: u32 where "Tcp4StateCloseWait = 9"
definition Tcp4StateLastAck :: u32 where "Tcp4StateLastAck = 10"

definition EFI_TCP4_GET_MODE_DATA :: csig where
  "EFI_TCP4_GET_MODE_DATA = Fn (Some EFI_STATUS) [Arg In ''This'' (CPtr ''_EFI_TCP4''),
    OptArg Out ''Tcp4State'' (CPtr ''EFI_TCP4_CONNECTION_STATE''),
    OptArg Out ''Tcp4ConfigData'' (CPtr ''EFI_TCP4_CONFIG_DATA''),
    OptArg Out ''Ip4ModeData'' (CPtr ''EFI_IP4_MODE_DATA''),
    OptArg Out ''MnpConfigData'' (CPtr ''EFI_MANAGED_NETWORK_CONFIG_DATA''),
    OptArg Out ''SnpModeData'' (CPtr ''EFI_SIMPLE_NETWORK_MODE'')]"

definition EFI_TCP4_CONFIGURE :: csig where
  "EFI_TCP4_CONFIGURE = Fn (Some EFI_STATUS) [Arg In ''This'' (CPtr ''_EFI_TCP4''),
    OptArg In ''TcpConfigData'' (CPtr ''EFI_TCP4_CONFIG_DATA'')]"

definition EFI_TCP4_ROUTES :: csig where
  "EFI_TCP4_ROUTES = Fn (Some EFI_STATUS) [Arg In ''This'' (CPtr ''_EFI_TCP4''),
    Arg In ''DeleteRoute'' BOOLEAN, Arg In ''SubnetAddress'' (CPtr ''EFI_IPv4_ADDRESS''),
    Arg In ''SubnetMask'' (CPtr ''EFI_IPv4_ADDRESS''),
    Arg In ''GatewayAddress'' (CPtr ''EFI_IPv4_ADDRESS'')]"

definition EFI_TCP4_COMPLETION_TOKEN :: cty where
  "EFI_TCP4_COMPLETION_TOKEN = CStruct [(''Event'', EFI_EVENT), (''Status'', EFI_STATUS)]"

definition EFI_TCP4_CONNECTION_TOKEN :: cty where
  "EFI_TCP4_CONNECTION_TOKEN = CStruct [(''CompletionToken'', EFI_TCP4_COMPLETION_TOKEN)]"

definition EFI_TCP4_CONNECT :: csig where
  "EFI_TCP4_CONNECT = Fn (Some EFI_STATUS) [Arg In ''This'' (CPtr ''_EFI_TCP4''),
    Arg In ''ConnectionToken'' (CPtr ''EFI_TCP4_CONNECTION_TOKEN'')]"

definition EFI_TCP4_LISTEN_TOKEN :: cty where
  "EFI_TCP4_LISTEN_TOKEN = CStruct [(''CompletionToken'', EFI_TCP4_COMPLETION_TOKEN),
    (''NewChildHandle'', EFI_HANDLE)]"

definition EFI_TCP4_ACCEPT :: csig where
  "EFI_TCP4_ACCEPT = Fn (Some EFI_STATUS) [Arg In ''This'' (CPtr ''_EFI_TCP4''),
    Arg In ''ListenToken'' (CPtr ''EFI_TCP4_LISTEN_TOKEN'')]"

definition EFI_CONNECTION_FIN :: u64 where "EFI_CONNECTION_FIN = EFIERR 104"
definition EFI_CONNECTION_RESET :: u64 where "EFI_CONNECTION_RESET = EFIERR 105"
definition EFI_CONNECTION_REFUSED :: u64 where "EFI_CONNECTION_REFUSED = EFIERR 106"

definition EFI_TCP4_FRAGMENT_DATA :: cty where
  "EFI_TCP4_FRAGMENT_DATA = CStruct [(''FragmentLength'', UINT32),
    (''FragmentBuffer'', CPtr ''VOID'')]"

definition EFI_TCP4_RECEIVE_DATA :: cty where
  "EFI_TCP4_RECEIVE_DATA = CStruct [(''UrgentFlag'', BOOLEAN), (''DataLength'', UINT32),
    (''FragmentCount'', UINT32), (''FragmentTable'', CArr EFI_TCP4_FRAGMENT_DATA 1)]"

definition EFI_TCP4_TRANSMIT_DATA :: cty where
  "EFI_TCP4_TRANSMIT_DATA = CStruct [(''Push'', BOOLEAN), (''Urgent'', BOOLEAN),
    (''DataLength'', UINT32), (''FragmentCount'', UINT32),
    (''FragmentTable'', CArr EFI_TCP4_FRAGMENT_DATA 1)]"

definition EFI_TCP4_IO_TOKEN :: cty where
  "EFI_TCP4_IO_TOKEN = CStruct [(''CompletionToken'', EFI_TCP4_COMPLETION_TOKEN),
    (''Packet'', CUnion [(''RxData'', CPtr ''EFI_TCP4_RECEIVE_DATA''), (''TxData'', CPtr ''EFI_TCP4_TRANSMIT_DATA'')])]"

definition EFI_TCP4_TRANSMIT :: csig where
  "EFI_TCP4_TRANSMIT = Fn (Some EFI_STATUS) [Arg In ''This'' (CPtr ''_EFI_TCP4''),
    Arg In ''Token'' (CPtr ''EFI_TCP4_IO_TOKEN'')]"

definition EFI_TCP4_RECEIVE :: csig where
  "EFI_TCP4_RECEIVE = Fn (Some EFI_STATUS) [Arg In ''This'' (CPtr ''_EFI_TCP4''),
    Arg In ''Token'' (CPtr ''EFI_TCP4_IO_TOKEN'')]"

definition EFI_TCP4_CLOSE_TOKEN :: cty where
  "EFI_TCP4_CLOSE_TOKEN = CStruct [(''CompletionToken'', EFI_TCP4_COMPLETION_TOKEN),
    (''AbortOnClose'', BOOLEAN)]"

definition EFI_TCP4_CLOSE :: csig where
  "EFI_TCP4_CLOSE = Fn (Some EFI_STATUS) [Arg In ''This'' (CPtr ''_EFI_TCP4''),
    Arg In ''CloseToken'' (CPtr ''EFI_TCP4_CLOSE_TOKEN'')]"

definition EFI_TCP4_CANCEL :: csig where
  "EFI_TCP4_CANCEL = Fn (Some EFI_STATUS) [Arg In ''This'' (CPtr ''_EFI_TCP4''),
    OptArg In ''Token'' (CPtr ''EFI_TCP4_COMPLETION_TOKEN'')]"

definition EFI_TCP4_POLL :: csig where
  "EFI_TCP4_POLL = Fn (Some EFI_STATUS) [Arg In ''This'' (CPtr ''_EFI_TCP4'')]"

definition EFI_TCP4 :: cty where
  "EFI_TCP4 = CStruct [(''GetModeData'', CPtr ''EFI_TCP4_GET_MODE_DATA''),
    (''Configure'', CPtr ''EFI_TCP4_CONFIGURE''), (''Routes'', CPtr ''EFI_TCP4_ROUTES''),
    (''Connect'', CPtr ''EFI_TCP4_CONNECT''), (''Accept'', CPtr ''EFI_TCP4_ACCEPT''),
    (''Transmit'', CPtr ''EFI_TCP4_TRANSMIT''), (''Receive'', CPtr ''EFI_TCP4_RECEIVE''),
    (''Close'', CPtr ''EFI_TCP4_CLOSE''), (''Cancel'', CPtr ''EFI_TCP4_CANCEL''),
    (''Poll'', CPtr ''EFI_TCP4_POLL'')]"

definition EFI_TCP6_CONNECTION_STATE :: cty where "EFI_TCP6_CONNECTION_STATE = C32"
definition Tcp6StateClosed :: u32 where "Tcp6StateClosed = 0"
definition Tcp6StateListen :: u32 where "Tcp6StateListen = 1"
definition Tcp6StateSynSent :: u32 where "Tcp6StateSynSent = 2"
definition Tcp6StateSynReceived :: u32 where "Tcp6StateSynReceived = 3"
definition Tcp6StateEstablished :: u32 where "Tcp6StateEstablished = 4"
definition Tcp6StateFinWait1 :: u32 where "Tcp6StateFinWait1 = 5"
definition Tcp6StateFinWait2 :: u32 where "Tcp6StateFinWait2 = 6"
definition Tcp6StateClosing :: u32 where "Tcp6StateClosing = 7"
definition Tcp6StateTimeWait :: u32 where "Tcp6StateTimeWait = 8"
definition Tcp6StateCloseWait :: u32 where "Tcp6StateCloseWait = 9"
definition Tcp6StateLastAck :: u32 where "Tcp6StateLastAck = 10"

definition EFI_TCP6_ACCESS_POINT :: cty where
  "EFI_TCP6_ACCESS_POINT = CStruct [(''StationAddress'', EFI_IPv6_ADDRESS),
    (''StationPort'', UINT16), (''RemoteAddress'', EFI_IPv6_ADDRESS), (''RemotePort'', UINT16),
    (''ActiveFlag'', BOOLEAN)]"

definition EFI_TCP6_OPTION :: cty where
  "EFI_TCP6_OPTION = CStruct [(''ReceiveBufferSize'', UINT32), (''SendBufferSize'', UINT32),
    (''MaxSynBackLog'', UINT32), (''ConnectionTimeout'', UINT32), (''DataRetries'', UINT32),
    (''FinTimeout'', UINT32), (''TimeWaitTimeout'', UINT32), (''KeepAliveProbes'', UINT32),
    (''KeepAliveTime'', UINT32), (''KeepAliveInterval'', UINT32), (''EnableNagle'', BOOLEAN),
    (''EnableTimeStamp'', BOOLEAN), (''EnableWindbowScaling'', BOOLEAN),
    (''EnableSelectiveAck'', BOOLEAN), (''EnablePathMtuDiscovery'', BOOLEAN)]"

definition EFI_TCP6_CONFIG_DATA :: cty where
  "EFI_TCP6_CONFIG_DATA = CStruct [(''TrafficClass'', UINT8), (''HopLimit'', UINT8),
    (''AccessPoint'', EFI_TCP6_ACCESS_POINT), (''ControlOption'', CPtr ''EFI_TCP6_OPTION'')]"

definition EFI_TCP6_GET_MODE_DATA :: csig where
  "EFI_TCP6_GET_MODE_DATA = Fn (Some EFI_STATUS) [Arg In ''This'' (CPtr ''_EFI_TCP6''),
    OptArg Out ''Tcp6State'' (CPtr ''EFI_TCP6_CONNECTION_STATE''),
    OptArg Out ''Tcp6ConfigData'' (CPtr ''EFI_TCP6_CONFIG_DATA''),
    OptArg Out ''Ip6ModeData'' (CPtr ''EFI_IP6_MODE_DATA''),
    OptArg Out ''MnpConfigData'' (CPtr ''EFI_MANAGED_NETWORK_CONFIG_DATA''),
    OptArg Out ''SnpModeData'' (CPtr ''EFI_SIMPLE_NETWORK_MODE'')]"

definition EFI_TCP6_CONFIGURE :: csig where
  "EFI_TCP6_CONFIGURE = Fn (Some EFI_STATUS) [Arg In ''This'' (CPtr ''_EFI_TCP6''),
    OptArg In ''Tcp6ConfigData'' (CPtr ''EFI_TCP6_CONFIG_DATA'')]"

definition EFI_TCP6_COMPLETION_TOKEN :: cty where
  "EFI_TCP6_COMPLETION_TOKEN = CStruct [(''Event'', EFI_EVENT), (''Status'', EFI_STATUS)]"

definition EFI_TCP6_CONNECTION_TOKEN :: cty where
  "EFI_TCP6_CONNECTION_TOKEN = CStruct [(''CompletionToken'', EFI_TCP6_COMPLETION_TOKEN)]"

definition EFI_TCP6_CONNECT :: csig where
  "EFI_TCP6_CONNECT = Fn (Some EFI_STATUS) [Arg In ''This'' (CPtr ''_EFI_TCP6''),
    Arg In ''ConnectionToken'' (CPtr ''EFI_TCP6_CONNECTION_TOKEN'')]"

definition EFI_TCP6_LISTEN_TOKEN :: cty where
  "EFI_TCP6_LISTEN_TOKEN = CStruct [(''CompletionToken'', EFI_TCP6_COMPLETION_TOKEN),
    (''NewChildHandle'', EFI_HANDLE)]"

definition EFI_TCP6_ACCEPT :: csig where
  "EFI_TCP6_ACCEPT = Fn (Some EFI_STATUS) [Arg In ''This'' (CPtr ''_EFI_TCP6''),
    Arg In ''ListenToken'' (CPtr ''EFI_TCP6_LISTEN_TOKEN'')]"

definition EFI_TCP6_FRAGMENT_DATA :: cty where
  "EFI_TCP6_FRAGMENT_DATA = CStruct [(''FragmentLength'', UINT32),
    (''FragmentBuffer'', CPtr ''VOID'')]"

definition EFI_TCP6_RECEIVE_DATA :: cty where
  "EFI_TCP6_RECEIVE_DATA = CStruct [(''UrgentFlag'', BOOLEAN), (''DataLength'', UINT32),
    (''FragmentCount'', UINT32), (''FragmentTable'', CArr EFI_TCP6_FRAGMENT_DATA 1)]"

definition EFI_TCP6_TRANSMIT_DATA :: cty where
  "EFI_TCP6_TRANSMIT_DATA = CStruct [(''Push'', BOOLEAN), (''Urgent'', BOOLEAN),
    (''DataLength'', UINT32), (''FragmentCount'', UINT32),
    (''FragmentTable'', CArr EFI_TCP6_FRAGMENT_DATA 1)]"

definition EFI_TCP6_IO_TOKEN :: cty where
  "EFI_TCP6_IO_TOKEN = CStruct [(''CompletionToken'', EFI_TCP6_COMPLETION_TOKEN),
    (''Packet'', CUnion [(''RxData'', CPtr ''EFI_TCP6_RECEIVE_DATA''), (''TxData'', CPtr ''EFI_TCP6_TRANSMIT_DATA'')])]"

definition EFI_TCP6_TRANSMIT :: csig where
  "EFI_TCP6_TRANSMIT = Fn (Some EFI_STATUS) [Arg In ''This'' (CPtr ''_EFI_TCP6''),
    Arg In ''Token'' (CPtr ''EFI_TCP6_IO_TOKEN'')]"

definition EFI_TCP6_RECEIVE :: csig where
  "EFI_TCP6_RECEIVE = Fn (Some EFI_STATUS) [Arg In ''This'' (CPtr ''_EFI_TCP6''),
    Arg In ''Token'' (CPtr ''EFI_TCP6_IO_TOKEN'')]"

definition EFI_TCP6_CLOSE_TOKEN :: cty where
  "EFI_TCP6_CLOSE_TOKEN = CStruct [(''CompletionToken'', EFI_TCP6_COMPLETION_TOKEN),
    (''AbortOnClose'', BOOLEAN)]"

definition EFI_TCP6_CLOSE :: csig where
  "EFI_TCP6_CLOSE = Fn (Some EFI_STATUS) [Arg In ''This'' (CPtr ''_EFI_TCP6''),
    Arg In ''CloseToken'' (CPtr ''EFI_TCP6_CLOSE_TOKEN'')]"

definition EFI_TCP6_CANCEL :: csig where
  "EFI_TCP6_CANCEL = Fn (Some EFI_STATUS) [Arg In ''This'' (CPtr ''_EFI_TCP6''),
    OptArg In ''Token'' (CPtr ''EFI_TCP6_COMPLETION_TOKEN'')]"

definition EFI_TCP6_POLL :: csig where
  "EFI_TCP6_POLL = Fn (Some EFI_STATUS) [Arg In ''This'' (CPtr ''_EFI_TCP6'')]"

definition EFI_TCP6 :: cty where
  "EFI_TCP6 = CStruct [(''GetModeData'', CPtr ''EFI_TCP6_GET_MODE_DATA''),
    (''Configure'', CPtr ''EFI_TCP6_CONFIGURE''), (''Connect'', CPtr ''EFI_TCP6_CONNECT''),
    (''Accept'', CPtr ''EFI_TCP6_ACCEPT''), (''Transmit'', CPtr ''EFI_TCP6_TRANSMIT''),
    (''Receive'', CPtr ''EFI_TCP6_RECEIVE''), (''Close'', CPtr ''EFI_TCP6_CLOSE''),
    (''Cancel'', CPtr ''EFI_TCP6_CANCEL''), (''Poll'', CPtr ''EFI_TCP6_POLL'')]"

section \<open>efiudp.h\<close>

definition EFI_UDP4_SERVICE_BINDING_PROTOCOL :: guid where
  "EFI_UDP4_SERVICE_BINDING_PROTOCOL = GUID 0x83F01464 0x99BD 0x45E5 [0xB3, 0x83, 0xAF, 0x63, 0x05, 0xD8, 0xE9, 0xE6]"

definition EFI_UDP4_PROTOCOL :: guid where
  "EFI_UDP4_PROTOCOL = GUID 0x3AD9DF29 0x4501 0x478D [0xB1, 0xF8, 0x7F, 0x7F, 0xE7, 0x0E, 0x50, 0xF3]"

definition EFI_UDP6_SERVICE_BINDING_PROTOCOL :: guid where
  "EFI_UDP6_SERVICE_BINDING_PROTOCOL = GUID 0x66ED4721 0x3C98 0x4D3E [0x81, 0xE3, 0xD0, 0x3D, 0xD3, 0x9A, 0x72, 0x54]"

definition EFI_UDP6_PROTOCOL :: guid where
  "EFI_UDP6_PROTOCOL = GUID 0x4F948815 0xB4B9 0x43CB [0x8A, 0x33, 0x90, 0xE0, 0x60, 0xB3, 0x49, 0x55]"

definition EFI_UDP4_CONFIG_DATA :: cty where
  "EFI_UDP4_CONFIG_DATA = CStruct [(''AcceptBroadcast'', BOOLEAN),
    (''AcceptPromiscuous'', BOOLEAN), (''AcceptAnyPort'', BOOLEAN),
    (''AllowDuplicatePort'', BOOLEAN), (''TypeOfService'', UINT8), (''TimeToLive'', UINT8),
    (''DoNotFragment'', BOOLEAN), (''ReceiveTimeout'', UINT32), (''TransmitTimeout'', UINT32),
    (''UseDefaultAddress'', BOOLEAN), (''StationAddress'', EFI_IPv4_ADDRESS),
    (''SubnetMask'', EFI_IPv4_ADDRESS), (''StationPort'', UINT16),
    (''RemoteAddress'', EFI_IPv4_ADDRESS), (''RemotePort'', UINT16)]"

definition EFI_UDP4_GET_MODE_DATA :: csig where
  "EFI_UDP4_GET_MODE_DATA = Fn (Some EFI_STATUS) [Arg In ''This'' (CPtr ''_EFI_UDP4''),
    OptArg Out ''Udp4ConfigData'' (CPtr ''EFI_UDP4_CONFIG_DATA''),
    OptArg Out ''Ip4ModeData'' (CPtr ''EFI_IP4_MODE_DATA''),
    OptArg Out ''MnpConfigData'' (CPtr ''EFI_MANAGED_NETWORK_CONFIG_DATA''),
    OptArg Out ''SnpModeData'' (CPtr ''EFI_SIMPLE_NETWORK_MODE'')]"

definition EFI_UDP4_CONFIGURE :: csig where
  "EFI_UDP4_CONFIGURE = Fn (Some EFI_STATUS) [Arg In ''This'' (CPtr ''_EFI_UDP4''),
    OptArg In ''UdpConfigData'' (CPtr ''EFI_UDP4_CONFIG_DATA'')]"

definition EFI_UDP4_GROUPS :: csig where
  "EFI_UDP4_GROUPS = Fn (Some EFI_STATUS) [Arg In ''This'' (CPtr ''_EFI_UDP4''),
    Arg In ''JoinFlag'' BOOLEAN, OptArg In ''MulticastAddress'' (CPtr ''EFI_IPv4_ADDRESS'')]"

definition EFI_UDP4_ROUTES :: csig where
  "EFI_UDP4_ROUTES = Fn (Some EFI_STATUS) [Arg In ''This'' (CPtr ''_EFI_UDP4''),
    Arg In ''DeleteRoute'' BOOLEAN, Arg In ''SubnetAddress'' (CPtr ''EFI_IPv4_ADDRESS''),
    Arg In ''SubnetMask'' (CPtr ''EFI_IPv4_ADDRESS''),
    Arg In ''GatewayAddress'' (CPtr ''EFI_IPv4_ADDRESS'')]"

definition EFI_NETWORK_UNREACHABLE :: u64 where "EFI_NETWORK_UNREACHABLE = EFIERR 100"
definition EFI_HOST_UNREACHABLE :: u64 where "EFI_HOST_UNREACHABLE = EFIERR 101"
definition EFI_PROTOCOL_UNREACHABLE :: u64 where "EFI_PROTOCOL_UNREACHABLE = EFIERR 102"
definition EFI_PORT_UNREACHABLE :: u64 where "EFI_PORT_UNREACHABLE = EFIERR 103"

definition EFI_UDP4_SESSION_DATA :: cty where
  "EFI_UDP4_SESSION_DATA = CStruct [(''SourceAddress'', EFI_IPv4_ADDRESS),
    (''SourcePort'', UINT16), (''DestinationAddress'', EFI_IPv4_ADDRESS),
    (''DestinationPort'', UINT16)]"

definition EFI_UDP4_FRAGMENT_DATA :: cty where
  "EFI_UDP4_FRAGMENT_DATA = CStruct [(''FragmentLength'', UINT32),
    (''FragmentBuffer'', CPtr ''VOID'')]"

definition EFI_UDP4_RECEIVE_DATA :: cty where
  "EFI_UDP4_RECEIVE_DATA = CStruct [(''TimeStamp'', EFI_TIME), (''RecycleSignal'', EFI_EVENT),
    (''UdpSession'', EFI_UDP4_SESSION_DATA), (''DataLength'', UINT32),
    (''FragmentCount'', UINT32), (''FragmentTable'', CArr EFI_UDP4_FRAGMENT_DATA 1)]"

definition EFI_UDP4_TRANSMIT_DATA :: cty where
  "EFI_UDP4_TRANSMIT_DATA = CStruct [(''UdpSessionData'', CPtr ''EFI_UDP4_SESSION_DATA''),
    (''GatewayAddress'', CPtr ''EFI_IPv4_ADDRESS''), (''DataLength'', UINT32),
    (''FragmentCount'', UINT32), (''FragmentTable'', CArr EFI_UDP4_FRAGMENT_DATA 1)]"

definition EFI_UDP4_COMPLETION_TOKEN :: cty where
  "EFI_UDP4_COMPLETION_TOKEN = CStruct [(''Event'', EFI_EVENT), (''Status'', EFI_STATUS),
    (''Packet'', CUnion [(''RxData'', CPtr ''EFI_UDP4_RECEIVE_DATA''), (''TxData'', CPtr ''EFI_UDP4_TRANSMIT_DATA'')])]"

definition EFI_UDP4_TRANSMIT :: csig where
  "EFI_UDP4_TRANSMIT = Fn (Some EFI_STATUS) [Arg In ''This'' (CPtr ''_EFI_UDP4''),
    Arg In ''Token'' (CPtr ''EFI_UDP4_COMPLETION_TOKEN'')]"

definition EFI_UDP4_RECEIVE :: csig where
  "EFI_UDP4_RECEIVE = Fn (Some EFI_STATUS) [Arg In ''This'' (CPtr ''_EFI_UDP4''),
    Arg In ''Token'' (CPtr ''EFI_UDP4_COMPLETION_TOKEN'')]"

definition EFI_UDP4_CANCEL :: csig where
  "EFI_UDP4_CANCEL = Fn (Some EFI_STATUS) [Arg In ''This'' (CPtr ''_EFI_UDP4''),
    OptArg In ''Token'' (CPtr ''EFI_UDP4_COMPLETION_TOKEN'')]"

definition EFI_UDP4_POLL :: csig where
  "EFI_UDP4_POLL = Fn (Some EFI_STATUS) [Arg In ''This'' (CPtr ''_EFI_UDP4'')]"

definition EFI_UDP4 :: cty where
  "EFI_UDP4 = CStruct [(''GetModeData'', CPtr ''EFI_UDP4_GET_MODE_DATA''),
    (''Configure'', CPtr ''EFI_UDP4_CONFIGURE''), (''Groups'', CPtr ''EFI_UDP4_GROUPS''),
    (''Routes'', CPtr ''EFI_UDP4_ROUTES''), (''Transmit'', CPtr ''EFI_UDP4_TRANSMIT''),
    (''Receive'', CPtr ''EFI_UDP4_RECEIVE''), (''Cancel'', CPtr ''EFI_UDP4_CANCEL''),
    (''Poll'', CPtr ''EFI_UDP4_POLL'')]"

definition EFI_UDP6_CONFIG_DATA :: cty where
  "EFI_UDP6_CONFIG_DATA = CStruct [(''AcceptPromiscuous'', BOOLEAN),
    (''AcceptAnyPort'', BOOLEAN), (''AllowDuplicatePort'', BOOLEAN), (''TrafficClass'', UINT8),
    (''HopLimit'', UINT8), (''ReceiveTimeout'', UINT32), (''TransmitTimeout'', UINT32),
    (''StationAddress'', EFI_IPv6_ADDRESS), (''StationPort'', UINT16),
    (''RemoteAddress'', EFI_IPv6_ADDRESS), (''RemotePort'', UINT16)]"

definition EFI_UDP6_GET_MODE_DATA :: csig where
  "EFI_UDP6_GET_MODE_DATA = Fn (Some EFI_STATUS) [Arg In ''This'' (CPtr ''_EFI_UDP6''),
    OptArg Out ''Udp6ConfigData'' (CPtr ''EFI_UDP6_CONFIG_DATA''),
    OptArg Out ''Ip6ModeData'' (CPtr ''EFI_IP6_MODE_DATA''),
    OptArg Out ''MnpConfigData'' (CPtr ''EFI_MANAGED_NETWORK_CONFIG_DATA''),
    OptArg Out ''SnpModeData'' (CPtr ''EFI_SIMPLE_NETWORK_MODE'')]"

definition EFI_UDP6_CONFIGURE :: csig where
  "EFI_UDP6_CONFIGURE = Fn (Some EFI_STATUS) [Arg In ''This'' (CPtr ''_EFI_UDP6''),
    OptArg In ''UdpConfigData'' (CPtr ''EFI_UDP6_CONFIG_DATA'')]"

definition EFI_UDP6_GROUPS :: csig where
  "EFI_UDP6_GROUPS = Fn (Some EFI_STATUS) [Arg In ''This'' (CPtr ''_EFI_UDP6''),
    Arg In ''JoinFlag'' BOOLEAN, OptArg In ''MulticastAddress'' (CPtr ''EFI_IPv6_ADDRESS'')]"

definition EFI_UDP6_SESSION_DATA :: cty where
  "EFI_UDP6_SESSION_DATA = CStruct [(''SourceAddress'', EFI_IPv6_ADDRESS),
    (''SourcePort'', UINT16), (''DestinationAddress'', EFI_IPv6_ADDRESS),
    (''DestinationPort'', UINT16)]"

definition EFI_UDP6_FRAGMENT_DATA :: cty where
  "EFI_UDP6_FRAGMENT_DATA = CStruct [(''FragmentLength'', UINT32),
    (''FragmentBuffer'', CPtr ''VOID'')]"

definition EFI_UDP6_RECEIVE_DATA :: cty where
  "EFI_UDP6_RECEIVE_DATA = CStruct [(''TimeStamp'', EFI_TIME), (''RecycleSignal'', EFI_EVENT),
    (''UdpSession'', EFI_UDP6_SESSION_DATA), (''DataLength'', UINT32),
    (''FragmentCount'', UINT32), (''FragmentTable'', CArr EFI_UDP6_FRAGMENT_DATA 1)]"

definition EFI_UDP6_TRANSMIT_DATA :: cty where
  "EFI_UDP6_TRANSMIT_DATA = CStruct [(''UdpSessionData'', CPtr ''EFI_UDP6_SESSION_DATA''),
    (''DataLength'', UINT32), (''FragmentCount'', UINT32),
    (''FragmentTable'', CArr EFI_UDP6_FRAGMENT_DATA 1)]"

definition EFI_UDP6_COMPLETION_TOKEN :: cty where
  "EFI_UDP6_COMPLETION_TOKEN = CStruct [(''Event'', EFI_EVENT), (''Status'', EFI_STATUS),
    (''Packet'', CUnion [(''RxData'', CPtr ''EFI_UDP6_RECEIVE_DATA''), (''TxData'', CPtr ''EFI_UDP6_TRANSMIT_DATA'')])]"

definition EFI_UDP6_TRANSMIT :: csig where
  "EFI_UDP6_TRANSMIT = Fn (Some EFI_STATUS) [Arg In ''This'' (CPtr ''_EFI_UDP6''),
    Arg In ''Token'' (CPtr ''EFI_UDP6_COMPLETION_TOKEN'')]"

definition EFI_UDP6_RECEIVE :: csig where
  "EFI_UDP6_RECEIVE = Fn (Some EFI_STATUS) [Arg In ''This'' (CPtr ''_EFI_UDP6''),
    Arg In ''Token'' (CPtr ''EFI_UDP6_COMPLETION_TOKEN'')]"

definition EFI_UDP6_CANCEL :: csig where
  "EFI_UDP6_CANCEL = Fn (Some EFI_STATUS) [Arg In ''This'' (CPtr ''_EFI_UDP6''),
    OptArg In ''Token'' (CPtr ''EFI_UDP6_COMPLETION_TOKEN'')]"

definition EFI_UDP6_POLL :: csig where
  "EFI_UDP6_POLL = Fn (Some EFI_STATUS) [Arg In ''This'' (CPtr ''_EFI_UDP6'')]"

definition EFI_UDP6 :: cty where
  "EFI_UDP6 = CStruct [(''GetModeData'', CPtr ''EFI_UDP6_GET_MODE_DATA''),
    (''Configure'', CPtr ''EFI_UDP6_CONFIGURE''), (''Groups'', CPtr ''EFI_UDP6_GROUPS''),
    (''Transmit'', CPtr ''EFI_UDP6_TRANSMIT''), (''Receive'', CPtr ''EFI_UDP6_RECEIVE''),
    (''Cancel'', CPtr ''EFI_UDP6_CANCEL''), (''Poll'', CPtr ''EFI_UDP6_POLL'')]"


end
