(* ===== verification/Efi_Shell.thy ===== *)
theory Efi_Shell
  imports Efi_Api Efi_Link
begin

text \<open>
  The shell protocols: \<open>efishell.h\<close> and \<open>efishellintf.h\<close>.
\<close>

section \<open>efishell.h\<close>

definition EFI_SHELL_PROTOCOL_GUID :: guid where
  "EFI_SHELL_PROTOCOL_GUID = GUID 0x6302D008 0x7F9B 0x4F30 [0x87, 0xAC, 0x60, 0xC9, 0xFE, 0xF5, 0xDA, 0x4E]"

definition SHELL_STATUS :: cty where "SHELL_STATUS = C32"
definition SHELL_SUCCESS :: u32 where "SHELL_SUCCESS = 0"
definition SHELL_LOAD_ERROR :: u32 where "SHELL_LOAD_ERROR = 1"
definition SHELL_INVALID_PARAMETER :: u32 where "SHELL_INVALID_PARAMETER = 2"
definition SHELL_UNSUPPORTED :: u32 where "SHELL_UNSUPPORTED = 3"
definition SHELL_BAD_BUFFER_SIZE :: u32 where "SHELL_BAD_BUFFER_SIZE = 4"
definition SHELL_BUFFER_TOO_SMALL :: u32 where "SHELL_BUFFER_TOO_SMALL = 5"
definition SHELL_NOT_READY :: u32 where "SHELL_NOT_READY = 6"
definition SHELL_DEVICE_ERROR :: u32 where "SHELL_DEVICE_ERROR = 7"
definition SHELL_WRITE_PROTECTED :: u32 where "SHELL_WRITE_PROTECTED = 8"
definition SHELL_OUT_OF_RESOURCES :: u32 where "SHELL_OUT_OF_RESOURCES = 9"
definition SHELL_VOLUME_CORRUPTED :: u32 where "SHELL_VOLUME_CORRUPTED = 10"
definition SHELL_VOLUME_FULL :: u32 where "SHELL_VOLUME_FULL = 11"
definition SHELL_NO_MEDIA :: u32 where "SHELL_NO_MEDIA = 12"
definition SHELL_MEDIA_CHANGED :: u32 where "SHELL_MEDIA_CHANGED = 13"
definition SHELL_NOT_FOUND :: u32 where "SHELL_NOT_FOUND = 14"
definition SHELL_ACCESS_DENIED :: u32 where "SHELL_ACCESS_DENIED = 15"
definition SHELL_TIMEOUT :: u32 where "SHELL_TIMEOUT = 18"
definition SHELL_NOT_STARTED :: u32 where "SHELL_NOT_STARTED = 19"
definition SHELL_ALREADY_STARTED :: u32 where "SHELL_ALREADY_STARTED = 20"
definition SHELL_ABORTED :: u32 where "SHELL_ABORTED = 21"
definition SHELL_INCOMPATIBLE_VERSION :: u32 where "SHELL_INCOMPATIBLE_VERSION = 25"
definition SHELL_SECURITY_VIOLATION :: u32 where "SHELL_SECURITY_VIOLATION = 26"
definition SHELL_NOT_EQUAL :: u32 where "SHELL_NOT_EQUAL = 27"
definition SHELL_FILE_HANDLE :: cty where "SHELL_FILE_HANDLE = CPtr ''VOID''"

definition EFI_SHELL_FILE_INFO :: cty where
  "EFI_SHELL_FILE_INFO = CStruct [(''Link'', EFI_LIST_ENTRY), (''Status'', EFI_STATUS),
    (''FullName'', CPtr ''CHAR16''), (''FileName'', CPtr ''CHAR16''),
    (''Handle'', SHELL_FILE_HANDLE), (''Info'', CPtr ''EFI_FILE_INFO'')]"

definition EFI_SHELL_BATCH_IS_ACTIVE :: csig where
  "EFI_SHELL_BATCH_IS_ACTIVE = Fn (Some BOOLEAN) []"

definition EFI_SHELL_CLOSE_FILE :: csig where
  "EFI_SHELL_CLOSE_FILE = Fn (Some EFI_STATUS) [Arg In ''FileHandle'' SHELL_FILE_HANDLE]"

definition EFI_SHELL_CREATE_FILE :: csig where
  "EFI_SHELL_CREATE_FILE = Fn (Some EFI_STATUS) [Arg In ''FileName'' (CPtr ''CHAR16''),
    Arg In ''FileAttribs'' UINT64, Arg Out ''FileHandle'' (CPtr ''SHELL_FILE_HANDLE'')]"

definition EFI_SHELL_DELETE_FILE :: csig where
  "EFI_SHELL_DELETE_FILE = Fn (Some EFI_STATUS) [Arg In ''FileHandle'' SHELL_FILE_HANDLE]"

definition EFI_SHELL_DELETE_FILE_BY_NAME :: csig where
  "EFI_SHELL_DELETE_FILE_BY_NAME = Fn (Some EFI_STATUS) [Arg In ''FileName'' (CPtr ''CHAR16'')]"

definition EFI_SHELL_DISABLE_PAGE_BREAK :: csig where "EFI_SHELL_DISABLE_PAGE_BREAK = Fn None []"

definition EFI_SHELL_ENABLE_PAGE_BREAK :: csig where "EFI_SHELL_ENABLE_PAGE_BREAK = Fn None []"

definition EFI_SHELL_EXECUTE :: csig where
  "EFI_SHELL_EXECUTE = Fn (Some EFI_STATUS) [Arg In ''ParentImageHandle'' (CPtr ''EFI_HANDLE''),
    OptArg In ''CommandLine'' (CPtr ''CHAR16''), OptArg In ''Environment'' (CPtr ''CHAR16 *''),
    OptArg Out ''StatusCode'' (CPtr ''EFI_STATUS'')]"

definition EFI_SHELL_FIND_FILES :: csig where
  "EFI_SHELL_FIND_FILES = Fn (Some EFI_STATUS) [Arg In ''FilePattern'' (CPtr ''CHAR16''),
    Arg Out ''FileList'' (CPtr ''EFI_SHELL_FILE_INFO *'')]"

definition EFI_SHELL_FIND_FILES_IN_DIR :: csig where
  "EFI_SHELL_FIND_FILES_IN_DIR = Fn (Some EFI_STATUS) [Arg In ''FileDirHandle'' SHELL_FILE_HANDLE,
    Arg Out ''FileList'' (CPtr ''EFI_SHELL_FILE_INFO *'')]"

definition EFI_SHELL_FLUSH_FILE :: csig where
  "EFI_SHELL_FLUSH_FILE = Fn (Some EFI_STATUS) [Arg In ''FileHandle'' SHELL_FILE_HANDLE]"

definition EFI_SHELL_FREE_FILE_LIST :: csig where
  "EFI_SHELL_FREE_FILE_LIST = Fn (Some EFI_STATUS) [
    Arg In ''FileList'' (CPtr ''EFI_SHELL_FILE_INFO *'')]"

definition EFI_SHELL_GET_ALIAS :: csig where
  "EFI_SHELL_GET_ALIAS = Fn (Some (CPtr ''CHAR16'')) [Arg In ''Alias'' (CPtr ''CHAR16''),
    OptArg Out ''Volatile'' (CPtr ''BOOLEAN'')]"

definition EFI_SHELL_GET_CUR_DIR :: csig where
  "EFI_SHELL_GET_CUR_DIR = Fn (Some (CPtr ''CHAR16'')) [
    OptArg In ''FileSystemMapping'' (CPtr ''CHAR16'')]"

definition EFI_SHELL_DEVICE_NAME_FLAGS :: cty where "EFI_SHELL_DEVICE_NAME_FLAGS = UINT32"
definition EFI_DEVICE_NAME_USE_COMPONENT_NAME :: u64 where
  "EFI_DEVICE_NAME_USE_COMPONENT_NAME = 0x00000001"

definition EFI_DEVICE_NAME_USE_DEVICE_PATH :: u64 where
  "EFI_DEVICE_NAME_USE_DEVICE_PATH = 0x00000002"

definition EFI_SHELL_GET_DEVICE_NAME :: csig where
  "EFI_SHELL_GET_DEVICE_NAME = Fn (Some EFI_STATUS) [Arg In ''DeviceHandle'' EFI_HANDLE,
    Arg In ''Flags'' EFI_SHELL_DEVICE_NAME_FLAGS, Arg In ''Language'' (CPtr ''CHAR8''),
    Arg Out ''BestDeviceName'' (CPtr ''CHAR16 *'')]"

definition EFI_SHELL_GET_DEVICE_PATH_FROM_MAP :: csig where
  "EFI_SHELL_GET_DEVICE_PATH_FROM_MAP = Fn (Some (CPtr ''EFI_DEVICE_PATH_PROTOCOL'')) [
    Arg In ''Mapping'' (CPtr ''CHAR16'')]"

definition EFI_SHELL_GET_DEVICE_PATH_FROM_FILE_PATH :: csig where
  "EFI_SHELL_GET_DEVICE_PATH_FROM_FILE_PATH = Fn (Some (CPtr ''EFI_DEVICE_PATH_PROTOCOL'')) [
    Arg In ''Path'' (CPtr ''CHAR16'')]"

definition EFI_SHELL_GET_ENV :: csig where
  "EFI_SHELL_GET_ENV = Fn (Some (CPtr ''CHAR16'')) [Arg In ''Name'' (CPtr ''CHAR16'')]"

definition EFI_SHELL_GET_ENV_EX :: csig where
  "EFI_SHELL_GET_ENV_EX = Fn (Some (CPtr ''CHAR16'')) [Arg In ''Name'' (CPtr ''CHAR16''),
    OptArg Out ''Attributes'' (CPtr ''UINT32'')]"

definition EFI_SHELL_GET_FILE_INFO :: csig where
  "EFI_SHELL_GET_FILE_INFO = Fn (Some (CPtr ''EFI_FILE_INFO'')) [
    Arg In ''FileHandle'' SHELL_FILE_HANDLE]"

definition EFI_SHELL_GET_FILE_PATH_FROM_DEVICE_PATH :: csig where
  "EFI_SHELL_GET_FILE_PATH_FROM_DEVICE_PATH = Fn (Some (CPtr ''CHAR16'')) [
    Arg In ''Path'' (CPtr ''EFI_DEVICE_PATH_PROTOCOL'')]"

definition EFI_SHELL_GET_FILE_POSITION :: csig where
  "EFI_SHELL_GET_FILE_POSITION = Fn (Some EFI_STATUS) [Arg In ''FileHandle'' SHELL_FILE_HANDLE,
    Arg Out ''Position'' (CPtr ''UINT64'')]"

definition EFI_SHELL_GET_FILE_SIZE :: csig where
  "EFI_SHELL_GET_FILE_SIZE = Fn (Some EFI_STATUS) [Arg In ''FileHandle'' SHELL_FILE_HANDLE,
    Arg Out ''Size'' (CPtr ''UINT64'')]"

definition EFI_SHELL_GET_GUID_FROM_NAME :: csig where
  "EFI_SHELL_GET_GUID_FROM_NAME = Fn (Some EFI_STATUS) [Arg In ''GuidName'' (CPtr ''CHAR16''),
    Arg Out ''Guid'' (CPtr ''EFI_GUID'')]"

definition EFI_SHELL_GET_GUID_NAME :: csig where
  "EFI_SHELL_GET_GUID_NAME = Fn (Some EFI_STATUS) [Arg In ''Guid'' (CPtr ''EFI_GUID''),
    Arg Out ''GuidName'' (CPtr ''CHAR16 *'')]"

definition EFI_SHELL_GET_HELP_TEXT :: csig where
  "EFI_SHELL_GET_HELP_TEXT = Fn (Some EFI_STATUS) [Arg In ''Command'' (CPtr ''CHAR16''),
    Arg In ''Sections'' (CPtr ''CHAR16''), Arg Out ''HelpText'' (CPtr ''CHAR16 *'')]"

definition EFI_SHELL_GET_MAP_FROM_DEVICE_PATH :: csig where
  "EFI_SHELL_GET_MAP_FROM_DEVICE_PATH = Fn (Some (CPtr ''CHAR16'')) [
    Arg InOut ''DevicePath'' (CPtr ''EFI_DEVICE_PATH_PROTOCOL *'')]"

definition EFI_SHELL_GET_PAGE_BREAK :: csig where
  "EFI_SHELL_GET_PAGE_BREAK = Fn (Some BOOLEAN) []"

definition EFI_SHELL_IS_ROOT_SHELL :: csig where "EFI_SHELL_IS_ROOT_SHELL = Fn (Some BOOLEAN) []"

definition EFI_SHELL_OPEN_FILE_BY_NAME :: csig where
  "EFI_SHELL_OPEN_FILE_BY_NAME = Fn (Some EFI_STATUS) [Arg In ''FileName'' (CPtr ''CHAR16''),
    Arg Out ''FileHandle'' (CPtr ''SHELL_FILE_HANDLE''), Arg In ''OpenMode'' UINT64]"

definition EFI_SHELL_OPEN_FILE_LIST :: csig where
  "EFI_SHELL_OPEN_FILE_LIST = Fn (Some EFI_STATUS) [Arg In ''Path'' (CPtr ''CHAR16''),
    Arg In ''OpenMode'' UINT64, Arg InOut ''FileList'' (CPtr ''EFI_SHELL_FILE_INFO *'')]"

definition EFI_SHELL_OPEN_ROOT :: csig where
  "EFI_SHELL_OPEN_ROOT = Fn (Some EFI_STATUS) [
    Arg In ''DevicePath'' (CPtr ''EFI_DEVICE_PATH_PROTOCOL''),
    Arg Out ''FileHandle'' (CPtr ''SHELL_FILE_HANDLE'')]"

definition EFI_SHELL_OPEN_ROOT_BY_HANDLE :: csig where
  "EFI_SHELL_OPEN_ROOT_BY_HANDLE = Fn (Some EFI_STATUS) [Arg In ''DeviceHandle'' EFI_HANDLE,
    Arg Out ''FileHandle'' (CPtr ''SHELL_FILE_HANDLE'')]"

definition EFI_SHELL_READ_FILE :: csig where
  "EFI_SHELL_READ_FILE = Fn (Some EFI_STATUS) [Arg In ''FileHandle'' SHELL_FILE_HANDLE,
    Arg InOut ''ReadSize'' (CPtr ''UINTN''), Arg InOut ''Buffer'' (CPtr ''VOID'')]"

definition EFI_SHELL_REGISTER_GUID_NAME :: csig where
  "EFI_SHELL_REGISTER_GUID_NAME = Fn (Some EFI_STATUS) [Arg In ''Guid'' (CPtr ''EFI_GUID''),
    Arg In ''GuidName'' (CPtr ''CHAR16'')]"

definition EFI_SHELL_REMOVE_DUP_IN_FILE_LIST :: csig where
  "EFI_SHELL_REMOVE_DUP_IN_FILE_LIST = Fn (Some EFI_STATUS) [
    Arg In ''FileList'' (CPtr ''EFI_SHELL_FILE_INFO *'')]"

definition EFI_SHELL_SET_ALIAS :: csig where
  "EFI_SHELL_SET_ALIAS = Fn (Some EFI_STATUS) [Arg In ''Command'' (CPtr ''CHAR16''),
    Arg In ''Alias'' (CPtr ''CHAR16''), Arg In ''Replace'' BOOLEAN, Arg In ''Volatile'' BOOLEAN]"

definition EFI_SHELL_SET_CUR_DIR :: csig where
  "EFI_SHELL_SET_CUR_DIR = Fn (Some EFI_STATUS) [OptArg In ''FileSystem'' (CPtr ''CHAR16''),
    Arg In ''Dir'' (CPtr ''CHAR16'')]"

definition EFI_SHELL_SET_ENV :: csig where
  "EFI_SHELL_SET_ENV = Fn (Some EFI_STATUS) [Arg In ''Name'' (CPtr ''CHAR16''),
    Arg In ''Value'' (CPtr ''CHAR16''), Arg In ''Volatile'' BOOLEAN]"

definition EFI_SHELL_SET_FILE_INFO :: csig where
  "EFI_SHELL_SET_FILE_INFO = Fn (Some EFI_STATUS) [Arg In ''FileHandle'' SHELL_FILE_HANDLE,
    Arg In ''FileInfo'' (CPtr ''EFI_FILE_INFO'')]"

definition EFI_SHELL_SET_FILE_POSITION :: csig where
  "EFI_SHELL_SET_FILE_POSITION = Fn (Some EFI_STATUS) [Arg In ''FileHandle'' SHELL_FILE_HANDLE,
    Arg In ''Position'' UINT64]"

definition EFI_SHELL_SET_MAP :: csig where
  "EFI_SHELL_SET_MAP = Fn (Some EFI_STATUS) [
    Arg In ''DevicePath'' (CPtr ''EFI_DEVICE_PATH_PROTOCOL''),
    Arg In ''Mapping'' (CPtr ''CHAR16'')]"

definition EFI_SHELL_WRITE_FILE :: csig where
  "EFI_SHELL_WRITE_FILE = Fn (Some EFI_STATUS) [Arg In ''FileHandle'' SHELL_FILE_HANDLE,
    Arg InOut ''BufferSize'' (CPtr ''UINTN''), Arg In ''Buffer'' (CPtr ''VOID'')]"

definition EFI_SHELL_PROTOCOL :: cty where
  "EFI_SHELL_PROTOCOL = CStruct [(''Execute'', CPtr ''EFI_SHELL_EXECUTE''),
    (''GetEnv'', CPtr ''EFI_SHELL_GET_ENV''), (''SetEnv'', CPtr ''EFI_SHELL_SET_ENV''),
    (''GetAlias'', CPtr ''EFI_SHELL_GET_ALIAS''), (''SetAlias'', CPtr ''EFI_SHELL_SET_ALIAS''),
    (''GetHelpText'', CPtr ''EFI_SHELL_GET_HELP_TEXT''),
    (''GetDevicePathFromMap'', CPtr ''EFI_SHELL_GET_DEVICE_PATH_FROM_MAP''),
    (''GetMapFromDevicePath'', CPtr ''EFI_SHELL_GET_MAP_FROM_DEVICE_PATH''),
    (''GetDevicePathFromFilePath'', CPtr ''EFI_SHELL_GET_DEVICE_PATH_FROM_FILE_PATH''),
    (''GetFilePathFromDevicePath'', CPtr ''EFI_SHELL_GET_FILE_PATH_FROM_DEVICE_PATH''),
    (''SetMap'', CPtr ''EFI_SHELL_SET_MAP''), (''GetCurDir'', CPtr ''EFI_SHELL_GET_CUR_DIR''),
    (''SetCurDir'', CPtr ''EFI_SHELL_SET_CUR_DIR''),
    (''OpenFileList'', CPtr ''EFI_SHELL_OPEN_FILE_LIST''),
    (''FreeFileList'', CPtr ''EFI_SHELL_FREE_FILE_LIST''),
    (''RemoveDupInFileList'', CPtr ''EFI_SHELL_REMOVE_DUP_IN_FILE_LIST''),
    (''BatchIsActive'', CPtr ''EFI_SHELL_BATCH_IS_ACTIVE''),
    (''IsRootShell'', CPtr ''EFI_SHELL_IS_ROOT_SHELL''),
    (''EnablePageBreak'', CPtr ''EFI_SHELL_ENABLE_PAGE_BREAK''),
    (''DisablePageBreak'', CPtr ''EFI_SHELL_DISABLE_PAGE_BREAK''),
    (''GetPageBreak'', CPtr ''EFI_SHELL_GET_PAGE_BREAK''),
    (''GetDeviceName'', CPtr ''EFI_SHELL_GET_DEVICE_NAME''),
    (''GetFileInfo'', CPtr ''EFI_SHELL_GET_FILE_INFO''),
    (''SetFileInfo'', CPtr ''EFI_SHELL_SET_FILE_INFO''),
    (''OpenFileByName'', CPtr ''EFI_SHELL_OPEN_FILE_BY_NAME''),
    (''CloseFile'', CPtr ''EFI_SHELL_CLOSE_FILE''),
    (''CreateFile'', CPtr ''EFI_SHELL_CREATE_FILE''),
    (''ReadFile'', CPtr ''EFI_SHELL_READ_FILE''), (''WriteFile'', CPtr ''EFI_SHELL_WRITE_FILE''),
    (''DeleteFile'', CPtr ''EFI_SHELL_DELETE_FILE''),
    (''DeleteFileByName'', CPtr ''EFI_SHELL_DELETE_FILE_BY_NAME''),
    (''GetFilePosition'', CPtr ''EFI_SHELL_GET_FILE_POSITION''),
    (''SetFilePosition'', CPtr ''EFI_SHELL_SET_FILE_POSITION''),
    (''FlushFile'', CPtr ''EFI_SHELL_FLUSH_FILE''),
    (''FindFiles'', CPtr ''EFI_SHELL_FIND_FILES''),
    (''FindFilesInDir'', CPtr ''EFI_SHELL_FIND_FILES_IN_DIR''),
    (''GetFileSize'', CPtr ''EFI_SHELL_GET_FILE_SIZE''),
    (''OpenRoot'', CPtr ''EFI_SHELL_OPEN_ROOT''),
    (''OpenRootByHandle'', CPtr ''EFI_SHELL_OPEN_ROOT_BY_HANDLE''),
    (''ExecutionBreak'', EFI_EVENT), (''MajorVersion'', UINT32), (''MinorVersion'', UINT32),
    (''RegisterGuidName'', CPtr ''EFI_SHELL_REGISTER_GUID_NAME''),
    (''GetGuidName'', CPtr ''EFI_SHELL_GET_GUID_NAME''),
    (''GetGuidFromName'', CPtr ''EFI_SHELL_GET_GUID_FROM_NAME''),
    (''GetEnvEx'', CPtr ''EFI_SHELL_GET_ENV_EX'')]"

definition EFI_SHELL_PARAMETERS_PROTOCOL_GUID :: guid where
  "EFI_SHELL_PARAMETERS_PROTOCOL_GUID = GUID 0x752F3136 0x4E16 0x4FDC [0xA2, 0x2A, 0xE5, 0xF4, 0x68, 0x12, 0xF4, 0xCA]"

definition EFI_SHELL_PARAMETERS_PROTOCOL :: cty where
  "EFI_SHELL_PARAMETERS_PROTOCOL = CStruct [(''Argv'', CPtr ''CHAR16 *''), (''Argc'', UINTN),
    (''StdIn'', SHELL_FILE_HANDLE), (''StdOut'', SHELL_FILE_HANDLE),
    (''StdErr'', SHELL_FILE_HANDLE)]"

definition EFI_SHELL_DYNAMIC_COMMAND_PROTOCOL_GUID :: guid where
  "EFI_SHELL_DYNAMIC_COMMAND_PROTOCOL_GUID = GUID 0x3C7200E9 0x005F 0x4EA4 [0x87, 0xDE, 0xA3, 0xDF, 0xAC, 0x8A, 0x27, 0xC3]"

definition SHELL_COMMAND_HANDLER :: csig where
  "SHELL_COMMAND_HANDLER = Fn (Some SHELL_STATUS) [
    Arg In ''This'' (CPtr ''_EFI_SHELL_DYNAMIC_COMMAND_PROTOCOL''),
    Arg In ''SystemTable'' (CPtr ''EFI_SYSTEM_TABLE''),
    Arg In ''ShellParameters'' (CPtr ''EFI_SHELL_PARAMETERS_PROTOCOL''),
    Arg In ''Shell'' (CPtr ''EFI_SHELL_PROTOCOL'')]"

definition SHELL_COMMAND_GETHELP :: csig where
  "SHELL_COMMAND_GETHELP = Fn (Some (CPtr ''CHAR16'')) [
    Arg In ''This'' (CPtr ''_EFI_SHELL_DYNAMIC_COMMAND_PROTOCOL''),
    Arg In ''Language'' (CPtr ''CHAR8'')]"

definition EFI_SHELL_DYNAMIC_COMMAND_PROTOCOL :: cty where
  "EFI_SHELL_DYNAMIC_COMMAND_PROTOCOL = CStruct [(''CommandName'', CPtr ''CHAR16''),
    (''Handler'', CPtr ''SHELL_COMMAND_HANDLER''), (''GetHelp'', CPtr ''SHELL_COMMAND_GETHELP'')]"

section \<open>efishellintf.h\<close>

definition SHELL_INTERFACE_PROTOCOL_GUID :: guid where
  "SHELL_INTERFACE_PROTOCOL_GUID = GUID 0x47C7B223 0xC42A 0x11D2 [0x8E, 0x57, 0x0, 0xA0, 0xC9, 0x69, 0x72, 0x3B]"

definition EFI_SHELL_ARG_INFO_TYPES :: cty where "EFI_SHELL_ARG_INFO_TYPES = C32"
definition ARG_NO_ATTRIB :: u32 where "ARG_NO_ATTRIB = 0x0"
definition ARG_IS_QUOTED :: u32 where "ARG_IS_QUOTED = push_bit 0 1"
definition ARG_PARTIALLY_QUOTED :: u32 where "ARG_PARTIALLY_QUOTED = push_bit 1 1"
definition ARG_FIRST_HALF_QUOTED :: u32 where "ARG_FIRST_HALF_QUOTED = push_bit 2 1"
definition ARG_FIRST_CHAR_IS_ESC :: u32 where "ARG_FIRST_CHAR_IS_ESC = push_bit 3 1"

definition EFI_SHELL_ARG_INFO :: cty where
  "EFI_SHELL_ARG_INFO = CStruct [(''Attributes'', UINT32)]"

definition EFI_SHELL_INTERFACE :: cty where
  "EFI_SHELL_INTERFACE = CStruct [(''ImageHandle'', EFI_HANDLE),
    (''Info'', CPtr ''EFI_LOADED_IMAGE''), (''Argv'', CPtr ''CHAR16 *''), (''Argc'', UINTN),
    (''RedirArgv'', CPtr ''CHAR16 *''), (''RedirArgc'', UINTN), (''StdIn'', CPtr ''EFI_FILE''),
    (''StdOut'', CPtr ''EFI_FILE''), (''StdErr'', CPtr ''EFI_FILE''),
    (''ArgInfo'', CPtr ''EFI_SHELL_ARG_INFO''), (''EchoOn'', BOOLEAN)]"


end
