(* ===== verification/Efi_Lib.thy ===== *)
theory Efi_Lib
  imports Efi_Devices Efi_Shell
begin

text \<open>
  The functions the UEFI library declares (\<open>efilib.h\<close>, \<open>efirtlib.h\<close>, \<open>lib.h\<close>), as signatures
  (\<open>f_sig\<close> for the function \<open>f\<close>); their code is not part of the repository. The VGA class driver's
  declarations (\<open>protocol/vgaclass.h\<close>) use them.
\<close>

section \<open>efilib.h\<close>

definition LOAD_OPTION_ACTIVE :: u64 where "LOAD_OPTION_ACTIVE = 0x00000001"
definition VarLanguageCodes :: string where "VarLanguageCodes = ''LangCodes''"
definition VarLanguage :: string where "VarLanguage = ''Lang''"
definition VarTimeout :: string where "VarTimeout = ''Timeout''"
definition VarConsoleInp :: string where "VarConsoleInp = ''ConIn''"
definition VarConsoleOut :: string where "VarConsoleOut = ''ConOut''"
definition VarErrorOut :: string where "VarErrorOut = ''ErrOut''"
definition VarBootOption :: string where "VarBootOption = ''Boot%04x''"
definition VarBootOrder :: string where "VarBootOrder = ''BootOrder''"
definition VarBootNext :: string where "VarBootNext = ''BootNext''"
definition VarBootCurrent :: string where "VarBootCurrent = ''BootCurrent''"
definition VarDriverOption :: string where "VarDriverOption = ''Driver%04x''"
definition VarDriverOrder :: string where "VarDriverOrder = ''DriverOrder''"
definition VarConsoleInpDev :: string where "VarConsoleInpDev = ''ConInDev''"
definition VarConsoleOutDev :: string where "VarConsoleOutDev = ''ConOutDev''"
definition VarErrorOutDev :: string where "VarErrorOutDev = ''ErrOutDev''"
definition LanguageCodeEnglish :: string where "LanguageCodeEnglish = ''eng''"

definition InitializeLib_sig :: csig where
  "InitializeLib_sig = Fn None [Arg In ''ImageHandle'' EFI_HANDLE,
    Arg In ''SystemTable'' (CPtr ''EFI_SYSTEM_TABLE'')]"

definition InitializeUnicodeSupport_sig :: csig where
  "InitializeUnicodeSupport_sig = Fn None [Arg NoDir ''LangCode'' (CPtr ''CHAR8'')]"

definition EFIDebugVariable_sig :: csig where "EFIDebugVariable_sig = Fn None []"

definition Exit_sig :: csig where
  "Exit_sig = Fn None [Arg In ''ExitStatus'' EFI_STATUS, Arg In ''ExitDataSize'' UINTN,
    OptArg In ''ExitData'' (CPtr ''CHAR16'')]"

definition GetShellArgcArgv_sig :: csig where
  "GetShellArgcArgv_sig = Fn (Some INTN) [Arg NoDir ''ImageHandle'' EFI_HANDLE,
    Arg NoDir ''Argv'' (CPtr ''CHAR16 **'')]"

definition SetCrc_sig :: csig where
  "SetCrc_sig = Fn None [Arg InOut ''Hdr'' (CPtr ''EFI_TABLE_HEADER'')]"

definition SetCrcAltSize_sig :: csig where
  "SetCrcAltSize_sig = Fn None [Arg In ''Size'' UINTN,
    Arg InOut ''Hdr'' (CPtr ''EFI_TABLE_HEADER'')]"

definition CheckCrc_sig :: csig where
  "CheckCrc_sig = Fn (Some BOOLEAN) [Arg In ''MaxSize'' UINTN,
    Arg InOut ''Hdr'' (CPtr ''EFI_TABLE_HEADER'')]"

definition CheckCrcAltSize_sig :: csig where
  "CheckCrcAltSize_sig = Fn (Some BOOLEAN) [Arg In ''MaxSize'' UINTN, Arg In ''Size'' UINTN,
    Arg InOut ''Hdr'' (CPtr ''EFI_TABLE_HEADER'')]"

definition CalculateCrc_sig :: csig where
  "CalculateCrc_sig = Fn (Some UINT32) [Arg NoDir ''pt'' (CPtr ''UINT8''),
    Arg NoDir ''Size'' UINTN]"

definition ZeroMem_sig :: csig where
  "ZeroMem_sig = Fn None [Arg In ''Buffer'' (CPtr ''VOID''), Arg In ''Size'' UINTN]"

definition SetMem_sig :: csig where
  "SetMem_sig = Fn None [Arg In ''Buffer'' (CPtr ''VOID''), Arg In ''Size'' UINTN,
    Arg In ''Value'' UINT8]"

definition CopyMem_sig :: csig where
  "CopyMem_sig = Fn None [Arg In ''Dest'' (CPtr ''VOID''), Arg In ''Src'' (CPtr ''VOID''),
    Arg In ''len'' UINTN]"

definition CompareMem_sig :: csig where
  "CompareMem_sig = Fn (Some INTN) [Arg In ''Dest'' (CPtr ''VOID''),
    Arg In ''Src'' (CPtr ''VOID''), Arg In ''len'' UINTN]"

definition StrCmp_sig :: csig where
  "StrCmp_sig = Fn (Some INTN) [Arg In ''s1'' (CPtr ''CHAR16''), Arg In ''s2'' (CPtr ''CHAR16'')]"

definition StrnCmp_sig :: csig where
  "StrnCmp_sig = Fn (Some INTN) [Arg In ''s1'' (CPtr ''CHAR16''),
    Arg In ''s2'' (CPtr ''CHAR16''), Arg In ''len'' UINTN]"

definition StriCmp_sig :: csig where
  "StriCmp_sig = Fn (Some INTN) [Arg In ''s1'' (CPtr ''CHAR16''), Arg In ''s2'' (CPtr ''CHAR16'')]"

definition StrLwr_sig :: csig where "StrLwr_sig = Fn None [Arg In ''Str'' (CPtr ''CHAR16'')]"

definition StrUpr_sig :: csig where "StrUpr_sig = Fn None [Arg In ''Str'' (CPtr ''CHAR16'')]"

definition StrCpy_sig :: csig where
  "StrCpy_sig = Fn None [Arg In ''Dest'' (CPtr ''CHAR16''), Arg In ''Src'' (CPtr ''CHAR16'')]"

definition StrnCpy_sig :: csig where
  "StrnCpy_sig = Fn None [Arg In ''Dest'' (CPtr ''CHAR16''), Arg In ''Src'' (CPtr ''CHAR16''),
    Arg In ''Len'' UINTN]"

definition StpCpy_sig :: csig where
  "StpCpy_sig = Fn (Some (CPtr ''CHAR16'')) [Arg In ''Dest'' (CPtr ''CHAR16''),
    Arg In ''Src'' (CPtr ''CHAR16'')]"

definition StpnCpy_sig :: csig where
  "StpnCpy_sig = Fn (Some (CPtr ''CHAR16'')) [Arg In ''Dest'' (CPtr ''CHAR16''),
    Arg In ''Src'' (CPtr ''CHAR16''), Arg In ''Len'' UINTN]"

definition StrCat_sig :: csig where
  "StrCat_sig = Fn None [Arg In ''Dest'' (CPtr ''CHAR16''), Arg In ''Src'' (CPtr ''CHAR16'')]"

definition StrnCat_sig :: csig where
  "StrnCat_sig = Fn None [Arg In ''Dest'' (CPtr ''CHAR16''), Arg In ''Src'' (CPtr ''CHAR16''),
    Arg In ''Len'' UINTN]"

definition StrLen_sig :: csig where
  "StrLen_sig = Fn (Some UINTN) [Arg In ''s1'' (CPtr ''CHAR16'')]"

definition StrnLen_sig :: csig where
  "StrnLen_sig = Fn (Some UINTN) [Arg In ''s1'' (CPtr ''CHAR16''), Arg In ''Len'' UINTN]"

definition StrSize_sig :: csig where
  "StrSize_sig = Fn (Some UINTN) [Arg In ''s1'' (CPtr ''CHAR16'')]"

definition StrDuplicate_sig :: csig where
  "StrDuplicate_sig = Fn (Some (CPtr ''CHAR16'')) [Arg In ''Src'' (CPtr ''CHAR16'')]"

definition strlena_sig :: csig where
  "strlena_sig = Fn (Some UINTN) [Arg In ''s1'' (CPtr ''CHAR8'')]"

definition strcmpa_sig :: csig where
  "strcmpa_sig = Fn (Some UINTN) [Arg In ''s1'' (CPtr ''CHAR8''), Arg In ''s2'' (CPtr ''CHAR8'')]"

definition strncmpa_sig :: csig where
  "strncmpa_sig = Fn (Some UINTN) [Arg In ''s1'' (CPtr ''CHAR8''),
    Arg In ''s2'' (CPtr ''CHAR8''), Arg In ''len'' UINTN]"

definition xtoi_sig :: csig where
  "xtoi_sig = Fn (Some UINTN) [Arg NoDir ''str'' (CPtr ''CHAR16'')]"

definition Atoi_sig :: csig where
  "Atoi_sig = Fn (Some UINTN) [Arg NoDir ''str'' (CPtr ''CHAR16'')]"

definition MetaMatch_sig :: csig where
  "MetaMatch_sig = Fn (Some BOOLEAN) [Arg In ''String'' (CPtr ''CHAR16''),
    Arg In ''Pattern'' (CPtr ''CHAR16'')]"

definition MetaiMatch_sig :: csig where
  "MetaiMatch_sig = Fn (Some BOOLEAN) [Arg In ''String'' (CPtr ''CHAR16''),
    Arg In ''Pattern'' (CPtr ''CHAR16'')]"

definition LShiftU64_sig :: csig where
  "LShiftU64_sig = Fn (Some UINT64) [Arg In ''Operand'' UINT64, Arg In ''Count'' UINTN]"

definition RShiftU64_sig :: csig where
  "RShiftU64_sig = Fn (Some UINT64) [Arg In ''Operand'' UINT64, Arg In ''Count'' UINTN]"

definition MultU64x32_sig :: csig where
  "MultU64x32_sig = Fn (Some UINT64) [Arg In ''Multiplicand'' UINT64, Arg In ''Multiplier'' UINTN]"

definition DivU64x32_sig :: csig where
  "DivU64x32_sig = Fn (Some UINT64) [Arg In ''Dividend'' UINT64, Arg In ''Divisor'' UINTN,
    OptArg Out ''Remainder'' (CPtr ''UINTN'')]"

definition InitializeLock_sig :: csig where
  "InitializeLock_sig = Fn None [Arg InOut ''Lock'' (CPtr ''FLOCK''), Arg In ''Priority'' EFI_TPL]"

definition AcquireLock_sig :: csig where
  "AcquireLock_sig = Fn None [Arg In ''Lock'' (CPtr ''FLOCK'')]"

definition ReleaseLock_sig :: csig where
  "ReleaseLock_sig = Fn None [Arg In ''Lock'' (CPtr ''FLOCK'')]"

definition CompareGuid_sig :: csig where
  "CompareGuid_sig = Fn (Some INTN) [Arg In ''Guid1'' (CPtr ''EFI_GUID''),
    Arg In ''Guid2'' (CPtr ''EFI_GUID'')]"

definition AllocatePool_sig :: csig where
  "AllocatePool_sig = Fn (Some (CPtr ''VOID'')) [Arg In ''Size'' UINTN]"

definition AllocateZeroPool_sig :: csig where
  "AllocateZeroPool_sig = Fn (Some (CPtr ''VOID'')) [Arg In ''Size'' UINTN]"

definition ReallocatePool_sig :: csig where
  "ReallocatePool_sig = Fn (Some (CPtr ''VOID'')) [Arg In ''OldPool'' (CPtr ''VOID''),
    Arg In ''OldSize'' UINTN, Arg In ''NewSize'' UINTN]"

definition FreePool_sig :: csig where "FreePool_sig = Fn None [Arg In ''p'' (CPtr ''VOID'')]"

definition Output_sig :: csig where "Output_sig = Fn None [Arg In ''Str'' (CPtr ''CHAR16'')]"

definition Input_sig :: csig where
  "Input_sig = Fn None [OptArg In ''Prompt'' (CPtr ''CHAR16''),
    Arg Out ''InStr'' (CPtr ''CHAR16''), Arg In ''StrLen'' UINTN]"

definition IInput_sig :: csig where
  "IInput_sig = Fn None [Arg In ''ConOut'' (CPtr ''SIMPLE_TEXT_OUTPUT_INTERFACE''),
    Arg In ''ConIn'' (CPtr ''SIMPLE_INPUT_INTERFACE''), OptArg In ''Prompt'' (CPtr ''CHAR16''),
    Arg Out ''InStr'' (CPtr ''CHAR16''), Arg In ''StrLen'' UINTN]"

definition Print_sig :: csig where
  "Print_sig = FnVar (Some UINTN) [Arg In ''fmt'' (CPtr ''CHAR16'')]"

definition UnicodeSPrint_sig :: csig where
  "UnicodeSPrint_sig = FnVar (Some UINTN) [Arg Out ''Str'' (CPtr ''CHAR16''),
    Arg In ''StrSize'' UINTN, Arg In ''fmt'' (CPtr ''CHAR16'')]"

definition PoolPrint_sig :: csig where
  "PoolPrint_sig = FnVar (Some (CPtr ''CHAR16'')) [Arg In ''fmt'' (CPtr ''CHAR16'')]"

definition POOL_PRINT :: cty where
  "POOL_PRINT = CStruct [(''str'', CPtr ''CHAR16''), (''len'', UINTN), (''maxlen'', UINTN)]"

definition CatPrint_sig :: csig where
  "CatPrint_sig = FnVar (Some (CPtr ''CHAR16'')) [Arg InOut ''Str'' (CPtr ''POOL_PRINT''),
    Arg In ''fmt'' (CPtr ''CHAR16'')]"

definition PrintAt_sig :: csig where
  "PrintAt_sig = FnVar (Some UINTN) [Arg In ''Column'' UINTN, Arg In ''Row'' UINTN,
    Arg In ''fmt'' (CPtr ''CHAR16'')]"

definition IPrint_sig :: csig where
  "IPrint_sig = FnVar (Some UINTN) [Arg In ''Out'' (CPtr ''SIMPLE_TEXT_OUTPUT_INTERFACE''),
    Arg In ''fmt'' (CPtr ''CHAR16'')]"

definition IPrintAt_sig :: csig where
  "IPrintAt_sig = FnVar (Some UINTN) [Arg In ''Out'' (CPtr ''SIMPLE_TEXT_OUTPUT_INTERFACE''),
    Arg In ''Column'' UINTN, Arg In ''Row'' UINTN, Arg In ''fmt'' (CPtr ''CHAR16'')]"

definition AsciiPrint_sig :: csig where
  "AsciiPrint_sig = FnVar (Some UINTN) [Arg In ''fmt'' (CPtr ''CHAR8'')]"

definition ValueToHex_sig :: csig where
  "ValueToHex_sig = Fn None [Arg In ''Buffer'' (CPtr ''CHAR16''), Arg In ''v'' UINT64]"

definition ValueToString_sig :: csig where
  "ValueToString_sig = Fn None [Arg In ''Buffer'' (CPtr ''CHAR16''), Arg In ''Comma'' BOOLEAN,
    Arg In ''v'' INT64]"

definition TimeToString_sig :: csig where
  "TimeToString_sig = Fn None [Arg Out ''Buffer'' (CPtr ''CHAR16''),
    Arg In ''Time'' (CPtr ''EFI_TIME'')]"

definition GuidToString_sig :: csig where
  "GuidToString_sig = Fn None [Arg Out ''Buffer'' (CPtr ''CHAR16''),
    Arg In ''Guid'' (CPtr ''EFI_GUID'')]"

definition StatusToString_sig :: csig where
  "StatusToString_sig = Fn None [Arg Out ''Buffer'' (CPtr ''CHAR16''),
    Arg NoDir ''Status'' EFI_STATUS]"

definition DumpHex_sig :: csig where
  "DumpHex_sig = Fn None [Arg In ''Indent'' UINTN, Arg In ''Offset'' UINTN,
    Arg In ''DataSize'' UINTN, Arg In ''UserData'' (CPtr ''VOID'')]"

definition GrowBuffer_sig :: csig where
  "GrowBuffer_sig = Fn (Some BOOLEAN) [Arg InOut ''Status'' (CPtr ''EFI_STATUS''),
    Arg InOut ''Buffer'' (CPtr ''VOID *''), Arg In ''BufferSize'' UINTN]"

definition LibMemoryMap_sig :: csig where
  "LibMemoryMap_sig = Fn (Some (CPtr ''EFI_MEMORY_DESCRIPTOR'')) [
    Arg Out ''NoEntries'' (CPtr ''UINTN''), Arg Out ''MapKey'' (CPtr ''UINTN''),
    Arg Out ''DescriptorSize'' (CPtr ''UINTN''), Arg Out ''DescriptorVersion'' (CPtr ''UINT32'')]"

definition LibGetVariable_sig :: csig where
  "LibGetVariable_sig = Fn (Some (CPtr ''VOID'')) [Arg In ''Name'' (CPtr ''CHAR16''),
    Arg In ''VendorGuid'' (CPtr ''EFI_GUID'')]"

definition LibGetVariableAndSize_sig :: csig where
  "LibGetVariableAndSize_sig = Fn (Some (CPtr ''VOID'')) [Arg In ''Name'' (CPtr ''CHAR16''),
    Arg In ''VendorGuid'' (CPtr ''EFI_GUID''), Arg Out ''VarSize'' (CPtr ''UINTN'')]"

definition LibDeleteVariable_sig :: csig where
  "LibDeleteVariable_sig = Fn (Some EFI_STATUS) [Arg In ''VarName'' (CPtr ''CHAR16''),
    Arg In ''VarGuid'' (CPtr ''EFI_GUID'')]"

definition LibSetNVVariable_sig :: csig where
  "LibSetNVVariable_sig = Fn (Some EFI_STATUS) [Arg In ''VarName'' (CPtr ''CHAR16''),
    Arg In ''VarGuid'' (CPtr ''EFI_GUID''), Arg In ''DataSize'' UINTN,
    Arg In ''Data'' (CPtr ''VOID'')]"

definition LibSetVariable_sig :: csig where
  "LibSetVariable_sig = Fn (Some EFI_STATUS) [Arg In ''VarName'' (CPtr ''CHAR16''),
    Arg In ''VarGuid'' (CPtr ''EFI_GUID''), Arg In ''DataSize'' UINTN,
    Arg In ''Data'' (CPtr ''VOID'')]"

definition LibInsertToTailOfBootOrder_sig :: csig where
  "LibInsertToTailOfBootOrder_sig = Fn (Some EFI_STATUS) [Arg In ''BootOption'' UINT16,
    Arg In ''OnlyInsertIfEmpty'' BOOLEAN]"

definition LibLocateProtocol_sig :: csig where
  "LibLocateProtocol_sig = Fn (Some EFI_STATUS) [Arg In ''ProtocolGuid'' (CPtr ''EFI_GUID''),
    Arg Out ''Interface'' (CPtr ''VOID *'')]"

definition LibLocateHandle_sig :: csig where
  "LibLocateHandle_sig = Fn (Some EFI_STATUS) [Arg In ''SearchType'' EFI_LOCATE_SEARCH_TYPE,
    OptArg In ''Protocol'' (CPtr ''EFI_GUID''), OptArg In ''SearchKey'' (CPtr ''VOID''),
    Arg InOut ''NoHandles'' (CPtr ''UINTN''), Arg Out ''Buffer'' (CPtr ''EFI_HANDLE *'')]"

definition LibLocateHandleByDiskSignature_sig :: csig where
  "LibLocateHandleByDiskSignature_sig = Fn (Some EFI_STATUS) [Arg In ''MBRType'' UINT8,
    Arg In ''SignatureType'' UINT8, Arg In ''Signature'' (CPtr ''VOID''),
    Arg InOut ''NoHandles'' (CPtr ''UINTN''), Arg Out ''Buffer'' (CPtr ''EFI_HANDLE *'')]"

definition LibInstallProtocolInterfaces_sig :: csig where
  "LibInstallProtocolInterfaces_sig = FnVar (Some EFI_STATUS) [
    Arg InOut ''Handle'' (CPtr ''EFI_HANDLE'')]"

definition LibUninstallProtocolInterfaces_sig :: csig where
  "LibUninstallProtocolInterfaces_sig = FnVar None [Arg In ''Handle'' EFI_HANDLE]"

definition LibReinstallProtocolInterfaces_sig :: csig where
  "LibReinstallProtocolInterfaces_sig = FnVar (Some EFI_STATUS) [
    Arg InOut ''Handle'' (CPtr ''EFI_HANDLE'')]"

definition LibCreateProtocolNotifyEvent_sig :: csig where
  "LibCreateProtocolNotifyEvent_sig = Fn (Some EFI_EVENT) [
    Arg In ''ProtocolGuid'' (CPtr ''EFI_GUID''), Arg In ''NotifyTpl'' EFI_TPL,
    Arg In ''NotifyFunction'' (CPtr ''EFI_EVENT_NOTIFY''),
    Arg In ''NotifyContext'' (CPtr ''VOID''), Arg Out ''Registration'' (CPtr ''VOID'')]"

definition WaitForSingleEvent_sig :: csig where
  "WaitForSingleEvent_sig = Fn (Some EFI_STATUS) [Arg In ''Event'' EFI_EVENT,
    OptArg In ''Timeout'' UINT64]"

definition WaitForEventWithTimeout_sig :: csig where
  "WaitForEventWithTimeout_sig = Fn None [Arg In ''Event'' EFI_EVENT, Arg In ''Timeout'' UINTN,
    Arg In ''Row'' UINTN, Arg In ''Column'' UINTN, Arg In ''String'' (CPtr ''CHAR16''),
    Arg In ''TimeoutKey'' EFI_INPUT_KEY, Arg Out ''Key'' (CPtr ''EFI_INPUT_KEY'')]"

definition LibOpenRoot_sig :: csig where
  "LibOpenRoot_sig = Fn (Some EFI_FILE_HANDLE) [Arg In ''DeviceHandle'' EFI_HANDLE]"

definition LibFileInfo_sig :: csig where
  "LibFileInfo_sig = Fn (Some (CPtr ''EFI_FILE_INFO'')) [Arg In ''FHand'' EFI_FILE_HANDLE]"

definition LibFileSystemInfo_sig :: csig where
  "LibFileSystemInfo_sig = Fn (Some (CPtr ''EFI_FILE_SYSTEM_INFO'')) [
    Arg In ''FHand'' EFI_FILE_HANDLE]"

definition LibFileSystemVolumeLabelInfo_sig :: csig where
  "LibFileSystemVolumeLabelInfo_sig = Fn (Some (CPtr ''EFI_FILE_SYSTEM_VOLUME_LABEL_INFO'')) [
    Arg In ''FHand'' EFI_FILE_HANDLE]"

definition ValidMBR_sig :: csig where
  "ValidMBR_sig = Fn (Some BOOLEAN) [Arg In ''Mbr'' (CPtr ''MASTER_BOOT_RECORD''),
    Arg In ''BlkIo'' (CPtr ''EFI_BLOCK_IO'')]"

definition LibMatchDevicePaths_sig :: csig where
  "LibMatchDevicePaths_sig = Fn (Some BOOLEAN) [Arg In ''Multi'' (CPtr ''EFI_DEVICE_PATH''),
    Arg In ''Single'' (CPtr ''EFI_DEVICE_PATH'')]"

definition LibDuplicateDevicePathInstance_sig :: csig where
  "LibDuplicateDevicePathInstance_sig = Fn (Some (CPtr ''EFI_DEVICE_PATH'')) [
    Arg In ''DevPath'' (CPtr ''EFI_DEVICE_PATH'')]"

definition DevicePathFromHandle_sig :: csig where
  "DevicePathFromHandle_sig = Fn (Some (CPtr ''EFI_DEVICE_PATH'')) [Arg In ''Handle'' EFI_HANDLE]"

definition DevicePathInstance_sig :: csig where
  "DevicePathInstance_sig = Fn (Some (CPtr ''EFI_DEVICE_PATH'')) [
    Arg InOut ''DevicePath'' (CPtr ''EFI_DEVICE_PATH *''), Arg Out ''Size'' (CPtr ''UINTN'')]"

definition DevicePathInstanceCount_sig :: csig where
  "DevicePathInstanceCount_sig = Fn (Some UINTN) [Arg In ''DevicePath'' (CPtr ''EFI_DEVICE_PATH'')]"

definition AppendDevicePath_sig :: csig where
  "AppendDevicePath_sig = Fn (Some (CPtr ''EFI_DEVICE_PATH'')) [
    Arg In ''Src1'' (CPtr ''EFI_DEVICE_PATH''), Arg In ''Src2'' (CPtr ''EFI_DEVICE_PATH'')]"

definition AppendDevicePathNode_sig :: csig where
  "AppendDevicePathNode_sig = Fn (Some (CPtr ''EFI_DEVICE_PATH'')) [
    Arg In ''Src1'' (CPtr ''EFI_DEVICE_PATH''), Arg In ''Src2'' (CPtr ''EFI_DEVICE_PATH'')]"

definition AppendDevicePathInstance_sig :: csig where
  "AppendDevicePathInstance_sig = Fn (Some (CPtr ''EFI_DEVICE_PATH'')) [
    Arg In ''Src'' (CPtr ''EFI_DEVICE_PATH''), Arg In ''Instance'' (CPtr ''EFI_DEVICE_PATH'')]"

definition FileDevicePath_sig :: csig where
  "FileDevicePath_sig = Fn (Some (CPtr ''EFI_DEVICE_PATH'')) [OptArg In ''Device'' EFI_HANDLE,
    Arg In ''FileName'' (CPtr ''CHAR16'')]"

definition DevicePathSize_sig :: csig where
  "DevicePathSize_sig = Fn (Some UINTN) [Arg In ''DevPath'' (CPtr ''EFI_DEVICE_PATH'')]"

definition DuplicateDevicePath_sig :: csig where
  "DuplicateDevicePath_sig = Fn (Some (CPtr ''EFI_DEVICE_PATH'')) [
    Arg In ''DevPath'' (CPtr ''EFI_DEVICE_PATH'')]"

definition UnpackDevicePath_sig :: csig where
  "UnpackDevicePath_sig = Fn (Some (CPtr ''EFI_DEVICE_PATH'')) [
    Arg In ''DevPath'' (CPtr ''EFI_DEVICE_PATH'')]"

definition LibDevicePathToInterface_sig :: csig where
  "LibDevicePathToInterface_sig = Fn (Some EFI_STATUS) [Arg In ''Protocol'' (CPtr ''EFI_GUID''),
    Arg In ''FilePath'' (CPtr ''EFI_DEVICE_PATH''), Arg Out ''Interface'' (CPtr ''VOID *'')]"

definition DevicePathToStr_sig :: csig where
  "DevicePathToStr_sig = Fn (Some (CPtr ''CHAR16'')) [
    Arg NoDir ''DevPath'' (CPtr ''EFI_DEVICE_PATH'')]"

definition EFI_ADDRESS :: cty where
  "EFI_ADDRESS = CStruct [(''Register'', UINT8), (''Function'', UINT8), (''Device'', UINT8),
    (''Bus'', UINT8), (''Reserved'', UINT32)]"

definition EFI_PCI_ADDRESS_UNION :: cty where
  "EFI_PCI_ADDRESS_UNION = CUnion [(''Address'', UINT64), (''EfiAddress'', EFI_ADDRESS)]"

definition PciFindDeviceClass_sig :: csig where
  "PciFindDeviceClass_sig = Fn (Some EFI_STATUS) [
    Arg InOut ''Address'' (CPtr ''EFI_PCI_ADDRESS_UNION''), Arg In ''BaseClass'' UINT8,
    Arg In ''SubClass'' UINT8]"

definition PciFindDevice_sig :: csig where
  "PciFindDevice_sig = Fn (Some EFI_STATUS) [
    Arg InOut ''DeviceAddress'' (CPtr ''EFI_PCI_ADDRESS_UNION''), Arg In ''VendorId'' UINT16,
    Arg In ''DeviceId'' UINT16, Arg InOut ''Pci'' (CPtr ''PCI_TYPE00'')]"

definition SIMPLE_READ_FILE :: cty where "SIMPLE_READ_FILE = CPtr ''VOID''"

definition OpenSimpleReadFile_sig :: csig where
  "OpenSimpleReadFile_sig = Fn (Some EFI_STATUS) [Arg In ''BootPolicy'' BOOLEAN,
    OptArg In ''SourceBuffer'' (CPtr ''VOID''), Arg In ''SourceSize'' UINTN,
    Arg InOut ''FilePath'' (CPtr ''EFI_DEVICE_PATH *''),
    Arg Out ''DeviceHandle'' (CPtr ''EFI_HANDLE''),
    Arg Out ''SimpleReadHandle'' (CPtr ''SIMPLE_READ_FILE'')]"

definition ReadSimpleReadFile_sig :: csig where
  "ReadSimpleReadFile_sig = Fn (Some EFI_STATUS) [Arg In ''SimpleReadHandle'' SIMPLE_READ_FILE,
    Arg In ''Offset'' UINTN, Arg InOut ''ReadSize'' (CPtr ''UINTN''),
    Arg Out ''Buffer'' (CPtr ''VOID'')]"

definition CloseSimpleReadFile_sig :: csig where
  "CloseSimpleReadFile_sig = Fn None [Arg In ''SimpleReadHandle'' SIMPLE_READ_FILE]"

definition InitializeGuid_sig :: csig where "InitializeGuid_sig = Fn None []"

definition DecimaltoBCD_sig :: csig where
  "DecimaltoBCD_sig = Fn (Some UINT8) [Arg In ''DecValue'' UINT8]"

definition BCDtoDecimal_sig :: csig where
  "BCDtoDecimal_sig = Fn (Some UINT8) [Arg In ''BcdValue'' UINT8]"

definition LibGetSystemConfigurationTable_sig :: csig where
  "LibGetSystemConfigurationTable_sig = Fn (Some EFI_STATUS) [
    Arg In ''TableGuid'' (CPtr ''EFI_GUID''), Arg InOut ''Table'' (CPtr ''VOID *'')]"

definition LibIsValidTextGraphics_sig :: csig where
  "LibIsValidTextGraphics_sig = Fn (Some BOOLEAN) [Arg In ''Graphic'' CHAR16,
    OptArg Out ''PcAnsi'' (CPtr ''CHAR8''), OptArg Out ''Ascii'' (CPtr ''CHAR8'')]"

definition IsValidAscii_sig :: csig where
  "IsValidAscii_sig = Fn (Some BOOLEAN) [Arg In ''Ascii'' CHAR16]"

definition IsValidEfiCntlChar_sig :: csig where
  "IsValidEfiCntlChar_sig = Fn (Some BOOLEAN) [Arg In ''c'' CHAR16]"

definition LibGetUiString_sig :: csig where
  "LibGetUiString_sig = Fn (Some (CPtr ''CHAR16'')) [Arg In ''Handle'' EFI_HANDLE,
    Arg In ''StringType'' UI_STRING_TYPE, Arg In ''LangCode'' (CPtr ''ISO_639_2''),
    Arg In ''ReturnDevicePathStrOnMismatch'' BOOLEAN]"

definition LibGetSmbiosString_sig :: csig where
  "LibGetSmbiosString_sig = Fn (Some (CPtr ''CHAR8'')) [
    Arg In ''Smbios'' (CPtr ''SMBIOS_STRUCTURE_POINTER''), Arg In ''StringNumber'' UINT16]"

definition LibGetSmbiosSystemGuidAndSerialNumber_sig :: csig where
  "LibGetSmbiosSystemGuidAndSerialNumber_sig = Fn (Some EFI_STATUS) [
    Arg In ''SystemGuid'' (CPtr ''EFI_GUID''), Arg Out ''SystemSerialNumber'' (CPtr ''CHAR8 *'')]"

definition InitializeGlobalIoDevice_sig :: csig where
  "InitializeGlobalIoDevice_sig = Fn (Some EFI_STATUS) [
    Arg In ''DevicePath'' (CPtr ''EFI_DEVICE_PATH''), Arg In ''Protocol'' (CPtr ''EFI_GUID''),
    Arg In ''ErrorStr'' (CPtr ''CHAR8''),
    Arg Out ''GlobalIoFncs'' (CPtr ''EFI_DEVICE_IO_INTERFACE *'')]"

definition ReadPort_sig :: csig where
  "ReadPort_sig = Fn (Some UINT32) [Arg In ''GlobalIoFncs'' (CPtr ''EFI_DEVICE_IO_INTERFACE''),
    Arg In ''Width'' EFI_IO_WIDTH, Arg In ''Port'' UINTN]"

definition WritePort_sig :: csig where
  "WritePort_sig = Fn (Some UINT32) [Arg In ''GlobalIoFncs'' (CPtr ''EFI_DEVICE_IO_INTERFACE''),
    Arg In ''Width'' EFI_IO_WIDTH, Arg In ''Port'' UINTN, Arg In ''Data'' UINTN]"

definition ReadPciConfig_sig :: csig where
  "ReadPciConfig_sig = Fn (Some UINT32) [
    Arg In ''GlobalIoFncs'' (CPtr ''EFI_DEVICE_IO_INTERFACE''), Arg In ''Width'' EFI_IO_WIDTH,
    Arg In ''Port'' UINTN]"

definition WritePciConfig_sig :: csig where
  "WritePciConfig_sig = Fn (Some UINT32) [
    Arg In ''GlobalIoFncs'' (CPtr ''EFI_DEVICE_IO_INTERFACE''), Arg In ''Width'' EFI_IO_WIDTH,
    Arg In ''Port'' UINTN, Arg In ''Data'' UINTN]"

definition Pause_sig :: csig where "Pause_sig = Fn None []"

section \<open>efirtlib.h\<close>

definition RtZeroMem_sig :: csig where
  "RtZeroMem_sig = Fn None [Arg In ''Buffer'' (CPtr ''VOID''), Arg In ''Size'' UINTN]"

definition RtSetMem_sig :: csig where
  "RtSetMem_sig = Fn None [Arg In ''Buffer'' (CPtr ''VOID''), Arg In ''Size'' UINTN,
    Arg In ''Value'' UINT8]"

definition RtCopyMem_sig :: csig where
  "RtCopyMem_sig = Fn None [Arg In ''Dest'' (CPtr ''VOID''), Arg In ''Src'' (CPtr ''VOID''),
    Arg In ''len'' UINTN]"

definition RtCompareMem_sig :: csig where
  "RtCompareMem_sig = Fn (Some INTN) [Arg In ''Dest'' (CPtr ''VOID''),
    Arg In ''Src'' (CPtr ''VOID''), Arg In ''len'' UINTN]"

definition RtStrCmp_sig :: csig where
  "RtStrCmp_sig = Fn (Some INTN) [Arg In ''s1'' (CPtr ''CHAR16''), Arg In ''s2'' (CPtr ''CHAR16'')]"

definition RtStrCpy_sig :: csig where
  "RtStrCpy_sig = Fn None [Arg In ''Dest'' (CPtr ''CHAR16''), Arg In ''Src'' (CPtr ''CHAR16'')]"

definition RtStrnCpy_sig :: csig where
  "RtStrnCpy_sig = Fn None [Arg In ''Dest'' (CPtr ''CHAR16''), Arg In ''Src'' (CPtr ''CHAR16''),
    Arg In ''Len'' UINTN]"

definition RtStpCpy_sig :: csig where
  "RtStpCpy_sig = Fn (Some (CPtr ''CHAR16'')) [Arg In ''Dest'' (CPtr ''CHAR16''),
    Arg In ''Src'' (CPtr ''CHAR16'')]"

definition RtStpnCpy_sig :: csig where
  "RtStpnCpy_sig = Fn (Some (CPtr ''CHAR16'')) [Arg In ''Dest'' (CPtr ''CHAR16''),
    Arg In ''Src'' (CPtr ''CHAR16''), Arg In ''Len'' UINTN]"

definition RtStrCat_sig :: csig where
  "RtStrCat_sig = Fn None [Arg In ''Dest'' (CPtr ''CHAR16''), Arg In ''Src'' (CPtr ''CHAR16'')]"

definition RtStrnCat_sig :: csig where
  "RtStrnCat_sig = Fn None [Arg In ''Dest'' (CPtr ''CHAR16''), Arg In ''Src'' (CPtr ''CHAR16''),
    Arg In ''Len'' UINTN]"

definition RtStrLen_sig :: csig where
  "RtStrLen_sig = Fn (Some UINTN) [Arg In ''s1'' (CPtr ''CHAR16'')]"

definition RtStrnLen_sig :: csig where
  "RtStrnLen_sig = Fn (Some UINTN) [Arg In ''s1'' (CPtr ''CHAR16''), Arg In ''Len'' UINTN]"

definition RtStrSize_sig :: csig where
  "RtStrSize_sig = Fn (Some UINTN) [Arg In ''s1'' (CPtr ''CHAR16'')]"

definition RtCompareGuid_sig :: csig where
  "RtCompareGuid_sig = Fn (Some INTN) [Arg In ''Guid1'' (CPtr ''EFI_GUID''),
    Arg In ''Guid2'' (CPtr ''EFI_GUID'')]"

definition RtDecimaltoBCD_sig :: csig where
  "RtDecimaltoBCD_sig = Fn (Some UINT8) [Arg In ''BcdValue'' UINT8]"

definition RtBCDtoDecimal_sig :: csig where
  "RtBCDtoDecimal_sig = Fn (Some UINT8) [Arg In ''BcdValue'' UINT8]"

definition RtLibEnableVirtualMappings_sig :: csig where
  "RtLibEnableVirtualMappings_sig = Fn None []"

definition RtConvertList_sig :: csig where
  "RtConvertList_sig = Fn None [Arg In ''DebugDisposition'' UINTN,
    Arg InOut ''ListHead'' (CPtr ''LIST_ENTRY'')]"

definition RtAcquireLock_sig :: csig where
  "RtAcquireLock_sig = Fn None [Arg In ''Lock'' (CPtr ''FLOCK'')]"

definition RtReleaseLock_sig :: csig where
  "RtReleaseLock_sig = Fn None [Arg In ''Lock'' (CPtr ''FLOCK'')]"

section \<open>lib.h\<close>

definition LibStubStriCmp_sig :: csig where
  "LibStubStriCmp_sig = Fn (Some INTN) [Arg In ''This'' (CPtr ''EFI_UNICODE_COLLATION_INTERFACE''),
    Arg In ''S1'' (CPtr ''CHAR16''), Arg In ''S2'' (CPtr ''CHAR16'')]"

definition LibStubMetaiMatch_sig :: csig where
  "LibStubMetaiMatch_sig = Fn (Some BOOLEAN) [
    Arg In ''This'' (CPtr ''EFI_UNICODE_COLLATION_INTERFACE''),
    Arg In ''String'' (CPtr ''CHAR16''), Arg In ''Pattern'' (CPtr ''CHAR16'')]"

definition LibStubStrLwrUpr_sig :: csig where
  "LibStubStrLwrUpr_sig = Fn None [Arg In ''This'' (CPtr ''EFI_UNICODE_COLLATION_INTERFACE''),
    Arg In ''Str'' (CPtr ''CHAR16'')]"

section \<open>vgaclass.h\<close>

definition VGA_CLASS_DRIVER_PROTOCOL :: guid where
  "VGA_CLASS_DRIVER_PROTOCOL = GUID 0xE3D6310 0x6FE4 0x11D3 [0xBB, 0x81, 0x0, 0x80, 0xC7, 0x3C, 0x88, 0x81]"

definition INIT_VGA_CARD :: csig where
  "INIT_VGA_CARD = Fn (Some EFI_STATUS) [Arg In ''VgaMode'' UINTN,
    Arg In ''Context'' (CPtr ''VOID'')]"

definition MAX_CONSOLE_GEOMETRY :: cty where
  "MAX_CONSOLE_GEOMETRY = CStruct [(''MaxColumns'', UINTN), (''MaxRows'', UINTN)]"

definition VGA_CON_OUT_DEV_SIGNATURE :: u64 where
  "VGA_CON_OUT_DEV_SIGNATURE = ucast (EFI_SIGNATURE_32 99 118 103 97)"

definition VGA_CON_OUT_DEV :: cty where
  "VGA_CON_OUT_DEV = CStruct [(''Signature'', UINTN), (''Handle'', EFI_HANDLE),
    (''ConOut'', SIMPLE_TEXT_OUTPUT_INTERFACE), (''ConOutMode'', SIMPLE_TEXT_OUTPUT_MODE),
    (''DevicePath'', CPtr ''EFI_DEVICE_PATH''), (''Buffer'', CPtr ''UINT8''),
    (''DeviceIo'', CPtr ''EFI_DEVICE_IO_INTERFACE''), (''InitVgaCard'', CPtr ''INIT_VGA_CARD''),
    (''VgaCardContext'', CPtr ''VOID''), (''Geometry'', CPtr ''MAX_CONSOLE_GEOMETRY''),
    (''VideoBuffer'', UINT64), (''Attribute'', UINT32), (''Pci'', EFI_PCI_ADDRESS_UNION)]"

definition INSTALL_VGA_DRIVER :: csig where
  "INSTALL_VGA_DRIVER = Fn (Some EFI_STATUS) [Arg In ''ConOutDev'' (CPtr ''VGA_CON_OUT_DEV'')]"

definition INSTALL_VGA_DRIVER_INTERFACE :: cty where
  "INSTALL_VGA_DRIVER_INTERFACE = CStruct [(''Version'', UINT32),
    (''InstallGenericVgaDriver'', CPtr ''INSTALL_VGA_DRIVER'')]"


end
