(* ===== verification/Efi_Formats.thy ===== *)
theory Efi_Formats
  imports Efi_Image Efi_Pxe Efi_Debug Efi_Net Efi_Lib
begin

text \<open>
  The remaining computing macros of the UEFI headers (\<open>x86_64/pe.h\<close>, \<open>pci22.h\<close>,
  \<open>efifs.h\<close>, \<open>efi_pxe.h\<close>) and the
  sizes of the binary formats the headers lay out, compared with the size constants beside them.
\<close>

section \<open>Macros\<close>

definition IMAGE_SNAP_BY_ORDINAL :: "u64 \<Rightarrow> bool" where
  "IMAGE_SNAP_BY_ORDINAL Ordinal \<longleftrightarrow> Ordinal AND IMAGE_ORDINAL_FLAG \<noteq> 0"

definition IMAGE_ORDINAL :: "u64 \<Rightarrow> u64" where
  "IMAGE_ORDINAL Ordinal = Ordinal AND 0xFFFF"

text \<open>The header type of a PCI device whose header is at \<open>p\<close>, a byte promoted to \<open>int\<close>.\<close>

abbreviation pci_header_type :: "mem \<Rightarrow> u64 \<Rightarrow> u64" where
  "pci_header_type m p \<equiv> ucast (m (fld PCI_DEVICE_INDEPENDENT_REGION ''HeaderType'' (fld PCI_TYPE00 ''Hdr'' p)))"

definition IS_PCI_BRIDGE :: "mem \<Rightarrow> u64 \<Rightarrow> bool" where
  "IS_PCI_BRIDGE m p \<longleftrightarrow> pci_header_type m p AND HEADER_LAYOUT_CODE = HEADER_TYPE_PCI_TO_PCI_BRIDGE"

definition IS_PCI_MULTI_FUNC :: "mem \<Rightarrow> u64 \<Rightarrow> u64" where
  "IS_PCI_MULTI_FUNC m p = pci_header_type m p AND HEADER_TYPE_MULTI_FUNCTION"

text \<open>The block lists of a file header and of a list of blocks at \<open>a\<close> (\<open>efifs.h\<close>).\<close>

definition EFI_FILE_LBAL :: "mem \<Rightarrow> u64 \<Rightarrow> u64" where
  "EFI_FILE_LBAL m a = a + ucast (ld32 m (fld EFI_FILE_HEADER ''LBALOffset'' a))"

abbreviation lbal_header_size :: "mem \<Rightarrow> u64 \<Rightarrow> u64" where
  "lbal_header_size m a \<equiv> ucast (ld32 m (fld EFI_TABLE_HEADER ''HeaderSize'' (fld EFI_LBAL ''Hdr'' a)))"

definition EFI_LBAL_RL :: "mem \<Rightarrow> u64 \<Rightarrow> u64" where
  "EFI_LBAL_RL m a = a + lbal_header_size m a"

definition EFI_LBAL_ARRAY_SIZE :: "mem \<Rightarrow> u64 \<Rightarrow> u64 \<Rightarrow> u64 \<Rightarrow> u64" where
  "EFI_LBAL_ARRAY_SIZE m lbal offs blks = (blks - offs - lbal_header_size m lbal) div of_nat (csize EFI_RL)"

definition PXE_SWAP_UINT64 :: "u64 \<Rightarrow> u64" where
  "PXE_SWAP_UINT64 n = push_bit 56 (n AND 0x00000000000000FF) OR push_bit 40 (n AND 0x000000000000FF00)
     OR push_bit 24 (n AND 0x0000000000FF0000) OR push_bit 8 (n AND 0x00000000FF000000)
     OR drop_bit 8 (n AND 0x000000FF00000000) OR drop_bit 24 (n AND 0x0000FF0000000000)
     OR drop_bit 40 (n AND 0x00FF000000000000) OR drop_bit 56 (n AND 0xFF00000000000000)"

section \<open>Byte order\<close>

text \<open>A byte of the result is the byte of the argument at the mirrored position.\<close>

lemma bit_byte_mask: "bit (0xFF :: u64) i \<longleftrightarrow> i < 8" "bit (0xFF :: int) i \<longleftrightarrow> i < 8"
proof -
  have "bit (mask 8 :: u64) i \<longleftrightarrow> i < 8" "bit (mask 8 :: int) i \<longleftrightarrow> i < 8" by (auto simp: bit_mask_iff)
  then show "bit (0xFF :: u64) i \<longleftrightarrow> i < 8" "bit (0xFF :: int) i \<longleftrightarrow> i < 8"
    by (simp_all add: mask_eq_exp_minus_1)
qed

lemma byte_masks:
  "(0xFF00 :: u64) = push_bit 8 0xFF" "(0xFF0000 :: u64) = push_bit 16 0xFF"
  "(0xFF000000 :: u64) = push_bit 24 0xFF" "(0xFF00000000 :: u64) = push_bit 32 0xFF"
  "(0xFF0000000000 :: u64) = push_bit 40 0xFF" "(0xFF000000000000 :: u64) = push_bit 48 0xFF"
  "(0xFF00000000000000 :: u64) = push_bit 56 0xFF"
  by simp_all

lemma swap64_bytes:
  assumes "i < 8"
  shows "take_bit 8 (drop_bit (8 * i) (PXE_SWAP_UINT64 n)) = take_bit 8 (drop_bit (56 - 8 * i) n)"
proof (rule bit_word_eqI)
  fix j assume "j < LENGTH(64)"
  have i: "i \<in> {0, 1, 2, 3, 4, 5, 6, 7}" using assms by auto
  show "bit (take_bit 8 (drop_bit (8 * i) (PXE_SWAP_UINT64 n))) j = bit (take_bit 8 (drop_bit (56 - 8 * i) n)) j"
    unfolding PXE_SWAP_UINT64_def byte_masks
    by (cases "j < 8"; use i in \<open>elim insertE emptyE\<close>) (auto simp: bit_simps bit_byte_mask)
qed

section \<open>Sizes\<close>

text \<open>
  The structures of image files whose size the headers give as a constant: most have this
  size; relocations and line numbers are padded, because the header does not pack them.
\<close>

lemma image_format_sizes:
  "csize IMAGE_FILE_HEADER = unat IMAGE_SIZEOF_FILE_HEADER
   \<and> csize IMAGE_OPTIONAL_HEADER = unat IMAGE_SIZEOF_NT_OPTIONAL_HEADER
   \<and> csize IMAGE_ROM_OPTIONAL_HEADER = unat IMAGE_SIZEOF_ROM_OPTIONAL_HEADER
   \<and> csize IMAGE_SECTION_HEADER = unat IMAGE_SIZEOF_SECTION_HEADER
   \<and> csize IMAGE_BASE_RELOCATION = unat IMAGE_SIZEOF_BASE_RELOCATION
   \<and> csize IMAGE_ARCHIVE_MEMBER_HEADER = unat IMAGE_SIZEOF_ARCHIVE_MEMBER_HDR
   \<and> csize IMAGE_RELOCATION = unat IMAGE_SIZEOF_RELOCATION + 2
   \<and> csize IMAGE_LINENUMBER = unat IMAGE_SIZEOF_LINENUMBER + 2"
  by (intro conjI) code_simp+

text \<open>Pointers in place of 32-bit addresses: the import and export tables are larger than those of the format.\<close>

lemma image_table_sizes:
  "csize IMAGE_EXPORT_DIRECTORY = 56 \<and> csize IMAGE_IMPORT_DESCRIPTOR = 24 \<and> csize IMAGE_THUNK_DATA = 8"
  by (intro conjI) code_simp+

lemma disk_format_sizes:
  "csize MASTER_BOOT_RECORD = unat MBR_SIZE \<and> csize MBR_PARTITION_RECORD = 16
   \<and> csize EFI_PARTITION_ENTRY = 128 \<and> offset EFI_PARTITION_TABLE_HEADER ''PartitionEntryArrayCRC32'' = Some 88
   \<and> csize PCI_TYPE00 = 64 \<and> csize PCI_TYPE01 = 64 \<and> csize PXE_CDB = 32
   \<and> csize SMBIOS_STRUCTURE_TABLE = 31 \<and> csize SMBIOS3_STRUCTURE_TABLE = 24"
  by (intro conjI) code_simp+

text \<open>
  The signature of an EFI option ROM is declared with 16 bits, so the pointer to the PCI data
  structure lies two bytes before the one every option ROM has.
\<close>

lemma option_rom_pointers:
  "offset PCI_EXPANSION_ROM_HEADER ''PcirOffset'' = Some 24
   \<and> offset EFI_PCI_EXPANSION_ROM_HEADER ''PcirOffset'' = Some 22"
  by code_simp

end
