(* ===== verification/Efi_Bind.thy ===== *)
theory Efi_Bind
  imports Efi_Def
begin

text \<open>
  The platform binding \<open>x86_64/efibind.h\<close> and the headers around it (\<open>efi.h\<close>, \<open>efistdarg.h\<close>,
  \<open>efisetjmp.h\<close>, \<open>x86_64/efisetjmp_arch.h\<close>, \<open>x86_64/efilibplat.h\<close>): the integer types, the call
  wrapper that selects a trampoline by counting its arguments in the preprocessor, the driver
  entry point, and the jump buffer. Branches of the preprocessor are those the boot loader's
  compiler takes: gcc in C++ mode, neither \<open>_MSC_VER\<close> nor \<open>GNU_EFI_USE_MS_ABI\<close> defined.
\<close>

section \<open>Integer types\<close>

text \<open>
  In C++ \<open>__STDC_VERSION__\<close> is not defined, so the condition holds and the header declares the
  fixed-width types itself.
\<close>

definition declares_stdint :: "nat option \<Rightarrow> bool \<Rightarrow> bool" where
  "declares_stdint stdc_version cplusplus \<longleftrightarrow>
     stdc_version = None \<or> (the stdc_version < 199901 \<and> \<not> cplusplus)"

definition gnuc_stdint :: "(string \<times> cty) list" where
  "gnuc_stdint = [(''int64_t'', C64), (''uint64_t'', C64), (''uint32_t'', C32), (''int32_t'', C32),
     (''uint16_t'', C16), (''int16_t'', C16), (''uint8_t'', C8), (''int8_t'', C8)]"

definition pointer_ints :: "(string \<times> cty) list" where
  "pointer_ints = [(''uintptr_t'', the (map_of gnuc_stdint ''uint64_t'')),
     (''intptr_t'', the (map_of gnuc_stdint ''int64_t''))]"

text \<open>With \<open>-fshort-wchar\<close>, and on this target anyway, \<open>wchar_t\<close> has 16 bits.\<close>

definition efi_char16 :: "(string \<times> cty) list" where
  "efi_char16 = [(''CHAR16'', C16)]"

definition efi_int_types :: "(string \<times> cty) list" where
  "efi_int_types = map (\<lambda>(n, t). (n, the (map_of gnuc_stdint t)))
     [(''UINT64'', ''uint64_t''), (''INT64'', ''int64_t''), (''UINT32'', ''uint32_t''),
      (''INT32'', ''int32_t''), (''UINT16'', ''uint16_t''), (''INT16'', ''int16_t''),
      (''UINT8'', ''uint8_t''), (''INT8'', ''int8_t''), (''INTN'', ''int64_t''), (''UINTN'', ''uint64_t'')]
     @ [(''CHAR8'', C8)]"

definition MAX_ADDRESS :: u64 where "MAX_ADDRESS = 0xFFFFFFFFFFFFFFFF"

definition EFI_FIRMWARE_VENDOR :: string where "EFI_FIRMWARE_VENDOR = ''INTEL''"
definition EFI_FIRMWARE_MAJOR_REVISION :: u32 where "EFI_FIRMWARE_MAJOR_REVISION = 12"
definition EFI_FIRMWARE_MINOR_REVISION :: u32 where "EFI_FIRMWARE_MINOR_REVISION = 33"
definition EFI_FIRMWARE_REVISION :: u32 where
  "EFI_FIRMWARE_REVISION = push_bit 16 EFI_FIRMWARE_MAJOR_REVISION OR EFI_FIRMWARE_MINOR_REVISION"

text \<open>\<open>BREAKPOINT\<close> is \<open>while (TRUE);\<close>: \<open>None\<close>, it never returns.\<close>

partial_function (option) BREAKPOINT :: "'s \<Rightarrow> 's option" where
  "BREAKPOINT s = BREAKPOINT s"

section \<open>Counting arguments in the preprocessor\<close>

text \<open>
  A macro argument is a text of the caller or one of the numerals of \<open>__RSEQ_N\<close>. The parameter
  \<open>N\<close> of \<open>__VA_ARG_N\<close> is the twelfth argument; fewer than twelve are an error (\<open>None\<close>).
\<close>

datatype 'a pp_token = Placeholder | Empty | Numeral nat | Text 'a

definition VA_ARG_N :: "'a list \<Rightarrow> 'a option" where
  "VA_ARG_N as = (case drop 11 as of [] \<Rightarrow> None | N # _ \<Rightarrow> Some N)"

definition RSEQ_N :: "'a pp_token list" where
  "RSEQ_N = map Numeral [10, 9, 8, 7, 6, 5, 4, 3, 2, 1, 0]"

text \<open>
  Without arguments the comma before \<open>## __VA_ARGS__\<close> is dropped as an extension; a compiler that
  conforms to a language standard (the boot loader is built with \<open>-std=c++20\<close>) keeps it, and an
  empty argument with it.
\<close>

definition VA_NARG :: "bool \<Rightarrow> 'a list \<Rightarrow> 'a pp_token option" where
  "VA_NARG conforming as =
     VA_ARG_N (Placeholder # (if as = [] \<and> conforming then [Empty] else map Text as) @ RSEQ_N)"

section \<open>The call wrapper\<close>

text \<open>
  Arguments are the integer values of the expressions (pointers are addresses); the cast to
  \<open>UINT64\<close> reduces them modulo 2 ^ 64. The trampolines \<open>efi_call0\<close> to \<open>efi_call10\<close> are declared
  here and implemented in assembler outside the repository: \<open>efi_call n\<close> is a parameter.
\<close>

definition efi_call_sig :: "nat \<Rightarrow> csig" where
  "efi_call_sig n = Fn (Some UINT64) (Arg NoDir ''func'' (CPtr ''void'')
     # map (\<lambda>a. Arg NoDir a UINT64) (take n [''arg1'', ''arg2'', ''arg3'', ''arg4'', ''arg5'', ''arg6'',
         ''arg7'', ''arg8'', ''arg9'', ''arg10'']))"

text \<open>\<open>None\<close> stands for an expansion that does not compile: there are eleven front ends.\<close>

definition cast64_efi_call ::
    "(nat \<Rightarrow> u64 \<Rightarrow> u64 list \<Rightarrow> 's \<Rightarrow> u64 \<times> 's) \<Rightarrow> nat \<Rightarrow> u64 \<Rightarrow> int list \<Rightarrow> 's \<Rightarrow> (u64 \<times> 's) option" where
  "cast64_efi_call efi_call n f args s =
     (if n \<le> 10 \<and> length args = n then Some (efi_call n f (map word_of_int args) s) else None)"

definition uefi_call_wrapper :: "bool \<Rightarrow>
    (nat \<Rightarrow> u64 \<Rightarrow> u64 list \<Rightarrow> 's \<Rightarrow> u64 \<times> 's) \<Rightarrow> u64 \<Rightarrow> nat \<Rightarrow> int list \<Rightarrow> 's \<Rightarrow> (u64 \<times> 's) option" where
  "uefi_call_wrapper conforming efi_call func va_num args s =
     (case VA_NARG conforming args of
        Some (Numeral n) \<Rightarrow> cast64_efi_call efi_call n func args s
      | _ \<Rightarrow> None)"

text \<open>The driver entry point that \<open>EFI_DRIVER_ENTRY_POINT\<close> defines, and its alias.\<close>

definition InitializeDriver :: "(u64 \<Rightarrow> u64 \<Rightarrow> 's \<Rightarrow> u64 \<times> 's) \<Rightarrow> u64 \<Rightarrow> u64 \<Rightarrow> 's \<Rightarrow> u64 \<times> 's" where
  "InitializeDriver InitFunction ImageHandle SystemTable s = InitFunction ImageHandle SystemTable s"

section \<open>Jump buffers and variable arguments\<close>

definition JMPBUF_ALIGN :: nat where "JMPBUF_ALIGN = 8"

definition jmp_buf :: cty where
  "jmp_buf = CArr (CStruct [(''Rbx'', UINT64), (''Rsp'', UINT64), (''Rbp'', UINT64), (''Rdi'', UINT64),
     (''Rsi'', UINT64), (''R12'', UINT64), (''R13'', UINT64), (''R14'', UINT64), (''R15'', UINT64),
     (''Rip'', UINT64), (''MxCsr'', UINT64), (''XmmBuffer'', CArr UINT8 160)]) 1"

definition setjmp_sig :: csig where
  "setjmp_sig = Fn (Some UINTN) [Arg NoDir ''env'' (CPtr ''jmp_buf'')]"

definition longjmp_sig :: csig where
  "longjmp_sig = Fn None [Arg NoDir ''env'' (CPtr ''jmp_buf''), Arg NoDir ''value'' UINTN]"

text \<open>On this target \<open>__builtin_va_list\<close> is a pointer into the argument area.\<close>

definition va_list :: cty where "va_list = CPtr ''char''"

definition InitializeLibPlatform_sig :: csig where
  "InitializeLibPlatform_sig = Fn None [Arg In ''ImageHandle'' EFI_HANDLE,
     Arg In ''SystemTable'' (CPtr ''EFI_SYSTEM_TABLE'')]"

section \<open>Lemmas\<close>

text \<open>The wrapper's count is right up to ten arguments; from the eleventh on it is an argument.\<close>

lemma VA_ARG_N_nth: "VA_ARG_N as = (if 11 < length as then Some (as ! 11) else None)"
  using Cons_nth_drop_Suc [of 11 as] by (auto simp: VA_ARG_N_def split: list.split)

lemma RSEQ_N_nth: "i < 11 \<Longrightarrow> (RSEQ_N :: 'a pp_token list) ! i = Numeral (10 - i)"
proof -
  have "\<forall>i \<in> {..<11}. (RSEQ_N :: 'a pp_token list) ! i = Numeral (10 - i)"
    by (simp add: RSEQ_N_def lessThan_nat_numeral lessThan_Suc)
  then show "i < 11 \<Longrightarrow> (RSEQ_N :: 'a pp_token list) ! i = Numeral (10 - i)" by blast
qed

lemma VA_NARG_counts:
  "VA_NARG conforming as = Some (
     if as = [] then Numeral (if conforming then 1 else 0)
     else if length as \<le> 10 then Numeral (length as) else Text (as ! 10))"
proof -
  have l: "length (RSEQ_N :: 'a pp_token list) = 11" by (simp add: RSEQ_N_def)
  consider "as = []" | "as \<noteq> []" "length as \<le> 10" | "10 < length as" by linarith
  then show ?thesis
  proof cases
    case 1
    with l show ?thesis by (simp add: VA_NARG_def VA_ARG_N_nth RSEQ_N_nth)
  next
    case 2
    have "10 - length as < 11" by linarith
    from RSEQ_N_nth [OF this] 2 have "(map Text as @ RSEQ_N) ! 10 = Numeral (length as)"
      by (simp add: nth_append)
    with 2 l show ?thesis by (simp add: VA_NARG_def VA_ARG_N_nth)
  next
    case 3
    with l show ?thesis by (auto simp: VA_NARG_def VA_ARG_N_nth nth_append)
  qed
qed

lemma wrapper_calls_trampoline:
  "uefi_call_wrapper conforming efi_call func va_num args s =
     (if length args \<le> 10 \<and> (conforming \<longrightarrow> args \<noteq> [])
      then Some (efi_call (length args) func (map word_of_int args) s) else None)"
  by (simp add: uefi_call_wrapper_def VA_NARG_counts cast64_efi_call_def)

text \<open>The trampoline of \<open>n\<close> arguments takes the function and \<open>n\<close> words.\<close>

lemma efi_call_sig_args: "n \<le> 10 \<Longrightarrow> length (sig_args (efi_call_sig n)) = Suc n"
  by (simp add: efi_call_sig_def)

lemma BREAKPOINT_None: "BREAKPOINT s = None"
proof -
  have "BREAKPOINT s = Some r \<Longrightarrow> False" for r
    by (erule BREAKPOINT.raw_induct [where P = "\<lambda>_ _. False", rotated]) blast
  then show ?thesis by (metis not_None_eq)
qed

lemma jmp_buf_layout: "csize jmp_buf = 248 \<and> calign jmp_buf = JMPBUF_ALIGN"
  by (intro conjI; code_simp)

lemma efi_int_sizes:
  "map (\<lambda>(n, t). (n, csize t)) (efi_char16 @ efi_int_types) =
     [(''CHAR16'', csize CHAR16), (''UINT64'', csize UINT64), (''INT64'', csize INT64),
      (''UINT32'', csize UINT32), (''INT32'', csize INT32), (''UINT16'', csize UINT16),
      (''INT16'', csize INT16), (''UINT8'', csize UINT8), (''INT8'', csize INT8),
      (''INTN'', csize INTN), (''UINTN'', csize UINTN), (''CHAR8'', csize CHAR8)]"
  by code_simp

end
