(* ===== verification/Efi_Globals.thy ===== *)
theory Efi_Globals
  imports Efi_Bind Efi_Lib
begin

text \<open>
  What the library headers declare besides functions: the global variables and GUIDs of
  \<open>efilib.h\<close> and \<open>lib.h\<close> with the names that stand for them, the printing functions that take an
  argument list, and the macros for ports and assertions (\<open>efilib.h\<close>, \<open>efidebug.h\<close>). The values
  of the variables and the functions the macros call are outside the repository: parameters.
\<close>

section \<open>Global data\<close>

definition efilib_tables :: "(string \<times> cty) list" where
  "efilib_tables =
     [(''ST'', CPtr ''EFI_SYSTEM_TABLE''), (''BS'', CPtr ''EFI_BOOT_SERVICES''),
      (''RT'', CPtr ''EFI_RUNTIME_SERVICES'')]"

definition efilib_table_names :: "(string \<times> string) list" where
  "efilib_table_names =
     [(''gST'', ''ST''), (''gBS'', ''BS''), (''gRT'', ''RT'')]"

definition efilib_guids :: "string list" where
  "efilib_guids =
     [''gEfiDevicePathProtocolGuid'', ''gEfiDevicePathToTextProtocolGuid'',
      ''gEfiDevicePathFromTextProtocolGuid'', ''gEfiDevicePathUtilitiesProtocolGuid'',
      ''gEfiLoadedImageProtocolGuid'', ''gEfiSimpleTextInProtocolGuid'',
      ''gEfiSimpleTextOutProtocolGuid'', ''gEfiGraphicsOutputProtocolGuid'',
      ''gEfiEdidDiscoveredProtocolGuid'', ''gEfiEdidActiveProtocolGuid'',
      ''gEfiEdidOverrideProtocolGuid'', ''gEfiBlockIoProtocolGuid'',
      ''gEfiBlockIo2ProtocolGuid'', ''gEfiDiskIoProtocolGuid'', ''gEfiDiskIo2ProtocolGuid'',
      ''gEfiSimpleFileSystemProtocolGuid'', ''gEfiLoadFileProtocolGuid'',
      ''gEfiDeviceIoProtocolGuid'', ''VariableStoreProtocol'', ''LegacyBootProtocol'',
      ''gEfiUnicodeCollationProtocolGuid'', ''gEfiSerialIoProtocolGuid'', ''VgaClassProtocol'',
      ''TextOutSpliterProtocol'', ''ErrorOutSpliterProtocol'', ''TextInSpliterProtocol'',
      ''gEfiSimpleNetworkProtocolGuid'', ''gEfiPxeBaseCodeProtocolGuid'',
      ''gEfiPxeBaseCodeCallbackProtocolGuid'', ''gEfiNetworkInterfaceIdentifierProtocolGuid'',
      ''gEFiUiInterfaceProtocolGuid'', ''InternalShellProtocol'', ''gEfiPciIoProtocolGuid'',
      ''gEfiPciRootBridgeIoProtocolGuid'', ''gEfiDriverBindingProtocolGuid'',
      ''gEfiComponentNameProtocolGuid'', ''gEfiComponentName2ProtocolGuid'',
      ''gEfiHashProtocolGuid'', ''gEfiPlatformDriverOverrideProtocolGuid'',
      ''gEfiBusSpecificDriverOverrideProtocolGuid'', ''gEfiDriverFamilyOverrideProtocolGuid'',
      ''gEfiEbcProtocolGuid'', ''gEfiGlobalVariableGuid'', ''gEfiFileInfoGuid'',
      ''gEfiFileSystemInfoGuid'', ''gEfiFileSystemVolumeLabelInfoIdGuid'', ''gEfiPcAnsiGuid'',
      ''gEfiVT100Guid'', ''gEfiVT100PlusGuid'', ''gEfiVTUTF8Guid'', ''NullGuid'',
      ''UnknownDevice'', ''EfiPartTypeSystemPartitionGuid'', ''EfiPartTypeLegacyMbrGuid'',
      ''MpsTableGuid'', ''AcpiTableGuid'', ''SMBIOSTableGuid'', ''SMBIOS3TableGuid'',
      ''SalSystemTableGuid'', ''EfiDtbTableGuid'', ''SimplePointerProtocol'',
      ''AbsolutePointerProtocol'', ''gEfiDebugImageInfoTableGuid'',
      ''gEfiDebugSupportProtocolGuid'', ''SimpleTextInputExProtocol'', ''ShellProtocolGuid'',
      ''ShellParametersProtocolGuid'', ''ShellDynamicCommandProtocolGuid'']"

definition efilib_guid_names :: "(string \<times> string) list" where
  "efilib_guid_names =
     [(''DevicePathProtocol'', ''gEfiDevicePathProtocolGuid''),
      (''DevicePathToTextProtocol'', ''gEfiDevicePathToTextProtocolGuid''),
      (''DevicePathFromTextProtocol'', ''gEfiDevicePathFromTextProtocolGuid''),
      (''DevicePathUtilitiesProtocol'', ''gEfiDevicePathUtilitiesProtocolGuid''),
      (''LoadedImageProtocol'', ''gEfiLoadedImageProtocolGuid''),
      (''TextInProtocol'', ''gEfiSimpleTextInProtocolGuid''),
      (''TextOutProtocol'', ''gEfiSimpleTextOutProtocolGuid''),
      (''GraphicsOutputProtocol'', ''gEfiGraphicsOutputProtocolGuid''),
      (''EdidDiscoveredProtocol'', ''gEfiEdidDiscoveredProtocolGuid''),
      (''EdidActiveProtocol'', ''gEfiEdidActiveProtocolGuid''),
      (''EdidOverrideProtocol'', ''gEfiEdidOverrideProtocolGuid''),
      (''BlockIoProtocol'', ''gEfiBlockIoProtocolGuid''),
      (''BlockIo2Protocol'', ''gEfiBlockIo2ProtocolGuid''),
      (''DiskIoProtocol'', ''gEfiDiskIoProtocolGuid''),
      (''DiskIo2Protocol'', ''gEfiDiskIo2ProtocolGuid''),
      (''FileSystemProtocol'', ''gEfiSimpleFileSystemProtocolGuid''),
      (''LoadFileProtocol'', ''gEfiLoadFileProtocolGuid''),
      (''DeviceIoProtocol'', ''gEfiDeviceIoProtocolGuid''),
      (''UnicodeCollationProtocol'', ''gEfiUnicodeCollationProtocolGuid''),
      (''SerialIoProtocol'', ''gEfiSerialIoProtocolGuid''),
      (''SimpleNetworkProtocol'', ''gEfiSimpleNetworkProtocolGuid''),
      (''PxeBaseCodeProtocol'', ''gEfiPxeBaseCodeProtocolGuid''),
      (''PxeCallbackProtocol'', ''gEfiPxeBaseCodeCallbackProtocolGuid''),
      (''NetworkInterfaceIdentifierProtocol'', ''gEfiNetworkInterfaceIdentifierProtocolGuid''),
      (''UiProtocol'', ''gEFiUiInterfaceProtocolGuid''),
      (''PciIoProtocol'', ''gEfiPciIoProtocolGuid''),
      (''DriverBindingProtocol'', ''gEfiDriverBindingProtocolGuid''),
      (''ComponentNameProtocol'', ''gEfiComponentNameProtocolGuid''),
      (''ComponentName2Protocol'', ''gEfiComponentName2ProtocolGuid''),
      (''HashProtocol'', ''gEfiHashProtocolGuid''),
      (''PlatformDriverOverrideProtocol'', ''gEfiPlatformDriverOverrideProtocolGuid''),
      (''BusSpecificDriverOverrideProtocol'', ''gEfiBusSpecificDriverOverrideProtocolGuid''),
      (''DriverFamilyOverrideProtocol'', ''gEfiDriverFamilyOverrideProtocolGuid''),
      (''EfiGlobalVariable'', ''gEfiGlobalVariableGuid''),
      (''GenericFileInfo'', ''gEfiFileInfoGuid''),
      (''FileSystemInfo'', ''gEfiFileSystemInfoGuid''),
      (''FileSystemVolumeLabelInfo'', ''gEfiFileSystemVolumeLabelInfoIdGuid''),
      (''PcAnsiProtocol'', ''gEfiPcAnsiGuid''), (''Vt100Protocol'', ''gEfiVT100Guid'')]"

definition efilib_path_arrays :: "(string \<times> string) list" where
  "efilib_path_arrays =
     [(''RootDevicePath'', ''EFI_DEVICE_PATH''), (''EndDevicePath'', ''EFI_DEVICE_PATH''),
      (''EndInstanceDevicePath'', ''EFI_DEVICE_PATH'')]"

definition PoolAllocationType :: cty where "PoolAllocationType = EFI_MEMORY_TYPE"

definition EFIDebug :: cty where "EFIDebug = UINTN"

definition lib_globals :: "(string \<times> cty) list" where
  "lib_globals =
     [(''LibInitialized'', BOOLEAN), (''LibFwInstance'', BOOLEAN), (''LibImageHandle'', EFI_HANDLE),
      (''LibRuntimeDebugOut'', CPtr ''SIMPLE_TEXT_OUTPUT_INTERFACE''),
      (''UnicodeInterface'', CPtr ''EFI_UNICODE_COLLATION_INTERFACE''),
      (''LibStubUnicodeInterface'', EFI_UNICODE_COLLATION_INTERFACE),
      (''LibRuntimeRaiseTPL'', CPtr ''EFI_RAISE_TPL''), (''LibRuntimeRestoreTPL'', CPtr ''EFI_RESTORE_TPL'')]"

section \<open>Functions with an argument list or a floating point argument\<close>

definition VPrint_sig :: csig where
  "VPrint_sig = Fn (Some UINTN) [Arg In ''fmt'' (CPtr ''CHAR16''), Arg NoDir ''args'' va_list]"

definition UnicodeVSPrint_sig :: csig where
  "UnicodeVSPrint_sig = Fn (Some UINTN) [Arg Out ''Str'' (CPtr ''CHAR16''), Arg In ''StrSize'' UINTN,
     Arg In ''fmt'' (CPtr ''CHAR16''), Arg NoDir ''args'' va_list]"

definition VPoolPrint_sig :: csig where
  "VPoolPrint_sig = Fn (Some (CPtr ''CHAR16'')) [Arg In ''fmt'' (CPtr ''CHAR16''), Arg NoDir ''args'' va_list]"

definition AsciiVSPrint_sig :: csig where
  "AsciiVSPrint_sig = Fn (Some UINTN) [Arg Out ''Str'' (CPtr ''CHAR8''), Arg In ''StrSize'' UINTN,
     Arg In ''fmt'' (CPtr ''CHAR8''), Arg NoDir ''args'' va_list]"

text \<open>A \<open>double\<close> is eight bytes, aligned to eight.\<close>

definition FloatToString_sig :: csig where
  "FloatToString_sig = Fn None [Arg In ''Buffer'' (CPtr ''CHAR16''), Arg In ''Comma'' BOOLEAN,
     Arg In ''v'' (CInt 8)]"

definition print_names :: "(string \<times> string) list" where
  "print_names =
     [(''SPrint'', ''UnicodeSPrint''), (''VSPrint'', ''UnicodeVSPrint''), (''APrint'', ''AsciiPrint'')]"

section \<open>Ports\<close>

text \<open>
  The port macros pass the global device, the width and the operands, extended to \<open>UINTN\<close>, to
  the library functions (\<open>fn\<close>) and truncate the result.
\<close>

type_synonym 's port_reader = "u64 \<Rightarrow> u32 \<Rightarrow> u64 \<Rightarrow> 's \<Rightarrow> u32 \<times> 's"
type_synonym 's port_writer = "u64 \<Rightarrow> u32 \<Rightarrow> u64 \<Rightarrow> u64 \<Rightarrow> 's \<Rightarrow> u32 \<times> 's"

definition outp :: "'s port_writer \<Rightarrow> u64 \<Rightarrow> u64 \<Rightarrow> u64 \<Rightarrow> 's \<Rightarrow> u8 \<times> 's" where
  "outp WritePort GlobalIoFncs Port DataByte s = apfst ucast (WritePort GlobalIoFncs IO_UINT8 Port DataByte s)"

definition inp :: "'s port_reader \<Rightarrow> u64 \<Rightarrow> u64 \<Rightarrow> 's \<Rightarrow> u8 \<times> 's" where
  "inp ReadPort GlobalIoFncs Port s = apfst ucast (ReadPort GlobalIoFncs IO_UINT8 Port s)"

definition outpw :: "'s port_writer \<Rightarrow> u64 \<Rightarrow> u64 \<Rightarrow> u64 \<Rightarrow> 's \<Rightarrow> u16 \<times> 's" where
  "outpw WritePort GlobalIoFncs Port DataByte s = apfst ucast (WritePort GlobalIoFncs IO_UINT16 Port DataByte s)"

definition inpw :: "'s port_reader \<Rightarrow> u64 \<Rightarrow> u64 \<Rightarrow> 's \<Rightarrow> u16 \<times> 's" where
  "inpw ReadPort GlobalIoFncs Port s = apfst ucast (ReadPort GlobalIoFncs IO_UINT16 Port s)"

definition outpd :: "'s port_writer \<Rightarrow> u64 \<Rightarrow> u64 \<Rightarrow> u64 \<Rightarrow> 's \<Rightarrow> u32 \<times> 's" where
  "outpd WritePort GlobalIoFncs Port DataByte s = WritePort GlobalIoFncs IO_UINT32 Port DataByte s"

definition inpd :: "'s port_reader \<Rightarrow> u64 \<Rightarrow> u64 \<Rightarrow> 's \<Rightarrow> u32 \<times> 's" where
  "inpd ReadPort GlobalIoFncs Port s = ReadPort GlobalIoFncs IO_UINT32 Port s"

definition writepci8 :: "'s port_writer \<Rightarrow> u64 \<Rightarrow> u64 \<Rightarrow> u64 \<Rightarrow> 's \<Rightarrow> u8 \<times> 's" where
  "writepci8 WritePciConfig GlobalIoFncs Addr DataByte s =
     apfst ucast (WritePciConfig GlobalIoFncs IO_UINT8 Addr DataByte s)"

definition readpci8 :: "'s port_reader \<Rightarrow> u64 \<Rightarrow> u64 \<Rightarrow> 's \<Rightarrow> u8 \<times> 's" where
  "readpci8 ReadPciConfig GlobalIoFncs Addr s = apfst ucast (ReadPciConfig GlobalIoFncs IO_UINT8 Addr s)"

definition writepci16 :: "'s port_writer \<Rightarrow> u64 \<Rightarrow> u64 \<Rightarrow> u64 \<Rightarrow> 's \<Rightarrow> u16 \<times> 's" where
  "writepci16 WritePciConfig GlobalIoFncs Addr DataByte s =
     apfst ucast (WritePciConfig GlobalIoFncs IO_UINT16 Addr DataByte s)"

definition readpci16 :: "'s port_reader \<Rightarrow> u64 \<Rightarrow> u64 \<Rightarrow> 's \<Rightarrow> u16 \<times> 's" where
  "readpci16 ReadPciConfig GlobalIoFncs Addr s = apfst ucast (ReadPciConfig GlobalIoFncs IO_UINT16 Addr s)"

definition writepci32 :: "'s port_writer \<Rightarrow> u64 \<Rightarrow> u64 \<Rightarrow> u64 \<Rightarrow> 's \<Rightarrow> u32 \<times> 's" where
  "writepci32 WritePciConfig GlobalIoFncs Addr DataByte s =
     WritePciConfig GlobalIoFncs IO_UINT32 Addr DataByte s"

definition readpci32 :: "'s port_reader \<Rightarrow> u64 \<Rightarrow> u64 \<Rightarrow> 's \<Rightarrow> u32 \<times> 's" where
  "readpci32 ReadPciConfig GlobalIoFncs Addr s = ReadPciConfig GlobalIoFncs IO_UINT32 Addr s"

text \<open>\<open>io_write\<close> is the service \<open>Io.Write\<close> of the device; the value is passed by address.\<close>

definition Port80 :: "(u64 \<Rightarrow> u32 \<Rightarrow> u64 \<Rightarrow> u64 \<Rightarrow> u64 \<Rightarrow> 's \<Rightarrow> u64 \<times> 's) \<Rightarrow> u64 \<Rightarrow> u64 \<Rightarrow> 's \<Rightarrow> u64 \<times> 's" where
  "Port80 io_write GlobalIoFncs address_of_PostCode s =
     io_write GlobalIoFncs IO_UINT16 0x80 1 address_of_PostCode s"

section \<open>Assertions\<close>

text \<open>
  \<open>EFI_DEBUG\<close> selects between the debugging and the empty expansions. A macro argument is its
  text and, where it is evaluated, its value; \<open>file\<close> and \<open>line\<close> are the place of the expansion.
\<close>

definition DBGASSERT :: "bool \<Rightarrow> (string \<Rightarrow> int \<Rightarrow> string \<Rightarrow> 's \<Rightarrow> 's) \<Rightarrow> string \<Rightarrow> int \<Rightarrow> string \<Rightarrow> 's \<Rightarrow> 's" where
  "DBGASSERT EFI_DEBUG DbgAssert file line a s = (if EFI_DEBUG then DbgAssert file line a s else s)"

definition DBGSETMEM :: "bool \<Rightarrow> (u64 \<Rightarrow> u64 \<Rightarrow> u8 \<Rightarrow> 's \<Rightarrow> 's) \<Rightarrow> u64 \<Rightarrow> u64 \<Rightarrow> 's \<Rightarrow> 's" where
  "DBGSETMEM EFI_DEBUG_CLEAR_MEMORY SetMem a l s =
     (if EFI_DEBUG_CLEAR_MEMORY then SetMem a l (ucast BAD_POINTER) s else s)"

definition efi_ASSERT ::
    "bool \<Rightarrow> (string \<Rightarrow> int \<Rightarrow> string \<Rightarrow> 's \<Rightarrow> 's) \<Rightarrow> string \<Rightarrow> int \<Rightarrow> string \<times> bool \<Rightarrow> 's \<Rightarrow> 's" where
  "efi_ASSERT EFI_DEBUG DbgAssert file line a s =
     (if EFI_DEBUG \<and> \<not> snd a then DBGASSERT EFI_DEBUG DbgAssert file line (fst a) s else s)"

definition efi_ASSERT_LOCKED ::
    "bool \<Rightarrow> (string \<Rightarrow> int \<Rightarrow> string \<Rightarrow> 's \<Rightarrow> 's) \<Rightarrow> string \<Rightarrow> int \<Rightarrow> string \<times> u64 \<Rightarrow> 's \<Rightarrow> 's" where
  "efi_ASSERT_LOCKED EFI_DEBUG DbgAssert file line l s =
     (if EFI_DEBUG \<and> snd l = 0 then DBGASSERT EFI_DEBUG DbgAssert file line (fst l @ '' not locked'') s else s)"

definition efi_ASSERT_STRUCT :: "bool \<Rightarrow> (string \<Rightarrow> int \<Rightarrow> string \<Rightarrow> 's \<Rightarrow> 's) \<Rightarrow> string \<Rightarrow> int
    \<Rightarrow> 'p \<Rightarrow> string \<Rightarrow> 's \<Rightarrow> 'p option \<times> 's" where
  "efi_ASSERT_STRUCT EFI_DEBUG DbgAssert file line p t s =
     (if EFI_DEBUG then (Some p, DBGASSERT EFI_DEBUG DbgAssert file line (t @ '' not structure'') s)
      else (None, s))"

section \<open>Lemmas\<close>

text \<open>Every name stands for a declared object, and no object or name is declared twice.\<close>

lemma guid_names_declared:
  "snd ` set efilib_guid_names \<subseteq> set efilib_guids \<and> distinct efilib_guids \<and> distinct (map fst efilib_guid_names)"
  by code_simp

lemma table_names_declared: "map snd efilib_table_names = map fst efilib_tables"
  by code_simp

text \<open>Without debugging the assertions do nothing; with it, nothing when the condition holds.\<close>

lemma assertions_off:
  "efi_ASSERT False dbg f l a s = s" "efi_ASSERT_LOCKED False dbg f l k s = s"
  "efi_ASSERT_STRUCT False dbg f l p t s = (None, s)"
  by (simp_all add: efi_ASSERT_def efi_ASSERT_LOCKED_def efi_ASSERT_STRUCT_def)

lemma assertion_holds: "efi_ASSERT debug dbg f l (text, True) s = s"
  by (simp add: efi_ASSERT_def)

end
