(* ===== verification/Spec2Isabelle.thy ===== *)
theory Spec2Isabelle
  imports C_Husky Elf_Loader Paging_Session Gop File_Read Kernel_Read Map_Pages Kernel_Runtime Efi_Tables
    Link_Session Efi_Formats Efi_Globals
begin

text \<open>
  A verification library for ChihuahuaOS, a small operating system for x86_64 in C++.

  \<^bold>\<open>The program.\<close> A UEFI boot loader (\<open>bootloader/src\<close>) starts in \<open>efi_main\<close>: it picks a graphics
  mode (\<open>gop.cpp\<close>), reads the kernel file from the boot volume and loads it (\<open>kernel_reader.cpp\<close>),
  and gets the memory map (\<open>main.cpp\<close>). It uses three static libraries: the memory functions
  (\<open>static_libs/chihuahua_essentials\<close>), the ELF loader (\<open>static_libs/elf\<close>) and, for the paging the
  kernel will run on, the page table controller (\<open>static_libs/paginator\<close>). The kernel
  (\<open>kernel/src\<close>) is an entry point and the C++ run-time support; its C library is
  \<open>static_libs/c_husky\<close>. The firmware is reached through the declarations of \<open>efi_headers\<close>.

  \<^bold>\<open>Machine.\<close> Pointers are 64-bit words, memory is a function from addresses to bytes (\<open>CMem\<close>);
  address arithmetic wraps as on the target. Integers have the width of their C type. Structures
  are laid out by the rules of the x86_64 ABI, computed from their declarations (\<open>CLayout\<close>),
  and read field by field. A function with effects takes the memory, or the machine with the
  state of its environment, and returns it changed. Code outside the repository (the firmware's
  services, the loader callback, the frame allocator, the page walk of the processor, the
  load of the page table register, the instructions \<open>cli\<close> and \<open>hlt\<close>) is a parameter. Values of
  uninitialised variables are parameters too. Undefined behaviour the code runs into is \<open>None\<close>,
  an outcome of its own (\<open>Null_console\<close> in \<open>efi_main\<close>) or taken as the wrap-around of the target,
  as noted at the definition. Reading and writing memory never fails.

  \<^bold>\<open>Theories.\<close>
  \<^item> \<open>Prelude\<close>, \<open>CMem\<close>, \<open>CLayout\<close>: words, memory (loads, stores, blocks), structure layouts. The
    locale \<open>cell_store\<close> is the contract of an indexed store, interpreted on aligned 64-bit cells.
  \<^item> \<open>Block_Library\<close>: the locale \<open>block_library\<close>, the contract of \<open>memset\<close>, \<open>memcpy\<close> and \<open>memcmp\<close>
    with what clients derive from it. \<open>Mem_Essentials\<close> (\<open>mem_essentials.cpp\<close>) and \<open>C_Husky\<close>
    (\<open>c_husky/src/string\<close>) model the two implementations and interpret it. The word-wise \<open>memset\<close>
    is proved equal to the plain block fill for every size and alignment. The backward
    copy of \<open>memmove\<close>, \<open>strcpy\<close> and \<open>strncpy\<close> are proved to do what they do, which is not what
    their names promise.
  \<^item> \<open>Essentials_Utils\<close>: the bit macros and the templates \<open>Option\<close> and \<open>Result\<close>.
  \<^item> \<open>Elf_Definitions\<close>, \<open>Elf_Loader\<close> (\<open>elf_definitions.h\<close>, \<open>elf_loader.cpp\<close>): the header check is
    characterised on the bytes of the file, the table functions by the bounds they guarantee (and
    the wrap-around they miss), the loading of a segment by the exact memory image it leaves.
  \<^item> \<open>Paging_Types\<close>, \<open>X86_64_Paging\<close>, \<open>Page_Table\<close> (\<open>page_table.h\<close>, \<open>page_table.cpp\<close>,
    \<open>x86_64_paging_controller.cpp\<close>): the encoding of entries, what \<open>mapPage\<close> returns in each
    case (level by level, over the frames its allocator hands out) and the memory it may write, what translation can return, and why the modes with paging
    enabled fault. \<open>Paging_Session\<close> extends this to sequences of calls: the locale \<open>frame_user\<close> is
    the contract of an operation that takes frames, the controller interprets it.
  \<^item> \<open>Efi_Base\<close>, \<open>Efi_Def\<close>, \<open>Efi_Con\<close>, \<open>Efi_Device_Path\<close>, \<open>Efi_Prot\<close>, \<open>Efi_Api\<close> (\<open>efidef.h\<close>, \<open>efierr.h\<close>,
    \<open>eficon.h\<close>, \<open>efidevp.h\<close>, \<open>efifs.h\<close>, \<open>efiprot.h\<close>, \<open>efiapi.h\<close>): constants, GUIDs, structures and
    service signatures; \<open>Efi_Tables\<close>: the offsets the boot loader relies on and the separation of
    status codes. \<open>Efi_Macros\<close>: the macros that compute (device path nodes, pages, byte order).
    \<open>Efi_Link\<close> (\<open>efilink.h\<close>): the doubly linked lists, refined to lists through the locale
    \<open>link_store\<close>; \<open>Link_Session\<close> extends the refinement to every sequence of operations of a client.
  \<^item> \<open>Efi_Pxe\<close>, \<open>Efi_Net\<close>, \<open>Efi_Devices\<close>, \<open>Efi_Debug\<close>, \<open>Efi_Shell\<close>, \<open>Efi_Image\<close>, \<open>Efi_Lib\<close>: the declarations of
    the headers the program ships but does not call (PXE and network protocols, PCI, partitions,
    SMBIOS, debugger support, shell, image files, library functions as signatures). \<open>Efi_Formats\<close>:
    their computing macros, and the sizes of the binary formats against the constants beside them.
    \<open>Efi_Bind\<close> (\<open>efibind.h\<close>): the integer types and the call wrapper, whose argument count in the
    preprocessor is proved right up to ten arguments. \<open>Efi_Globals\<close>: the library's global data,
    ports and assertions.
  \<^item> \<open>Firmware\<close>, \<open>Boot_Params\<close>, \<open>Boot_Log\<close>, \<open>Gop\<close>, \<open>Kernel_Reader\<close>, \<open>Boot_Main\<close>: the boot loader over
    the firmware parameter, a record of the services it calls. The graphics mode is proved to be
    the closest candidate by the code's measure, \<open>readFile\<close> to keep the pool balanced but for one
    path, the memory map to fit the pages allocated for it, and \<open>efi_main\<close> to have three
    outcomes: the panic loop without the graphics protocol, a call through the null console, or a
    return after all its steps, never with a kernel. \<open>Kernel_Load\<close> puts the ELF loader, the memory functions
    and the page allocator together: while pages are left, a well-formed kernel file is loaded
    completely, every loadable segment as its exact image and every allocated NOBITS section as
    zeros. Its two loops interpret the locale \<open>header_step\<close> of \<open>Header_Loop\<close>, the contract of one step
    over a header table. \<open>Map_Pages\<close> accounts for the pages \<open>getMemoryMap\<close> takes and gives back,
    \<open>File_Read\<close> relates the buffer \<open>readFile\<close> hands over to the read that filled it, \<open>Kernel_Read\<close>
    follows \<open>readKernel\<close> from the volume to the loaded kernel.
  \<^item> \<open>Kernel_Runtime\<close>: the kernel's entry point and the guards of static variables, with the
    compiler's guard protocol as a step relation of any number of threads.

  \<^bold>\<open>Loops.\<close> Counted loops are structural recursions or recursions on the counter with a proved
  measure; the retry loop of \<open>readFile\<close> recurses on the retries left (five, as in the code),
  the loops over modes and headers on the number left. Loops that may not end (scans for a
  terminator, panic, the kernel's halt loop) are partial functions with \<open>None\<close> for not returning.

  \<^bold>\<open>Not modelled.\<close> Of the UEFI headers, compiler glue (attributes, the branches of the
  preprocessor for other compilers) and macros that expand to declarations. Scripts, build files
  and the linker script hold no logic of the program. The constructors of \<open>Result\<close> do not compile for any type and are left out.
  The text of \<open>CR\<close>'s assertion under \<open>EFI_DEBUG\<close> is not modelled.
\<close>

end
